(* ===== verification/Prelude.thy ===== *)
theory Prelude
  imports Main "HOL-Library.Word"
begin

text \<open>
  Shared vocabulary of the development: machine integers and bytes, C++ exceptions as
  values, commands (functions from a state to either an exception with the state it leaves
  behind, or the next state), sequencing and try blocks, and the judgement the component
  proofs use: \<open>keeps\<close>, a predicate survives a command, however it ends.
\<close>

subsection \<open>Machine integers and bytes\<close>

type_synonym byte = "8 word"
type_synonym bytes = "byte list"
type_synonym path = "string list"
type_synonym u8 = "8 word"
type_synonym u16 = "16 word"
type_synonym u32 = "32 word"
type_synonym u64 = "64 word"

text \<open>A \<open>char\<close> of a \<open>std::string\<close> and a \<open>std::byte\<close> hold the same eight bits.\<close>

definition byte_of_char :: "char \<Rightarrow> byte" where
  "byte_of_char c = word_of_nat (of_char c)"

definition char_of_byte :: "byte \<Rightarrow> char" where
  "char_of_byte b = char_of (unat b)"

definition bytes_of_string :: "string \<Rightarrow> bytes" where
  "bytes_of_string s = map byte_of_char s"

definition string_of_bytes :: "bytes \<Rightarrow> string" where
  "string_of_bytes bs = map char_of_byte bs"

lemma char_of_byte_of_char [simp]: "char_of_byte (byte_of_char c) = c"
  by (simp add: char_of_byte_def byte_of_char_def unat_of_nat)

lemma byte_of_char_of_byte [simp]: "byte_of_char (char_of_byte b) = b"
proof -
  have "unat b < 256"
    by (rule order_less_le_trans [OF unsigned_less]) simp
  then show ?thesis
    by (simp add: char_of_byte_def byte_of_char_def of_char_of)
qed

lemma byte_of_char_inject [simp]: "byte_of_char c = byte_of_char d \<longleftrightarrow> c = d"
  by (metis char_of_byte_of_char)

lemma string_of_bytes_of_string [simp]: "string_of_bytes (bytes_of_string s) = s"
  by (simp add: string_of_bytes_def bytes_of_string_def comp_def)

lemma bytes_of_string_of_bytes [simp]: "bytes_of_string (string_of_bytes bs) = bs"
  by (simp add: string_of_bytes_def bytes_of_string_def comp_def)

lemma length_bytes_of_string [simp]: "length (bytes_of_string s) = length s"
  by (simp add: bytes_of_string_def)

lemma length_string_of_bytes [simp]: "length (string_of_bytes bs) = length bs"
  by (simp add: string_of_bytes_def)

lemma string_of_bytes_append [simp]:
  "string_of_bytes (xs @ ys) = string_of_bytes xs @ string_of_bytes ys"
  by (simp add: string_of_bytes_def)

lemma bytes_of_string_append [simp]:
  "bytes_of_string (xs @ ys) = bytes_of_string xs @ bytes_of_string ys"
  by (simp add: bytes_of_string_def)

lemma bytes_of_string_inject [simp]: "bytes_of_string s = bytes_of_string t \<longleftrightarrow> s = t"
  by (metis string_of_bytes_of_string)

text \<open>The terminating zero of a C string, as a character and as a byte.\<close>

abbreviation NUL :: char where "NUL \<equiv> CHR 0x00"

lemma byte_of_char_NUL [simp]: "byte_of_char NUL = 0"
  by (simp add: byte_of_char_def)

lemma char_of_byte_0 [simp]: "char_of_byte 0 = NUL"
  by (metis byte_of_char_NUL char_of_byte_of_char)

lemma string_of_bytes_Nil [simp]: "string_of_bytes [] = []"
  by (simp add: string_of_bytes_def)

lemma string_of_bytes_Cons [simp]:
  "string_of_bytes (b # bs) = char_of_byte b # string_of_bytes bs"
  by (simp add: string_of_bytes_def)

lemma bytes_of_string_Nil [simp]: "bytes_of_string [] = []"
  by (simp add: bytes_of_string_def)

lemma bytes_of_string_Cons [simp]:
  "bytes_of_string (c # cs) = byte_of_char c # bytes_of_string cs"
  by (simp add: bytes_of_string_def)

subsection \<open>Buffers written in place\<close>

text \<open>
  The encoders allocate a zero-initialised buffer and overwrite parts of it:
  \<open>write_at i src buf\<close> is \<open>std::ranges::copy( src, buf.begin() + i )\<close> for a source that
  fits.
\<close>

definition write_at :: "nat \<Rightarrow> bytes \<Rightarrow> bytes \<Rightarrow> bytes" where
  "write_at i src buf = take i buf @ src @ drop (i + length src) buf"

lemma length_write_at [simp]:
  "i + length src \<le> length buf \<Longrightarrow> length (write_at i src buf) = length buf"
  by (simp add: write_at_def)

text \<open>Writing at the end of the part already filled extends that part.\<close>

lemma write_at_next:
  assumes "i = length pre" and "length src \<le> n"
  shows "write_at i src (pre @ replicate n 0) = (pre @ src) @ replicate (n - length src) 0"
  using assms by (simp add: write_at_def)

text \<open>Writing one byte further leaves a zero of the initialisation before the copy.\<close>

lemma write_at_skip:
  assumes "i = length pre + 1" and "length src + 1 \<le> n"
  shows "write_at i src (pre @ replicate n 0) = (pre @ 0 # src) @ replicate (n - 1 - length src) 0"
proof -
  from assms(2) obtain m where "n = Suc m" by (cases n) auto
  with assms show ?thesis by (simp add: write_at_def)
qed

subsection \<open>Exceptions and commands\<close>

text \<open>
  The exceptions the code throws or catches. \<open>SystemError\<close> is
  \<open>boost::system::system_error\<close>; \<open>BadFunctionCall\<close> is thrown by an empty
  \<open>std::function\<close>. The last two are no exceptions: \<open>Terminated\<close> is
  \<open>std::terminate()\<close> (an exception that reaches a \<open>noexcept\<close> boundary), and
  \<open>Undefined\<close> is undefined behaviour, such as the dereference of a null pointer. No
  handler catches these two.
\<close>

datatype exn =
    SystemError
  | InvalidPacketEx
  | CommunicationEx
  | TftpEx
  | StdEx
  | BadFunctionCall
  | Terminated
  | Undefined

text \<open>
  The \<open>catch\<close> clauses of the code: \<open>InvalidPacketException\<close> and
  \<open>CommunicationException\<close> derive from \<open>TftpException\<close>, which derives from
  \<open>boost::exception\<close> and \<open>std::exception\<close>; \<open>BOOST_THROW_EXCEPTION\<close> and
  Boost itself (\<open>boost::throw_exception\<close>) throw objects that derive from
  \<open>boost::exception\<close>.
\<close>

definition is_system_error :: "exn \<Rightarrow> bool" where
  "is_system_error e \<longleftrightarrow> e = SystemError"

definition is_tftp_exception :: "exn \<Rightarrow> bool" where
  "is_tftp_exception e \<longleftrightarrow> e = TftpEx \<or> e = InvalidPacketEx \<or> e = CommunicationEx"

definition is_boost_exception :: "exn \<Rightarrow> bool" where
  "is_boost_exception e \<longleftrightarrow> e = SystemError \<or> is_tftp_exception e"

definition is_exception :: "exn \<Rightarrow> bool" where
  "is_exception e \<longleftrightarrow> e \<noteq> Terminated \<and> e \<noteq> Undefined"

type_synonym 's result = "(exn \<times> 's) + 's"
type_synonym 's cmd = "'s \<Rightarrow> 's result"

definition modify :: "('s \<Rightarrow> 's) \<Rightarrow> 's cmd" where
  "modify f s = Inr (f s)"

definition throw :: "exn \<Rightarrow> 's cmd" where
  "throw e s = Inl (e, s)"

text \<open>Statements one after the other; the first exception leaves the block.\<close>

primrec block :: "'s cmd list \<Rightarrow> 's cmd" where
  "block [] s = Inr s"
| "block (c # cs) s = (case c s of Inl e \<Rightarrow> Inl e | Inr s' \<Rightarrow> block cs s')"

text \<open>\<open>try { body } catch ( p ) { handler }\<close>; what the body did before it threw stays done.\<close>

definition try_catch :: "(exn \<Rightarrow> bool) \<Rightarrow> 's cmd \<Rightarrow> 's cmd \<Rightarrow> 's cmd" where
  "try_catch p body handler s =
     (case body s of
        Inl (e, s') \<Rightarrow> if p e then handler s' else Inl (e, s')
      | Inr s' \<Rightarrow> Inr s')"

text \<open>A function declared \<open>noexcept\<close>.\<close>

definition noexcept :: "'s cmd \<Rightarrow> 's cmd" where
  "noexcept c s =
     (case c s of
        Inl (e, s') \<Rightarrow> Inl (if e = Undefined then Undefined else Terminated, s')
      | Inr s' \<Rightarrow> Inr s')"

text \<open>The state a command leaves behind, however it ends.\<close>

fun final :: "'s result \<Rightarrow> 's" where
  "final (Inl (e, s)) = s"
| "final (Inr s) = s"

fun returned :: "'s result \<Rightarrow> bool" where
  "returned (Inl e) = False"
| "returned (Inr s) = True"

named_theorems cmd_simps "evaluation of commands on a concrete path"

declare block.simps [simp del, cmd_simps]

lemma block_append:
  "block (cs @ ds) s = (case block cs s of Inl e \<Rightarrow> Inl e | Inr s' \<Rightarrow> block ds s')"
  by (induction cs arbitrary: s) (auto simp: block.simps split: sum.splits)

lemma modify_apply [cmd_simps]: "modify f s = Inr (f s)"
  by (simp add: modify_def)

lemma block_modify: "block [modify f, c] s = c (f s)"
  by (simp add: block.simps modify_apply split: sum.split)

lemma block_single: "block [c] s = c s"
  by (simp add: block.simps split: sum.split)

lemma throw_apply [cmd_simps]: "throw e s = Inl (e, s)"
  by (simp add: throw_def)

lemma try_catch_Inr [cmd_simps]: "body s = Inr s' \<Longrightarrow> try_catch p body h s = Inr s'"
  by (simp add: try_catch_def)

lemma try_catch_caught [cmd_simps]:
  "body s = Inl (e, s') \<Longrightarrow> p e \<Longrightarrow> try_catch p body h s = h s'"
  by (simp add: try_catch_def)

lemma try_catch_passed [cmd_simps]:
  "body s = Inl (e, s') \<Longrightarrow> \<not> p e \<Longrightarrow> try_catch p body h s = Inl (e, s')"
  by (simp add: try_catch_def)

lemma try_catch_block:
  "try_catch p (block (c # cs)) h s =
     (case c s of
        Inl (e, s') \<Rightarrow> if p e then h s' else Inl (e, s')
      | Inr s' \<Rightarrow> try_catch p (block cs) h s')"
  by (auto simp: try_catch_def block.simps split: sum.split)

lemma noexcept_Inr [cmd_simps]: "c s = Inr s' \<Longrightarrow> noexcept c s = Inr s'"
  by (simp add: noexcept_def)

lemma noexcept_Inl [cmd_simps]:
  "c s = Inl (e, s') \<Longrightarrow> noexcept c s = Inl (if e = Undefined then Undefined else Terminated, s')"
  by (simp add: noexcept_def)

text \<open>A command that throws no \<open>TftpException\<close>.\<close>

definition no_tftp :: "'s cmd \<Rightarrow> bool" where
  "no_tftp c \<longleftrightarrow> (\<forall>s e s'. c s = Inl (e, s') \<longrightarrow> \<not> is_tftp_exception e)"

lemma no_tftpD: "no_tftp c \<Longrightarrow> c s = Inl (e, s') \<Longrightarrow> \<not> is_tftp_exception e"
  unfolding no_tftp_def by blast

lemma no_tftp_noexcept: "no_tftp (noexcept c)"
  by (auto simp: no_tftp_def noexcept_def is_tftp_exception_def split: sum.splits)

lemma no_tftp_modify: "no_tftp (modify f)"
  by (simp add: no_tftp_def modify_apply)

lemma no_tftp_throw: "\<not> is_tftp_exception e \<Longrightarrow> no_tftp (throw e)"
  by (simp add: no_tftp_def throw_apply)

lemma no_tftp_block: "(\<And>c. c \<in> set cs \<Longrightarrow> no_tftp c) \<Longrightarrow> no_tftp (block cs)"
proof (induction cs)
  case Nil
  show ?case by (simp add: no_tftp_def block.simps)
next
  case (Cons c cs)
  then have "no_tftp c" and "no_tftp (block cs)" by auto
  then show ?case by (auto simp: no_tftp_def block.simps split: sum.splits)
qed

lemma no_tftp_try: "no_tftp body \<Longrightarrow> no_tftp h \<Longrightarrow> no_tftp (try_catch p body h)"
  by (auto simp: no_tftp_def try_catch_def split: sum.splits if_splits)

lemma no_tftp_if:
  "no_tftp c1 \<Longrightarrow> no_tftp c2 \<Longrightarrow> no_tftp (\<lambda>s. if b s then c1 s else c2 s)"
  by (auto simp: no_tftp_def)

lemma no_tftp_fun: "(\<And>s. no_tftp (c s)) \<Longrightarrow> no_tftp (\<lambda>s. c s s)"
  by (auto simp: no_tftp_def)

lemmas no_tftp_intros = no_tftp_noexcept no_tftp_modify no_tftp_throw no_tftp_block no_tftp_try no_tftp_if

subsection \<open>Predicates kept by commands\<close>

definition keeps :: "('s \<Rightarrow> bool) \<Rightarrow> 's cmd \<Rightarrow> bool" where
  "keeps P c \<longleftrightarrow> (\<forall>s. P s \<longrightarrow> P (final (c s)))"

lemma keepsD: "keeps P c \<Longrightarrow> P s \<Longrightarrow> P (final (c s))"
  by (simp add: keeps_def)

lemma keepsI: "(\<And>s. P s \<Longrightarrow> P (final (c s))) \<Longrightarrow> keeps P c"
  by (simp add: keeps_def)

lemma keeps_modify: "(\<And>s. P s \<Longrightarrow> P (f s)) \<Longrightarrow> keeps P (modify f)"
  by (simp add: keeps_def modify_def)

lemma keeps_throw: "keeps P (throw e)"
  by (simp add: keeps_def throw_def)

lemma keeps_block: "(\<And>c. c \<in> set cs \<Longrightarrow> keeps P c) \<Longrightarrow> keeps P (block cs)"
proof (induction cs)
  case Nil
  show ?case by (simp add: keeps_def block.simps)
next
  case (Cons c cs)
  have c: "keeps P c" and cs: "keeps P (block cs)"
    using Cons by auto
  show ?case
  proof (rule keepsI)
    fix s assume "P s"
    with c have *: "P (final (c s))" by (rule keepsD)
    show "P (final (block (c # cs) s))"
    proof (cases "c s")
      case (Inl e)
      with * show ?thesis by (simp add: block.simps)
    next
      case (Inr s')
      with * cs show ?thesis by (auto simp: block.simps dest: keepsD)
    qed
  qed
qed

lemma keeps_try_catch: "keeps P body \<Longrightarrow> keeps P h \<Longrightarrow> keeps P (try_catch p body h)"
proof (rule keepsI)
  fix s assume body: "keeps P body" and h: "keeps P h" and "P s"
  then have *: "P (final (body s))" by (auto dest: keepsD)
  show "P (final (try_catch p body h s))"
  proof (cases "body s")
    case (Inl es)
    then obtain e s' where "body s = Inl (e, s')" by (cases es) auto
    with * h show ?thesis by (auto simp: try_catch_def dest: keepsD)
  next
    case (Inr s')
    with * show ?thesis by (simp add: try_catch_def)
  qed
qed

lemma final_noexcept [simp]: "final (noexcept c s) = final (c s)"
  by (auto simp: noexcept_def split: sum.splits)

lemma keeps_noexcept: "keeps P c \<Longrightarrow> keeps P (noexcept c)"
  by (simp add: keeps_def)

lemma keeps_fun_if:
  "(\<And>s. b s \<Longrightarrow> keeps P (c1 s)) \<Longrightarrow> (\<And>s. \<not> b s \<Longrightarrow> keeps P (c2 s)) \<Longrightarrow>
   keeps P (\<lambda>s. if b s then c1 s s else c2 s s)"
  by (simp add: keeps_def)

lemma keeps_fun: "(\<And>s. keeps P (c s)) \<Longrightarrow> keeps P (\<lambda>s. c s s)"
  by (simp add: keeps_def)

lemma final_block_keeps:
  assumes "P (final (c s))" and "\<And>d. d \<in> set cs \<Longrightarrow> keeps P d"
  shows "P (final (block (c # cs) s))"
proof (cases "c s")
  case (Inl e)
  with assms(1) show ?thesis by (simp add: block.simps)
next
  case (Inr s')
  have "keeps P (block cs)" by (rule keeps_block) (rule assms(2))
  with Inr assms(1) show ?thesis by (simp add: block.simps keepsD)
qed

text \<open>A property of the final state of a long chain of checks, one branch at a time.\<close>

lemma final_if:
  "(b \<Longrightarrow> P (final c)) \<Longrightarrow> (\<not> b \<Longrightarrow> P (final c')) \<Longrightarrow> P (final (if b then c else c'))"
  by simp

lemma final_prod:
  "(\<And>a b. x = (a, b) \<Longrightarrow> P (final (f a b))) \<Longrightarrow> P (final (case x of (a, b) \<Rightarrow> f a b))"
  by (cases x) simp

lemma final_sum:
  "(\<And>e. x = Inl e \<Longrightarrow> P (final (f e))) \<Longrightarrow> (\<And>a b. x = Inr (a, b) \<Longrightarrow> P (final (g a b))) \<Longrightarrow>
   P (final (case x of Inl e \<Rightarrow> f e | Inr (a, b) \<Rightarrow> g a b))"
  by (cases x) auto

lemmas final_branches = final_if final_prod final_sum

end
