(* ===== verification/StdMap.thy ===== *)
theory StdMap
  imports Prelude "HOL-Library.Char_ord" "HOL-Library.List_Lexorder"
begin

text \<open>
  \<open>std::map\<close> of the C++ standard library: a list of key/value pairs with strictly
  increasing keys, which is also the order in which the code iterates over it. \<open>std::less\<close>
  on \<open>std::string\<close> compares bytes lexicographically as unsigned values, which is the order
  that List_Lexorder and Char_ord give to \<open>string\<close>.

  The locale \<open>ordered_dictionary\<close> is what the option code needs to know about the container;
  it is interpreted on the sorted list at the end of the theory.
\<close>

type_synonym ('k, 'v) std_map = "('k \<times> 'v) list"

definition map_find :: "('k, 'v) std_map \<Rightarrow> 'k \<Rightarrow> 'v option" where
  "map_find m k = map_of m k"

text \<open>\<open>emplace\<close> and \<open>try_emplace\<close>: an element with the same key is left alone.\<close>

primrec try_emplace :: "'k::linorder \<Rightarrow> 'v \<Rightarrow> ('k, 'v) std_map \<Rightarrow> ('k, 'v) std_map" where
  "try_emplace k v [] = [(k, v)]"
| "try_emplace k v (e # m) =
     (if k < fst e then (k, v) # e # m
      else if k = fst e then e # m
      else e # try_emplace k v m)"

definition map_erase :: "'k \<Rightarrow> ('k, 'v) std_map \<Rightarrow> ('k, 'v) std_map" where
  "map_erase k m = filter (\<lambda>e. fst e \<noteq> k) m"

text \<open>\<open>extract\<close>: the value found, if any, and the map without its node.\<close>

definition map_extract :: "('k, 'v) std_map \<Rightarrow> 'k \<Rightarrow> 'v option \<times> ('k, 'v) std_map" where
  "map_extract m k = (map_find m k, map_erase k m)"

text \<open>\<open>m[ k ]\<close> used as an lvalue: a default element is inserted first if there is none.\<close>

primrec update_at :: "'k::linorder \<Rightarrow> 'v \<Rightarrow> ('v \<Rightarrow> 'v) \<Rightarrow> ('k, 'v) std_map \<Rightarrow> ('k, 'v) std_map" where
  "update_at k d f [] = [(k, f d)]"
| "update_at k d f (e # m) =
     (if k < fst e then (k, f d) # e # m
      else if k = fst e then (k, f (snd e)) # m
      else e # update_at k d f m)"

definition is_map :: "('k::linorder, 'v) std_map \<Rightarrow> bool" where
  "is_map m \<longleftrightarrow> sorted_wrt (<) (map fst m)"

subsection \<open>The interface\<close>

locale ordered_dictionary =
  fixes empty :: "'m"
    and lookup :: "'m \<Rightarrow> 'k \<Rightarrow> 'v option"
    and put :: "'k \<Rightarrow> 'v \<Rightarrow> 'm \<Rightarrow> 'm"
    and remove :: "'k \<Rightarrow> 'm \<Rightarrow> 'm"
    and entries :: "'m \<Rightarrow> ('k \<times> 'v) list"
    and valid :: "'m \<Rightarrow> bool"
  assumes lookup_empty: "lookup empty k = None"
    and valid_empty: "valid empty"
    and lookup_put: "valid m \<Longrightarrow>
          lookup (put k v m) j = (if j = k \<and> lookup m k = None then Some v else lookup m j)"
    and valid_put: "valid m \<Longrightarrow> valid (put k v m)"
    and lookup_remove: "valid m \<Longrightarrow> lookup (remove k m) j = (if j = k then None else lookup m j)"
    and valid_remove: "valid m \<Longrightarrow> valid (remove k m)"
    and lookup_entries: "valid m \<Longrightarrow> map_of (entries m) = lookup m"
    and extensional: "valid m \<Longrightarrow> valid m' \<Longrightarrow> lookup m = lookup m' \<Longrightarrow> m = m'"
begin

definition put_all :: "('k \<times> 'v) list \<Rightarrow> 'm \<Rightarrow> 'm" where
  "put_all kvs m = fold (\<lambda>(k, v). put k v) kvs m"

lemma put_all_simps [simp]:
  "put_all [] m = m"
  "put_all ((k, v) # kvs) m = put_all kvs (put k v m)"
  by (simp_all add: put_all_def)

lemma valid_put_all: "valid m \<Longrightarrow> valid (put_all kvs m)"
  by (induction kvs arbitrary: m) (auto simp: valid_put)

text \<open>Elements already present win over later ones, and earlier pairs over later ones.\<close>

lemma lookup_put_all:
  "valid m \<Longrightarrow> lookup (put_all kvs m) j = (case lookup m j of Some v \<Rightarrow> Some v | None \<Rightarrow> map_of kvs j)"
proof (induction kvs arbitrary: m)
  case Nil
  then show ?case by (simp split: option.split)
next
  case (Cons kv kvs)
  then show ?case
    by (cases kv) (auto simp: valid_put lookup_put split: option.split)
qed

lemma rebuild: "valid m \<Longrightarrow> put_all (entries m) empty = m"
proof (rule extensional)
  assume m: "valid m"
  show "valid (put_all (entries m) empty)" by (simp add: valid_put_all valid_empty)
  show "lookup (put_all (entries m) empty) = lookup m"
    using m by (simp add: fun_eq_iff lookup_put_all valid_empty lookup_empty lookup_entries)
qed

lemma put_present: "valid m \<Longrightarrow> lookup m k = Some w \<Longrightarrow> put k v m = m"
  by (rule extensional) (auto simp: valid_put lookup_put fun_eq_iff)

lemma put_commute: "valid m \<Longrightarrow> j \<noteq> k \<Longrightarrow> put j w (put k v m) = put k v (put j w m)"
  by (rule extensional) (auto simp: valid_put lookup_put fun_eq_iff)

lemma remove_absent: "valid m \<Longrightarrow> lookup m k = None \<Longrightarrow> remove k m = m"
  by (rule extensional) (auto simp: valid_remove lookup_remove fun_eq_iff)

lemma remove_put_absent: "valid m \<Longrightarrow> lookup m k = None \<Longrightarrow> remove k (put k v m) = m"
  by (rule extensional) (auto simp: valid_put valid_remove lookup_put lookup_remove fun_eq_iff)

end

subsection \<open>The sorted list provides it\<close>

lemma is_map_Nil [simp]: "is_map []"
  by (simp add: is_map_def)

lemma is_map_Cons: "is_map (e # m) \<longleftrightarrow> (\<forall>x \<in> set m. fst e < fst x) \<and> is_map m"
  by (auto simp: is_map_def)

lemma fst_set_try_emplace: "fst ` set (try_emplace k v m) = insert k (fst ` set m)"
  by (induction m) (auto simp: image_iff)

lemma is_map_try_emplace: "is_map m \<Longrightarrow> is_map (try_emplace k v m)"
proof (induction m)
  case Nil
  show ?case by (simp add: is_map_Cons)
next
  case (Cons e m)
  have keys: "\<And>x. x \<in> set (try_emplace k v m) \<Longrightarrow> fst x = k \<or> fst x \<in> fst ` set m"
    using fst_set_try_emplace [of k v m] by blast
  from Cons show ?case
    by (auto simp: is_map_Cons dest!: keys dest: less_trans)
qed

lemma find_Nil [simp]: "map_find [] k = None"
  by (simp add: map_find_def)

lemma find_Cons: "map_find (e # m) k = (if k = fst e then Some (snd e) else map_find m k)"
  by (cases e) (simp add: map_find_def)

lemma find_less_all: "(\<forall>x \<in> set m. k < fst x) \<Longrightarrow> map_find m (k::'k::linorder) = None"
  by (force simp: map_find_def map_of_eq_None_iff)

lemma find_try_emplace:
  "is_map m \<Longrightarrow>
   map_find (try_emplace k v m) j = (if j = k \<and> map_find m k = None then Some v else map_find m j)"
proof (induction m)
  case Nil
  show ?case by (simp add: find_Cons)
next
  case (Cons e m)
  have less: "k < fst e \<Longrightarrow> map_find m k = None"
    using Cons.prems by (auto simp: is_map_Cons intro!: find_less_all dest: less_trans)
  from Cons show ?case
    by (auto simp: is_map_Cons find_Cons less)
qed

lemma is_map_erase: "is_map m \<Longrightarrow> is_map (map_erase k m)"
  by (induction m) (auto simp: map_erase_def is_map_Cons)

lemma find_map_erase: "map_find (map_erase k m) j = (if j = k then None else map_find m j)"
  by (induction m) (auto simp: map_erase_def find_Cons)

lemma find_least: "is_map (e # m) \<Longrightarrow> map_find (e # m) k \<noteq> None \<Longrightarrow> fst e \<le> k"
  by (auto simp: is_map_Cons map_find_def dest!: map_of_SomeD split: if_splits)

lemma find_extensional:
  "is_map m \<Longrightarrow> is_map m' \<Longrightarrow> map_find m = map_find m' \<Longrightarrow> m = m'"
proof (induction m arbitrary: m')
  case Nil
  then show ?case
    by (cases m') (auto simp: find_Cons fun_eq_iff split: if_splits)
next
  case (Cons e m)
  note same = fun_cong [OF Cons.prems(3)]
  show ?case
  proof (cases m')
    case Nil
    with same [of "fst e"] show ?thesis by (simp add: find_Cons)
  next
    case (Cons e' n)
    have *: "map_find m (fst e) = None" "map_find n (fst e') = None"
      using Cons.prems Cons by (auto simp: is_map_Cons intro!: find_less_all)
    have min: "fst e \<le> k" if "map_find (e # m) k \<noteq> None" for k
      by (rule find_least [OF Cons.prems(1) that])
    have min': "fst e' \<le> k" if "map_find (e' # n) k \<noteq> None" for k
      by (rule find_least [OF _ that]) (use Cons.prems(2) Cons in simp)
    have "map_find (e # m) (fst e') = map_find (e' # n) (fst e')"
      "map_find (e' # n) (fst e) = map_find (e # m) (fst e)"
      using same [of "fst e"] same [of "fst e'"] Cons by simp_all
    then have "map_find (e # m) (fst e') \<noteq> None" "map_find (e' # n) (fst e) \<noteq> None"
      by (simp_all add: find_Cons)
    then have "fst e = fst e'"
      by (intro antisym min min')
    moreover from this have "snd e = snd e'"
      using same [of "fst e"] Cons by (simp add: find_Cons)
    ultimately have ee: "e = e'" by (simp add: prod_eq_iff)
    have "map_find m k = map_find n k" for k
      using same [of k] Cons * ee by (auto simp: find_Cons split: if_splits)
    then have "m = n"
      using Cons.IH [of n] Cons.prems Cons by (auto simp: is_map_Cons)
    with ee Cons show ?thesis by simp
  qed
qed

interpretation std_map: ordered_dictionary "[]" map_find try_emplace map_erase "\<lambda>m. m" is_map
proof unfold_locales
  fix m m' :: "('a::linorder \<times> 'b) list" and k j :: 'a and v :: 'b
  show "map_find [] k = (None :: 'b option)" by simp
  show "is_map ([] :: ('a \<times> 'b) list)" by simp
  show "is_map m \<Longrightarrow> map_find (try_emplace k v m) j =
      (if j = k \<and> map_find m k = None then Some v else map_find m j)" by (rule find_try_emplace)
  show "is_map m \<Longrightarrow> is_map (try_emplace k v m)" by (rule is_map_try_emplace)
  show "is_map m \<Longrightarrow> map_find (map_erase k m) j = (if j = k then None else map_find m j)"
    by (rule find_map_erase)
  show "is_map m \<Longrightarrow> is_map (map_erase k m)" by (rule is_map_erase)
  show "is_map m \<Longrightarrow> map_of m = map_find m" by (simp add: map_find_def fun_eq_iff)
  show "is_map m \<Longrightarrow> is_map m' \<Longrightarrow> map_find m = map_find m' \<Longrightarrow> m = m'" by (rule find_extensional)
qed

text \<open>The same facts for the lvalue access, which the statistics use.\<close>

lemma fst_set_update_at: "fst ` set (update_at k d f m) = insert k (fst ` set m)"
  by (induction m) (auto simp: image_iff)

lemma is_map_update_at: "is_map m \<Longrightarrow> is_map (update_at k d f m)"
proof (induction m)
  case Nil
  show ?case by (simp add: is_map_Cons)
next
  case (Cons e m)
  have keys: "\<And>x. x \<in> set (update_at k d f m) \<Longrightarrow> fst x = k \<or> fst x \<in> fst ` set m"
    using fst_set_update_at [of k d f m] by blast
  from Cons show ?case
    by (auto simp: is_map_Cons dest!: keys dest: less_trans)
qed

lemma find_update_at:
  "is_map m \<Longrightarrow> map_find (update_at k d f m) j =
     (if j = k then Some (f (case map_find m k of None \<Rightarrow> d | Some v \<Rightarrow> v)) else map_find m j)"
proof (induction m)
  case Nil
  show ?case by (simp add: find_Cons)
next
  case (Cons e m)
  have less: "k < fst e \<Longrightarrow> map_find m k = None"
    using Cons.prems by (auto simp: is_map_Cons intro!: find_less_all dest: less_trans)
  from Cons show ?case
    by (auto simp: is_map_Cons find_Cons less)
qed

end
