(* ===== verification/StdNumbers.thy ===== *)
theory StdNumbers
  imports Prelude
begin

text \<open>
  The number conversions of the C++ standard library that the option code uses:
  \<open>std::to_string\<close> of an unsigned value and \<open>std::stoull\<close> with base ten. The latter skips
  leading white space, accepts a sign (a minus sign negates modulo \<open>2 ^ 64\<close>), reads the
  longest run of digits and ignores what follows; no digits and a value that does not fit are
  the exceptions \<open>std::invalid_argument\<close> and \<open>std::out_of_range\<close>.
\<close>

datatype stoull_error = InvalidArgument | OutOfRange

definition isspace :: "char \<Rightarrow> bool" where
  "isspace c \<longleftrightarrow> (let n = of_char c :: nat in n = 32 \<or> 9 \<le> n \<and> n \<le> 13)"

definition isdigit :: "char \<Rightarrow> bool" where
  "isdigit c \<longleftrightarrow> (let n = of_char c :: nat in 48 \<le> n \<and> n \<le> 57)"

definition digit_char :: "nat \<Rightarrow> char" where
  "digit_char d = char_of (48 + d)"

definition digit_value :: "char \<Rightarrow> nat" where
  "digit_value c = of_char c - 48"

definition number_of_digits :: "string \<Rightarrow> nat" where
  "number_of_digits ds = foldl (\<lambda>n c. 10 * n + digit_value c) 0 ds"

fun to_string :: "nat \<Rightarrow> string" where
  "to_string n = (if n div 10 = 0 then [] else to_string (n div 10)) @ [digit_char (n mod 10)]"

declare to_string.simps [simp del]

definition stoull :: "string \<Rightarrow> stoull_error + u64" where
  "stoull s =
     (let s1 = dropWhile isspace s;
          negative = (case s1 of c # _ \<Rightarrow> c = CHR ''-'' | [] \<Rightarrow> False);
          signed = (case s1 of c # _ \<Rightarrow> c = CHR ''-'' \<or> c = CHR ''+'' | [] \<Rightarrow> False);
          digits = takeWhile isdigit (if signed then tl s1 else s1);
          n = number_of_digits digits
      in if digits = [] then Inl InvalidArgument
         else if n \<ge> 2 ^ 64 then Inl OutOfRange
         else Inr (if negative then - word_of_nat n else word_of_nat n))"

subsection \<open>Printing and reading back\<close>

lemma isdigit_digit_char: "d < 10 \<Longrightarrow> isdigit (digit_char d)"
  by (simp add: isdigit_def digit_char_def)

lemma digit_value_digit_char: "d < 10 \<Longrightarrow> digit_value (digit_char d) = d"
  by (simp add: digit_value_def digit_char_def)

lemma to_string_digits: "\<forall>c \<in> set (to_string n). isdigit c"
proof (induction n rule: to_string.induct)
  case (1 n)
  then show ?case
    by (subst to_string.simps) (auto simp: isdigit_digit_char)
qed

lemma to_string_nonempty [simp]: "to_string n \<noteq> []"
  by (subst to_string.simps) simp

lemma number_of_digits_snoc:
  "number_of_digits (ds @ [c]) = 10 * number_of_digits ds + digit_value c"
  by (simp add: number_of_digits_def)

lemma number_of_digits_to_string: "number_of_digits (to_string n) = n"
proof (induction n rule: to_string.induct)
  case (1 n)
  then show ?case
    by (subst to_string.simps)
      (auto simp: number_of_digits_snoc digit_value_digit_char number_of_digits_def)
qed

lemma isdigit_not_space: "isdigit c \<Longrightarrow> \<not> isspace c"
  by (auto simp: isdigit_def isspace_def Let_def)

lemma isdigit_not_sign: "isdigit c \<Longrightarrow> c \<noteq> CHR ''-'' \<and> c \<noteq> CHR ''+''"
  by (auto simp: isdigit_def)

lemma isdigit_not_NUL: "isdigit c \<Longrightarrow> c \<noteq> NUL"
  by (auto simp: isdigit_def)

text \<open>A run of digits is read to its end; whatever follows it is ignored.\<close>

lemma stoull_digits:
  assumes "ds \<noteq> []" and digits: "\<forall>c \<in> set ds. isdigit c"
    and rest: "rest = [] \<or> \<not> isdigit (hd rest)"
  shows "stoull (ds @ rest) =
    (if number_of_digits ds \<ge> 2 ^ 64 then Inl OutOfRange
     else Inr (word_of_nat (number_of_digits ds)))"
proof -
  obtain c cs where ds: "ds = c # cs" using \<open>ds \<noteq> []\<close> by (cases ds) auto
  with digits have c: "isdigit c" by simp
  have skip: "dropWhile isspace (ds @ rest) = ds @ rest"
    using ds c by (simp add: isdigit_not_space)
  have take: "takeWhile isdigit (ds @ rest) = ds"
    using digits rest by (cases rest) (auto simp: takeWhile_append)
  have sign: "c \<noteq> CHR ''-''" "c \<noteq> CHR ''+''" using c isdigit_not_sign by auto
  have t: "takeWhile isdigit (c # (cs @ rest)) = c # cs" using take ds by simp
  show ?thesis
    using skip sign unfolding stoull_def Let_def ds by (simp add: t del: takeWhile.simps)
qed

lemma stoull_to_string: "n < 2 ^ 64 \<Longrightarrow> stoull (to_string n) = Inr (word_of_nat n)"
  using stoull_digits [of "to_string n" "[]"]
  by (simp add: to_string_digits number_of_digits_to_string)

lemma stoull_to_string_unat: "stoull (to_string (unat (w :: u64))) = Inr w"
  using stoull_to_string [of "unat w"] unsigned_less [of w] by simp

lemma to_string_no_NUL: "NUL \<notin> set (to_string n)"
  using to_string_digits [of n] isdigit_not_NUL by blast

end
