(* ===== verification/RawData.thy ===== *)
theory RawData
  imports Prelude
begin

unbundle bit_operations_syntax

text \<open>
  \<open>helper/RawData.hpp\<close> belongs to the Helper library, which is not part of this repository.
  Its functions are a parameter of the model: a record of what the packet code calls. The
  writing functions are given by the bytes they store at the front of the span, the reading
  functions by the rest of the span and the value read.

  The locale \<open>raw_data\<close> states what the packet code relies on: writing an integer stores
  \<open>sizeof( uint16_t )\<close> bytes, reading them gives the integer back and leaves the rest, and
  strings are copied byte by byte. \<open>raw_data_network\<close> adds the network byte order that the
  packets of the protocol (and the raw packets of the unit tests) have.
\<close>

record helper =
  RawData_getInt :: "bytes \<Rightarrow> bytes \<times> u16"
  RawData_setInt :: "u16 \<Rightarrow> bytes"
  RawData_getString :: "bytes \<Rightarrow> nat \<Rightarrow> bytes \<times> string"
  RawData_setString :: "string \<Rightarrow> bytes"
  RawData_asRawData :: "string \<Rightarrow> bytes"

locale raw_data =
  fixes H :: helper
  assumes length_setInt: "length (RawData_setInt H v) = 2"
    and getInt_setInt: "RawData_getInt H (RawData_setInt H v @ bs) = (bs, v)"
    and setInt_getInt: "2 \<le> length bs \<Longrightarrow>
          RawData_setInt H (snd (RawData_getInt H bs)) @ fst (RawData_getInt H bs) = bs"
    and getString: "n \<le> length bs \<Longrightarrow>
          RawData_getString H bs n = (drop n bs, string_of_bytes (take n bs))"
    and setString: "RawData_setString H s = bytes_of_string s"
    and asRawData: "RawData_asRawData H s = bytes_of_string s"
begin

lemma getInt_two_bytes:
  assumes "2 \<le> length bs"
  obtains v where "RawData_getInt H bs = (drop 2 bs, v)" and "take 2 bs = RawData_setInt H v"
proof -
  obtain r v where rv: "RawData_getInt H bs = (r, v)"
    by (cases "RawData_getInt H bs")
  then have "bs = RawData_setInt H v @ r"
    using setInt_getInt [OF assms] by simp
  then have "drop 2 bs = r" and "take 2 bs = RawData_setInt H v"
    by (simp_all add: length_setInt)
  with rv that show thesis by simp
qed

lemma fst_getInt: "2 \<le> length bs \<Longrightarrow> fst (RawData_getInt H bs) = drop 2 bs"
  by (erule getInt_two_bytes) simp

lemma setInt_snd_getInt: "2 \<le> length bs \<Longrightarrow> RawData_setInt H (snd (RawData_getInt H bs)) = take 2 bs"
  by (erule getInt_two_bytes) simp

lemma setInt_inject: "RawData_setInt H v = RawData_setInt H w \<longleftrightarrow> v = w"
  by (metis getInt_setInt snd_conv)

lemmas raw_data_simps =
  length_setInt getInt_setInt getString setString asRawData fst_getInt setInt_inject

end

locale raw_data_network = raw_data +
  assumes network_order: "RawData_setInt H v = [ucast (drop_bit 8 v), ucast v]"

subsection \<open>A concrete provider\<close>

text \<open>
  Big-endian reads and writes on byte lists, as used by the witnesses; reading too short a
  span is not specified by the interface and returns zero here.
\<close>

definition big_endian_helper :: helper where
  "big_endian_helper = \<lparr>
     RawData_getInt = (\<lambda>bs. case bs of
         b0 # b1 # r \<Rightarrow> (r, push_bit 8 (ucast b0) OR ucast b1)
       | _ \<Rightarrow> ([], 0)),
     RawData_setInt = (\<lambda>v. [ucast (drop_bit 8 v), ucast v]),
     RawData_getString = (\<lambda>bs n. (drop n bs, string_of_bytes (take n bs))),
     RawData_setString = bytes_of_string,
     RawData_asRawData = bytes_of_string\<rparr>"

lemma big_endian_join: "push_bit 8 (ucast (ucast (drop_bit 8 v) :: byte)) OR ucast (ucast v :: byte) = (v :: u16)"
  by (rule bit_word_eqI) (auto simp: bit_simps)

lemma big_endian_split:
  "ucast (drop_bit 8 (push_bit 8 (ucast b0) OR ucast b1 :: u16)) = (b0 :: byte)"
  "ucast (push_bit 8 (ucast b0) OR ucast b1 :: u16) = (b1 :: byte)"
  by (rule bit_word_eqI, auto simp: bit_simps dest: bit_imp_le_length)+

interpretation big_endian: raw_data_network big_endian_helper
proof unfold_locales
  fix v :: u16 and bs :: bytes and n :: nat and s :: string
  show "length (RawData_setInt big_endian_helper v) = 2"
    by (simp add: big_endian_helper_def)
  show "RawData_getInt big_endian_helper (RawData_setInt big_endian_helper v @ bs) = (bs, v)"
    by (simp add: big_endian_helper_def big_endian_join)
  show "2 \<le> length bs \<Longrightarrow>
      RawData_setInt big_endian_helper (snd (RawData_getInt big_endian_helper bs))
        @ fst (RawData_getInt big_endian_helper bs) = bs"
    by (auto simp: big_endian_helper_def big_endian_split Suc_le_length_iff numeral_2_eq_2
        simp del: drop_bit_or)
  show "n \<le> length bs \<Longrightarrow> RawData_getString big_endian_helper bs n =
      (drop n bs, string_of_bytes (take n bs))"
    by (simp add: big_endian_helper_def)
  show "RawData_setString big_endian_helper s = bytes_of_string s"
    and "RawData_asRawData big_endian_helper s = bytes_of_string s"
    by (simp_all add: big_endian_helper_def)
  show "RawData_setInt big_endian_helper v = [ucast (drop_bit 8 v), ucast v]"
    by (simp add: big_endian_helper_def)
qed

end
