(* ===== verification/Options.thy ===== *)
theory Options
  imports StdMap StdNumbers RawData
begin

text \<open>
  \<open>packets/Options.cpp\<close>, \<open>Options.ipp\<close>, \<open>TftpOptions.cpp\<close>: the option lists of requests
  and acknowledgements. Options are a \<open>std::map\<close> from name to value; on the wire they are
  the names and values in map order, each terminated by a zero byte. \<open>Options_getOption\<close>
  takes a known option out of a received list and decodes it.
\<close>

type_synonym options = "(string, string) std_map"

subsection \<open>Printing, encoding, decoding\<close>

definition Options_toString :: "options \<Rightarrow> string" where
  "Options_toString opts =
     (if opts = [] then ''(NONE)''
      else fold (\<lambda>(name, val) result. result @ name @ '':'' @ val @ '';'') opts [])"

text \<open>
  \<open>find( '\0' )\<close>, \<open>substr( 0, end )\<close> and \<open>substr( end + 1 )\<close>: the text before the first
  zero character and the text after it, or nothing when there is none.
\<close>

definition split_NUL :: "string \<Rightarrow> (string \<times> string) option" where
  "split_NUL s =
     (if NUL \<in> set s
      then Some (takeWhile (\<lambda>c. c \<noteq> NUL) s, tl (dropWhile (\<lambda>c. c \<noteq> NUL) s))
      else None)"

lemma split_NUL_append [simp]: "NUL \<notin> set s \<Longrightarrow> split_NUL (s @ NUL # r) = Some (s, r)"
  by (auto simp: split_NUL_def takeWhile_append dropWhile_append)

lemma split_NUL_SomeD: "split_NUL s = Some (a, r) \<Longrightarrow> s = a @ NUL # r \<and> NUL \<notin> set a"
proof -
  assume *: "split_NUL s = Some (a, r)"
  then have "NUL \<in> set s" by (auto simp: split_NUL_def split: if_splits)
  then obtain u v where "s = u @ NUL # v" "NUL \<notin> set u"
    using split_list_first by metis
  with * show ?thesis by simp
qed

lemma split_NUL_None: "split_NUL s = None \<longleftrightarrow> NUL \<notin> set s"
  by (simp add: split_NUL_def)

lemma split_NUL_shorter: "split_NUL s = Some (a, r) \<Longrightarrow> length r < length s"
  by (auto dest: split_NUL_SomeD)

text \<open>The loop of \<open>Options_options\<close>; \<open>emplace\<close> keeps the first value of a repeated name.\<close>

function Options_loop :: "string \<Rightarrow> options \<Rightarrow> exn + options" where
  "Options_loop optionsString opts =
     (if optionsString = [] then Inr opts
      else case split_NUL optionsString of
          None \<Rightarrow> Inl InvalidPacketEx
        | Some (name, s1) \<Rightarrow>
            (case split_NUL s1 of
                None \<Rightarrow> Inl InvalidPacketEx
              | Some (val, s2) \<Rightarrow> Options_loop s2 (try_emplace name val opts)))"
  by pat_completeness auto
termination
  by (relation "measure (\<lambda>(s, opts). length s)") (auto dest!: split_NUL_shorter)

declare Options_loop.simps [simp del]

definition Options_options :: "string \<Rightarrow> exn + options" where
  "Options_options rawOptions = Options_loop rawOptions []"

definition Options_rawOptions :: "helper \<Rightarrow> options \<Rightarrow> bytes" where
  "Options_rawOptions H opts =
     fold (\<lambda>(name, option) rawOptions.
             (((rawOptions @ RawData_asRawData H name) @ [0]) @ RawData_asRawData H option) @ [0])
       opts []"

subsection \<open>Decoding a known option\<close>

text \<open>
  The pair returned is extended by the remaining options, which the code passes by reference.
  Both comparisons are made on \<open>unsigned long long\<close>.
\<close>

definition Options_getOption ::
    "options \<Rightarrow> string \<Rightarrow> 'a::len word \<Rightarrow> 'a word \<Rightarrow> (bool \<times> 'a word option) \<times> options" where
  "Options_getOption opts name mn mx =
     (let (option, rest) = map_extract opts name
      in (case option of
            None \<Rightarrow> (True, None)
          | Some optionString \<Rightarrow>
              if optionString = [] then (False, None)
              else (case stoull optionString of
                      Inr optionValue \<Rightarrow>
                        if optionValue < ucast mn \<or> ucast mx < optionValue then (False, None)
                        else (True, Some (ucast optionValue))
                    | Inl InvalidArgument \<Rightarrow> (False, None)
                    | Inl OutOfRange \<Rightarrow> (False, None)),
          rest))"

subsection \<open>The known options\<close>

datatype known_option = BlockSize | Timeout | TransferSize

definition TftpOptions_name :: "known_option \<Rightarrow> string" where
  "TftpOptions_name option =
     (case option of
        BlockSize \<Rightarrow> ''blksize''
      | Timeout \<Rightarrow> ''timeout''
      | TransferSize \<Rightarrow> ''tsize'')"

lemma TftpOptions_name_inject [simp]: "TftpOptions_name a = TftpOptions_name b \<longleftrightarrow> a = b"
  by (cases a; cases b) (simp_all add: TftpOptions_name_def)

lemma TftpOptions_name_no_NUL [simp]: "NUL \<notin> set (TftpOptions_name a)"
  by (cases a) (simp_all add: TftpOptions_name_def)

record tftp_options =
  to_blockSize :: "u16 option"
  to_timeout :: "u8 option"
  to_transferSize :: "u64 option"

definition no_tftp_options :: tftp_options where
  "no_tftp_options = \<lparr>to_blockSize = None, to_timeout = None, to_transferSize = None\<rparr>"

definition TftpOptions_bool :: "tftp_options \<Rightarrow> bool" where
  "TftpOptions_bool opts \<longleftrightarrow>
     to_blockSize opts \<noteq> None \<or> to_timeout opts \<noteq> None \<or> to_transferSize opts \<noteq> None"

definition TftpOptions_toString :: "tftp_options \<Rightarrow> string" where
  "TftpOptions_toString opts =
     (if \<not> TftpOptions_bool opts then ''(NONE)''
      else
        (case to_blockSize opts of None \<Rightarrow> []
         | Some v \<Rightarrow> ''['' @ TftpOptions_name BlockSize @ '':'' @ to_string (unat v) @ '']'') @
        (case to_timeout opts of None \<Rightarrow> []
         | Some v \<Rightarrow> ''['' @ TftpOptions_name Timeout @ '':'' @ to_string (unat v) @ '']'') @
        (case to_transferSize opts of None \<Rightarrow> []
         | Some v \<Rightarrow> ''['' @ TftpOptions_name TransferSize @ '':'' @ to_string (unat v) @ '']''))"


subsection \<open>Facts about the codec\<close>

definition option_entry :: "string \<times> string \<Rightarrow> string" where
  "option_entry e = fst e @ NUL # snd e @ [NUL]"

definition wire_options :: "options \<Rightarrow> string" where
  "wire_options opts = concat (map option_entry opts)"

definition no_NULs :: "options \<Rightarrow> bool" where
  "no_NULs opts \<longleftrightarrow> (\<forall>(n, v) \<in> set opts. NUL \<notin> set n \<and> NUL \<notin> set v)"

definition wf_options :: "options \<Rightarrow> bool" where
  "wf_options opts \<longleftrightarrow> is_map opts \<and> no_NULs opts"

lemma no_NULs_simps [simp]:
  "no_NULs []"
  "no_NULs ((n, v) # opts) \<longleftrightarrow> NUL \<notin> set n \<and> NUL \<notin> set v \<and> no_NULs opts"
  by (auto simp: no_NULs_def)

lemma wire_options_simps [simp]:
  "wire_options [] = []"
  "wire_options ((n, v) # opts) = n @ NUL # v @ NUL # wire_options opts"
  by (simp_all add: wire_options_def option_entry_def)

lemma fold_append_wire:
  "fold (\<lambda>(n, v) raw. (((raw @ bytes_of_string n) @ [0]) @ bytes_of_string v) @ [0]) opts raw0 =
   raw0 @ bytes_of_string (wire_options opts)"
  by (induction opts arbitrary: raw0) auto

text \<open>The loop of \<open>Options_rawOptions\<close> concatenates the entries.\<close>

lemma Options_rawOptions_eq:
  assumes "raw_data H"
  shows "Options_rawOptions H opts = bytes_of_string (wire_options opts)"
  using fold_append_wire [of opts "[]"]
  by (simp add: Options_rawOptions_def raw_data.asRawData [OF assms])

lemma Options_loop_Nil [simp]: "Options_loop [] opts = Inr opts"
  by (subst Options_loop.simps) simp

lemma Options_loop_entry:
  assumes "NUL \<notin> set n" "NUL \<notin> set v"
  shows "Options_loop (n @ NUL # v @ NUL # s) opts = Options_loop s (try_emplace n v opts)"
  using assms by (subst Options_loop.simps) simp

text \<open>Decoding what was encoded inserts the pairs one after the other.\<close>

lemma Options_loop_wire:
  "no_NULs kvs \<Longrightarrow> Options_loop (wire_options kvs) opts = Inr (std_map.put_all kvs opts)"
  by (induction kvs arbitrary: opts) (auto simp: Options_loop_entry)

lemma Options_options_wire:
  "wf_options opts \<Longrightarrow> Options_options (wire_options opts) = Inr opts"
  by (simp add: Options_options_def wf_options_def Options_loop_wire std_map.rebuild)

text \<open>Repeated names keep their first value.\<close>

lemma Options_options_first_wins:
  "no_NULs kvs \<Longrightarrow> \<exists>opts. Options_options (wire_options kvs) = Inr opts \<and>
     is_map opts \<and> map_find opts = map_of kvs"
  by (auto simp: Options_options_def Options_loop_wire std_map.valid_put_all
      std_map.lookup_put_all fun_eq_iff)

lemma Options_loop_parses:
  "is_map opts \<Longrightarrow> no_NULs opts \<Longrightarrow> Options_loop s opts = Inr r \<Longrightarrow>
   is_map r \<and> (\<exists>kvs. no_NULs kvs \<and> s = wire_options kvs \<and> r = std_map.put_all kvs opts)"
proof (induction s opts rule: Options_loop.induct)
  case (1 s opts)
  show ?case
  proof (cases "s = []")
    case True
    with 1 show ?thesis by (auto intro: exI [of _ "[]"])
  next
    case False
    obtain n s1 v s2 where n: "split_NUL s = Some (n, s1)" and v: "split_NUL s1 = Some (v, s2)"
      and r: "Options_loop s2 (try_emplace n v opts) = Inr r"
      using "1.prems"(3) False
      by (subst (asm) Options_loop.simps) (auto split: option.splits)
    note s = split_NUL_SomeD [OF n] split_NUL_SomeD [OF v]
    have m: "is_map (try_emplace n v opts)"
      using "1.prems"(1) by (rule is_map_try_emplace)
    have e: "no_NULs (try_emplace n v opts)"
      using s "1.prems"(2) by (induction opts) (auto simp: no_NULs_def)
    obtain kvs where "no_NULs kvs" "s2 = wire_options kvs" "is_map r"
      "r = std_map.put_all kvs (try_emplace n v opts)"
      using "1.IH" [OF False n _ v _ m e r] by auto
    with s show ?thesis
      by (intro conjI exI [of _ "(n, v) # kvs"]) auto
  qed
qed

text \<open>What is accepted is exactly what the encoder can write, repeated names included.\<close>

lemma Options_options_accepts:
  "Options_options s = Inr opts \<longleftrightarrow>
     (\<exists>kvs. no_NULs kvs \<and> s = wire_options kvs \<and> opts = std_map.put_all kvs [])"
  using Options_loop_parses [of "[]" s opts] Options_loop_wire
  by (auto simp: Options_options_def)

lemma Options_options_is_map: "Options_options s = Inr opts \<Longrightarrow> is_map opts"
  by (auto simp: Options_options_accepts std_map.valid_put_all)

lemma Options_loop_error: "Options_loop s opts = Inl e \<Longrightarrow> e = InvalidPacketEx"
proof (induction s opts rule: Options_loop.induct)
  case (1 s opts)
  consider (bad) "e = InvalidPacketEx"
    | (more) n s1 v s2 where "s \<noteq> []" "split_NUL s = Some (n, s1)" "split_NUL s1 = Some (v, s2)"
        "Options_loop s2 (try_emplace n v opts) = Inl e"
    using "1.prems" by (subst (asm) Options_loop.simps) (auto split: if_splits option.splits)
  then show ?case
  proof cases
    case more
    show ?thesis by (rule "1.IH" [OF more(1,2) _ more(3) _ more(4)]) simp_all
  qed
qed

lemma no_NULs_put_all: "no_NULs kvs \<Longrightarrow> no_NULs opts \<Longrightarrow> no_NULs (std_map.put_all kvs opts)"
proof (induction kvs arbitrary: opts)
  case (Cons kv kvs)
  obtain n v where "kv = (n, v)" by (cases kv)
  moreover have "no_NULs (try_emplace n v opts)" if "NUL \<notin> set n" "NUL \<notin> set v"
    using that Cons.prems(2) by (induction opts) (auto simp: no_NULs_def)
  ultimately show ?case using Cons by auto
qed simp

lemma Options_options_wf: "Options_options s = Inr opts \<Longrightarrow> wf_options opts"
  by (auto simp: Options_options_accepts wf_options_def std_map.valid_put_all no_NULs_put_all)

subsection \<open>Facts about decoded options\<close>

lemma Options_getOption_rest [simp]:
  "snd (Options_getOption opts name mn mx) = map_erase name opts"
  by (simp add: Options_getOption_def map_extract_def)

lemma Options_getOption_absent:
  "map_find opts name = None \<Longrightarrow> fst (Options_getOption opts name mn mx) = (True, None)"
  by (simp add: Options_getOption_def map_extract_def)

lemma Options_getOption_value:
  "fst (Options_getOption opts name mn mx) = (valid, Some v) \<Longrightarrow>
     valid \<and> (\<exists>s w. map_find opts name = Some s \<and> stoull s = Inr w \<and>
       v = ucast w \<and> ucast mn \<le> w \<and> w \<le> ucast mx)"
  by (auto simp: Options_getOption_def map_extract_def not_less
      split: option.splits if_splits sum.splits stoull_error.splits)

lemma Options_getOption_present:
  "fst (Options_getOption opts name mn mx) = (True, None) \<Longrightarrow> map_find opts name = None"
  by (auto simp: Options_getOption_def map_extract_def
      split: option.splits if_splits sum.splits stoull_error.splits)

lemma ucast_u64_le:
  assumes "LENGTH('a::len) \<le> 64" and "(w :: u64) \<le> ucast (mx :: 'a word)"
  shows "unat (ucast w :: 'a word) = unat w"
proof -
  have "unat w \<le> take_bit 64 (unat mx)"
    using assms(2) by (simp add: word_le_nat_alt unsigned_ucast_eq)
  also have "\<dots> \<le> unat mx"
    by (rule take_bit_nat_less_eq_self)
  finally have "unat w \<le> unat mx" .
  then have "unat w < 2 ^ LENGTH('a)"
    using unsigned_less [of mx] by (rule order_le_less_trans)
  then show ?thesis
    by (simp add: unsigned_ucast_eq take_bit_nat_eq_self)
qed

lemma Options_getOption_bounds:
  assumes "fst (Options_getOption opts name mn mx) = (valid, Some v)" and "LENGTH('a::len) \<le> 64"
  shows "valid \<and> mn \<le> (v :: 'a word) \<and> v \<le> mx"
proof -
  obtain w where valid: "valid" and v: "v = ucast w" and w: "ucast mn \<le> (w :: u64)" "w \<le> ucast mx"
    using Options_getOption_value [OF assms(1)] by blast
  have small: "unat (ucast x :: u64) = unat x" for x :: "'a word"
  proof -
    have "unat x < 2 ^ LENGTH('a)" by (rule unsigned_less)
    also have "\<dots> \<le> 2 ^ 64" using assms(2) by (intro power_increasing) auto
    finally show ?thesis by (simp add: unsigned_ucast_eq take_bit_nat_eq_self)
  qed
  show ?thesis
    using valid w ucast_u64_le [OF assms(2) w(2)] unfolding v word_le_nat_alt by (simp add: small)
qed

end
