(* ===== verification/BlockNumber.thy ===== *)
theory BlockNumber
  imports Prelude
begin

text \<open>
  \<open>packets/BlockNumber.cpp\<close>: the sixteen-bit number of a data block, whose successor skips
  zero on overflow. \<open>block_at n\<close> is the number of the \<open>n\<close>-th block of a transfer; it is
  the abstract view of the counters that the operations keep.
\<close>

datatype block_number = BlockNumber (blockNumberV: u16)

definition BlockNumber_next :: "block_number \<Rightarrow> u16" where
  "BlockNumber_next b = (if blockNumberV b = 65535 then 1 else blockNumberV b + 1)"

definition BlockNumber_preincrement :: "block_number \<Rightarrow> block_number" where
  "BlockNumber_preincrement b = BlockNumber (BlockNumber_next b)"

text \<open>The post-increment returns the old value beside the new state.\<close>

definition BlockNumber_postincrement :: "block_number \<Rightarrow> block_number \<times> block_number" where
  "BlockNumber_postincrement b =
     (let old = BlockNumber (blockNumberV b) in (old, BlockNumber (BlockNumber_next b)))"

definition BlockNumber_equal :: "block_number \<Rightarrow> block_number \<Rightarrow> bool" where
  "BlockNumber_equal lhs rhs \<longleftrightarrow> blockNumberV lhs = blockNumberV rhs"

definition BlockNumber_equal_int :: "block_number \<Rightarrow> u16 \<Rightarrow> bool" where
  "BlockNumber_equal_int lhs rhs \<longleftrightarrow> blockNumberV lhs = rhs"

lemma BlockNumber_equal_iff [simp]: "BlockNumber_equal a b \<longleftrightarrow> a = b"
  by (cases a; cases b) (simp add: BlockNumber_equal_def)

lemma BlockNumber_equal_int_iff [simp]: "BlockNumber_equal_int a n \<longleftrightarrow> a = BlockNumber n"
  by (cases a) (simp add: BlockNumber_equal_int_def)

definition block_at :: "nat \<Rightarrow> block_number" where
  "block_at n = (BlockNumber_preincrement ^^ n) (BlockNumber 0)"

lemma block_at_0 [simp]: "block_at 0 = BlockNumber 0"
  by (simp add: block_at_def)

lemma block_at_Suc: "block_at (Suc n) = BlockNumber_preincrement (block_at n)"
  by (simp add: block_at_def)

lemma BlockNumber_next_block_at: "BlockNumber (BlockNumber_next (block_at n)) = block_at (Suc n)"
  by (simp add: block_at_Suc BlockNumber_preincrement_def)

lemma unat_next:
  "unat (BlockNumber_next b) = (if unat (blockNumberV b) = 65535 then 1 else unat (blockNumberV b) + 1)"
proof (cases "blockNumberV b = 65535")
  case True
  then show ?thesis by (simp add: BlockNumber_next_def)
next
  case False
  then have ne: "unat (blockNumberV b) \<noteq> 65535"
    by (simp add: word_unat_eq_iff)
  moreover have "unat (blockNumberV b) < 65536"
    by (rule order_less_le_trans [OF unsigned_less]) simp
  ultimately show ?thesis
    using False by (simp add: BlockNumber_next_def unat_word_ariths)
qed

lemma unat_block_at: "unat (blockNumberV (block_at (Suc n))) = n mod 65535 + 1"
proof (induction n)
  case 0
  show ?case by (simp add: block_at_Suc BlockNumber_preincrement_def unat_next)
next
  case (Suc n)
  have "unat (blockNumberV (block_at (Suc (Suc n)))) =
      (if n mod 65535 + 1 = 65535 then 1 else n mod 65535 + 1 + 1)"
    by (simp only: block_at_Suc [of "Suc n"] BlockNumber_preincrement_def block_number.sel
        unat_next Suc)
  also have "\<dots> = Suc n mod 65535 + 1"
    by (simp add: mod_Suc)
  finally show ?case .
qed

lemma block_at_nonzero: "block_at (Suc n) \<noteq> BlockNumber 0"
  using unat_block_at [of n] by auto

lemma block_at_eq_iff:
  "block_at (Suc i) = block_at (Suc j) \<longleftrightarrow> i mod 65535 = j mod 65535"
proof -
  have "block_at (Suc i) = block_at (Suc j) \<longleftrightarrow>
      unat (blockNumberV (block_at (Suc i))) = unat (blockNumberV (block_at (Suc j)))"
    by (metis block_number.expand word_unat_eq_iff)
  then show ?thesis by (simp add: unat_block_at)
qed

text \<open>Neighbours are always told apart, which is what the duplicate checks need.\<close>

lemma block_at_Suc_neq: "block_at (Suc n) \<noteq> block_at n"
proof (cases n)
  case 0
  then show ?thesis using block_at_nonzero [of 0] by simp
next
  case (Suc m)
  have "Suc m mod 65535 \<noteq> m mod 65535" by (simp add: mod_Suc)
  with Suc show ?thesis by (simp add: block_at_eq_iff)
qed

end
