(* ===== verification/Packets.thy ===== *)
theory Packets
  imports Options BlockNumber
begin

text \<open>
  \<open>packets/Packets.hpp\<close>, \<open>Packet.cpp\<close> and the packet classes: the data of each packet
  (a record per class), \<open>encode\<close> as the writes into a zero-initialised buffer that the code
  makes, and \<open>decodeHeader\<close> and \<open>decodeBody\<close> as commands on the packet object, so that
  the constructors (which discard the object when they throw) and the assignment operators
  (which keep what was already written) are both built from them.

  The locale \<open>packet_codec\<close> is the contract every packet class meets; it is shown for each
  class and any Helper library with the laws of \<open>raw_data\<close>.
\<close>

subsection \<open>Enumerations\<close>

datatype packet_type =
    ReadRequest
  | WriteRequest
  | Data
  | Acknowledgement
  | Error
  | OptionsAcknowledgement
  | Invalid

text \<open>\<open>std::to_underlying\<close>.\<close>

definition packet_type_int :: "packet_type \<Rightarrow> u16" where
  "packet_type_int t =
     (case t of
        ReadRequest \<Rightarrow> 1
      | WriteRequest \<Rightarrow> 2
      | Data \<Rightarrow> 3
      | Acknowledgement \<Rightarrow> 4
      | Error \<Rightarrow> 5
      | OptionsAcknowledgement \<Rightarrow> 6
      | Invalid \<Rightarrow> 0xFF)"

lemma packet_type_int_inject [simp]: "packet_type_int a = packet_type_int b \<longleftrightarrow> a = b"
  by (cases a; cases b) (simp_all add: packet_type_int_def)

text \<open>The packet types are ordered by their numbers; \<open>std::map\<close> iterates in that order.\<close>

instantiation packet_type :: linorder
begin

definition less_eq_packet_type :: "packet_type \<Rightarrow> packet_type \<Rightarrow> bool" where
  "less_eq_packet_type a b \<longleftrightarrow> packet_type_int a \<le> packet_type_int b"

definition less_packet_type :: "packet_type \<Rightarrow> packet_type \<Rightarrow> bool" where
  "less_packet_type a b \<longleftrightarrow> packet_type_int a < packet_type_int b"

instance
  by standard (auto simp: less_eq_packet_type_def less_packet_type_def order_less_le)

end

datatype transfer_mode = OCTET | NETASCII | MAIL | InvalidMode

text \<open>
  \<open>ErrorCode\<close> has a fixed underlying type, and \<open>static_cast\<close> from a received number
  makes any value of it: the enumerators are constants of that type.
\<close>

type_synonym error_code = u16

abbreviation (input) NotDefined :: error_code where "NotDefined \<equiv> 0"
abbreviation (input) FileNotFound :: error_code where "FileNotFound \<equiv> 1"
abbreviation (input) AccessViolation :: error_code where "AccessViolation \<equiv> 2"
abbreviation (input) DiskFullOrAllocationExceeds :: error_code where
  "DiskFullOrAllocationExceeds \<equiv> 3"
abbreviation (input) IllegalTftpOperation :: error_code where "IllegalTftpOperation \<equiv> 4"
abbreviation (input) UnknownTransferId :: error_code where "UnknownTransferId \<equiv> 5"
abbreviation (input) TftpOptionRefused :: error_code where "TftpOptionRefused \<equiv> 8"
abbreviation (input) InvalidErrorCode :: error_code where "InvalidErrorCode \<equiv> 0xFFFF"

type_synonym error_information = "(error_code \<times> string) option"

subsection \<open>The packet header\<close>

definition HeaderSize :: nat where "HeaderSize = 2"

definition Packet_packetType :: "helper \<Rightarrow> bytes \<Rightarrow> packet_type" where
  "Packet_packetType H rawPacket =
     (if length rawPacket < HeaderSize then Invalid
      else let opcode = snd (RawData_getInt H rawPacket)
        in if opcode = packet_type_int ReadRequest then ReadRequest
           else if opcode = packet_type_int WriteRequest then WriteRequest
           else if opcode = packet_type_int Data then Data
           else if opcode = packet_type_int Acknowledgement then Acknowledgement
           else if opcode = packet_type_int Error then Error
           else if opcode = packet_type_int OptionsAcknowledgement then OptionsAcknowledgement
           else Invalid)"

definition Packet_insertHeader :: "helper \<Rightarrow> packet_type \<Rightarrow> bytes \<Rightarrow> bytes" where
  "Packet_insertHeader H t rawPacket = write_at 0 (RawData_setInt H (packet_type_int t)) rawPacket"

definition Packet_decodeHeader :: "helper \<Rightarrow> packet_type \<Rightarrow> bytes \<Rightarrow> 'p cmd" where
  "Packet_decodeHeader H t rawPacket =
     (if length rawPacket < HeaderSize then throw InvalidPacketEx
      else if snd (RawData_getInt H rawPacket) \<noteq> packet_type_int t then throw InvalidPacketEx
      else block [])"

definition Packet_toString :: "packet_type \<Rightarrow> string" where
  "Packet_toString t =
     (case t of
        ReadRequest \<Rightarrow> ''RRQ''
      | WriteRequest \<Rightarrow> ''WRQ''
      | Data \<Rightarrow> ''DATA''
      | Acknowledgement \<Rightarrow> ''ACK''
      | Error \<Rightarrow> ''ERR''
      | OptionsAcknowledgement \<Rightarrow> ''OACK''
      | Invalid \<Rightarrow> ''INV'')"

text \<open>A constructor that decodes: the object is lost when a statement throws.\<close>

definition construct :: "'p \<Rightarrow> 'p cmd list \<Rightarrow> exn + 'p" where
  "construct object cs =
     (case block cs object of Inl (e, _) \<Rightarrow> Inl e | Inr p \<Rightarrow> Inr p)"

subsection \<open>DATA\<close>

record data_packet =
  dp_blockNumber :: block_number
  dp_data :: bytes

definition DataPacket_MinPacketSize :: nat where
  "DataPacket_MinPacketSize = HeaderSize + 2"

definition DataPacket_dataSize :: "data_packet \<Rightarrow> nat" where
  "DataPacket_dataSize p = length (dp_data p)"

definition DataPacket_encode :: "helper \<Rightarrow> data_packet \<Rightarrow> bytes" where
  "DataPacket_encode H p =
     (let rawPacket = replicate (DataPacket_MinPacketSize + length (dp_data p)) 0;
          rawPacket = Packet_insertHeader H Data rawPacket;
          rawPacket = write_at HeaderSize (RawData_setInt H (blockNumberV (dp_blockNumber p))) rawPacket
      in write_at (HeaderSize + 2) (dp_data p) rawPacket)"

definition DataPacket_decodeBody :: "helper \<Rightarrow> bytes \<Rightarrow> data_packet cmd" where
  "DataPacket_decodeBody H rawPacket =
     (if length rawPacket < DataPacket_MinPacketSize then throw InvalidPacketEx
      else let (remaining, blockNumber) = RawData_getInt H (drop HeaderSize rawPacket)
        in block [
             modify (\<lambda>p. p\<lparr>dp_blockNumber := BlockNumber blockNumber\<rparr>),
             modify (\<lambda>p. p\<lparr>dp_data := remaining\<rparr>)])"

definition DataPacket_decode :: "helper \<Rightarrow> bytes \<Rightarrow> exn + data_packet" where
  "DataPacket_decode H rawPacket =
     construct \<lparr>dp_blockNumber = BlockNumber 0, dp_data = []\<rparr>
       [Packet_decodeHeader H Data rawPacket, DataPacket_decodeBody H rawPacket]"

definition DataPacket_assign :: "helper \<Rightarrow> bytes \<Rightarrow> data_packet cmd" where
  "DataPacket_assign H rawPacket =
     block [Packet_decodeHeader H Data rawPacket, DataPacket_decodeBody H rawPacket]"

definition DataPacket_toString :: "data_packet \<Rightarrow> string" where
  "DataPacket_toString p =
     ''DATA: Block No: '' @ to_string (unat (blockNumberV (dp_blockNumber p))) @
     '' DATA: '' @ to_string (DataPacket_dataSize p) @ '' bytes''"

subsection \<open>ACK\<close>

record ack_packet =
  ap_blockNumber :: block_number

definition AcknowledgementPacket_PacketSize :: nat where
  "AcknowledgementPacket_PacketSize = HeaderSize + 2"

definition AcknowledgementPacket_encode :: "helper \<Rightarrow> ack_packet \<Rightarrow> bytes" where
  "AcknowledgementPacket_encode H p =
     (let rawPacket = replicate AcknowledgementPacket_PacketSize 0;
          rawPacket = Packet_insertHeader H Acknowledgement rawPacket
      in write_at HeaderSize (RawData_setInt H (blockNumberV (ap_blockNumber p))) rawPacket)"

definition AcknowledgementPacket_decodeBody :: "helper \<Rightarrow> bytes \<Rightarrow> ack_packet cmd" where
  "AcknowledgementPacket_decodeBody H rawPacket =
     (if length rawPacket \<noteq> AcknowledgementPacket_PacketSize then throw InvalidPacketEx
      else let (rawSpan, blockNumber) = RawData_getInt H (drop HeaderSize rawPacket)
        in modify (\<lambda>p. p\<lparr>ap_blockNumber := BlockNumber blockNumber\<rparr>))"

definition AcknowledgementPacket_decode :: "helper \<Rightarrow> bytes \<Rightarrow> exn + ack_packet" where
  "AcknowledgementPacket_decode H rawPacket =
     construct \<lparr>ap_blockNumber = BlockNumber 0\<rparr>
       [Packet_decodeHeader H Acknowledgement rawPacket,
        AcknowledgementPacket_decodeBody H rawPacket]"

definition AcknowledgementPacket_assign :: "helper \<Rightarrow> bytes \<Rightarrow> ack_packet cmd" where
  "AcknowledgementPacket_assign H rawPacket =
     block [Packet_decodeHeader H Acknowledgement rawPacket,
            AcknowledgementPacket_decodeBody H rawPacket]"

definition AcknowledgementPacket_toString :: "ack_packet \<Rightarrow> string" where
  "AcknowledgementPacket_toString p =
     ''ACK: BLOCK NO: '' @ to_string (unat (blockNumberV (ap_blockNumber p)))"

subsection \<open>ERROR\<close>

record error_packet =
  ep_errorCode :: error_code
  ep_errorMessage :: string

definition ErrorPacket_MinPacketSize :: nat where
  "ErrorPacket_MinPacketSize = HeaderSize + 2 + 1"

definition ErrorPacket_errorInformation :: "error_packet \<Rightarrow> error_information" where
  "ErrorPacket_errorInformation p = Some (ep_errorCode p, ep_errorMessage p)"

definition ErrorPacket_encode :: "helper \<Rightarrow> error_packet \<Rightarrow> bytes" where
  "ErrorPacket_encode H p =
     (let rawPacket = replicate (ErrorPacket_MinPacketSize + length (ep_errorMessage p)) 0;
          rawPacket = Packet_insertHeader H Error rawPacket;
          rawPacket = write_at HeaderSize (RawData_setInt H (ep_errorCode p)) rawPacket;
          rawPacket = write_at (HeaderSize + 2) (RawData_setString H (ep_errorMessage p)) rawPacket
      in write_at (length rawPacket - 1) [0] rawPacket)"

definition ErrorPacket_decodeBody :: "helper \<Rightarrow> bytes \<Rightarrow> error_packet cmd" where
  "ErrorPacket_decodeBody H rawPacket =
     (if length rawPacket < ErrorPacket_MinPacketSize then throw InvalidPacketEx
      else let (rawSpan, errorCodeInt) = RawData_getInt H (drop HeaderSize rawPacket)
        in block [
             modify (\<lambda>p. p\<lparr>ep_errorCode := errorCodeInt\<rparr>),
             if last rawSpan \<noteq> 0 then throw InvalidPacketEx
             else modify (\<lambda>p.
               p\<lparr>ep_errorMessage := snd (RawData_getString H rawSpan (length rawSpan - 1))\<rparr>)])"

definition ErrorPacket_decode :: "helper \<Rightarrow> bytes \<Rightarrow> exn + error_packet" where
  "ErrorPacket_decode H rawPacket =
     construct \<lparr>ep_errorCode = InvalidErrorCode, ep_errorMessage = []\<rparr>
       [Packet_decodeHeader H Error rawPacket, ErrorPacket_decodeBody H rawPacket]"

definition ErrorPacket_assign :: "helper \<Rightarrow> bytes \<Rightarrow> error_packet cmd" where
  "ErrorPacket_assign H rawPacket =
     block [Packet_decodeHeader H Error rawPacket, ErrorPacket_decodeBody H rawPacket]"

subsection \<open>RRQ and WRQ\<close>

record request_packet =
  rq_filename :: string
  rq_mode :: transfer_mode
  rq_options :: options

definition mode_string :: "transfer_mode \<Rightarrow> string" where
  "mode_string mode =
     (case mode of
        OCTET \<Rightarrow> ''OCTET''
      | NETASCII \<Rightarrow> ''NETASCII''
      | MAIL \<Rightarrow> ''MAIL''
      | InvalidMode \<Rightarrow> [])"

text \<open>\<open>toupper\<close> in the C locale.\<close>

definition upper :: "char \<Rightarrow> char" where
  "upper c =
     (let n = of_char c :: nat in if 97 \<le> n \<and> n \<le> 122 then char_of (n - 32) else c)"

definition mode_of_string :: "string \<Rightarrow> transfer_mode" where
  "mode_of_string mode =
     (let upperMode = map upper mode
      in if upperMode = ''OCTET'' then OCTET
         else if upperMode = ''NETASCII'' then NETASCII
         else if upperMode = ''MAIL'' then MAIL
         else InvalidMode)"

definition ReadWriteRequestPacket_encode :: "helper \<Rightarrow> packet_type \<Rightarrow> request_packet \<Rightarrow> bytes" where
  "ReadWriteRequestPacket_encode H t p =
     (let mode = mode_string (rq_mode p);
          rawOptions = Options_rawOptions H (rq_options p);
          rawPacket = replicate
            (HeaderSize + length (rq_filename p) + 1 + length mode + 1 + length rawOptions) 0;
          rawPacket = Packet_insertHeader H t rawPacket;
          rawFilename = RawData_asRawData H (rq_filename p);
          rawPacket = write_at HeaderSize rawFilename rawPacket;
          filenameEnd = HeaderSize + length rawFilename + 1;
          rawMode = RawData_asRawData H mode;
          rawPacket = write_at filenameEnd rawMode rawPacket;
          modeEnd = filenameEnd + length rawMode + 1
      in write_at modeEnd rawOptions rawPacket)"

definition ReadWriteRequestPacket_decodeBody :: "helper \<Rightarrow> bytes \<Rightarrow> request_packet cmd" where
  "ReadWriteRequestPacket_decodeBody H rawPacket =
     (if length rawPacket \<le> HeaderSize then throw InvalidPacketEx
      else let rawSpan = drop HeaderSize rawPacket
        in if last rawSpan \<noteq> 0 then throw InvalidPacketEx
           else let rawRequestString = snd (RawData_getString H rawSpan (length rawSpan))
             in case split_NUL rawRequestString of
                  None \<Rightarrow> throw InvalidPacketEx
                | Some (filename, rawRequestString) \<Rightarrow> block [
                    modify (\<lambda>p. p\<lparr>rq_filename := filename\<rparr>),
                    case split_NUL rawRequestString of
                      None \<Rightarrow> throw InvalidPacketEx
                    | Some (mode, rawRequestString) \<Rightarrow> block [
                        modify (\<lambda>p. p\<lparr>rq_mode := mode_of_string mode\<rparr>),
                        case Options_options rawRequestString of
                          Inl e \<Rightarrow> throw e
                        | Inr opts \<Rightarrow> modify (\<lambda>p. p\<lparr>rq_options := opts\<rparr>)]])"

definition ReadWriteRequestPacket_decode ::
    "helper \<Rightarrow> packet_type \<Rightarrow> bytes \<Rightarrow> exn + request_packet" where
  "ReadWriteRequestPacket_decode H t rawPacket =
     construct \<lparr>rq_filename = [], rq_mode = OCTET, rq_options = []\<rparr>
       [Packet_decodeHeader H t rawPacket,
        if t \<noteq> ReadRequest \<and> t \<noteq> WriteRequest then throw InvalidPacketEx else block [],
        ReadWriteRequestPacket_decodeBody H rawPacket]"

definition ReadRequestPacket_decode :: "helper \<Rightarrow> bytes \<Rightarrow> exn + request_packet" where
  "ReadRequestPacket_decode H rawPacket = ReadWriteRequestPacket_decode H ReadRequest rawPacket"

definition WriteRequestPacket_decode :: "helper \<Rightarrow> bytes \<Rightarrow> exn + request_packet" where
  "WriteRequestPacket_decode H rawPacket = ReadWriteRequestPacket_decode H WriteRequest rawPacket"

definition ReadRequestPacket_assign :: "helper \<Rightarrow> bytes \<Rightarrow> request_packet cmd" where
  "ReadRequestPacket_assign H rawPacket =
     block [Packet_decodeHeader H ReadRequest rawPacket,
            ReadWriteRequestPacket_decodeBody H rawPacket]"

definition WriteRequestPacket_assign :: "helper \<Rightarrow> bytes \<Rightarrow> request_packet cmd" where
  "WriteRequestPacket_assign H rawPacket =
     block [Packet_decodeHeader H WriteRequest rawPacket,
            ReadWriteRequestPacket_decodeBody H rawPacket]"

definition ReadWriteRequestPacket_toString :: "packet_type \<Rightarrow> request_packet \<Rightarrow> string" where
  "ReadWriteRequestPacket_toString t p =
     (let q = [CHR 0x27]
      in Packet_toString t @ '': FILE: '' @ q @ rq_filename p @ q @ '' MODE: '' @ q @
         mode_string (rq_mode p) @ q @ '' OPT: '' @ q @ Options_toString (rq_options p) @ q)"

subsection \<open>OACK\<close>

record oack_packet =
  op_options :: options

definition OptionsAcknowledgementPacket_encode :: "helper \<Rightarrow> oack_packet \<Rightarrow> bytes" where
  "OptionsAcknowledgementPacket_encode H p =
     Packet_insertHeader H OptionsAcknowledgement (replicate HeaderSize 0) @
     Options_rawOptions H (op_options p)"

definition OptionsAcknowledgementPacket_decodeBody :: "helper \<Rightarrow> bytes \<Rightarrow> oack_packet cmd" where
  "OptionsAcknowledgementPacket_decodeBody H rawPacket =
     (if length rawPacket \<le> HeaderSize then throw InvalidPacketEx
      else let rawSpan = drop HeaderSize rawPacket
        in case Options_options (snd (RawData_getString H rawSpan (length rawSpan))) of
             Inl e \<Rightarrow> throw e
           | Inr opts \<Rightarrow> modify (\<lambda>p. p\<lparr>op_options := opts\<rparr>))"

definition OptionsAcknowledgementPacket_decode :: "helper \<Rightarrow> bytes \<Rightarrow> exn + oack_packet" where
  "OptionsAcknowledgementPacket_decode H rawPacket =
     construct \<lparr>op_options = []\<rparr>
       [Packet_decodeHeader H OptionsAcknowledgement rawPacket,
        OptionsAcknowledgementPacket_decodeBody H rawPacket]"

definition OptionsAcknowledgementPacket_assign :: "helper \<Rightarrow> bytes \<Rightarrow> oack_packet cmd" where
  "OptionsAcknowledgementPacket_assign H rawPacket =
     block [Packet_decodeHeader H OptionsAcknowledgement rawPacket,
            OptionsAcknowledgementPacket_decodeBody H rawPacket]"

subsection \<open>Any packet\<close>

datatype packet =
    RRQ request_packet
  | WRQ request_packet
  | DATA data_packet
  | ACK ack_packet
  | ERR error_packet
  | OACK oack_packet

text \<open>The virtual \<open>Packet::encode()\<close> and the stored packet type.\<close>

fun Packet_encode :: "helper \<Rightarrow> packet \<Rightarrow> bytes" where
  "Packet_encode H (RRQ p) = ReadWriteRequestPacket_encode H ReadRequest p"
| "Packet_encode H (WRQ p) = ReadWriteRequestPacket_encode H WriteRequest p"
| "Packet_encode H (DATA p) = DataPacket_encode H p"
| "Packet_encode H (ACK p) = AcknowledgementPacket_encode H p"
| "Packet_encode H (ERR p) = ErrorPacket_encode H p"
| "Packet_encode H (OACK p) = OptionsAcknowledgementPacket_encode H p"

fun packet_packetType :: "packet \<Rightarrow> packet_type" where
  "packet_packetType (RRQ p) = ReadRequest"
| "packet_packetType (WRQ p) = WriteRequest"
| "packet_packetType (DATA p) = Data"
| "packet_packetType (ACK p) = Acknowledgement"
| "packet_packetType (ERR p) = Error"
| "packet_packetType (OACK p) = OptionsAcknowledgement"

end
