(* ===== verification/PacketCodec.thy ===== *)
theory PacketCodec
  imports Packets
begin

text \<open>
  The contract of the packet classes: what was encoded is decoded to the same packet, the
  encoding starts with the opcode of the class, packets of another class are refused, and the
  only failure is an \<open>InvalidPacketException\<close>. The encoders' in-place writes are first shown
  equal to plain concatenations (\<open>..._encode_eq\<close>), which carry the codec proofs.
\<close>

named_theorems codec_simps "unfolding the decoders"

subsection \<open>The interface\<close>

locale packet_codec =
  fixes encode :: "'p \<Rightarrow> bytes"
    and decode :: "bytes \<Rightarrow> exn + 'p"
    and well_formed :: "'p \<Rightarrow> bool"
    and opcode :: bytes
  assumes decode_encode: "well_formed p \<Longrightarrow> decode (encode p) = Inr p"
    and encode_opcode: "take 2 (encode p) = opcode"
    and decode_opcode: "decode raw = Inr p \<Longrightarrow> take 2 raw = opcode"
    and decode_error: "decode raw = Inl e \<Longrightarrow> e = InvalidPacketEx"
begin

lemma encode_inject:
  assumes "well_formed p" "well_formed q" "encode p = encode q"
  shows "p = q"
proof -
  have "Inr p = decode (encode p)" using assms(1) by (simp add: decode_encode)
  also have "\<dots> = Inr q" using assms(2,3) by (simp add: decode_encode)
  finally show ?thesis by simp
qed

lemma decode_foreign: "take 2 raw \<noteq> opcode \<Longrightarrow> decode raw = Inl InvalidPacketEx"
  using decode_opcode decode_error by (cases "decode raw") auto

lemma decode_total: "(\<exists>p. decode raw = Inr p) \<or> decode raw = Inl InvalidPacketEx"
  using decode_error by (cases "decode raw") auto

end

subsection \<open>Shared steps\<close>

declare block.simps [codec_simps]

lemma construct_Cons [codec_simps]:
  "construct p (c # cs) = (case c p of Inl (e, _) \<Rightarrow> Inl e | Inr p' \<Rightarrow> construct p' cs)"
  by (simp add: construct_def block.simps split: sum.split)

lemma construct_Nil [codec_simps]: "construct p [] = Inr p"
  by (simp add: construct_def block.simps)

lemmas packet_sizes =
  HeaderSize_def DataPacket_MinPacketSize_def AcknowledgementPacket_PacketSize_def
  ErrorPacket_MinPacketSize_def

lemma Packet_decodeHeader_apply [codec_simps]:
  assumes "raw_data H"
  shows "Packet_decodeHeader H t raw p =
    (if take 2 raw = RawData_setInt H (packet_type_int t) then Inr p else Inl (InvalidPacketEx, p))"
proof (cases "length raw < 2")
  case True
  then have "take 2 raw \<noteq> RawData_setInt H (packet_type_int t)"
    using raw_data.length_setInt [OF assms, of "packet_type_int t"]
    by (metis length_take min.strict_order_iff less_irrefl min_less_iff_conj)
  with True show ?thesis
    by (simp add: Packet_decodeHeader_def HeaderSize_def cmd_simps)
next
  case False
  then obtain v where "RawData_getInt H raw = (drop 2 raw, v)" "take 2 raw = RawData_setInt H v"
    using raw_data.getInt_two_bytes [OF assms, of raw] by auto
  with False show ?thesis
    by (simp add: Packet_decodeHeader_def HeaderSize_def cmd_simps
        raw_data.setInt_inject [OF assms])
qed

lemma Packet_packetType_eq:
  assumes "raw_data H"
  shows "Packet_packetType H raw = t \<and> t \<noteq> Invalid \<longleftrightarrow>
    take 2 raw = RawData_setInt H (packet_type_int t) \<and> t \<noteq> Invalid"
proof (cases "length raw < 2")
  case True
  then have "take 2 raw \<noteq> RawData_setInt H (packet_type_int t)"
    using raw_data.length_setInt [OF assms, of "packet_type_int t"]
    by (metis length_take min.strict_order_iff less_irrefl min_less_iff_conj)
  with True show ?thesis
    by (auto simp: Packet_packetType_def HeaderSize_def)
next
  case False
  then obtain v where "RawData_getInt H raw = (drop 2 raw, v)" "take 2 raw = RawData_setInt H v"
    using raw_data.getInt_two_bytes [OF assms, of raw] by auto
  with False show ?thesis
    by (cases t) (auto simp: Packet_packetType_def HeaderSize_def Let_def
        raw_data.setInt_inject [OF assms])
qed

subsection \<open>The encoders as concatenations\<close>

lemma DataPacket_encode_eq:
  assumes "raw_data H"
  shows "DataPacket_encode H p =
    RawData_setInt H (packet_type_int Data) @
    RawData_setInt H (blockNumberV (dp_blockNumber p)) @ dp_data p"
  using raw_data.length_setInt [OF assms]
  by (simp add: DataPacket_encode_def Packet_insertHeader_def packet_sizes Let_def write_at_def)

lemma AcknowledgementPacket_encode_eq:
  assumes "raw_data H"
  shows "AcknowledgementPacket_encode H p =
    RawData_setInt H (packet_type_int Acknowledgement) @
    RawData_setInt H (blockNumberV (ap_blockNumber p))"
  using raw_data.length_setInt [OF assms]
  by (simp add: AcknowledgementPacket_encode_def Packet_insertHeader_def packet_sizes Let_def
      write_at_def)

lemma ErrorPacket_encode_eq:
  assumes "raw_data H"
  shows "ErrorPacket_encode H p =
    RawData_setInt H (packet_type_int Error) @ RawData_setInt H (ep_errorCode p) @
    bytes_of_string (ep_errorMessage p) @ [0]"
  using raw_data.length_setInt [OF assms]
  by (simp add: ErrorPacket_encode_def Packet_insertHeader_def packet_sizes Let_def write_at_def
      raw_data.setString [OF assms])

lemma ReadWriteRequestPacket_encode_eq:
  assumes "raw_data H"
  shows "ReadWriteRequestPacket_encode H t p =
    RawData_setInt H (packet_type_int t) @ bytes_of_string (rq_filename p) @ [0] @
    bytes_of_string (mode_string (rq_mode p)) @ [0] @
    bytes_of_string (wire_options (rq_options p))"
proof -
  define opc where "opc = RawData_setInt H (packet_type_int t)"
  define fn where "fn = bytes_of_string (rq_filename p)"
  define md where "md = bytes_of_string (mode_string (rq_mode p))"
  define ops where "ops = bytes_of_string (wire_options (rq_options p))"
  define n where "n = 2 + length fn + 1 + length md + 1 + length ops"
  have opc: "length opc = 2"
    by (simp add: opc_def raw_data.length_setInt [OF assms])
  have header: "write_at 0 opc (replicate n 0) = opc @ replicate (n - 2) 0"
    using write_at_next [of 0 "[]" opc n] opc by (simp add: n_def)
  have filename: "write_at 2 fn (opc @ replicate (n - 2) 0) =
      (opc @ fn) @ replicate (n - 2 - length fn) 0"
    by (rule write_at_next) (simp_all add: opc n_def)
  have mode: "write_at (2 + length fn + 1) md ((opc @ fn) @ replicate (n - 2 - length fn) 0) =
      ((opc @ fn) @ 0 # md) @ replicate (n - 2 - length fn - 1 - length md) 0"
    by (rule write_at_skip) (simp_all add: opc n_def)
  have options: "write_at (2 + length fn + 1 + length md + 1) ops
        (((opc @ fn) @ 0 # md) @ replicate (n - 2 - length fn - 1 - length md) 0) =
      (((opc @ fn) @ 0 # md) @ 0 # ops) @
        replicate (n - 2 - length fn - 1 - length md - 1 - length ops) 0"
    by (rule write_at_skip) (simp_all add: opc n_def)
  have "ReadWriteRequestPacket_encode H t p =
      write_at (2 + length fn + 1 + length md + 1) ops
        (write_at (2 + length fn + 1) md (write_at 2 fn (write_at 0 opc (replicate n 0))))"
    by (simp add: ReadWriteRequestPacket_encode_def Packet_insertHeader_def HeaderSize_def Let_def
        raw_data.asRawData [OF assms] Options_rawOptions_eq [OF assms]
        opc_def fn_def md_def ops_def n_def)
  also have "\<dots> = opc @ fn @ [0] @ md @ [0] @ ops"
    unfolding header filename mode options by (simp add: n_def)
  finally show ?thesis
    by (simp add: opc_def fn_def md_def ops_def)
qed

lemma OptionsAcknowledgementPacket_encode_eq:
  assumes "raw_data H"
  shows "OptionsAcknowledgementPacket_encode H p =
    RawData_setInt H (packet_type_int OptionsAcknowledgement) @
    bytes_of_string (wire_options (op_options p))"
  using raw_data.length_setInt [OF assms]
  by (simp add: OptionsAcknowledgementPacket_encode_def Packet_insertHeader_def packet_sizes
      write_at_def Options_rawOptions_eq [OF assms])

lemmas encode_eqs =
  DataPacket_encode_eq AcknowledgementPacket_encode_eq ErrorPacket_encode_eq
  ReadWriteRequestPacket_encode_eq OptionsAcknowledgementPacket_encode_eq


subsection \<open>Every class meets the contract\<close>

text \<open>A string without zero characters survives the trip through its bytes and the split.\<close>

lemma codec_take_append [codec_simps]:
  assumes "raw_data H"
  shows "take 2 (RawData_setInt H v @ bs) = RawData_setInt H v"
    and "drop 2 (RawData_setInt H v @ bs) = bs"
  using raw_data.length_setInt [OF assms, of v] by simp_all

lemma data_codec:
  assumes "raw_data H"
  shows "packet_codec (DataPacket_encode H) (DataPacket_decode H) (\<lambda>p. True)
    (RawData_setInt H (packet_type_int Data))"
proof unfold_locales
  note H = codec_take_append [OF assms] Packet_decodeHeader_apply [OF assms]
    raw_data.getInt_setInt [OF assms] raw_data.length_setInt [OF assms]
  fix p :: data_packet and raw :: bytes and e :: exn
  show "DataPacket_decode H (DataPacket_encode H p) = Inr p"
    by (cases p) (simp add: DataPacket_decode_def DataPacket_encode_eq [OF assms] H codec_simps
        DataPacket_decodeBody_def packet_sizes modify_apply)
  show "take 2 (DataPacket_encode H p) = RawData_setInt H (packet_type_int Data)"
    by (simp add: DataPacket_encode_eq [OF assms] H)
  show "DataPacket_decode H raw = Inr p \<Longrightarrow> take 2 raw = RawData_setInt H (packet_type_int Data)"
    by (auto simp: DataPacket_decode_def codec_simps H split: if_splits)
  show "DataPacket_decode H raw = Inl e \<Longrightarrow> e = InvalidPacketEx"
    by (auto simp: DataPacket_decode_def codec_simps H DataPacket_decodeBody_def cmd_simps
        split: if_splits prod.splits)
qed

lemma ack_codec:
  assumes "raw_data H"
  shows "packet_codec (AcknowledgementPacket_encode H) (AcknowledgementPacket_decode H) (\<lambda>p. True)
    (RawData_setInt H (packet_type_int Acknowledgement))"
proof unfold_locales
  note H = codec_take_append [OF assms] Packet_decodeHeader_apply [OF assms]
    raw_data.getInt_setInt [OF assms, where bs = "[]", simplified] raw_data.length_setInt [OF assms]
  fix p :: ack_packet and raw :: bytes and e :: exn
  show "AcknowledgementPacket_decode H (AcknowledgementPacket_encode H p) = Inr p"
    by (cases p) (simp add: AcknowledgementPacket_decode_def AcknowledgementPacket_encode_eq [OF assms]
        H codec_simps AcknowledgementPacket_decodeBody_def packet_sizes modify_apply)
  show "take 2 (AcknowledgementPacket_encode H p) = RawData_setInt H (packet_type_int Acknowledgement)"
    by (simp add: AcknowledgementPacket_encode_eq [OF assms] H)
  show "AcknowledgementPacket_decode H raw = Inr p \<Longrightarrow>
      take 2 raw = RawData_setInt H (packet_type_int Acknowledgement)"
    by (auto simp: AcknowledgementPacket_decode_def codec_simps H split: if_splits)
  show "AcknowledgementPacket_decode H raw = Inl e \<Longrightarrow> e = InvalidPacketEx"
    by (auto simp: AcknowledgementPacket_decode_def codec_simps H
        AcknowledgementPacket_decodeBody_def cmd_simps split: if_splits prod.splits)
qed


lemma error_codec:
  assumes "raw_data H"
  shows "packet_codec (ErrorPacket_encode H) (ErrorPacket_decode H) (\<lambda>p. True)
    (RawData_setInt H (packet_type_int Error))"
proof unfold_locales
  note H = codec_take_append [OF assms] Packet_decodeHeader_apply [OF assms]
    raw_data.getInt_setInt [OF assms] raw_data.length_setInt [OF assms]
    raw_data.getString [OF assms]
  fix p :: error_packet and raw :: bytes and e :: exn
  show "ErrorPacket_decode H (ErrorPacket_encode H p) = Inr p"
    by (cases p) (simp add: ErrorPacket_decode_def ErrorPacket_encode_eq [OF assms] H codec_simps
        ErrorPacket_decodeBody_def packet_sizes modify_apply)
  show "take 2 (ErrorPacket_encode H p) = RawData_setInt H (packet_type_int Error)"
    by (simp add: ErrorPacket_encode_eq [OF assms] H)
  show "ErrorPacket_decode H raw = Inr p \<Longrightarrow> take 2 raw = RawData_setInt H (packet_type_int Error)"
    by (auto simp: ErrorPacket_decode_def codec_simps H split: if_splits)
  show "ErrorPacket_decode H raw = Inl e \<Longrightarrow> e = InvalidPacketEx"
    by (auto simp: ErrorPacket_decode_def codec_simps H ErrorPacket_decodeBody_def cmd_simps
        split: if_splits prod.splits)
qed

lemma mode_of_mode_string [simp]: "mode_of_string (mode_string m) = m"
  by (cases m) (simp_all add: mode_of_string_def mode_string_def upper_def Let_def)

lemma mode_string_no_NUL [simp]: "NUL \<notin> set (mode_string m)"
  by (cases m) (simp_all add: mode_string_def)

definition wf_request :: "request_packet \<Rightarrow> bool" where
  "wf_request p \<longleftrightarrow> NUL \<notin> set (rq_filename p) \<and> wf_options (rq_options p)"

lemma last_wire_options: "opts \<noteq> [] \<Longrightarrow> last (bytes_of_string (wire_options opts)) = 0"
proof (induction opts)
  case (Cons e opts)
  then show ?case by (cases e; cases opts) auto
qed simp

lemma Options_options_error: "Options_options s = Inl e \<Longrightarrow> e = InvalidPacketEx"
  by (simp add: Options_options_def Options_loop_error)

text \<open>The body of a request, as text: file name, mode, options.\<close>

lemma ReadWriteRequestPacket_decodeBody_apply:
  assumes "raw_data H" "wf_request p"
    and raw: "raw = RawData_setInt H v @ bytes_of_string
      (rq_filename p @ NUL # mode_string (rq_mode p) @ NUL # wire_options (rq_options p))"
  shows "ReadWriteRequestPacket_decodeBody H raw q =
    Inr (q\<lparr>rq_filename := rq_filename p, rq_mode := rq_mode p, rq_options := rq_options p\<rparr>)"
proof -
  let ?s = "rq_filename p @ NUL # mode_string (rq_mode p) @ NUL # wire_options (rq_options p)"
  have body: "drop HeaderSize raw = bytes_of_string ?s"
    by (simp add: raw HeaderSize_def raw_data.length_setInt [OF assms(1)])
  have last: "last (bytes_of_string ?s) = 0"
    using last_wire_options [of "rq_options p"]
    by (cases "rq_options p = []") auto
  have len: "\<not> length raw \<le> HeaderSize"
    by (simp add: raw HeaderSize_def raw_data.length_setInt [OF assms(1)])
  have str: "snd (RawData_getString H (bytes_of_string ?s) (length (bytes_of_string ?s))) = ?s"
    by (simp add: raw_data.getString [OF assms(1)] del: bytes_of_string_append bytes_of_string_Cons)
  have "NUL \<notin> set (rq_filename p)" "Options_options (wire_options (rq_options p)) = Inr (rq_options p)"
    using assms(2) by (simp_all add: wf_request_def Options_options_wire)
  then show ?thesis
    unfolding ReadWriteRequestPacket_decodeBody_def body Let_def str
    by (simp add: last len cmd_simps del: bytes_of_string_append bytes_of_string_Cons)
qed

lemma ReadWriteRequestPacket_decodeBody_error:
  "ReadWriteRequestPacket_decodeBody H raw q = Inl (e, q') \<Longrightarrow> e = InvalidPacketEx"
  by (auto simp: ReadWriteRequestPacket_decodeBody_def Let_def cmd_simps
      split: if_splits option.splits sum.splits prod.splits dest: Options_options_error)

lemma request_codec:
  assumes "raw_data H" and t: "t = ReadRequest \<or> t = WriteRequest"
  shows "packet_codec (ReadWriteRequestPacket_encode H t) (ReadWriteRequestPacket_decode H t)
    wf_request (RawData_setInt H (packet_type_int t))"
proof unfold_locales
  note H = codec_take_append [OF assms(1)] Packet_decodeHeader_apply [OF assms(1)]
    raw_data.length_setInt [OF assms(1)]
  have t': "\<not> (t \<noteq> ReadRequest \<and> t \<noteq> WriteRequest)" using t by auto
  fix p :: request_packet and raw :: bytes and e :: exn
  show "ReadWriteRequestPacket_decode H t (ReadWriteRequestPacket_encode H t p) = Inr p"
    if "wf_request p"
    using t' ReadWriteRequestPacket_decodeBody_apply [OF assms(1) that refl]
    by (cases p) (simp add: ReadWriteRequestPacket_decode_def
        ReadWriteRequestPacket_encode_eq [OF assms(1)] H codec_simps if_not_P [OF t'])
  show "take 2 (ReadWriteRequestPacket_encode H t p) = RawData_setInt H (packet_type_int t)"
    by (simp add: ReadWriteRequestPacket_encode_eq [OF assms(1)] H)
  show "ReadWriteRequestPacket_decode H t raw = Inr p \<Longrightarrow>
      take 2 raw = RawData_setInt H (packet_type_int t)"
    by (auto simp: ReadWriteRequestPacket_decode_def codec_simps H split: if_splits)
  show "ReadWriteRequestPacket_decode H t raw = Inl e \<Longrightarrow> e = InvalidPacketEx"
    by (auto simp: ReadWriteRequestPacket_decode_def codec_simps H cmd_simps
        split: if_splits prod.splits sum.splits dest: ReadWriteRequestPacket_decodeBody_error)
qed

definition wf_oack :: "oack_packet \<Rightarrow> bool" where
  "wf_oack p \<longleftrightarrow> op_options p \<noteq> [] \<and> wf_options (op_options p)"

lemma oack_codec:
  assumes "raw_data H"
  shows "packet_codec (OptionsAcknowledgementPacket_encode H) (OptionsAcknowledgementPacket_decode H)
    wf_oack (RawData_setInt H (packet_type_int OptionsAcknowledgement))"
proof unfold_locales
  note H = codec_take_append [OF assms] Packet_decodeHeader_apply [OF assms]
    raw_data.length_setInt [OF assms] raw_data.getString [OF assms]
  fix p :: oack_packet and raw :: bytes and e :: exn
  show "OptionsAcknowledgementPacket_decode H (OptionsAcknowledgementPacket_encode H p) = Inr p"
    if "wf_oack p"
  proof -
    have "wire_options (op_options p) \<noteq> []"
      using that by (cases "op_options p") (auto simp: wf_oack_def)
    then show ?thesis
      using that by (cases p) (simp add: wf_oack_def OptionsAcknowledgementPacket_decode_def
          OptionsAcknowledgementPacket_encode_eq [OF assms] H codec_simps
          OptionsAcknowledgementPacket_decodeBody_def packet_sizes cmd_simps Options_options_wire)
  qed
  show "take 2 (OptionsAcknowledgementPacket_encode H p) =
      RawData_setInt H (packet_type_int OptionsAcknowledgement)"
    by (simp add: OptionsAcknowledgementPacket_encode_eq [OF assms] H)
  show "OptionsAcknowledgementPacket_decode H raw = Inr p \<Longrightarrow>
      take 2 raw = RawData_setInt H (packet_type_int OptionsAcknowledgement)"
    by (auto simp: OptionsAcknowledgementPacket_decode_def codec_simps H split: if_splits)
  show "OptionsAcknowledgementPacket_decode H raw = Inl e \<Longrightarrow> e = InvalidPacketEx"
    by (auto simp: OptionsAcknowledgementPacket_decode_def codec_simps H cmd_simps
        OptionsAcknowledgementPacket_decodeBody_def Let_def
        split: if_splits prod.splits sum.splits dest: Options_options_error)
qed

text \<open>With the laws of the Helper library every class is a codec.\<close>

sublocale raw_data \<subseteq> data: packet_codec "DataPacket_encode H" "DataPacket_decode H" "\<lambda>p. True"
    "RawData_setInt H (packet_type_int Data)"
  by (rule data_codec) unfold_locales

sublocale raw_data \<subseteq> ack: packet_codec "AcknowledgementPacket_encode H"
    "AcknowledgementPacket_decode H" "\<lambda>p. True" "RawData_setInt H (packet_type_int Acknowledgement)"
  by (rule ack_codec) unfold_locales

sublocale raw_data \<subseteq> error: packet_codec "ErrorPacket_encode H" "ErrorPacket_decode H" "\<lambda>p. True"
    "RawData_setInt H (packet_type_int Error)"
  by (rule error_codec) unfold_locales

sublocale raw_data \<subseteq> rrq: packet_codec "ReadWriteRequestPacket_encode H ReadRequest"
    "ReadWriteRequestPacket_decode H ReadRequest" wf_request
    "RawData_setInt H (packet_type_int ReadRequest)"
  by (rule request_codec) (unfold_locales, simp)

sublocale raw_data \<subseteq> wrq: packet_codec "ReadWriteRequestPacket_encode H WriteRequest"
    "ReadWriteRequestPacket_decode H WriteRequest" wf_request
    "RawData_setInt H (packet_type_int WriteRequest)"
  by (rule request_codec) (unfold_locales, simp)

sublocale raw_data \<subseteq> oack: packet_codec "OptionsAcknowledgementPacket_encode H"
    "OptionsAcknowledgementPacket_decode H" wf_oack
    "RawData_setInt H (packet_type_int OptionsAcknowledgement)"
  by (rule oack_codec) unfold_locales

end
