(* ===== verification/Environment.thy ===== *)
theory Environment
  imports Packets
begin

text \<open>
  What surrounds the protocol code: the enumerations of \<open>Tftp.hpp\<close>, the packet statistics of
  \<open>packets/PacketStatistic.cpp\<close>, and the parts of Boost.Asio the operations call.

  Sockets and timers are not part of this repository. Whether a call on them returns or
  throws \<open>boost::system::system_error\<close> is decided by a parameter \<open>net\<close>, a function of
  everything that happened before; a call is recorded in the \<open>trace\<close> with its outcome. So is
  each run of the completion handler of an operation and of the request handler of a server.
\<close>

subsection \<open>Enumerations of \<open>Tftp.hpp\<close>\<close>

datatype request_type = Read | Write

datatype transfer_status =
    Successful
  | CommunicationError
  | RequestError
  | OptionNegotiationError
  | TransferError
  | Aborted

definition DefaultTftpReceiveTimeout :: int where "DefaultTftpReceiveTimeout = 2"
definition DefaultTftpRetries :: u16 where "DefaultTftpRetries = 1"
definition DefaultTftpPort :: u16 where "DefaultTftpPort = 69"

definition DefaultDataSize :: u16 where "DefaultDataSize = 512"
definition DefaultTftpDataPacketHeaderSize :: u16 where "DefaultTftpDataPacketHeaderSize = 4"
definition DefaultMaxPacketSize :: u16 where
  "DefaultMaxPacketSize = DefaultDataSize + DefaultTftpDataPacketHeaderSize"

definition BlockSizeOptionMin :: u16 where "BlockSizeOptionMin = 8"
definition BlockSizeOptionMax :: u16 where "BlockSizeOptionMax = 65464"
definition TimeoutOptionMin :: u8 where "TimeoutOptionMin = 1"
definition TimeoutOptionMax :: u8 where "TimeoutOptionMax = 255"

subsection \<open>Packet statistics\<close>

type_synonym statistic = "(packet_type, u64 \<times> u64) std_map"

definition PacketStatistic_packet :: "packet_type \<Rightarrow> nat \<Rightarrow> statistic \<Rightarrow> statistic" where
  "PacketStatistic_packet t sz st =
     update_at t (0, 0) (\<lambda>(count, totalSize). (count + 1, totalSize + word_of_nat sz)) st"

definition PacketStatistic_total :: "statistic \<Rightarrow> u64 \<times> u64" where
  "PacketStatistic_total st =
     fold (\<lambda>val total. (fst total + fst (snd val), snd total + snd (snd val))) st (0, 0)"

definition PacketStatistic_reset :: "statistic \<Rightarrow> statistic" where
  "PacketStatistic_reset st = []"

lemma total_fold:
  "fold (\<lambda>val total. (fst total + fst (snd val), snd total + snd (snd val))) st (a, b) =
   (a + sum_list (map (fst \<circ> snd) st), b + sum_list (map (snd \<circ> snd) (st :: statistic)))"
  by (induction st arbitrary: a b) (auto simp: algebra_simps)

lemma PacketStatistic_total_eq:
  "PacketStatistic_total st = (sum_list (map (fst \<circ> snd) st), sum_list (map (snd \<circ> snd) st))"
  by (simp add: PacketStatistic_total_def total_fold)

text \<open>One more packet is one more in the totals, whatever its type.\<close>

lemma PacketStatistic_total_packet:
  "PacketStatistic_total (PacketStatistic_packet t sz st) =
     (fst (PacketStatistic_total st) + 1, snd (PacketStatistic_total st) + word_of_nat sz)"
  unfolding PacketStatistic_total_eq PacketStatistic_packet_def
  by (induction st) (auto simp: algebra_simps split: prod.split)

lemma is_map_PacketStatistic_packet: "is_map st \<Longrightarrow> is_map (PacketStatistic_packet t sz st)"
  by (simp add: PacketStatistic_packet_def is_map_update_at)

subsection \<open>Endpoints\<close>

datatype ip_address = V4 "32 word" | V6 "128 word"

record endpoint =
  ep_address :: ip_address
  ep_port :: u16

fun is_unspecified :: "ip_address \<Rightarrow> bool" where
  "is_unspecified (V4 a) \<longleftrightarrow> a = 0"
| "is_unspecified (V6 a) \<longleftrightarrow> a = 0"

datatype protocol = UdpV4 | UdpV6

fun endpoint_protocol :: "endpoint \<Rightarrow> protocol" where
  "endpoint_protocol e = (case ep_address e of V4 _ \<Rightarrow> UdpV4 | V6 _ \<Rightarrow> UdpV6)"

text \<open>\<open>boost::asio::ip::udp::endpoint{}\<close>.\<close>

definition no_endpoint :: endpoint where
  "no_endpoint = \<lparr>ep_address = V4 0, ep_port = 0\<rparr>"

subsection \<open>Calls to the I/O library\<close>

datatype wait_handler = TimeoutFirst | TimeoutNormal | TimeoutDally

text \<open>The receive calls carry the size of the buffer they are given.\<close>

datatype sys_call =
    SocketOpen protocol
  | SocketBind endpoint
  | SocketConnect endpoint
  | SocketSend bytes
  | SocketSendTo bytes endpoint
  | AsyncReceiveFrom nat
  | AsyncReceive nat
  | ExpiresAfter int
  | AsyncWait wait_handler
  | TimerCancel
  | SocketCancel
  | SocketClose
  | RemoteEndpoint

datatype event =
    Called sys_call bool
  | Completed transfer_status
  | Requested endpoint request_type string transfer_mode tftp_options options

text \<open>The error code a completion token is called with.\<close>

datatype io_error = NoError | OperationAborted | OtherError

record net =
  net_ok :: "event list \<Rightarrow> sys_call \<Rightarrow> bool"
  net_is_open :: "event list \<Rightarrow> bool"

record world =
  trace :: "event list"
  globalTransmit :: statistic
  globalReceive :: statistic

definition system_call :: "net \<Rightarrow> sys_call \<Rightarrow> 'a world_scheme cmd" where
  "system_call N c s =
     (let ok = net_ok N (trace s) c; s' = s\<lparr>trace := trace s @ [Called c ok]\<rparr>
      in if ok then Inr s' else Inl (SystemError, s'))"

definition count_transmit :: "packet_type \<Rightarrow> nat \<Rightarrow> 'a world_scheme cmd" where
  "count_transmit t sz = modify (\<lambda>s. s\<lparr>globalTransmit := PacketStatistic_packet t sz (globalTransmit s)\<rparr>)"

definition count_receive :: "packet_type \<Rightarrow> nat \<Rightarrow> 'a world_scheme cmd" where
  "count_receive t sz = modify (\<lambda>s. s\<lparr>globalReceive := PacketStatistic_packet t sz (globalReceive s)\<rparr>)"

text \<open>A network on which no call fails.\<close>

definition quiet_net :: net where
  "quiet_net = \<lparr>net_ok = (\<lambda>h c. True), net_is_open = (\<lambda>h. True)\<rparr>"

definition never_fails :: "net \<Rightarrow> bool" where
  "never_fails N \<longleftrightarrow> (\<forall>h c. net_ok N h c)"

lemma never_fails_quiet_net [simp]: "never_fails quiet_net"
  by (simp add: never_fails_def quiet_net_def)

lemma system_call_ok [cmd_simps]:
  "net_ok N (trace s) c \<Longrightarrow> system_call N c s = Inr (s\<lparr>trace := trace s @ [Called c True]\<rparr>)"
  by (simp add: system_call_def)

lemma system_call_fails [cmd_simps]:
  "\<not> net_ok N (trace s) c \<Longrightarrow>
   system_call N c s = Inl (SystemError, s\<lparr>trace := trace s @ [Called c False]\<rparr>)"
  by (simp add: system_call_def)

lemma final_system_call:
  "\<exists>ok. final (system_call N c s) = s\<lparr>trace := trace s @ [Called c ok]\<rparr>"
  by (auto simp: system_call_def Let_def)

lemma keeps_system_call:
  "(\<And>s ok. P s \<Longrightarrow> P (s\<lparr>trace := trace s @ [Called c ok]\<rparr>)) \<Longrightarrow> keeps P (system_call N c)"
  by (simp add: keeps_def system_call_def Let_def)

lemma count_transmit_apply [cmd_simps]:
  "count_transmit t sz s =
     Inr (s\<lparr>globalTransmit := PacketStatistic_packet t sz (globalTransmit s)\<rparr>)"
  by (simp add: count_transmit_def modify_def)

lemma count_receive_apply [cmd_simps]:
  "count_receive t sz s =
     Inr (s\<lparr>globalReceive := PacketStatistic_packet t sz (globalReceive s)\<rparr>)"
  by (simp add: count_receive_def modify_def)

subsection \<open>Reading a trace\<close>

text \<open>The datagrams that were sent, and the statuses the completion handler was called with.\<close>

fun sent_by :: "event \<Rightarrow> bytes list" where
  "sent_by (Called (SocketSend b) True) = [b]"
| "sent_by (Called (SocketSendTo b e) True) = [b]"
| "sent_by _ = []"

fun completed_by :: "event \<Rightarrow> transfer_status list" where
  "completed_by (Completed st) = [st]"
| "completed_by _ = []"

definition sent :: "event list \<Rightarrow> bytes list" where
  "sent tr = concat (map sent_by tr)"

definition completions :: "event list \<Rightarrow> transfer_status list" where
  "completions tr = concat (map completed_by tr)"

lemma sent_simps [simp]:
  "sent [] = []" "sent (tr @ tr') = sent tr @ sent tr'" "sent (e # tr) = sent_by e @ sent tr"
  by (simp_all add: sent_def)

lemma completions_simps [simp]:
  "completions [] = []" "completions (tr @ tr') = completions tr @ completions tr'"
  "completions (e # tr) = completed_by e @ completions tr"
  by (simp_all add: completions_def)

text \<open>
  Every \<open>finished\<close> starts with the cancellation of the timer, and nothing else cancels it: an
  operation whose trace has one is being, or has been, ended.
\<close>

definition ended :: "event list \<Rightarrow> bool" where
  "ended tr \<longleftrightarrow> (\<exists>ok. Called TimerCancel ok \<in> set tr)"

lemma ended_append [simp]: "ended (tr @ tr') \<longleftrightarrow> ended tr \<or> ended tr'"
  by (auto simp: ended_def)

lemma ended_simps [simp]:
  "\<not> ended []" "ended (Called TimerCancel ok # tr)"
  "c \<noteq> TimerCancel \<Longrightarrow> ended (Called c ok # tr) = ended tr"
  "ended (Completed st # tr) = ended tr"
  "ended (Requested r t f m opts rest # tr) = ended tr"
  by (auto simp: ended_def)

end
