(* ===== verification/PacketHandler.thy ===== *)
theory PacketHandler
  imports PacketCodec Environment
begin

text \<open>
  \<open>packets/PacketHandler.cpp\<close>: the dispatcher shared by the client operations, the server
  operations and the server. Its pure virtual functions are the fields of a record. A received
  packet is decoded and given to the handler of its type; an \<open>InvalidPacketException\<close>, from
  the decoder or the handler, counts the packet as invalid and calls \<open>invalidPacket\<close>.
\<close>

record 's packet_handler =
  ph_readRequestPacket :: "endpoint \<Rightarrow> request_packet \<Rightarrow> 's cmd"
  ph_writeRequestPacket :: "endpoint \<Rightarrow> request_packet \<Rightarrow> 's cmd"
  ph_dataPacket :: "endpoint \<Rightarrow> data_packet \<Rightarrow> 's cmd"
  ph_acknowledgementPacket :: "endpoint \<Rightarrow> ack_packet \<Rightarrow> 's cmd"
  ph_errorPacket :: "endpoint \<Rightarrow> error_packet \<Rightarrow> 's cmd"
  ph_optionsAcknowledgementPacket :: "endpoint \<Rightarrow> oack_packet \<Rightarrow> 's cmd"
  ph_invalidPacket :: "endpoint \<Rightarrow> bytes \<Rightarrow> 's cmd"

text \<open>The six try blocks differ only in the decoder, the handler and the type counted.\<close>

definition handle_as ::
    "packet_type \<Rightarrow> (exn + 'p) \<Rightarrow> ('p \<Rightarrow> 'a world_scheme cmd) \<Rightarrow> 'a world_scheme cmd \<Rightarrow>
     nat \<Rightarrow> 'a world_scheme cmd" where
  "handle_as t decoded handler invalid sz =
     try_catch (\<lambda>e. e = InvalidPacketEx)
       (block [
          case decoded of Inl e \<Rightarrow> throw e | Inr p \<Rightarrow> handler p,
          count_receive t sz])
       (block [
          count_receive Invalid sz,
          invalid])"

definition PacketHandler_packet ::
    "helper \<Rightarrow> 'a world_scheme packet_handler \<Rightarrow> endpoint \<Rightarrow> bytes \<Rightarrow> 'a world_scheme cmd" where
  "PacketHandler_packet H V remote rawPacket =
     (let sz = length rawPacket; invalid = ph_invalidPacket V remote rawPacket
      in case Packet_packetType H rawPacket of
           ReadRequest \<Rightarrow> handle_as ReadRequest (ReadRequestPacket_decode H rawPacket)
             (ph_readRequestPacket V remote) invalid sz
         | WriteRequest \<Rightarrow> handle_as WriteRequest (WriteRequestPacket_decode H rawPacket)
             (ph_writeRequestPacket V remote) invalid sz
         | Data \<Rightarrow> handle_as Data (DataPacket_decode H rawPacket)
             (ph_dataPacket V remote) invalid sz
         | Acknowledgement \<Rightarrow> handle_as Acknowledgement (AcknowledgementPacket_decode H rawPacket)
             (ph_acknowledgementPacket V remote) invalid sz
         | Error \<Rightarrow> handle_as Error (ErrorPacket_decode H rawPacket)
             (ph_errorPacket V remote) invalid sz
         | OptionsAcknowledgement \<Rightarrow>
             handle_as OptionsAcknowledgement (OptionsAcknowledgementPacket_decode H rawPacket)
             (ph_optionsAcknowledgementPacket V remote) invalid sz
         | Invalid \<Rightarrow> block [count_receive Invalid sz, invalid])"

subsection \<open>Abstract view\<close>

text \<open>Decoding a packet of any type, and calling the handler for it.\<close>

definition Packet_decode :: "helper \<Rightarrow> bytes \<Rightarrow> exn + packet" where
  "Packet_decode H raw =
     (case Packet_packetType H raw of
        ReadRequest \<Rightarrow> map_sum id RRQ (ReadRequestPacket_decode H raw)
      | WriteRequest \<Rightarrow> map_sum id WRQ (WriteRequestPacket_decode H raw)
      | Data \<Rightarrow> map_sum id DATA (DataPacket_decode H raw)
      | Acknowledgement \<Rightarrow> map_sum id ACK (AcknowledgementPacket_decode H raw)
      | Error \<Rightarrow> map_sum id ERR (ErrorPacket_decode H raw)
      | OptionsAcknowledgement \<Rightarrow> map_sum id OACK (OptionsAcknowledgementPacket_decode H raw)
      | Invalid \<Rightarrow> Inl InvalidPacketEx)"

fun call_handler :: "'s packet_handler \<Rightarrow> endpoint \<Rightarrow> packet \<Rightarrow> 's cmd" where
  "call_handler V remote (RRQ p) = ph_readRequestPacket V remote p"
| "call_handler V remote (WRQ p) = ph_writeRequestPacket V remote p"
| "call_handler V remote (DATA p) = ph_dataPacket V remote p"
| "call_handler V remote (ACK p) = ph_acknowledgementPacket V remote p"
| "call_handler V remote (ERR p) = ph_errorPacket V remote p"
| "call_handler V remote (OACK p) = ph_optionsAcknowledgementPacket V remote p"

fun wf_packet :: "packet \<Rightarrow> bool" where
  "wf_packet (RRQ p) \<longleftrightarrow> wf_request p"
| "wf_packet (WRQ p) \<longleftrightarrow> wf_request p"
| "wf_packet (OACK p) \<longleftrightarrow> wf_oack p"
| "wf_packet p \<longleftrightarrow> True"

lemma packetType_encode:
  assumes "raw_data H"
  shows "Packet_packetType H (Packet_encode H p) = packet_packetType p"
proof -
  have "take 2 (Packet_encode H p) = RawData_setInt H (packet_type_int (packet_packetType p))"
    by (cases p) (simp_all add: encode_eqs [OF assms] codec_take_append [OF assms]
        raw_data.length_setInt [OF assms])
  moreover have "packet_packetType p \<noteq> Invalid"
    by (cases p) simp_all
  ultimately show ?thesis
    using Packet_packetType_eq [OF assms] by blast
qed

lemma Packet_decode_encode:
  assumes "raw_data H" and "wf_packet p"
  shows "Packet_decode H (Packet_encode H p) = Inr p"
  unfolding Packet_decode_def packetType_encode [OF assms(1)]
  using assms(2)
  by (cases p)
    (simp_all add: ReadRequestPacket_decode_def WriteRequestPacket_decode_def
      packet_codec.decode_encode [OF request_codec [OF assms(1)]]
      packet_codec.decode_encode [OF data_codec [OF assms(1)]]
      packet_codec.decode_encode [OF ack_codec [OF assms(1)]]
      packet_codec.decode_encode [OF error_codec [OF assms(1)]]
      packet_codec.decode_encode [OF oack_codec [OF assms(1)]])

lemma Packet_decode_type:
  "Packet_decode H raw = Inr p \<Longrightarrow> Packet_packetType H raw = packet_packetType p"
  by (auto simp: Packet_decode_def map_sum_def split: packet_type.splits sum.splits)

lemma Packet_decode_error:
  assumes "raw_data H"
  shows "Packet_decode H raw = Inl e \<Longrightarrow> e = InvalidPacketEx"
  using packet_codec.decode_error [OF request_codec [OF assms], of ReadRequest raw e]
    packet_codec.decode_error [OF request_codec [OF assms], of WriteRequest raw e]
    packet_codec.decode_error [OF data_codec [OF assms], of raw e]
    packet_codec.decode_error [OF ack_codec [OF assms], of raw e]
    packet_codec.decode_error [OF error_codec [OF assms], of raw e]
    packet_codec.decode_error [OF oack_codec [OF assms], of raw e]
  by (auto simp: Packet_decode_def ReadRequestPacket_decode_def WriteRequestPacket_decode_def
      map_sum_def split: packet_type.splits sum.splits)

text \<open>The dispatcher is: decode, call the handler of the type, count.\<close>

lemma PacketHandler_packet_decoded:
  assumes "Packet_decode H raw = Inr p"
  shows "PacketHandler_packet H V remote raw =
    try_catch (\<lambda>e. e = InvalidPacketEx)
      (block [call_handler V remote p, count_receive (packet_packetType p) (length raw)])
      (block [count_receive Invalid (length raw), ph_invalidPacket V remote raw])"
  using assms Packet_decode_type [OF assms]
  by (cases p)
    (auto simp: PacketHandler_packet_def handle_as_def Packet_decode_def map_sum_def Let_def
      split: sum.splits)

lemma map_sum_Inl_iff: "map_sum id f x = Inl e \<longleftrightarrow> x = Inl e"
  by (cases x) simp_all

lemma handle_as_undecodable:
  "handle_as t (Inl InvalidPacketEx) handler invalid n s =
     block [count_receive Invalid n, invalid] s"
  by (simp add: handle_as_def try_catch_def throw_def block.simps(2))

lemma PacketHandler_packet_undecodable:
  assumes "raw_data H" and "Packet_decode H raw = Inl e"
  shows "PacketHandler_packet H V remote raw s =
    block [count_receive Invalid (length raw), ph_invalidPacket V remote raw] s"
proof -
  have e: "e = InvalidPacketEx" by (rule Packet_decode_error [OF assms])
  show ?thesis
    using assms(2) unfolding e
    by (cases "Packet_packetType H raw")
      (simp_all add: PacketHandler_packet_def Packet_decode_def Let_def map_sum_Inl_iff
        handle_as_undecodable)
qed

text \<open>A well-formed packet that its handler accepts is counted once, under its type.\<close>

definition counted :: "packet_type \<Rightarrow> nat \<Rightarrow> 'a world_scheme \<Rightarrow> 'a world_scheme" where
  "counted t n s = s\<lparr>globalReceive := PacketStatistic_packet t n (globalReceive s)\<rparr>"

lemma PacketHandler_packet_encode:
  assumes "raw_data H" and "wf_packet p" and "call_handler V remote p s = Inr s'"
  shows "PacketHandler_packet H V remote (Packet_encode H p) s =
    Inr (counted (packet_packetType p) (length (Packet_encode H p)) s')"
  unfolding PacketHandler_packet_decoded [OF Packet_decode_encode [OF assms(1,2)]]
  using assms(3) by (simp add: try_catch_def counted_def cmd_simps)

text \<open>
  What the handler of the decoded packet establishes, and the counting and the reaction to
  an invalid packet keep, holds after the dispatch.
\<close>

lemma PacketHandler_packet_establishes:
  assumes "raw_data H"
    and "\<And>p. Packet_decode H raw = Inr p \<Longrightarrow> P (final (call_handler V remote p s))"
    and "keeps P (ph_invalidPacket V remote raw)" and "\<And>t n. keeps P (count_receive t n)"
    and "P s"
  shows "P (final (PacketHandler_packet H V remote raw s))"
proof -
  have invalid: "keeps P (block [count_receive Invalid (length raw), ph_invalidPacket V remote raw])"
    using assms(3,4) by (intro keeps_block) auto
  show ?thesis
  proof (cases "Packet_decode H raw")
    case (Inl e)
    show ?thesis
      unfolding PacketHandler_packet_undecodable [OF assms(1) Inl]
      by (rule keepsD [OF invalid assms(5)])
  next
    case (Inr p)
    have *: "P (final (call_handler V remote p s))" by (rule assms(2) [OF Inr])
    have "P (final (block [call_handler V remote p,
        count_receive (packet_packetType p) (length raw)] s))"
      using * keepsD [OF assms(4)]
      by (cases "call_handler V remote p s") (auto simp: block.simps count_receive_apply)
    then show ?thesis
      unfolding PacketHandler_packet_decoded [OF Inr] try_catch_def
      by (auto split: sum.splits dest: keepsD [OF invalid])
  qed
qed

lemma keeps_PacketHandler_packet:
  assumes "\<And>p. keeps P (call_handler V remote p)" and "keeps P (ph_invalidPacket V remote raw)"
    and "\<And>t n. keeps P (count_receive t n)" and "raw_data H"
  shows "keeps P (PacketHandler_packet H V remote raw)"
proof (rule keepsI)
  fix s assume s: "P s"
  show "P (final (PacketHandler_packet H V remote raw s))"
    by (rule PacketHandler_packet_establishes [OF assms(4) keepsD [OF assms(1) s] assms(2,3) s])
qed

end
