(* ===== verification/PacketProperties.thy ===== *)
theory PacketProperties
  imports PacketHandler
begin

text \<open>
  The properties of the packet classes and the dispatcher: the wire format, round trips in
  both directions, the decoders' totality, the option list and its values, the block number,
  the statistics.
\<close>

subsection \<open>Wire format\<close>

text \<open>The layout of RFC 1350 and RFC 2347, as plain concatenation.\<close>

fun wire_format :: "helper \<Rightarrow> packet \<Rightarrow> bytes" where
  "wire_format H (RRQ p) =
     RawData_setInt H 1 @ bytes_of_string (rq_filename p @ [NUL] @ mode_string (rq_mode p) @ [NUL] @
       wire_options (rq_options p))"
| "wire_format H (WRQ p) =
     RawData_setInt H 2 @ bytes_of_string (rq_filename p @ [NUL] @ mode_string (rq_mode p) @ [NUL] @
       wire_options (rq_options p))"
| "wire_format H (DATA p) =
     RawData_setInt H 3 @ RawData_setInt H (blockNumberV (dp_blockNumber p)) @ dp_data p"
| "wire_format H (ACK p) =
     RawData_setInt H 4 @ RawData_setInt H (blockNumberV (ap_blockNumber p))"
| "wire_format H (ERR p) =
     RawData_setInt H 5 @ RawData_setInt H (ep_errorCode p) @ bytes_of_string (ep_errorMessage p @ [NUL])"
| "wire_format H (OACK p) =
     RawData_setInt H 6 @ bytes_of_string (wire_options (op_options p))"

text \<open>C31: The encoders, which write into a zero-initialised buffer at computed offsets, produce
  exactly the packet layout of RFC 1350 and RFC 2347, for every packet of every class.\<close>

theorem encode_wire_format:
  assumes "raw_data H"
  shows "Packet_encode H p = wire_format H p"
  by (cases p) (simp_all add: encode_eqs [OF assms] packet_type_int_def)

theorem encode_wire_format_witness:
  "Packet_encode big_endian_helper (DATA \<lparr>dp_blockNumber = BlockNumber 1, dp_data = [7]\<rparr>) =
   wire_format big_endian_helper (DATA \<lparr>dp_blockNumber = BlockNumber 1, dp_data = [7]\<rparr>)"
  by (rule encode_wire_format) (rule big_endian.raw_data_axioms)

subsection \<open>Round trips\<close>

text \<open>C29: Decoding an encoded packet by its opcode gives the packet back, for every packet whose
  names and option strings hold no zero character (and an OACK with at least one option).\<close>

theorem packet_decode_encode:
  assumes "raw_data H" and "wf_packet p"
  shows "Packet_decode H (Packet_encode H p) = Inr p"
  using assms by (rule Packet_decode_encode)

theorem packet_decode_encode_witness:
  "Packet_decode big_endian_helper (Packet_encode big_endian_helper
     (RRQ \<lparr>rq_filename = ''a'', rq_mode = OCTET, rq_options = [(''blksize'', ''8'')]\<rparr>)) =
   Inr (RRQ \<lparr>rq_filename = ''a'', rq_mode = OCTET, rq_options = [(''blksize'', ''8'')]\<rparr>)"
  by (rule packet_decode_encode)
    (simp_all add: big_endian.raw_data_axioms wf_request_def wf_options_def is_map_def)

lemma split_NUL_no_NUL: "split_NUL s = Some (n, s') \<Longrightarrow> NUL \<notin> set n"
  using split_NUL_SomeD by blast

lemma Options_options_nonempty:
  assumes "Options_options s = Inr opts"
  shows "wf_options opts \<and> (s \<noteq> [] \<longrightarrow> opts \<noteq> [])"
proof (intro conjI impI Options_options_wf [OF assms])
  assume s: "s \<noteq> []"
  obtain kvs where kvs: "no_NULs kvs" "s = wire_options kvs"
    using assms by (auto simp: Options_options_accepts)
  then have "map_find opts = map_of kvs"
    using Options_options_first_wins [OF kvs(1)] assms by auto
  moreover obtain n v kvs' where "kvs = (n, v) # kvs'"
    using kvs(2) s by (cases kvs) auto
  ultimately have "map_find opts n = Some v" by simp
  then show "opts \<noteq> []" by auto
qed

lemma request_decode_wf:
  assumes "ReadWriteRequestPacket_decode H t raw = Inr p"
  shows "wf_request p"
  using assms
  by (auto simp: ReadWriteRequestPacket_decode_def ReadWriteRequestPacket_decodeBody_def
      construct_def cmd_simps Let_def wf_request_def
      split: sum.splits if_splits option.splits
      dest!: split_NUL_no_NUL Options_options_wf)

lemma oack_decode_wf:
  assumes "raw_data H" and "OptionsAcknowledgementPacket_decode H raw = Inr p"
  shows "wf_oack p"
  using assms(2)
  by (auto simp: OptionsAcknowledgementPacket_decode_def OptionsAcknowledgementPacket_decodeBody_def
      construct_def cmd_simps Let_def wf_oack_def raw_data.getString [OF assms(1)]
      split: sum.splits if_splits
      dest!: Options_options_nonempty) (simp_all add: string_of_bytes_def HeaderSize_def)

text \<open>C30: Whatever a decoder accepts is well formed, and encoding it yields a packet that decodes
  to the same value: decoding is idempotent up to the canonical encoding, for every datagram.\<close>

theorem packet_encode_decode:
  assumes "raw_data H" and "Packet_decode H raw = Inr p"
  shows "wf_packet p \<and> Packet_decode H (Packet_encode H p) = Inr p"
proof -
  have "wf_packet p"
    using assms(2) oack_decode_wf [OF assms(1)]
    by (auto simp: Packet_decode_def map_sum_def ReadRequestPacket_decode_def
        WriteRequestPacket_decode_def request_decode_wf
        split: packet_type.splits sum.splits)
  then show ?thesis
    using Packet_decode_encode [OF assms(1)] by simp
qed

theorem packet_encode_decode_witness:
  "wf_packet (ACK \<lparr>ap_blockNumber = BlockNumber 1\<rparr>) \<and>
   Packet_decode big_endian_helper (Packet_encode big_endian_helper (ACK \<lparr>ap_blockNumber = BlockNumber 1\<rparr>)) =
     Inr (ACK \<lparr>ap_blockNumber = BlockNumber 1\<rparr>)"
  by (rule packet_encode_decode [where raw = "[0, 4, 0, 1]"]) (simp add: big_endian.raw_data_axioms, code_simp)

subsection \<open>The dispatcher\<close>

text \<open>Every datagram leads to one handler and is counted once: a decodable packet goes to the
  handler of its type and is counted under that type when the handler returns; one that does
  not decode, or whose handler throws an invalid packet exception, is counted as invalid and
  goes to \<open>invalidPacket\<close>; any other exception of a handler passes through uncounted.\<close>

theorem dispatch_once:
  assumes "raw_data H"
  shows "PacketHandler_packet H V remote raw s =
    (case Packet_decode H raw of
       Inr p \<Rightarrow>
         (case call_handler V remote p s of
            Inr s' \<Rightarrow> Inr (counted (packet_packetType p) (length raw) s')
          | Inl (e, s') \<Rightarrow>
              if e = InvalidPacketEx
              then ph_invalidPacket V remote raw (counted Invalid (length raw) s')
              else Inl (e, s'))
     | Inl e \<Rightarrow> ph_invalidPacket V remote raw (counted Invalid (length raw) s))"
proof (cases "Packet_decode H raw")
  case (Inl e)
  show ?thesis
    unfolding PacketHandler_packet_undecodable [OF assms Inl] Inl
    by (simp add: block.simps count_receive_apply counted_def split: sum.split)
next
  case (Inr p)
  show ?thesis
    unfolding PacketHandler_packet_decoded [OF Inr]
    by (simp add: Inr try_catch_def block.simps count_receive_apply counted_def split: sum.split)
qed

theorem dispatch_once_witness:
  "\<forall>V remote s. PacketHandler_packet big_endian_helper V remote [0, 4, 0, 9] s =
    (case Packet_decode big_endian_helper [0, 4, 0, 9] of
       Inr p \<Rightarrow>
         (case call_handler V remote p s of
            Inr s' \<Rightarrow> Inr (counted (packet_packetType p) (length [0::byte, 4, 0, 9]) s')
          | Inl (e, s') \<Rightarrow>
              if e = InvalidPacketEx
              then ph_invalidPacket V remote [0, 4, 0, 9] (counted Invalid (length [0::byte, 4, 0, 9]) s')
              else Inl (e, s'))
     | Inl e \<Rightarrow> ph_invalidPacket V remote [0, 4, 0, 9] (counted Invalid (length [0::byte, 4, 0, 9]) s))"
  by (intro allI) (rule dispatch_once, rule big_endian.raw_data_axioms)

subsection \<open>Options\<close>

text \<open>C32: The option list of a packet is accepted exactly when it is a sequence of name and value
  strings, each closed by a zero; the result is the map in which the first of several values
  for a name wins.\<close>

theorem options_language:
  "Options_options s = Inr opts \<longleftrightarrow>
     (\<exists>kvs. no_NULs kvs \<and> s = wire_options kvs \<and> is_map opts \<and> map_find opts = map_of kvs)"
proof
  assume s: "Options_options s = Inr opts"
  then obtain kvs where kvs: "no_NULs kvs" "s = wire_options kvs"
    by (auto simp: Options_options_accepts)
  with s show "\<exists>kvs. no_NULs kvs \<and> s = wire_options kvs \<and> is_map opts \<and> map_find opts = map_of kvs"
    using Options_options_first_wins [OF kvs(1)] by auto
next
  assume "\<exists>kvs. no_NULs kvs \<and> s = wire_options kvs \<and> is_map opts \<and> map_find opts = map_of kvs"
  then obtain kvs where kvs: "no_NULs kvs" "s = wire_options kvs" "is_map opts" "map_find opts = map_of kvs"
    by blast
  obtain opts' where "Options_options s = Inr opts'" "is_map opts'" "map_find opts' = map_of kvs"
    using Options_options_first_wins [OF kvs(1)] kvs(2) by auto
  moreover from this kvs have "opts' = opts"
    by (intro find_extensional) auto
  ultimately show "Options_options s = Inr opts" by simp
qed

lemma stoull_to_string_big: "2 ^ 64 \<le> n \<Longrightarrow> stoull (to_string n) = Inl OutOfRange"
  using stoull_digits [of "to_string n" "[]"]
  by (simp add: to_string_digits number_of_digits_to_string)

text \<open>C33: A known option that the peer wrote as a decimal number is accepted exactly when the number
  lies within the bounds, with that number as its value, and is taken out of the list; the
  other options stay.\<close>

theorem option_number:
  assumes "map_find opts name = Some (to_string n)" and "LENGTH('a::len) \<le> 64"
  shows "Options_getOption opts name mn (mx :: 'a word) =
    (if unat mn \<le> n \<and> n \<le> unat mx then (True, Some (word_of_nat n)) else (False, None),
     map_erase name opts)"
proof -
  have small: "unat (ucast x :: u64) = unat x" for x :: "'a word"
  proof -
    have "unat x < 2 ^ LENGTH('a)" by (rule unsigned_less)
    also have "\<dots> \<le> 2 ^ 64" using assms(2) by (intro power_increasing) auto
    finally show ?thesis by (simp add: unsigned_ucast_eq take_bit_nat_eq_self)
  qed
  have max: "unat mx < 2 ^ 64"
    unfolding small [of mx, symmetric] using unsigned_less [of "ucast mx :: u64"] by simp
  show ?thesis
  proof (cases "n < 2 ^ 64")
    case True
    have u: "unat (word_of_nat n :: u64) = n"
      using True by (simp add: unsigned_of_nat take_bit_nat_eq_self)
    have "ucast (word_of_nat n :: u64) = (word_of_nat n :: 'a word)"
      using True by (simp add: unsigned_of_nat take_bit_nat_eq_self)
    then show ?thesis
      using assms(1) True u
      by (auto simp: Options_getOption_def map_extract_def stoull_to_string to_string_nonempty
          word_less_nat_alt small)
  next
    case False
    then show ?thesis
      using assms(1) max
      by (simp add: Options_getOption_def map_extract_def stoull_to_string_big to_string_nonempty)
  qed
qed

theorem option_number_witness:
  "Options_getOption [(''blksize'', ''1024'')] ''blksize'' 8 (65464 :: u16) = ((True, Some 1024), [])"
proof -
  have "to_string 1024 = ''1024''" by code_simp
  then show ?thesis
    using option_number [of "[(''blksize'', ''1024'')]" "''blksize''" 1024 8 "65464 :: u16"]
    by (simp add: find_Cons map_erase_def)
qed

subsection \<open>Block numbers\<close>

text \<open>The block number of the \<open>n\<close>-th block runs through 1 to 65535 and starts over at 1: it is
  never 0, two blocks share a number exactly when they are a multiple of 65535 apart, and
  neighbours differ.\<close>

theorem block_numbers_cycle:
  "(BlockNumber_preincrement ^^ Suc n) (BlockNumber 0) = BlockNumber (word_of_nat (n mod 65535 + 1)) \<and>
   (BlockNumber_preincrement ^^ Suc n) (BlockNumber 0) \<noteq> BlockNumber 0 \<and>
   ((BlockNumber_preincrement ^^ Suc n) (BlockNumber 0) =
      (BlockNumber_preincrement ^^ Suc m) (BlockNumber 0) \<longleftrightarrow> n mod 65535 = m mod 65535) \<and>
   BlockNumber_preincrement ((BlockNumber_preincrement ^^ n) (BlockNumber 0)) \<noteq>
      (BlockNumber_preincrement ^^ n) (BlockNumber 0)"
proof -
  have "blockNumberV (block_at (Suc n)) = word_of_nat (n mod 65535 + 1)"
    using arg_cong [OF unat_block_at [of n], of "word_of_nat :: nat \<Rightarrow> u16"] by simp
  then have "block_at (Suc n) = BlockNumber (word_of_nat (n mod 65535 + 1))"
    by (metis block_number.collapse)
  then show ?thesis
    unfolding block_at_def [symmetric] block_at_Suc [symmetric]
    using block_at_nonzero [of n] block_at_eq_iff [of n m] block_at_Suc_neq [of n] by blast
qed

subsection \<open>Statistics\<close>

text \<open>After a reset, the totals of the statistic are the number of packets counted and the sum
  of their sizes (modulo 2 to the 64), however they were spread over the packet types.\<close>

theorem statistic_totals:
  "PacketStatistic_total (fold (\<lambda>(t, n). PacketStatistic_packet t n) ps (PacketStatistic_reset st)) =
     (word_of_nat (length ps), word_of_nat (sum_list (map snd ps)))"
proof -
  have "PacketStatistic_total (fold (\<lambda>(t, n). PacketStatistic_packet t n) ps st) =
      (fst (PacketStatistic_total st) + word_of_nat (length ps),
       snd (PacketStatistic_total st) + word_of_nat (sum_list (map snd ps)))" for st
    by (induction ps arbitrary: st) (auto simp: PacketStatistic_total_packet algebra_simps)
  then show ?thesis
    by (simp add: PacketStatistic_reset_def PacketStatistic_total_def)
qed

end
