(* ===== verification/OperationFrame.thy ===== *)
theory OperationFrame
  imports PacketHandler
begin

text \<open>
  The contract between the two base classes of operations (\<open>clients/implementation/\<close> and
  \<open>servers/implementation/OperationImpl.cpp\<close>) and the classes derived from them.

  A frame relation \<open>R\<close> links states that differ only in what a base class may change on its
  own: its bookkeeping, the trace and the statistics. A base class calls the virtual
  \<open>finished\<close>, here \<open>F\<close>. A predicate \<open>P\<close> of a derived class that \<open>R\<close> and \<open>F\<close> keep is kept by
  every sequence of base class steps guarded by a handler that ends the operation, whatever
  the network does; and such a sequence leaves the operation running only if nothing but the
  frame changed.
\<close>

type_synonym 's finisher = "transfer_status \<Rightarrow> error_information \<Rightarrow> 's cmd"

text \<open>A step within the frame, which may throw a system error but nothing else.\<close>

definition frame_step :: "('s \<Rightarrow> 's \<Rightarrow> bool) \<Rightarrow> 's cmd \<Rightarrow> 's \<Rightarrow> bool" where
  "frame_step R c s \<longleftrightarrow> R s (final (c s)) \<and> (returned (c s) \<or> (\<exists>s'. c s = Inl (SystemError, s')))"

definition runs_on ::
    "('a world_scheme \<Rightarrow> 'a world_scheme \<Rightarrow> bool) \<Rightarrow> 'a world_scheme cmd \<Rightarrow> 'a world_scheme \<Rightarrow> bool" where
  "runs_on R c s \<longleftrightarrow> (\<forall>s'. c s = Inr s' \<longrightarrow> ended (trace s') \<or> R s s')"

lemma frame_step_modify: "R s (f s) \<Longrightarrow> frame_step R (modify f) s"
  by (simp add: frame_step_def modify_apply)

lemma frame_step_if:
  "(b s \<Longrightarrow> frame_step R c s) \<Longrightarrow> (\<not> b s \<Longrightarrow> frame_step R c' s) \<Longrightarrow>
   frame_step R (\<lambda>s. if b s then c s else c' s) s"
  by (simp add: frame_step_def)

locale frame_relation =
  fixes R :: "'a world_scheme \<Rightarrow> 'a world_scheme \<Rightarrow> bool"
  assumes R_refl: "R s s"
    and R_trans: "R s s1 \<Longrightarrow> R s1 s2 \<Longrightarrow> R s s2"
    and R_call: "R s (s\<lparr>trace := trace s @ [Called c ok]\<rparr>)"
    and R_transmit: "R s (s\<lparr>globalTransmit := st\<rparr>)"
    and R_receive: "R s (s\<lparr>globalReceive := st\<rparr>)"
    and R_ended: "R s s' \<Longrightarrow> ended (trace s) \<Longrightarrow> ended (trace s')"
begin

lemma frame_steps:
  "frame_step R (system_call N c) s" "frame_step R (\<lambda>s. system_call N (c' s) s) s"
  "frame_step R (\<lambda>s. count_transmit (t s) (n s) s) s" "frame_step R (block []) s"
  by (simp_all add: frame_step_def system_call_def Let_def R_call R_refl R_transmit
      count_transmit_apply block.simps)

text \<open>A block of such steps ends within the frame, normally or with a system error.\<close>

lemma frame_block:
  assumes "\<And>c s. c \<in> set cs \<Longrightarrow> frame_step R c s"
  shows "frame_step R (block cs) s"
  using assms
proof (induction cs arbitrary: s)
  case Nil
  show ?case by (rule frame_steps)
next
  case (Cons c cs s)
  have "frame_step R c s" "\<And>s. frame_step R (block cs) s"
    using Cons by auto
  then show ?case
    by (cases "c s") (auto simp: frame_step_def block.simps intro: R_trans)
qed

end

locale operation_frame = frame_relation R for R :: "'a world_scheme \<Rightarrow> 'a world_scheme \<Rightarrow> bool" +
  fixes P :: "'a world_scheme \<Rightarrow> bool"
    and F :: "'a world_scheme finisher"
  assumes frame: "R s s' \<Longrightarrow> P s \<Longrightarrow> P s'"
    and keeps_F: "keeps P (F status info)"
    and ended_F: "P s \<Longrightarrow> ended (trace (final (F status info s)))"
begin

lemma ended_F_Inr: "F status info s = Inr s' \<Longrightarrow> P s \<Longrightarrow> ended (trace s')"
  using ended_F [of s status info] by simp

lemma runs_on_F: "P s \<Longrightarrow> runs_on R (F status info) s"
  by (auto simp: runs_on_def dest: ended_F_Inr)

lemma keeps_frame_step: "(\<And>s. frame_step R c s) \<Longrightarrow> keeps P c"
  by (auto simp: keeps_def frame_step_def intro: frame)

lemma keeps_receive_count: "keeps P (count_receive t n)"
  unfolding count_receive_def by (rule keeps_modify) (rule frame [OF R_receive])

lemma keeps_transmit: "keeps P (count_transmit t n)"
  unfolding count_transmit_def by (rule keeps_modify) (rule frame [OF R_transmit])

subsubsection \<open>\<open>try { steps } catch ( system_error ) { handler }\<close>\<close>

lemma keeps_try:
  assumes "\<And>c s. c \<in> set cs \<Longrightarrow> frame_step R c s" and "keeps P h"
  shows "keeps P (try_catch is_system_error (block cs) h)"
  by (rule keeps_try_catch [OF keeps_frame_step [OF frame_block [OF assms(1)]] assms(2)])

lemma runs_on_try:
  assumes "\<And>c s. c \<in> set cs \<Longrightarrow> frame_step R c s" and "P s"
    and "\<And>s s'. P s \<Longrightarrow> h s = Inr s' \<Longrightarrow> ended (trace s')"
  shows "runs_on R (try_catch is_system_error (block cs) h) s"
  using frame_block [OF assms(1), of cs s] assms(2,3)
  by (cases "block cs s")
    (auto simp: frame_step_def runs_on_def try_catch_def is_system_error_def dest: frame)

text \<open>Only an operation that was ended throws out of it.\<close>

lemma try_throws:
  assumes "\<And>c s. c \<in> set cs \<Longrightarrow> frame_step R c s" and "P s"
    and "try_catch is_system_error (block cs) (F status info) s = Inl (e, s')"
  shows "ended (trace s')"
proof -
  obtain s1 where s1: "block cs s = Inl (SystemError, s1)" "F status info s1 = Inl (e, s')"
    using frame_block [OF assms(1), of cs s] assms(3)
    by (cases "block cs s") (auto simp: frame_step_def try_catch_def is_system_error_def)
  then have "P s1"
    using frame_block [OF assms(1), of cs s] assms(2) by (auto simp: frame_step_def intro: frame)
  from ended_F [OF this, of status info] s1(2) show ?thesis by simp
qed

subsubsection \<open>Completion tokens\<close>

text \<open>Every completion token starts with the same two checks.\<close>

lemma keeps_errors:
  "(errorCode = NoError \<Longrightarrow> keeps P c) \<Longrightarrow>
   keeps P (if errorCode = OperationAborted then block []
     else if errorCode \<noteq> NoError then F CommunicationError None else c)"
  by (auto intro: keeps_F keeps_block)

text \<open>A retransmission.\<close>

lemma keeps_resend:
  assumes "\<And>c s. c \<in> set cs \<Longrightarrow> frame_step R c s"
  shows "keeps P (\<lambda>s. if b s then F CommunicationError None s
     else try_catch is_system_error (block cs) (F CommunicationError None) s)"
  using assms by (intro keeps_fun_if keeps_F keeps_try)

text \<open>
  A packet is dispatched in a state where the predicate holds and the operation runs; the
  handlers of the derived class need to keep the predicate only there.
\<close>

lemma packet_establishes:
  assumes "raw_data H" and "P s" and "\<not> ended (trace s)"
    and "\<And>remote p s. P s \<Longrightarrow> \<not> ended (trace s) \<Longrightarrow> P (final (call_handler V remote p s))"
    and "\<And>remote raw. keeps P (ph_invalidPacket V remote raw)"
  shows "P (final (PacketHandler_packet H V remote raw s))"
  by (rule PacketHandler_packet_establishes
      [OF assms(1) assms(4) [OF assms(2,3)] assms(5) keeps_receive_count assms(2)])

text \<open>The packet is dispatched after a step of the base class that may fail.\<close>

lemma packet_after_establishes:
  assumes "raw_data H" and "P s" and "\<not> ended (trace s)" and "c \<noteq> TimerCancel"
    and "\<And>remote p s. P s \<Longrightarrow> \<not> ended (trace s) \<Longrightarrow> P (final (call_handler V remote p s))"
    and "\<And>remote raw. keeps P (ph_invalidPacket V remote raw)"
    and "\<And>s e. P s \<Longrightarrow> P (final (h e s))"
  shows "P (final (case system_call N c s of
      Inl (e, s') \<Rightarrow> h e s' | Inr s' \<Rightarrow> PacketHandler_packet H V (r s') raw s'))"
proof -
  have "P (s\<lparr>trace := trace s @ [Called c ok]\<rparr>)" for ok
    by (rule frame [OF R_call assms(2)])
  moreover from this have "P (final (PacketHandler_packet H V remote raw
      (s\<lparr>trace := trace s @ [Called c True]\<rparr>)))" for remote
    using assms(3,4) by (intro packet_establishes [OF assms(1) _ _ assms(5,6)]) auto
  ultimately show ?thesis
    using assms(7) by (simp add: system_call_def Let_def)
qed

end

subsection \<open>Calls that succeed\<close>

lemma ok_call [cmd_simps]:
  "never_fails N \<Longrightarrow> system_call N c s = Inr (s\<lparr>trace := trace s @ [Called c True]\<rparr>)"
  by (simp add: never_fails_def system_call_def)

subsection \<open>Retransmission counter\<close>

text \<open>The counter is wider than the retry limit, so that it does not wrap.\<close>

lemma retries_less_counter:
  assumes "n \<le> unat (r :: u16)"
  shows "ucast r < (word_of_nat (Suc n) :: u32) \<longleftrightarrow> unat r \<le> n"
proof -
  have r: "unat r < 65536" by (rule order_less_le_trans [OF unsigned_less]) simp
  have "unat (ucast r :: u32) = unat r"
    using r by (simp add: unsigned_ucast_eq take_bit_nat_eq_self)
  moreover have "unat (word_of_nat (Suc n) :: u32) = Suc n"
    using assms r by (simp add: unsigned_of_nat take_bit_nat_eq_self del: of_nat_Suc)
  ultimately show ?thesis
    by (simp only: word_less_nat_alt less_Suc_eq_le)
qed

end
