(* ===== verification/ClientOperation.thy ===== *)
theory ClientOperation
  imports OperationFrame
begin

text \<open>
  \<open>clients/implementation/OperationImpl.cpp\<close>, the base of the two client operations: socket
  and timer handling, the first exchange with an unconnected socket, retransmission on
  timeout, and the reactions to packets no client operation expects.

  The derived classes extend the record. Their virtual functions are arguments: \<open>F\<close> is
  \<open>finished\<close>, \<open>V\<close> the packet handlers. \<open>N\<close> is the behaviour of the sockets and timers
  (theory \<open>Environment\<close>), \<open>H\<close> the Helper library. A completion token is called with an
  error code, the bytes of the datagram (the front part of \<open>receivePacketV\<close>) and, for the
  first reception, the endpoint that Asio stored in \<open>receiveEndpointV\<close>.
\<close>

record client_op = world +
  co_receiveTimeoutV :: int
  co_tftpRetriesV :: u16
  co_completionHandlerV :: bool
  co_remoteV :: endpoint
  co_localV :: endpoint
  co_receivePacketSize :: nat
  co_receiveEndpointV :: endpoint
  co_transmitPacketV :: bytes
  co_transmitCounterV :: u32
  co_errorInformationV :: error_information

subsection \<open>Setters\<close>

definition ClientOperation_tftpTimeout :: "int \<Rightarrow> 'a client_op_scheme cmd" where
  "ClientOperation_tftpTimeout timeout = modify (\<lambda>s. s\<lparr>co_receiveTimeoutV := timeout\<rparr>)"

definition ClientOperation_tftpRetries :: "u16 \<Rightarrow> 'a client_op_scheme cmd" where
  "ClientOperation_tftpRetries retries = modify (\<lambda>s. s\<lparr>co_tftpRetriesV := retries\<rparr>)"

definition ClientOperation_remote :: "endpoint \<Rightarrow> 'a client_op_scheme cmd" where
  "ClientOperation_remote remote = modify (\<lambda>s. s\<lparr>co_remoteV := remote\<rparr>)"

definition ClientOperation_local :: "endpoint \<Rightarrow> 'a client_op_scheme cmd" where
  "ClientOperation_local local = modify (\<lambda>s. s\<lparr>co_localV := local\<rparr>)"

definition ClientOperation_completionHandler :: "bool \<Rightarrow> 'a client_op_scheme cmd" where
  "ClientOperation_completionHandler handler = modify (\<lambda>s. s\<lparr>co_completionHandlerV := handler\<rparr>)"

definition ClientOperation_maxReceivePacketSize :: "u16 \<Rightarrow> 'a client_op_scheme cmd" where
  "ClientOperation_maxReceivePacketSize sz = modify (\<lambda>s. s\<lparr>co_receivePacketSize := unat sz\<rparr>)"

definition ClientOperation_receiveTimeout :: "int \<Rightarrow> 'a client_op_scheme cmd" where
  "ClientOperation_receiveTimeout t = modify (\<lambda>s. s\<lparr>co_receiveTimeoutV := t\<rparr>)"

subsection \<open>Start and end of an operation\<close>

definition ClientOperation_finished :: "net \<Rightarrow> 'a client_op_scheme finisher" where
  "ClientOperation_finished N status info =
     block [
       modify (\<lambda>s. s\<lparr>co_errorInformationV := info\<rparr>),
       system_call N TimerCancel,
       system_call N SocketCancel,
       system_call N SocketClose,
       \<lambda>s. if co_completionHandlerV s then modify (\<lambda>s. s\<lparr>trace := trace s @ [Completed status]\<rparr>) s
           else block [] s]"

definition ClientOperation_initialise ::
    "net \<Rightarrow> 'a client_op_scheme finisher \<Rightarrow> 'a client_op_scheme cmd" where
  "ClientOperation_initialise N F =
     try_catch is_system_error
       (block [
          modify (\<lambda>s. s\<lparr>co_receiveEndpointV := no_endpoint\<rparr>),
          \<lambda>s. system_call N (SocketOpen (endpoint_protocol (co_remoteV s))) s,
          \<lambda>s. if \<not> is_unspecified (ep_address (co_localV s))
              then system_call N (SocketBind (co_localV s)) s else block [] s])
       (block [
          \<lambda>s. if net_is_open N (trace s) then system_call N SocketClose s else block [] s,
          F CommunicationError None])"

subsection \<open>Sending\<close>

definition ClientOperation_sendFirst ::
    "helper \<Rightarrow> net \<Rightarrow> 'a client_op_scheme finisher \<Rightarrow> packet \<Rightarrow> 'a client_op_scheme cmd" where
  "ClientOperation_sendFirst H N F packet =
     try_catch is_system_error
       (block [
          modify (\<lambda>s. s\<lparr>co_transmitCounterV := 1\<rparr>),
          modify (\<lambda>s. s\<lparr>co_transmitPacketV := Packet_encode H packet\<rparr>),
          \<lambda>s. count_transmit (packet_packetType packet) (length (co_transmitPacketV s)) s,
          \<lambda>s. system_call N (SocketSendTo (co_transmitPacketV s) (co_remoteV s)) s])
       (F CommunicationError None)"

definition ClientOperation_send ::
    "helper \<Rightarrow> net \<Rightarrow> 'a client_op_scheme finisher \<Rightarrow> packet \<Rightarrow> 'a client_op_scheme cmd" where
  "ClientOperation_send H N F packet =
     try_catch is_system_error
       (block [
          modify (\<lambda>s. s\<lparr>co_transmitCounterV := 1\<rparr>),
          modify (\<lambda>s. s\<lparr>co_transmitPacketV := Packet_encode H packet\<rparr>),
          \<lambda>s. count_transmit (packet_packetType packet) (length (co_transmitPacketV s)) s,
          \<lambda>s. system_call N (SocketSend (co_transmitPacketV s)) s])
       (F CommunicationError None)"

text \<open>An error packet is built, sent, and the operation finished with its information.\<close>

definition ClientOperation_reject ::
    "helper \<Rightarrow> net \<Rightarrow> 'a client_op_scheme finisher \<Rightarrow> transfer_status \<Rightarrow> error_code \<Rightarrow> string \<Rightarrow>
     'a client_op_scheme cmd" where
  "ClientOperation_reject H N F status code msg =
     (let errorPacket = \<lparr>ep_errorCode = code, ep_errorMessage = msg\<rparr>
      in block [
           ClientOperation_send H N F (ERR errorPacket),
           F status (ErrorPacket_errorInformation errorPacket)])"

definition ClientOperation_gracefulAbort ::
    "helper \<Rightarrow> net \<Rightarrow> 'a client_op_scheme finisher \<Rightarrow> error_code \<Rightarrow> string \<Rightarrow>
     'a client_op_scheme cmd" where
  "ClientOperation_gracefulAbort H N F code msg =
     (let errorPacket = \<lparr>ep_errorCode = code, ep_errorMessage = msg\<rparr>
      in block [
           \<lambda>s. if co_receiveEndpointV s \<noteq> no_endpoint
               then ClientOperation_send H N F (ERR errorPacket) s else block [] s,
           F Aborted (ErrorPacket_errorInformation errorPacket)])"

definition ClientOperation_abort :: "'a client_op_scheme finisher \<Rightarrow> 'a client_op_scheme cmd" where
  "ClientOperation_abort F = F Aborted None"

subsection \<open>Starting to receive\<close>

definition ClientOperation_receiveFirst ::
    "net \<Rightarrow> 'a client_op_scheme finisher \<Rightarrow> 'a client_op_scheme cmd" where
  "ClientOperation_receiveFirst N F =
     try_catch is_system_error
       (block [
          \<lambda>s. system_call N (AsyncReceiveFrom (co_receivePacketSize s)) s,
          \<lambda>s. system_call N (ExpiresAfter (co_receiveTimeoutV s)) s,
          system_call N (AsyncWait TimeoutFirst)])
       (F CommunicationError None)"

definition ClientOperation_receive ::
    "net \<Rightarrow> 'a client_op_scheme finisher \<Rightarrow> 'a client_op_scheme cmd" where
  "ClientOperation_receive N F =
     try_catch is_system_error
       (block [
          \<lambda>s. system_call N (AsyncReceive (co_receivePacketSize s)) s,
          \<lambda>s. system_call N (ExpiresAfter (co_receiveTimeoutV s)) s,
          system_call N (AsyncWait TimeoutNormal)])
       (F CommunicationError None)"

definition ClientOperation_receiveDally ::
    "net \<Rightarrow> 'a client_op_scheme finisher \<Rightarrow> 'a client_op_scheme cmd" where
  "ClientOperation_receiveDally N F =
     try_catch is_system_error
       (block [
          \<lambda>s. system_call N (AsyncReceive (co_receivePacketSize s)) s,
          \<lambda>s. system_call N (ExpiresAfter (2 * co_receiveTimeoutV s)) s,
          system_call N (AsyncWait TimeoutDally)])
       (F CommunicationError None)"

subsection \<open>Packets no client operation expects, and errors\<close>

definition ClientOperation_readRequestPacket ::
    "helper \<Rightarrow> net \<Rightarrow> 'a client_op_scheme finisher \<Rightarrow> endpoint \<Rightarrow> request_packet \<Rightarrow>
     'a client_op_scheme cmd" where
  "ClientOperation_readRequestPacket H N F remote p =
     ClientOperation_reject H N F TransferError IllegalTftpOperation ''RRQ not expected''"

definition ClientOperation_writeRequestPacket ::
    "helper \<Rightarrow> net \<Rightarrow> 'a client_op_scheme finisher \<Rightarrow> endpoint \<Rightarrow> request_packet \<Rightarrow>
     'a client_op_scheme cmd" where
  "ClientOperation_writeRequestPacket H N F remote p =
     ClientOperation_reject H N F TransferError IllegalTftpOperation ''WRQ not expected''"

definition ClientOperation_errorPacket ::
    "helper \<Rightarrow> 'a client_op_scheme finisher \<Rightarrow> endpoint \<Rightarrow> error_packet \<Rightarrow>
     'a client_op_scheme cmd" where
  "ClientOperation_errorPacket H F remote p =
     (\<lambda>s. if Packet_packetType H (co_transmitPacketV s) \<in> {ReadRequest, WriteRequest}
          then if ep_errorCode p = TftpOptionRefused
               then F OptionNegotiationError (ErrorPacket_errorInformation p) s
               else F RequestError (ErrorPacket_errorInformation p) s
          else F TransferError (ErrorPacket_errorInformation p) s)"

definition ClientOperation_invalidPacket ::
    "helper \<Rightarrow> net \<Rightarrow> 'a client_op_scheme finisher \<Rightarrow> endpoint \<Rightarrow> bytes \<Rightarrow>
     'a client_op_scheme cmd" where
  "ClientOperation_invalidPacket H N F remote rawPacket =
     ClientOperation_reject H N F TransferError IllegalTftpOperation
       ''Invalid packet isn't expected''"

subsection \<open>Completion of a reception\<close>

definition ClientOperation_receiveFirstHandler ::
    "helper \<Rightarrow> net \<Rightarrow> 'a client_op_scheme finisher \<Rightarrow> 'a client_op_scheme packet_handler \<Rightarrow>
     io_error \<Rightarrow> endpoint \<Rightarrow> bytes \<Rightarrow> 'a client_op_scheme cmd" where
  "ClientOperation_receiveFirstHandler H N F V errorCode sender rawPacket =
     (if errorCode = OperationAborted then block []
      else if errorCode \<noteq> NoError then F CommunicationError None
      else block [
        modify (\<lambda>s. s\<lparr>co_receiveEndpointV := sender\<rparr>),
        \<lambda>s. if ep_address (co_remoteV s) \<noteq> ep_address (co_receiveEndpointV s)
            then
              (let rawError = Packet_encode H (ERR \<lparr>ep_errorCode = UnknownTransferId,
                                                  ep_errorMessage = ''Packet from wrong source''\<rparr>)
               in block [
                 try_catch is_system_error
                   (block [
                      count_transmit Error (length rawError),
                      \<lambda>s. system_call N (SocketSendTo rawError (co_receiveEndpointV s)) s])
                   (block []),
                 try_catch is_system_error
                   (\<lambda>s. system_call N (AsyncReceiveFrom (co_receivePacketSize s)) s)
                   (F CommunicationError None)]) s
            else
              (case system_call N (SocketConnect (co_receiveEndpointV s)) s of
                 Inl (e, s') \<Rightarrow> if is_system_error e then F CommunicationError None s' else Inl (e, s')
               | Inr s' \<Rightarrow> PacketHandler_packet H V (co_receiveEndpointV s') rawPacket s')])"

definition ClientOperation_receiveHandler ::
    "helper \<Rightarrow> 'a client_op_scheme finisher \<Rightarrow> 'a client_op_scheme packet_handler \<Rightarrow>
     io_error \<Rightarrow> bytes \<Rightarrow> 'a client_op_scheme cmd" where
  "ClientOperation_receiveHandler H F V errorCode rawPacket =
     (if errorCode = OperationAborted then block []
      else if errorCode \<noteq> NoError then F CommunicationError None
      else (\<lambda>s. PacketHandler_packet H V (co_receiveEndpointV s) rawPacket s))"

subsection \<open>Expiry of the timer\<close>

definition ClientOperation_timeoutFirstHandler ::
    "helper \<Rightarrow> net \<Rightarrow> 'a client_op_scheme finisher \<Rightarrow> io_error \<Rightarrow> 'a client_op_scheme cmd" where
  "ClientOperation_timeoutFirstHandler H N F errorCode =
     (if errorCode = OperationAborted then block []
      else if errorCode \<noteq> NoError then F CommunicationError None
      else (\<lambda>s.
        if ucast (co_tftpRetriesV s) < co_transmitCounterV s then F CommunicationError None s
        else try_catch is_system_error
          (block [
             \<lambda>s. count_transmit (Packet_packetType H (co_transmitPacketV s))
                   (length (co_transmitPacketV s)) s,
             \<lambda>s. system_call N (SocketSendTo (co_transmitPacketV s) (co_remoteV s)) s,
             modify (\<lambda>s. s\<lparr>co_transmitCounterV := co_transmitCounterV s + 1\<rparr>),
             \<lambda>s. system_call N (ExpiresAfter (co_receiveTimeoutV s)) s,
             system_call N (AsyncWait TimeoutFirst)])
          (F CommunicationError None) s))"

definition ClientOperation_timeoutHandler ::
    "helper \<Rightarrow> net \<Rightarrow> 'a client_op_scheme finisher \<Rightarrow> io_error \<Rightarrow> 'a client_op_scheme cmd" where
  "ClientOperation_timeoutHandler H N F errorCode =
     (if errorCode = OperationAborted then block []
      else if errorCode \<noteq> NoError then F CommunicationError None
      else (\<lambda>s.
        if ucast (co_tftpRetriesV s) < co_transmitCounterV s then F CommunicationError None s
        else try_catch is_system_error
          (block [
             \<lambda>s. count_transmit (Packet_packetType H (co_transmitPacketV s))
                   (length (co_transmitPacketV s)) s,
             \<lambda>s. system_call N (SocketSend (co_transmitPacketV s)) s,
             modify (\<lambda>s. s\<lparr>co_transmitCounterV := co_transmitCounterV s + 1\<rparr>),
             \<lambda>s. system_call N (ExpiresAfter (co_receiveTimeoutV s)) s,
             system_call N (AsyncWait TimeoutNormal)])
          (F CommunicationError None) s))"

definition ClientOperation_timeoutDallyHandler ::
    "'a client_op_scheme finisher \<Rightarrow> io_error \<Rightarrow> 'a client_op_scheme cmd" where
  "ClientOperation_timeoutDallyHandler F errorCode =
     (if errorCode = OperationAborted then block []
      else if errorCode \<noteq> NoError then F CommunicationError None
      else F Successful None)"

lemma ClientOperation_finished_final:
  "\<exists>ok tr. final (ClientOperation_finished N status info s) =
     s\<lparr>co_errorInformationV := info, trace := trace s @ Called TimerCancel ok # tr\<rparr>"
  by (auto simp: ClientOperation_finished_def block.simps modify_apply system_call_def Let_def)

subsection \<open>Events\<close>

text \<open>
  What an operation is called with once it runs: the completion tokens, and the two ways its
  user ends it.
\<close>

datatype client_input =
    FirstReceived io_error endpoint bytes
  | Received io_error bytes
  | FirstTimeout io_error
  | NormalTimeout io_error
  | DallyTimeout io_error
  | GracefulAbort error_code string
  | Abort

fun ClientOperation_on ::
    "helper \<Rightarrow> net \<Rightarrow> 'a client_op_scheme finisher \<Rightarrow> 'a client_op_scheme packet_handler \<Rightarrow>
     client_input \<Rightarrow> 'a client_op_scheme cmd" where
  "ClientOperation_on H N F V (FirstReceived e sender raw) =
     ClientOperation_receiveFirstHandler H N F V e sender raw"
| "ClientOperation_on H N F V (Received e raw) = ClientOperation_receiveHandler H F V e raw"
| "ClientOperation_on H N F V (FirstTimeout e) = ClientOperation_timeoutFirstHandler H N F e"
| "ClientOperation_on H N F V (NormalTimeout e) = ClientOperation_timeoutHandler H N F e"
| "ClientOperation_on H N F V (DallyTimeout e) = ClientOperation_timeoutDallyHandler F e"
| "ClientOperation_on H N F V (GracefulAbort code msg) = ClientOperation_gracefulAbort H N F code msg"
| "ClientOperation_on H N F V Abort = ClientOperation_abort F"

text \<open>A socket that was closed completes no reception successfully.\<close>

fun delivers :: "client_input \<Rightarrow> bool" where
  "delivers (FirstReceived e sender raw) \<longleftrightarrow> e = NoError"
| "delivers (Received e raw) \<longleftrightarrow> e = NoError"
| "delivers _ \<longleftrightarrow> False"

subsection \<open>Contract with the derived classes\<close>

text \<open>
  The base class touches only its own fields, and of those neither the configuration nor the
  size of the receive buffer, which only setters change.
\<close>

definition same_frame :: "'a client_op_scheme \<Rightarrow> 'a client_op_scheme \<Rightarrow> bool" where
  "same_frame s s' \<longleftrightarrow>
     (\<exists>tr. trace s' = trace s @ tr) \<and>
     client_op.more s' = client_op.more s \<and>
     co_receivePacketSize s' = co_receivePacketSize s \<and>
     co_receiveTimeoutV s' = co_receiveTimeoutV s \<and>
     co_tftpRetriesV s' = co_tftpRetriesV s \<and>
     co_completionHandlerV s' = co_completionHandlerV s \<and>
     co_remoteV s' = co_remoteV s \<and>
     co_localV s' = co_localV s"

interpretation client_relation: frame_relation same_frame
  by unfold_locales (auto simp: same_frame_def)

locale client_frame = operation_frame same_frame P F
  for P :: "'a client_op_scheme \<Rightarrow> bool" and F :: "'a client_op_scheme finisher"
begin

lemma modify_steps:
  "frame_step same_frame (modify (\<lambda>s. s\<lparr>co_receiveEndpointV := e\<rparr>)) s"
  "frame_step same_frame (modify (\<lambda>s. s\<lparr>co_transmitPacketV := b\<rparr>)) s"
  "frame_step same_frame (modify (\<lambda>s. s\<lparr>co_transmitCounterV := n\<rparr>)) s"
  "frame_step same_frame (modify (\<lambda>s. s\<lparr>co_transmitCounterV := co_transmitCounterV s + 1\<rparr>)) s"
  by (rule frame_step_modify, simp add: same_frame_def)+

lemmas steps = client_relation.frame_steps modify_steps frame_step_if

lemmas try_defs =
  ClientOperation_sendFirst_def ClientOperation_send_def ClientOperation_receiveFirst_def
  ClientOperation_receive_def ClientOperation_receiveDally_def

lemma keeps_steps:
  "keeps P (ClientOperation_sendFirst H N F p)"
  "keeps P (ClientOperation_send H N F p)"
  "keeps P (ClientOperation_receiveFirst N F)"
  "keeps P (ClientOperation_receive N F)"
  "keeps P (ClientOperation_receiveDally N F)"
  unfolding try_defs by (rule keeps_try; auto intro!: steps keeps_F)+

lemma runs_on_steps:
  assumes "P s"
  shows "runs_on same_frame (ClientOperation_sendFirst H N F p) s"
    and "runs_on same_frame (ClientOperation_send H N F p) s"
    and "runs_on same_frame (ClientOperation_receiveFirst N F) s"
    and "runs_on same_frame (ClientOperation_receive N F) s"
    and "runs_on same_frame (ClientOperation_receiveDally N F) s"
  unfolding try_defs by (rule runs_on_try [OF _ assms]; auto intro!: steps dest: ended_F_Inr)+

lemma send_throws:
  assumes "ClientOperation_send H N F p s = Inl (e, s')" and "P s"
  shows "ended (trace s')"
  using assms(1) unfolding ClientOperation_send_def
  by (rule try_throws [OF _ assms(2), rotated]) (auto intro!: steps)

lemma keeps_close:
  "keeps P (block [\<lambda>s. if net_is_open N (trace s) then system_call N SocketClose s else block [] s,
     F CommunicationError None])"
  by (rule keeps_block) (auto intro!: keeps_F steps intro: keeps_frame_step)

lemma close_ends:
  assumes "P s" and "block [\<lambda>s. if net_is_open N (trace s) then system_call N SocketClose s
     else block [] s, F CommunicationError None] s = Inr s'"
  shows "ended (trace s')"
  using assms frame [OF client_relation.R_call [of s SocketClose] assms(1)]
  by (auto simp: block.simps system_call_def Let_def dest: ended_F_Inr split: if_splits sum.splits)

lemma keeps_initialise: "keeps P (ClientOperation_initialise N F)"
  unfolding ClientOperation_initialise_def
  by (rule keeps_try [OF _ keeps_close]) (auto intro!: steps)

lemma runs_on_initialise: "P s \<Longrightarrow> runs_on same_frame (ClientOperation_initialise N F) s"
  unfolding ClientOperation_initialise_def
  by (rule runs_on_try; auto intro!: steps dest: close_ends)

lemma keeps_reject: "keeps P (ClientOperation_reject H N F status code msg)"
  unfolding ClientOperation_reject_def Let_def
  by (intro keeps_block) (auto intro: keeps_steps keeps_F)

lemma keeps_gracefulAbort: "keeps P (ClientOperation_gracefulAbort H N F code msg)"
  unfolding ClientOperation_gracefulAbort_def Let_def
  by (intro keeps_block) (auto intro!: keeps_steps keeps_F keeps_fun_if keeps_block)

lemma keeps_abort: "keeps P (ClientOperation_abort F)"
  unfolding ClientOperation_abort_def by (rule keeps_F)

lemma keeps_errorPacket: "keeps P (ClientOperation_errorPacket H F remote p)"
  unfolding ClientOperation_errorPacket_def
  by (intro keeps_fun_if keeps_F)

lemma keeps_timeouts:
  "keeps P (ClientOperation_timeoutFirstHandler H N F errorCode)"
  "keeps P (ClientOperation_timeoutHandler H N F errorCode)"
  "keeps P (ClientOperation_timeoutDallyHandler F errorCode)"
  unfolding ClientOperation_timeoutFirstHandler_def ClientOperation_timeoutHandler_def
    ClientOperation_timeoutDallyHandler_def
  by (rule keeps_errors, (rule keeps_resend | rule keeps_F); auto intro!: steps)+

lemma receiveHandler_establishes:
  assumes "raw_data H" and "P s" and "errorCode = NoError \<Longrightarrow> \<not> ended (trace s)"
    and "\<And>remote p s. P s \<Longrightarrow> \<not> ended (trace s) \<Longrightarrow> P (final (call_handler V remote p s))"
    and "\<And>remote raw. keeps P (ph_invalidPacket V remote raw)"
  shows "P (final (ClientOperation_receiveHandler H F V errorCode raw s))"
  using assms packet_establishes [OF assms(1,2) _ assms(4,5)] keepsD [OF keeps_F assms(2)]
  by (auto simp: ClientOperation_receiveHandler_def block.simps)

lemma keeps_wrong_source:
  "keeps P (block [
        try_catch is_system_error
          (block [count_transmit Error n, \<lambda>s. system_call N (SocketSendTo b (co_receiveEndpointV s)) s])
          (block []),
        try_catch is_system_error
          (\<lambda>s. system_call N (AsyncReceiveFrom (co_receivePacketSize s)) s)
          (F CommunicationError None)])"
  by (rule keeps_block)
    (auto intro!: keeps_try_catch keeps_block keeps_F keeps_transmit steps intro: keeps_frame_step)

lemma receiveFirstHandler_establishes:
  assumes "raw_data H" and "P s" and "errorCode = NoError \<Longrightarrow> \<not> ended (trace s)"
    and "\<And>remote p s. P s \<Longrightarrow> \<not> ended (trace s) \<Longrightarrow> P (final (call_handler V remote p s))"
    and "\<And>remote raw. keeps P (ph_invalidPacket V remote raw)"
  shows "P (final (ClientOperation_receiveFirstHandler H N F V errorCode sender raw s))"
proof (cases "errorCode = NoError")
  case False
  then have "keeps P (ClientOperation_receiveFirstHandler H N F V errorCode sender raw)"
    unfolding ClientOperation_receiveFirstHandler_def by (intro keeps_errors) simp
  then show ?thesis using assms(2) by (rule keepsD)
next
  case True
  define s1 where "s1 = s\<lparr>co_receiveEndpointV := sender\<rparr>"
  have "same_frame s s1" by (simp add: s1_def same_frame_def)
  from frame [OF this assms(2)] have s1: "P s1" "\<not> ended (trace s1)"
    using assms(3) True by (auto simp: s1_def)
  have "P (final (case system_call N (SocketConnect (co_receiveEndpointV s1)) s1 of
      Inl (e, s') \<Rightarrow> if is_system_error e then F CommunicationError None s' else Inl (e, s')
    | Inr s' \<Rightarrow> PacketHandler_packet H V (co_receiveEndpointV s') raw s'))"
    by (rule packet_after_establishes [OF assms(1) s1 _ assms(4,5)])
      (simp_all add: keepsD [OF keeps_F])
  with keepsD [OF keeps_wrong_source s1(1)] True show ?thesis
    by (simp add: ClientOperation_receiveFirstHandler_def block_modify Let_def flip: s1_def)
qed

lemma on_establishes:
  assumes "raw_data H" and "P s" and "delivers input \<Longrightarrow> \<not> ended (trace s)"
    and "\<And>remote p s. P s \<Longrightarrow> \<not> ended (trace s) \<Longrightarrow> P (final (call_handler V remote p s))"
    and "\<And>remote raw. keeps P (ph_invalidPacket V remote raw)"
  shows "P (final (ClientOperation_on H N F V input s))"
  using assms receiveFirstHandler_establishes [OF assms(1,2) _ assms(4,5)]
    receiveHandler_establishes [OF assms(1,2) _ assms(4,5)]
  by (cases input)
    (auto intro: keepsD [OF keeps_timeouts(1)] keepsD [OF keeps_timeouts(2)]
      keepsD [OF keeps_timeouts(3)] keepsD [OF keeps_gracefulAbort] keepsD [OF keeps_abort])

end

lemmas client_frame_F = operation_frame.keeps_F [OF client_frame.axioms]
lemmas client_frame_ended = operation_frame.ended_F [OF client_frame.axioms]
lemmas client_frame_ended_Inr = operation_frame.ended_F_Inr [OF client_frame.axioms]

subsection \<open>Operations on a network that accepts every call\<close>

text \<open>
  What \<open>send\<close>, \<open>sendFirst\<close>, the receive operations and \<open>finished\<close> do to the state when no
  call fails.
\<close>

definition client_sent :: "helper \<Rightarrow> packet \<Rightarrow> (bytes \<Rightarrow> 'a client_op_scheme \<Rightarrow> sys_call) \<Rightarrow>
    'a client_op_scheme \<Rightarrow> 'a client_op_scheme" where
  "client_sent H p call s =
     (let raw = Packet_encode H p
      in s\<lparr>co_transmitCounterV := 1, co_transmitPacketV := raw,
           globalTransmit := PacketStatistic_packet (packet_packetType p) (length raw) (globalTransmit s),
           trace := trace s @ [Called (call raw s) True]\<rparr>)"

definition client_waiting :: "wait_handler \<Rightarrow> 'a client_op_scheme \<Rightarrow> 'a client_op_scheme" where
  "client_waiting w s =
     s\<lparr>trace := trace s @
       [Called ((if w = TimeoutFirst then AsyncReceiveFrom else AsyncReceive) (co_receivePacketSize s)) True,
        Called (ExpiresAfter ((if w = TimeoutDally then 2 else 1) * co_receiveTimeoutV s)) True,
        Called (AsyncWait w) True]\<rparr>"

definition client_finished ::
    "transfer_status \<Rightarrow> error_information \<Rightarrow> 'a client_op_scheme \<Rightarrow> 'a client_op_scheme" where
  "client_finished status info s =
     s\<lparr>co_errorInformationV := info,
       trace := trace s @ [Called TimerCancel True, Called SocketCancel True, Called SocketClose True] @
         (if co_completionHandlerV s then [Completed status] else [])\<rparr>"

lemmas client_state_defs = client_sent_def client_waiting_def client_finished_def

lemma client_send_ok [cmd_simps]:
  "never_fails N \<Longrightarrow> ClientOperation_send H N F p s = Inr (client_sent H p (\<lambda>b s. SocketSend b) s)"
  by (simp add: ClientOperation_send_def try_catch_def client_sent_def Let_def cmd_simps)

lemma client_sendFirst_ok [cmd_simps]:
  "never_fails N \<Longrightarrow> ClientOperation_sendFirst H N F p s =
     Inr (client_sent H p (\<lambda>b s. SocketSendTo b (co_remoteV s)) s)"
  by (simp add: ClientOperation_sendFirst_def try_catch_def client_sent_def Let_def cmd_simps)

lemma client_receive_ok [cmd_simps]:
  assumes "never_fails N"
  shows "ClientOperation_receiveFirst N F s = Inr (client_waiting TimeoutFirst s)"
    and "ClientOperation_receive N F s = Inr (client_waiting TimeoutNormal s)"
    and "ClientOperation_receiveDally N F s = Inr (client_waiting TimeoutDally s)"
  using assms
  by (simp_all add: ClientOperation_receiveFirst_def ClientOperation_receive_def
      ClientOperation_receiveDally_def try_catch_def client_waiting_def cmd_simps)

lemma client_finished_ok [cmd_simps]:
  "never_fails N \<Longrightarrow> ClientOperation_finished N status info s = Inr (client_finished status info s)"
  by (simp add: ClientOperation_finished_def client_finished_def cmd_simps)

text \<open>The freshly opened socket, bound if a local address is set.\<close>

abbreviation client_opened :: "'a client_op_scheme \<Rightarrow> 'a client_op_scheme" where
  "client_opened s \<equiv>
     s\<lparr>co_receiveEndpointV := no_endpoint,
       trace := trace s @ [Called (SocketOpen (endpoint_protocol (co_remoteV s))) True] @
       (if is_unspecified (ep_address (co_localV s)) then []
        else [Called (SocketBind (co_localV s)) True])\<rparr>"

lemma ClientOperation_initialise_ok [cmd_simps]:
  "never_fails N \<Longrightarrow> ClientOperation_initialise N F s = Inr (client_opened s)"
  by (simp add: ClientOperation_initialise_def try_catch_def cmd_simps)

lemma client_sent_simps [simp]:
  "client_op.more (client_sent H p c s) = client_op.more s"
  "co_transmitPacketV (client_sent H p c s) = Packet_encode H p"
  "co_transmitCounterV (client_sent H p c s) = 1"
  "co_receiveEndpointV (client_sent H p c s) = co_receiveEndpointV s"
  "co_completionHandlerV (client_sent H p c s) = co_completionHandlerV s"
  "co_errorInformationV (client_sent H p c s) = co_errorInformationV s"
  "co_receivePacketSize (client_sent H p c s) = co_receivePacketSize s"
  "co_remoteV (client_sent H p c s) = co_remoteV s"
  "co_tftpRetriesV (client_sent H p c s) = co_tftpRetriesV s"
  "trace (client_sent H p c s) = trace s @ [Called (c (Packet_encode H p) s) True]"
  by (simp_all add: client_sent_def Let_def)

lemma client_waiting_simps [simp]:
  "client_op.more (client_waiting w s) = client_op.more s"
  "co_transmitPacketV (client_waiting w s) = co_transmitPacketV s"
  "co_transmitCounterV (client_waiting w s) = co_transmitCounterV s"
  "co_receiveEndpointV (client_waiting w s) = co_receiveEndpointV s"
  "co_completionHandlerV (client_waiting w s) = co_completionHandlerV s"
  "co_errorInformationV (client_waiting w s) = co_errorInformationV s"
  "co_receivePacketSize (client_waiting w s) = co_receivePacketSize s"
  "co_remoteV (client_waiting w s) = co_remoteV s"
  "co_tftpRetriesV (client_waiting w s) = co_tftpRetriesV s"
  "sent (trace (client_waiting w s)) = sent (trace s)"
  "completions (trace (client_waiting w s)) = completions (trace s)"
  by (simp_all add: client_waiting_def)

lemma client_finished_simps [simp]:
  "client_op.more (client_finished st i s) = client_op.more s"
  "co_errorInformationV (client_finished st i s) = i"
  "co_transmitPacketV (client_finished st i s) = co_transmitPacketV s"
  "co_completionHandlerV (client_finished st i s) = co_completionHandlerV s"
  "sent (trace (client_finished st i s)) = sent (trace s)"
  "completions (trace (client_finished st i s)) =
     completions (trace s) @ (if co_completionHandlerV s then [st] else [])"
  by (simp_all add: client_finished_def)

subsection \<open>Retransmission\<close>

text \<open>The two timeout handlers differ in the call that sends and in the handler they wait with.\<close>

definition client_resent :: "helper \<Rightarrow> (bytes \<Rightarrow> 'a client_op_scheme \<Rightarrow> sys_call) \<Rightarrow> wait_handler \<Rightarrow>
    'a client_op_scheme \<Rightarrow> 'a client_op_scheme" where
  "client_resent H call w s =
     s\<lparr>globalTransmit := PacketStatistic_packet (Packet_packetType H (co_transmitPacketV s))
           (length (co_transmitPacketV s)) (globalTransmit s),
       co_transmitCounterV := co_transmitCounterV s + 1,
       trace := trace s @ [Called (call (co_transmitPacketV s) s) True,
         Called (ExpiresAfter (co_receiveTimeoutV s)) True, Called (AsyncWait w) True]\<rparr>"

definition resends :: "helper \<Rightarrow> 'a client_op_scheme finisher \<Rightarrow> 'a client_op_scheme cmd \<Rightarrow> bool" where
  "resends H F T \<longleftrightarrow>
     (\<exists>call w. (\<forall>b s. sent_by (Called (call b s) True) = [b]) \<and>
        (\<forall>s. T s = (if ucast (co_tftpRetriesV s) < co_transmitCounterV s
               then F CommunicationError None s else Inr (client_resent H call w s))))"

lemma client_timeouts_resends:
  assumes "never_fails N"
  shows "resends H F (ClientOperation_timeoutFirstHandler H N F NoError)"
    and "resends H F (ClientOperation_timeoutHandler H N F NoError)"
proof -
  show "resends H F (ClientOperation_timeoutFirstHandler H N F NoError)"
    using assms unfolding resends_def
    by (intro exI [of _ "\<lambda>b s. SocketSendTo b (co_remoteV s)"] exI [of _ TimeoutFirst])
      (simp add: ClientOperation_timeoutFirstHandler_def try_catch_def client_resent_def cmd_simps)
  show "resends H F (ClientOperation_timeoutHandler H N F NoError)"
    using assms unfolding resends_def
    by (intro exI [of _ "\<lambda>b s. SocketSend b"] exI [of _ TimeoutNormal])
      (simp add: ClientOperation_timeoutHandler_def try_catch_def client_resent_def cmd_simps)
qed

lemma client_timeouts_resend:
  assumes "resends H F T" and "co_transmitCounterV s = 1" and "n \<le> unat (co_tftpRetriesV s)"
  shows "\<exists>s'. block (replicate n T) s = Inr s' \<and>
    co_transmitCounterV s' = word_of_nat (Suc n) \<and> co_tftpRetriesV s' = co_tftpRetriesV s \<and>
    co_transmitPacketV s' = co_transmitPacketV s \<and> client_op.more s' = client_op.more s \<and>
    sent (trace s') = sent (trace s) @ replicate n (co_transmitPacketV s) \<and>
    completions (trace s') = completions (trace s)"
  using assms(3)
proof (induction n)
  case 0
  then show ?case using assms(2) by (simp add: block.simps)
next
  case (Suc n)
  then obtain s' where s': "block (replicate n T) s = Inr s'"
      "co_transmitCounterV s' = word_of_nat (Suc n)" "co_tftpRetriesV s' = co_tftpRetriesV s"
      "co_transmitPacketV s' = co_transmitPacketV s" "client_op.more s' = client_op.more s"
      "sent (trace s') = sent (trace s) @ replicate n (co_transmitPacketV s)"
      "completions (trace s') = completions (trace s)"
    by auto
  obtain call w where call: "\<forall>b s. sent_by (Called (call b s) True) = [b]"
      "\<forall>s. T s = (if ucast (co_tftpRetriesV s) < co_transmitCounterV s
         then F CommunicationError None s else Inr (client_resent H call w s))"
    using assms(1) by (auto simp: resends_def)
  have "\<not> ucast (co_tftpRetriesV s') < co_transmitCounterV s'"
    using Suc.prems s'(2,3) retries_less_counter [of n "co_tftpRetriesV s"] by simp
  then have "T s' = Inr (client_resent H call w s')"
    using call(2) by simp
  then have "block (replicate (Suc n) T) s = Inr (client_resent H call w s')"
    by (simp only: replicate_Suc replicate_append_same [symmetric] block_append s'(1)
        block.simps sum.case)
  then show ?case
    using s' call(1)
    by (simp add: client_resent_def replicate_append_same del: block.simps)
qed

text \<open>With the retries used up, the next expiry ends the operation.\<close>

lemma client_timeouts_give_up:
  assumes "resends H F T" and "co_transmitCounterV s' = word_of_nat (Suc (unat (co_tftpRetriesV s')))"
  shows "T s' = F CommunicationError None s'"
  using assms retries_less_counter [of "unat (co_tftpRetriesV s')" "co_tftpRetriesV s'"]
  by (auto simp: resends_def)

end
