(* ===== verification/DataHandler.thy ===== *)
theory DataHandler
  imports Prelude
begin

text \<open>
  \<open>DataHandler.hpp\<close>, \<open>ReceiveDataHandler.hpp\<close>, \<open>TransmitDataHandler.hpp\<close>: the callback
  classes through which an operation hands received data to its user and asks for data to
  send. The virtual functions are the fields of a record over the state of the implementing
  object. Only \<open>start\<close> may throw, as in every implementation under \<open>files/\<close>.

  The locales state what an implementation promises: a sink stores what it receives in order
  and starts empty; a source hands out its content from front to back. A source called until
  it returns a short block yields exactly the blocks of its content.
\<close>

record 'h receive_handler =
  rh_start :: "'h cmd"
  rh_finished :: "'h \<Rightarrow> 'h"
  rh_receivedTransferSize :: "u64 \<Rightarrow> 'h \<Rightarrow> bool \<times> 'h"
  rh_receivedData :: "bytes \<Rightarrow> 'h \<Rightarrow> 'h"

record 'h transmit_handler =
  th_start :: "'h cmd"
  th_finished :: "'h \<Rightarrow> 'h"
  th_requestedTransferSize :: "'h \<Rightarrow> u64 option \<times> 'h"
  th_sendData :: "nat \<Rightarrow> 'h \<Rightarrow> bytes \<times> 'h"

subsection \<open>Blocks of a content\<close>

text \<open>The data of block \<open>i\<close> (counted from zero), and the index of the last, short block.\<close>

definition chunk :: "nat \<Rightarrow> bytes \<Rightarrow> nat \<Rightarrow> bytes" where
  "chunk n xs i = take n (drop (i * n) xs)"

definition last_chunk :: "nat \<Rightarrow> bytes \<Rightarrow> nat" where
  "last_chunk n xs = length xs div n"

lemma length_chunk_le: "length (chunk n xs i) \<le> n"
  by (simp add: chunk_def)

lemma length_chunk:
  assumes "0 < n"
  shows "length (chunk n xs i) < n \<longleftrightarrow> last_chunk n xs \<le> i"
proof -
  have "length (chunk n xs i) < n \<longleftrightarrow> length xs < (i + 1) * n"
    using assms by (auto simp: chunk_def)
  also have "\<dots> \<longleftrightarrow> length xs div n < i + 1"
    using assms by (simp add: div_less_iff_less_mult)
  finally show ?thesis
    by (auto simp: last_chunk_def)
qed

lemma take_Suc_chunk: "take (Suc i * n) xs = take (i * n) xs @ chunk n xs i"
  by (metis add.commute chunk_def mult_Suc take_add)

lemma take_last_chunk: "0 < n \<Longrightarrow> take (Suc (last_chunk n xs) * n) xs = xs"
  using dividend_less_div_times [of n "length xs"]
  by (simp add: last_chunk_def add.commute less_imp_le)

subsection \<open>Interfaces\<close>

locale data_sink =
  fixes D :: "'h receive_handler"
    and sink :: "'h \<Rightarrow> bool"
    and ready :: "'h \<Rightarrow> bool"
    and contents :: "'h \<Rightarrow> bytes"
  assumes start_sink: "sink h \<Longrightarrow> rh_start D h = Inr h' \<Longrightarrow> ready h' \<and> contents h' = []"
    and receivedData_sink: "ready h \<Longrightarrow>
          ready (rh_receivedData D d h) \<and> contents (rh_receivedData D d h) = contents h @ d"
    and receivedTransferSize_sink: "ready h \<Longrightarrow>
          ready (snd (rh_receivedTransferSize D sz h)) \<and>
          contents (snd (rh_receivedTransferSize D sz h)) = contents h"
    and finished_sink: "contents (rh_finished D h) = contents h"
begin

text \<open>Whatever the sequence of calls, the content is the concatenation of the data.\<close>

lemma receive_all:
  "ready h \<Longrightarrow> ready (fold (rh_receivedData D) ds h) \<and>
     contents (fold (rh_receivedData D) ds h) = contents h @ concat ds"
  by (induction ds arbitrary: h) (auto simp: receivedData_sink)

end

locale data_source =
  fixes S :: "'h transmit_handler"
    and content :: "'h \<Rightarrow> bytes"
    and rest :: "'h \<Rightarrow> bytes"
  assumes start_source: "th_start S h = Inr h' \<Longrightarrow> rest h' = content h"
    and requestedTransferSize_source: "rest (snd (th_requestedTransferSize S h)) = rest h"
    and sendData_source: "fst (th_sendData S n h) = take n (rest h)"
    and sendData_rest: "rest (snd (th_sendData S n h)) = drop n (rest h)"
begin

definition after :: "nat \<Rightarrow> nat \<Rightarrow> 'h \<Rightarrow> 'h" where
  "after n i h = ((\<lambda>h. snd (th_sendData S n h)) ^^ i) h"

lemma rest_after: "rest (after n i h) = drop (i * n) (rest h)"
  by (induction i) (simp_all add: after_def sendData_rest add.commute)

text \<open>The \<open>i\<close>-th call returns the \<open>i\<close>-th block.\<close>

lemma sendData_after: "fst (th_sendData S n (after n i h)) = chunk n (rest h) i"
  by (simp add: sendData_source rest_after chunk_def)

lemma sendData_concat:
  "0 < n \<Longrightarrow>
   concat (map (\<lambda>i. fst (th_sendData S n (after n i h))) [0..<Suc (last_chunk n (rest h))]) = rest h"
proof -
  assume n: "0 < n"
  have "concat (map (\<lambda>i. fst (th_sendData S n (after n i h))) [0..<k]) = take (k * n) (rest h)" for k
    by (induction k) (simp_all add: sendData_after take_Suc_chunk [simplified])
  from this [of "Suc (last_chunk n (rest h))"] n show ?thesis
    by (simp only: take_last_chunk)
qed

end

end
