(* ===== verification/Configuration.thy ===== *)
theory Configuration
  imports Environment
begin

text \<open>
  \<open>TftpOptionsConfiguration.hpp\<close> and \<open>TftpConfiguration.hpp\<close>: what the user configures,
  and the checks of the known options of an OACK against it. The two client operations make
  these checks with the same code, up to when a transfer size is expected: the first message
  says why the options are refused, otherwise the value and the remaining options come back.
\<close>

record options_configuration =
  oc_handleTransferSizeOption :: bool
  oc_blockSizeOption :: "u16 option"
  oc_timeoutOption :: "int option"

definition TftpOptionsConfiguration_default :: options_configuration where
  "TftpOptionsConfiguration_default =
     \<lparr>oc_handleTransferSizeOption = False, oc_blockSizeOption = None, oc_timeoutOption = None\<rparr>"

record configuration =
  tc_tftpTimeout :: int
  tc_tftpRetries :: u16
  tc_tftpServerPort :: u16
  tc_dally :: bool
  tc_defaultTftpPort :: u16

definition TftpConfiguration_make :: "u16 \<Rightarrow> configuration" where
  "TftpConfiguration_make defaultTftpPort =
     \<lparr>tc_tftpTimeout = DefaultTftpReceiveTimeout, tc_tftpRetries = DefaultTftpRetries,
      tc_tftpServerPort = defaultTftpPort, tc_dally = False, tc_defaultTftpPort = defaultTftpPort\<rparr>"

definition TftpConfiguration_assign :: "configuration \<Rightarrow> configuration \<Rightarrow> configuration" where
  "TftpConfiguration_assign other c =
     c\<lparr>tc_tftpTimeout := tc_tftpTimeout other, tc_tftpRetries := tc_tftpRetries other,
       tc_tftpServerPort := tc_tftpServerPort other, tc_dally := tc_dally other\<rparr>"

text \<open>A default of a client or a server, applied to an operation if it is set.\<close>

definition set_default :: "'a option \<Rightarrow> ('a \<Rightarrow> 's cmd) \<Rightarrow> 's cmd" where
  "set_default value setter = (case value of None \<Rightarrow> block [] | Some v \<Rightarrow> setter v)"

text \<open>A handler for the options that are not known which is content when there are none.\<close>

definition accepts_no_options :: "(options \<Rightarrow> bool \<times> options) option \<Rightarrow> bool" where
  "accepts_no_options handler \<longleftrightarrow> (case handler of None \<Rightarrow> True | Some n \<Rightarrow> n [] = (True, []))"

lemma accepts_no_options_simps [simp]:
  "accepts_no_options None" "accepts_no_options (Some n) \<longleftrightarrow> n [] = (True, [])"
  by (simp_all add: accepts_no_options_def)

subsection \<open>Checks on the options of an OACK\<close>

definition negotiate_blockSize ::
    "options_configuration \<Rightarrow> options \<Rightarrow> string + u16 option \<times> options" where
  "negotiate_blockSize cfg opts =
     (let ((blockSizeValid, blockSizeValue), remoteOptions) =
            Options_getOption opts (TftpOptions_name BlockSize) BlockSizeOptionMin BlockSizeOptionMax
      in if oc_blockSizeOption cfg = None \<and> blockSizeValue \<noteq> None
         then Inl ''Block Size Option not expected''
         else if \<not> blockSizeValid
         then Inl ''Block Size Option decoding failed''
         else case (blockSizeValue, oc_blockSizeOption cfg) of
             (Some v, Some b) \<Rightarrow>
               if v > b then Inl ''Block size Option negotiation failed''
               else Inr (Some v, remoteOptions)
           | _ \<Rightarrow> Inr (None, remoteOptions))"

definition negotiate_timeout ::
    "options_configuration \<Rightarrow> options \<Rightarrow> string + u8 option \<times> options" where
  "negotiate_timeout cfg opts =
     (let ((timeoutValid, timeoutValue), remoteOptions) =
            Options_getOption opts (TftpOptions_name Timeout) TimeoutOptionMin TimeoutOptionMax
      in if oc_timeoutOption cfg = None \<and> timeoutValue \<noteq> None
         then Inl ''Timeout Option isn't expected''
         else if \<not> timeoutValid
         then Inl ''Timeout Option decoding failed''
         else case (timeoutValue, oc_timeoutOption cfg) of
             (Some v, Some t) \<Rightarrow>
               if uint v \<noteq> t then Inl ''Timeout option not equal to requested''
               else Inr (Some v, remoteOptions)
           | _ \<Rightarrow> Inr (None, remoteOptions))"

definition negotiate_transferSize ::
    "bool \<Rightarrow> options \<Rightarrow> string + u64 option \<times> options" where
  "negotiate_transferSize expected opts =
     (let ((transferSizeValid, transferSizeValue), remoteOptions) =
            Options_getOption opts (TftpOptions_name TransferSize) 0 (- 1)
      in if \<not> expected \<and> transferSizeValue \<noteq> None
         then Inl ''Transfer Size Option isn't expected''
         else if \<not> transferSizeValid
         then Inl ''Transfer Size Option decoding failed''
         else Inr (transferSizeValue, remoteOptions))"

lemma negotiate_blockSize_bounds:
  assumes "negotiate_blockSize cfg opts = Inr (Some v, rest)"
  shows "\<exists>b. oc_blockSizeOption cfg = Some b \<and> BlockSizeOptionMin \<le> v \<and> v \<le> b \<and> v \<le> BlockSizeOptionMax"
proof -
  obtain valid b where "fst (Options_getOption opts (TftpOptions_name BlockSize) BlockSizeOptionMin
      BlockSizeOptionMax) = (valid, Some v)" "oc_blockSizeOption cfg = Some b" "v \<le> b"
    using assms
    by (auto simp: negotiate_blockSize_def Let_def not_less
        split: prod.splits if_splits option.splits)
  then show ?thesis
    using Options_getOption_bounds [of opts "TftpOptions_name BlockSize" BlockSizeOptionMin
        BlockSizeOptionMax valid v] by simp
qed

lemma negotiate_timeout_value:
  assumes "negotiate_timeout cfg opts = Inr (Some v, rest)"
  shows "oc_timeoutOption cfg = Some (uint v) \<and> 1 \<le> uint v"
proof -
  obtain valid where "fst (Options_getOption opts (TftpOptions_name Timeout) TimeoutOptionMin
      TimeoutOptionMax) = (valid, Some v)" "oc_timeoutOption cfg = Some (uint v)"
    using assms
    by (auto simp: negotiate_timeout_def Let_def split: prod.splits if_splits option.splits)
  then show ?thesis
    using Options_getOption_bounds [of opts "TftpOptions_name Timeout" TimeoutOptionMin
        TimeoutOptionMax valid v] by (simp add: TimeoutOptionMin_def word_le_def)
qed

lemma negotiate_rest:
  "negotiate_blockSize cfg opts = Inr (b, rest) \<Longrightarrow> rest = map_erase (TftpOptions_name BlockSize) opts"
  "negotiate_timeout cfg opts = Inr (t, rest) \<Longrightarrow> rest = map_erase (TftpOptions_name Timeout) opts"
  "negotiate_transferSize e opts = Inr (sz, rest) \<Longrightarrow>
     rest = map_erase (TftpOptions_name TransferSize) opts"
  using Options_getOption_rest [of opts "TftpOptions_name BlockSize" BlockSizeOptionMin BlockSizeOptionMax]
    Options_getOption_rest [of opts "TftpOptions_name Timeout" TimeoutOptionMin TimeoutOptionMax]
    Options_getOption_rest [of opts "TftpOptions_name TransferSize" "0 :: u64" "- 1"]
  unfolding negotiate_blockSize_def negotiate_timeout_def negotiate_transferSize_def
  by (auto simp: Let_def simp del: Options_getOption_rest
      split: prod.splits if_splits option.splits)

text \<open>An option that was not asked for is refused, whatever its value.\<close>

lemma negotiate_asked:
  "negotiate_blockSize cfg opts = Inr (b, rest) \<Longrightarrow> map_find opts (TftpOptions_name BlockSize) \<noteq> None \<Longrightarrow>
     oc_blockSizeOption cfg \<noteq> None"
  "negotiate_timeout cfg opts = Inr (t, rest) \<Longrightarrow> map_find opts (TftpOptions_name Timeout) \<noteq> None \<Longrightarrow>
     oc_timeoutOption cfg \<noteq> None"
  "negotiate_transferSize expected opts = Inr (sz, rest) \<Longrightarrow>
     map_find opts (TftpOptions_name TransferSize) \<noteq> None \<Longrightarrow> expected"
  using Options_getOption_present [of opts "TftpOptions_name BlockSize" BlockSizeOptionMin BlockSizeOptionMax]
    Options_getOption_present [of opts "TftpOptions_name Timeout" TimeoutOptionMin TimeoutOptionMax]
    Options_getOption_present [of opts "TftpOptions_name TransferSize" "0 :: u64" "- 1"]
  unfolding negotiate_blockSize_def negotiate_timeout_def negotiate_transferSize_def
  by (auto simp: Let_def split: prod.splits if_splits option.splits)

text \<open>If nothing is left after the three checks, every option was asked for.\<close>

lemma negotiate_all_asked:
  assumes "negotiate_blockSize cfg opts = Inr (b, opts1)" and "negotiate_timeout cfg opts1 = Inr (t, opts2)"
    and "negotiate_transferSize expected opts2 = Inr (sz, [])" and "map_find opts name \<noteq> None"
  shows "(name = TftpOptions_name BlockSize \<and> oc_blockSizeOption cfg \<noteq> None) \<or>
    (name = TftpOptions_name Timeout \<and> oc_timeoutOption cfg \<noteq> None) \<or>
    (name = TftpOptions_name TransferSize \<and> expected)"
proof -
  have rest: "opts1 = map_erase (TftpOptions_name BlockSize) opts"
      "opts2 = map_erase (TftpOptions_name Timeout) opts1"
      "[] = map_erase (TftpOptions_name TransferSize) opts2"
    using negotiate_rest assms(1-3) by blast+
  have "map_find (map_erase (TftpOptions_name TransferSize) opts2) name = None"
    using rest(3) by (metis find_Nil)
  then show ?thesis
    using negotiate_asked(1) [OF assms(1)] negotiate_asked(2) [OF assms(2)]
      negotiate_asked(3) [OF assms(3)] assms(4) rest(1,2)
    by (auto simp: find_map_erase split: if_splits)
qed

end
