(* ===== verification/ClientRead.thy ===== *)
theory ClientRead
  imports ClientOperation DataHandler Configuration
begin

text \<open>
  \<open>clients/implementation/ReadOperationImpl.cpp\<close>: the client's download. The state extends
  that of the base class; \<open>'h\<close> is the state of the data handler and \<open>D\<close> its virtual
  functions. \<open>cr_dataHandlerV\<close> is \<open>None\<close> for the null pointer, whose dereference is
  undefined. The option negotiation handler returns its verdict and the options it leaves in
  the list it was given.
\<close>

record 'h client_read = client_op +
  cr_optionsConfigurationV :: options_configuration
  cr_additionalOptionsV :: options
  cr_optionNegotiationHandlerV :: "(options \<Rightarrow> bool \<times> options) option"
  cr_dataHandlerV :: "'h option"
  cr_filenameV :: string
  cr_modeV :: transfer_mode
  cr_dallyV :: bool
  cr_oackReceived :: bool
  cr_receiveDataSize :: u16
  cr_lastReceivedBlockNumber :: block_number

definition ClientRead_new :: "world \<Rightarrow> 'h client_read" where
  "ClientRead_new w =
     \<lparr>trace = trace w, globalTransmit = globalTransmit w, globalReceive = globalReceive w,
      co_receiveTimeoutV = DefaultTftpReceiveTimeout, co_tftpRetriesV = DefaultTftpRetries,
      co_completionHandlerV = False, co_remoteV = no_endpoint, co_localV = no_endpoint,
      co_receivePacketSize = unat DefaultMaxPacketSize, co_receiveEndpointV = no_endpoint,
      co_transmitPacketV = [], co_transmitCounterV = 0, co_errorInformationV = None,
      cr_optionsConfigurationV = TftpOptionsConfiguration_default, cr_additionalOptionsV = [],
      cr_optionNegotiationHandlerV = None, cr_dataHandlerV = None, cr_filenameV = [],
      cr_modeV = InvalidMode, cr_dallyV = False, cr_oackReceived = False,
      cr_receiveDataSize = DefaultDataSize, cr_lastReceivedBlockNumber = BlockNumber 0\<rparr>"

subsection \<open>Setters\<close>

definition ClientRead_dally :: "bool \<Rightarrow> 'h client_read cmd" where
  "ClientRead_dally dally = modify (\<lambda>s. s\<lparr>cr_dallyV := dally\<rparr>)"

definition ClientRead_optionsConfiguration :: "options_configuration \<Rightarrow> 'h client_read cmd" where
  "ClientRead_optionsConfiguration cfg =
     block [
       modify (\<lambda>s. s\<lparr>cr_optionsConfigurationV := cfg\<rparr>),
       \<lambda>s. ClientOperation_maxReceivePacketSize
             (DefaultTftpDataPacketHeaderSize +
              max DefaultDataSize
                (case oc_blockSizeOption (cr_optionsConfigurationV s) of
                   None \<Rightarrow> DefaultDataSize | Some b \<Rightarrow> b)) s]"

definition ClientRead_additionalOptions :: "options \<Rightarrow> 'h client_read cmd" where
  "ClientRead_additionalOptions opts = modify (\<lambda>s. s\<lparr>cr_additionalOptionsV := opts\<rparr>)"

definition ClientRead_optionNegotiationHandler ::
    "(options \<Rightarrow> bool \<times> options) option \<Rightarrow> 'h client_read cmd" where
  "ClientRead_optionNegotiationHandler handler =
     modify (\<lambda>s. s\<lparr>cr_optionNegotiationHandlerV := handler\<rparr>)"

definition ClientRead_dataHandler :: "'h option \<Rightarrow> 'h client_read cmd" where
  "ClientRead_dataHandler handler = modify (\<lambda>s. s\<lparr>cr_dataHandlerV := handler\<rparr>)"

definition ClientRead_filename :: "string \<Rightarrow> 'h client_read cmd" where
  "ClientRead_filename filename = modify (\<lambda>s. s\<lparr>cr_filenameV := filename\<rparr>)"

definition ClientRead_mode :: "transfer_mode \<Rightarrow> 'h client_read cmd" where
  "ClientRead_mode mode = modify (\<lambda>s. s\<lparr>cr_modeV := mode\<rparr>)"

subsection \<open>Calls on the data handler\<close>

definition ClientRead_on_handler :: "('h \<Rightarrow> 'h) \<Rightarrow> 'h client_read cmd" where
  "ClientRead_on_handler f s =
     (case cr_dataHandlerV s of
        None \<Rightarrow> Inl (Undefined, s)
      | Some h \<Rightarrow> Inr (s\<lparr>cr_dataHandlerV := Some (f h)\<rparr>))"

definition ClientRead_start_handler :: "'h receive_handler \<Rightarrow> 'h client_read cmd" where
  "ClientRead_start_handler D s =
     (case cr_dataHandlerV s of
        None \<Rightarrow> Inl (Undefined, s)
      | Some h \<Rightarrow>
          (case rh_start D h of
             Inl (e, h') \<Rightarrow> Inl (e, s\<lparr>cr_dataHandlerV := Some h'\<rparr>)
           | Inr h' \<Rightarrow> Inr (s\<lparr>cr_dataHandlerV := Some h'\<rparr>)))"

subsection \<open>The operation\<close>

definition ClientRead_finished :: "net \<Rightarrow> 'h receive_handler \<Rightarrow> 'h client_read finisher" where
  "ClientRead_finished N D status info =
     noexcept (block [
       ClientRead_on_handler (rh_finished D),
       ClientOperation_finished N status info])"

text \<open>The options of the request; \<open>try_emplace\<close> keeps an additional option of the same name.\<close>

definition ClientRead_options :: "'h client_read \<Rightarrow> options" where
  "ClientRead_options s =
     (let cfg = cr_optionsConfigurationV s;
          options = cr_additionalOptionsV s;
          options = (case oc_blockSizeOption cfg of
            None \<Rightarrow> options
          | Some b \<Rightarrow> try_emplace (TftpOptions_name BlockSize) (to_string (unat b)) options);
          options = (case oc_timeoutOption cfg of
            None \<Rightarrow> options
          | Some t \<Rightarrow> try_emplace (TftpOptions_name Timeout)
                       (to_string (unat (word_of_int t :: u16))) options)
      in if oc_handleTransferSizeOption cfg
         then try_emplace (TftpOptions_name TransferSize) ''0'' options else options)"

definition ClientRead_request ::
    "helper \<Rightarrow> net \<Rightarrow> 'h receive_handler \<Rightarrow> 'h client_read cmd" where
  "ClientRead_request H N D =
     (\<lambda>s. if cr_dataHandlerV s = None then throw TftpEx s
      else try_catch is_boost_exception
        (block [
           ClientOperation_initialise N (ClientRead_finished N D),
           ClientRead_start_handler D,
           modify (\<lambda>s. s\<lparr>cr_receiveDataSize := DefaultDataSize\<rparr>),
           modify (\<lambda>s. s\<lparr>cr_lastReceivedBlockNumber := BlockNumber 0\<rparr>),
           \<lambda>s. ClientOperation_sendFirst H N (ClientRead_finished N D)
                 (RRQ \<lparr>rq_filename = cr_filenameV s, rq_mode = cr_modeV s,
                       rq_options = ClientRead_options s\<rparr>) s,
           ClientOperation_receiveFirst N (ClientRead_finished N D)])
        (ClientRead_finished N D CommunicationError None) s)"

text \<open>After an ACK: the end of the transfer, or the next packet.\<close>

definition ClientRead_continue ::
    "net \<Rightarrow> 'h receive_handler \<Rightarrow> data_packet \<Rightarrow> 'h client_read cmd" where
  "ClientRead_continue N D p =
     (\<lambda>s. if DataPacket_dataSize p < unat (cr_receiveDataSize s)
          then if cr_dallyV s then ClientOperation_receiveDally N (ClientRead_finished N D) s
               else ClientRead_finished N D Successful None s
          else ClientOperation_receive N (ClientRead_finished N D) s)"

definition ClientRead_dataPacket ::
    "helper \<Rightarrow> net \<Rightarrow> 'h receive_handler \<Rightarrow> endpoint \<Rightarrow> data_packet \<Rightarrow> 'h client_read cmd" where
  "ClientRead_dataPacket H N D remote p =
     (\<lambda>s. if BlockNumber_equal (dp_blockNumber p) (cr_lastReceivedBlockNumber s)
          then block [
            \<lambda>s. ClientOperation_send H N (ClientRead_finished N D)
                  (ACK \<lparr>ap_blockNumber = cr_lastReceivedBlockNumber s\<rparr>) s,
            ClientRead_continue N D p] s
          else if \<not> BlockNumber_equal_int (dp_blockNumber p)
                      (BlockNumber_next (cr_lastReceivedBlockNumber s))
          then ClientOperation_reject H N (ClientRead_finished N D) TransferError
            IllegalTftpOperation ''Block Number not expected'' s
          else if DataPacket_dataSize p > unat (cr_receiveDataSize s)
          then ClientOperation_reject H N (ClientRead_finished N D) TransferError
            IllegalTftpOperation ''Too much data'' s
          else if BlockNumber_equal_int (dp_blockNumber p) 1 \<and> \<not> cr_oackReceived s \<and>
            (case cr_optionNegotiationHandlerV s of None \<Rightarrow> False | Some n \<Rightarrow> \<not> fst (n []))
          then ClientOperation_reject H N (ClientRead_finished N D) TransferError
            TftpOptionRefused ''Option Negotiation Failed'' s
          else block [
            ClientRead_on_handler (rh_receivedData D (dp_data p)),
            modify (\<lambda>s. s\<lparr>cr_lastReceivedBlockNumber :=
              BlockNumber_preincrement (cr_lastReceivedBlockNumber s)\<rparr>),
            \<lambda>s. ClientOperation_send H N (ClientRead_finished N D)
                  (ACK \<lparr>ap_blockNumber = cr_lastReceivedBlockNumber s\<rparr>) s,
            ClientRead_continue N D p] s)"

definition ClientRead_acknowledgementPacket ::
    "helper \<Rightarrow> net \<Rightarrow> 'h receive_handler \<Rightarrow> endpoint \<Rightarrow> ack_packet \<Rightarrow> 'h client_read cmd" where
  "ClientRead_acknowledgementPacket H N D remote p =
     ClientOperation_reject H N (ClientRead_finished N D) TransferError IllegalTftpOperation
       ''ACK not expected''"

text \<open>The transfer size the server announced is shown to the data handler.\<close>

definition ClientRead_receivedTransferSize ::
    "'h receive_handler \<Rightarrow> u64 option \<Rightarrow> 'h client_read \<Rightarrow>
     (exn \<times> 'h client_read) + (bool \<times> 'h client_read)" where
  "ClientRead_receivedTransferSize D transferSizeValue s =
     (case transferSizeValue of
        None \<Rightarrow> Inr (True, s)
      | Some v \<Rightarrow>
          (case cr_dataHandlerV s of
             None \<Rightarrow> Inl (Undefined, s)
           | Some h \<Rightarrow>
               let (accepted, h') = rh_receivedTransferSize D v h
               in Inr (accepted, s\<lparr>cr_dataHandlerV := Some h'\<rparr>)))"

text \<open>
  The options of an OACK are checked one after the other; the values accepted so far stay in
  force when a later check fails.
\<close>

definition ClientRead_optionsAcknowledgementPacket ::
    "helper \<Rightarrow> net \<Rightarrow> 'h receive_handler \<Rightarrow> endpoint \<Rightarrow> oack_packet \<Rightarrow> 'h client_read cmd" where
  "ClientRead_optionsAcknowledgementPacket H N D remote p s =
     (let reject = ClientOperation_reject H N (ClientRead_finished N D);
          refuse = reject OptionNegotiationError TftpOptionRefused;
          cfg = cr_optionsConfigurationV s
      in if cr_lastReceivedBlockNumber s \<noteq> BlockNumber 0
         then reject TransferError IllegalTftpOperation ''OACK must occur after RRQ'' s
         else if op_options p = []
         then reject TransferError IllegalTftpOperation ''Empty OACK not allowed'' s
         else
      case negotiate_blockSize cfg (op_options p) of
        Inl msg \<Rightarrow> refuse msg s
      | Inr (blockSizeValue, remoteOptions) \<Rightarrow>
      let s = (case blockSizeValue of None \<Rightarrow> s | Some v \<Rightarrow> s\<lparr>cr_receiveDataSize := v\<rparr>) in
      case negotiate_timeout cfg remoteOptions of
        Inl msg \<Rightarrow> refuse msg s
      | Inr (timeoutValue, remoteOptions) \<Rightarrow>
      let s = (case timeoutValue of None \<Rightarrow> s | Some v \<Rightarrow> s\<lparr>co_receiveTimeoutV := uint v\<rparr>) in
      case negotiate_transferSize (oc_handleTransferSizeOption cfg) remoteOptions of
        Inl msg \<Rightarrow> refuse msg s
      | Inr (transferSizeValue, remoteOptions) \<Rightarrow>
      case ClientRead_receivedTransferSize D transferSizeValue s of
        Inl e \<Rightarrow> Inl e
      | Inr (accepted, s) \<Rightarrow>
      if \<not> accepted
      then reject OptionNegotiationError DiskFullOrAllocationExceeds ''File to big'' s
      else
      let (negotiated, remoteOptions) =
            (case cr_optionNegotiationHandlerV s of
               None \<Rightarrow> (True, remoteOptions) | Some n \<Rightarrow> n remoteOptions)
      in if \<not> negotiated
         then refuse ''Option negotiation failed'' s
         else if remoteOptions \<noteq> []
         then refuse ''Unexpected options'' s
         else block [
           modify (\<lambda>s. s\<lparr>cr_oackReceived := True\<rparr>),
           ClientOperation_send H N (ClientRead_finished N D) (ACK \<lparr>ap_blockNumber = BlockNumber 0\<rparr>),
           ClientOperation_receive N (ClientRead_finished N D)] s)"

text \<open>The virtual functions of the operation, and the entry points that use them.\<close>

definition ClientRead_handlers ::
    "helper \<Rightarrow> net \<Rightarrow> 'h receive_handler \<Rightarrow> 'h client_read packet_handler" where
  "ClientRead_handlers H N D =
     \<lparr>ph_readRequestPacket = ClientOperation_readRequestPacket H N (ClientRead_finished N D),
      ph_writeRequestPacket = ClientOperation_writeRequestPacket H N (ClientRead_finished N D),
      ph_dataPacket = ClientRead_dataPacket H N D,
      ph_acknowledgementPacket = ClientRead_acknowledgementPacket H N D,
      ph_errorPacket = ClientOperation_errorPacket H (ClientRead_finished N D),
      ph_optionsAcknowledgementPacket = ClientRead_optionsAcknowledgementPacket H N D,
      ph_invalidPacket = ClientOperation_invalidPacket H N (ClientRead_finished N D)\<rparr>"

definition ClientRead_on ::
    "helper \<Rightarrow> net \<Rightarrow> 'h receive_handler \<Rightarrow> client_input \<Rightarrow> 'h client_read cmd" where
  "ClientRead_on H N D = ClientOperation_on H N (ClientRead_finished N D) (ClientRead_handlers H N D)"

text \<open>
  The states an operation reaches once its request was sent: any packets, in any order, on any
  network, with any timer expiries and aborts.
\<close>

inductive client_read_reachable ::
    "helper \<Rightarrow> net \<Rightarrow> 'h receive_handler \<Rightarrow> 'h client_read \<Rightarrow> 'h client_read \<Rightarrow> bool"
  for H N D s0 where
  requested: "client_read_reachable H N D s0 s"
    if "ClientRead_request H N D s0 = Inr s" and "\<not> ended (trace s)"
| step: "client_read_reachable H N D s0 (final (ClientRead_on H N D input s))"
    if "client_read_reachable H N D s0 s" and "delivers input \<longrightarrow> \<not> ended (trace s)"

subsection \<open>Invariant\<close>

text \<open>The block size in force is the default or one that the client asked for at least.\<close>

definition client_read_size :: "'h client_read \<Rightarrow> bool" where
  "client_read_size s \<longleftrightarrow>
     cr_receiveDataSize s = DefaultDataSize \<or>
     (\<exists>b. oc_blockSizeOption (cr_optionsConfigurationV s) = Some b \<and>
        BlockSizeOptionMin \<le> cr_receiveDataSize s \<and> cr_receiveDataSize s \<le> b)"

text \<open>
  The blocks \<open>ds\<close> the data handler holds are as many as the block number says, and none is
  larger than negotiated; without dally, all but the last are full, and a short one has ended
  the operation. \<open>Some n\<close> stands for the moment between the delivery of a block of size \<open>n\<close>
  and the reaction to its size.
\<close>

definition client_read_data ::
    "nat option \<Rightarrow> ('h \<Rightarrow> bool) \<Rightarrow> ('h \<Rightarrow> bytes) \<Rightarrow> 'h client_read \<Rightarrow> bool" where
  "client_read_data delivered ready contents s \<longleftrightarrow>
     (\<exists>h ds. cr_dataHandlerV s = Some h \<and> contents h = concat ds \<and>
        cr_lastReceivedBlockNumber s = block_at (length ds) \<and>
        (\<forall>d\<in>set ds. length d \<le> unat (cr_receiveDataSize s)) \<and>
        (ended (trace s) \<or> ready h) \<and>
        (\<not> cr_dallyV s \<longrightarrow> (\<forall>d\<in>set (butlast ds). length d = unat (cr_receiveDataSize s))) \<and>
        (case delivered of
           None \<Rightarrow> \<not> cr_dallyV s \<and> \<not> ended (trace s) \<longrightarrow>
             (\<forall>d\<in>set ds. length d = unat (cr_receiveDataSize s))
         | Some n \<Rightarrow> ds \<noteq> [] \<and> length (last ds) = n)) \<and>
     client_read_size s"

lemma client_read_more:
  assumes "same_frame s s'"
  shows "cr_optionsConfigurationV s' = cr_optionsConfigurationV s"
    "cr_dataHandlerV s' = cr_dataHandlerV s" "cr_dallyV s' = cr_dallyV s"
    "cr_receiveDataSize s' = cr_receiveDataSize s"
    "cr_lastReceivedBlockNumber s' = cr_lastReceivedBlockNumber s"
    "cr_oackReceived s' = cr_oackReceived s"
    "ended (trace s) \<Longrightarrow> ended (trace s')"
  using assms by (cases s; cases s'; auto simp: same_frame_def)+

lemma client_read_size_frame: "same_frame s s' \<Longrightarrow> client_read_size s \<Longrightarrow> client_read_size s'"
  by (simp add: client_read_size_def client_read_more)

lemma client_read_data_frame:
  "same_frame s s' \<Longrightarrow> client_read_data delivered ready contents s \<Longrightarrow>
   client_read_data delivered ready contents s'"
  unfolding client_read_data_def by (auto simp: client_read_more client_read_size_frame split: option.splits)

lemma ClientRead_finished_final:
  "\<exists>ok tr. final (ClientRead_finished N D status info s) =
     (case cr_dataHandlerV s of
        None \<Rightarrow> s
      | Some h \<Rightarrow> s\<lparr>cr_dataHandlerV := Some (rh_finished D h), co_errorInformationV := info,
                 trace := trace s @ Called TimerCancel ok # tr\<rparr>)"
proof (cases "cr_dataHandlerV s")
  case None
  then show ?thesis
    by (simp add: ClientRead_finished_def ClientRead_on_handler_def block.simps)
next
  case (Some h)
  obtain ok tr where "final (ClientOperation_finished N status info (s\<lparr>cr_dataHandlerV := Some (rh_finished D h)\<rparr>)) =
      (s\<lparr>cr_dataHandlerV := Some (rh_finished D h)\<rparr>)
        \<lparr>co_errorInformationV := info, trace := trace s @ Called TimerCancel ok # tr\<rparr>"
    using ClientOperation_finished_final [of N status info "s\<lparr>cr_dataHandlerV := Some (rh_finished D h)\<rparr>"]
    by auto
  then show ?thesis
    using Some
    by (intro exI [of _ ok] exI [of _ tr])
      (auto simp: ClientRead_finished_def ClientRead_on_handler_def block.simps split: sum.split)
qed

end
