(* ===== verification/Files.thy ===== *)
theory Files
  imports DataHandler
begin

text \<open>
  The data handlers under \<open>files/\<close>: \<open>MemoryFile\<close> and \<open>StreamFile\<close>, which are sinks and
  sources, and \<open>NullSinkFile\<close>, which drops what it receives.
\<close>

datatype file_operation = Receive | Transmit

subsection \<open>\<open>MemoryFile\<close>\<close>

text \<open>The iterator \<open>dataPtr\<close> is its distance from \<open>dataV.begin()\<close>.\<close>

record memory_file =
  mf_operationV :: file_operation
  mf_dataV :: bytes
  mf_dataPtr :: nat

definition MemoryFile_receive :: memory_file where
  "MemoryFile_receive = \<lparr>mf_operationV = Receive, mf_dataV = [], mf_dataPtr = 0\<rparr>"

definition MemoryFile_transmit :: "bytes \<Rightarrow> memory_file" where
  "MemoryFile_transmit d = \<lparr>mf_operationV = Transmit, mf_dataV = d, mf_dataPtr = 0\<rparr>"

definition MemoryFile_start :: "memory_file cmd" where
  "MemoryFile_start =
     block [
       \<lambda>f. if mf_operationV f = Receive then modify (\<lambda>f. f\<lparr>mf_dataV := []\<rparr>) f else block [] f,
       modify (\<lambda>f. f\<lparr>mf_dataPtr := 0\<rparr>)]"

definition MemoryFile_finished :: "memory_file \<Rightarrow> memory_file" where
  "MemoryFile_finished f = f\<lparr>mf_dataPtr := 0\<rparr>"

definition MemoryFile_receivedTransferSize :: "u64 \<Rightarrow> memory_file \<Rightarrow> bool \<times> memory_file" where
  "MemoryFile_receivedTransferSize transferSize f = (True, f)"

definition MemoryFile_receivedData :: "bytes \<Rightarrow> memory_file \<Rightarrow> memory_file" where
  "MemoryFile_receivedData d f =
     (if d \<noteq> [] then f\<lparr>mf_dataV := mf_dataV f @ d, mf_dataPtr := 0\<rparr> else f)"

definition MemoryFile_requestedTransferSize :: "memory_file \<Rightarrow> u64 option \<times> memory_file" where
  "MemoryFile_requestedTransferSize f = (Some (word_of_nat (length (mf_dataV f))), f)"

definition MemoryFile_sendData :: "nat \<Rightarrow> memory_file \<Rightarrow> bytes \<times> memory_file" where
  "MemoryFile_sendData maxSize f =
     (let startPtr = mf_dataPtr f;
          endPtr = (if length (mf_dataV f) - startPtr \<le> maxSize then length (mf_dataV f)
                    else startPtr + maxSize)
      in (take (endPtr - startPtr) (drop startPtr (mf_dataV f)), f\<lparr>mf_dataPtr := endPtr\<rparr>))"

definition memory_receiver :: "memory_file receive_handler" where
  "memory_receiver =
     \<lparr>rh_start = MemoryFile_start,
      rh_finished = MemoryFile_finished,
      rh_receivedTransferSize = MemoryFile_receivedTransferSize,
      rh_receivedData = MemoryFile_receivedData\<rparr>"

definition memory_transmitter :: "memory_file transmit_handler" where
  "memory_transmitter =
     \<lparr>th_start = MemoryFile_start,
      th_finished = MemoryFile_finished,
      th_requestedTransferSize = MemoryFile_requestedTransferSize,
      th_sendData = MemoryFile_sendData\<rparr>"

definition memory_rest :: "memory_file \<Rightarrow> bytes" where
  "memory_rest f = drop (mf_dataPtr f) (mf_dataV f)"

definition memory_content :: "memory_file \<Rightarrow> bytes" where
  "memory_content f = (if mf_operationV f = Receive then [] else mf_dataV f)"

lemma MemoryFile_start_Inr: "\<exists>f'. MemoryFile_start f = Inr f'"
  by (simp add: MemoryFile_start_def cmd_simps)

lemma MemoryFile_sendData_eq:
  "MemoryFile_sendData n f =
     (take n (memory_rest f), f\<lparr>mf_dataPtr := (if length (memory_rest f) \<le> n then length (mf_dataV f)
        else mf_dataPtr f + n)\<rparr>)"
  by (auto simp: MemoryFile_sendData_def memory_rest_def Let_def)

text \<open>A memory file opened for transmission is a source, one opened for reception a sink.\<close>

interpretation memory_source: data_source memory_transmitter memory_content memory_rest
proof unfold_locales
  fix f f' :: memory_file and n :: nat
  show "th_start memory_transmitter f = Inr f' \<Longrightarrow> memory_rest f' = memory_content f"
    by (auto simp: memory_transmitter_def MemoryFile_start_def memory_rest_def memory_content_def
        cmd_simps split: if_splits)
  show "memory_rest (snd (th_requestedTransferSize memory_transmitter f)) = memory_rest f"
    by (simp add: memory_transmitter_def MemoryFile_requestedTransferSize_def)
  show "fst (th_sendData memory_transmitter n f) = take n (memory_rest f)"
    by (simp add: memory_transmitter_def MemoryFile_sendData_eq)
  show "memory_rest (snd (th_sendData memory_transmitter n f)) = drop n (memory_rest f)"
    by (auto simp: memory_transmitter_def MemoryFile_sendData_eq memory_rest_def add.commute)
qed

interpretation memory_sink: data_sink memory_receiver
    "\<lambda>f. mf_operationV f = Receive" "\<lambda>f. mf_operationV f = Receive" mf_dataV
proof unfold_locales
  fix f f' :: memory_file and d :: bytes and sz :: u64
  show "mf_operationV f = Receive \<Longrightarrow> rh_start memory_receiver f = Inr f' \<Longrightarrow>
      mf_operationV f' = Receive \<and> mf_dataV f' = []"
    by (auto simp: memory_receiver_def MemoryFile_start_def cmd_simps)
  show "mf_operationV f = Receive \<Longrightarrow>
      mf_operationV (rh_receivedData memory_receiver d f) = Receive \<and>
      mf_dataV (rh_receivedData memory_receiver d f) = mf_dataV f @ d"
    by (simp add: memory_receiver_def MemoryFile_receivedData_def)
  show "mf_operationV f = Receive \<Longrightarrow>
      mf_operationV (snd (rh_receivedTransferSize memory_receiver sz f)) = Receive \<and>
      mf_dataV (snd (rh_receivedTransferSize memory_receiver sz f)) = mf_dataV f"
    by (simp add: memory_receiver_def MemoryFile_receivedTransferSize_def)
  show "mf_dataV (rh_finished memory_receiver f) = mf_dataV f"
    by (simp add: memory_receiver_def MemoryFile_finished_def)
qed

subsection \<open>\<open>StreamFile\<close>\<close>

text \<open>
  The \<open>std::fstream\<close> and the file behind it: the bytes on disk, the position of the stream,
  whether it is open and whether its fail bit is set. \<open>sf_openable\<close> says whether the file
  system lets the file be opened; writes to an open stream are taken to succeed.
\<close>

record stream_file =
  sf_operationV :: file_operation
  sf_filenameV :: path
  sf_sizeV :: "u64 option"
  sf_openable :: bool
  sf_disk :: bytes
  sf_pos :: nat
  sf_open :: bool
  sf_fail :: bool

definition StreamFile_make :: "file_operation \<Rightarrow> path \<Rightarrow> u64 option \<Rightarrow> bool \<Rightarrow> bytes \<Rightarrow> stream_file" where
  "StreamFile_make operation filename sz openable disk =
     \<lparr>sf_operationV = operation, sf_filenameV = filename, sf_sizeV = sz, sf_openable = openable, sf_disk = disk,
      sf_pos = 0, sf_open = False, sf_fail = False\<rparr>"

text \<open>\<open>fstream::open\<close> fails on a stream that is open already; success clears the state.\<close>

definition fstream_open :: "bool \<Rightarrow> stream_file \<Rightarrow> stream_file" where
  "fstream_open trunc f =
     (if sf_openable f \<and> \<not> sf_open f
      then f\<lparr>sf_disk := (if trunc then [] else sf_disk f), sf_pos := 0, sf_open := True,
             sf_fail := False\<rparr>
      else f\<lparr>sf_fail := True\<rparr>)"

definition StreamFile_start :: "stream_file cmd" where
  "StreamFile_start =
     block [
       \<lambda>f. case sf_operationV f of
             Receive \<Rightarrow> modify (fstream_open True) f
           | Transmit \<Rightarrow> modify (fstream_open False) f,
       \<lambda>f. if sf_fail f then throw TftpEx f else block [] f]"

definition StreamFile_finished :: "stream_file \<Rightarrow> stream_file" where
  "StreamFile_finished f =
     (if sf_open f then f\<lparr>sf_open := False\<rparr> else f\<lparr>sf_fail := True\<rparr>)"

definition StreamFile_receivedTransferSize :: "u64 \<Rightarrow> stream_file \<Rightarrow> bool \<times> stream_file" where
  "StreamFile_receivedTransferSize transferSize f =
     (case sf_sizeV f of None \<Rightarrow> (True, f) | Some sz \<Rightarrow> (transferSize \<le> sz, f))"

text \<open>Unformatted output on a stream in a failed state, or not open, does nothing but fail.\<close>

definition StreamFile_receivedData :: "bytes \<Rightarrow> stream_file \<Rightarrow> stream_file" where
  "StreamFile_receivedData d f =
     (if d = [] then f
      else if sf_open f \<and> \<not> sf_fail f
      then f\<lparr>sf_disk := take (sf_pos f) (sf_disk f) @ d @ drop (sf_pos f + length d) (sf_disk f),
             sf_pos := sf_pos f + length d\<rparr>
      else f\<lparr>sf_fail := True\<rparr>)"

definition StreamFile_requestedTransferSize :: "stream_file \<Rightarrow> u64 option \<times> stream_file" where
  "StreamFile_requestedTransferSize f = (sf_sizeV f, f)"

text \<open>\<open>read\<close> sets the fail bit when it hits the end; \<open>gcount\<close> is what it got.\<close>

definition StreamFile_sendData :: "nat \<Rightarrow> stream_file \<Rightarrow> bytes \<times> stream_file" where
  "StreamFile_sendData maxSize f =
     (if sf_open f \<and> \<not> sf_fail f
      then let got = take maxSize (drop (sf_pos f) (sf_disk f))
        in (got, f\<lparr>sf_pos := sf_pos f + length got, sf_fail := length got < maxSize\<rparr>)
      else ([], f\<lparr>sf_fail := True\<rparr>))"

definition stream_receiver :: "stream_file receive_handler" where
  "stream_receiver =
     \<lparr>rh_start = StreamFile_start,
      rh_finished = StreamFile_finished,
      rh_receivedTransferSize = StreamFile_receivedTransferSize,
      rh_receivedData = StreamFile_receivedData\<rparr>"

definition stream_transmitter :: "stream_file transmit_handler" where
  "stream_transmitter =
     \<lparr>th_start = StreamFile_start,
      th_finished = StreamFile_finished,
      th_requestedTransferSize = StreamFile_requestedTransferSize,
      th_sendData = StreamFile_sendData\<rparr>"

definition stream_writing :: "stream_file \<Rightarrow> bool" where
  "stream_writing f \<longleftrightarrow> sf_open f \<and> \<not> sf_fail f \<and> sf_pos f = length (sf_disk f)"

definition stream_rest :: "stream_file \<Rightarrow> bytes" where
  "stream_rest f = (if sf_open f \<and> \<not> sf_fail f then drop (sf_pos f) (sf_disk f) else [])"

definition stream_content :: "stream_file \<Rightarrow> bytes" where
  "stream_content f = (if sf_operationV f = Receive then [] else sf_disk f)"

interpretation stream_sink: data_sink stream_receiver
    "\<lambda>f. sf_operationV f = Receive" stream_writing sf_disk
proof unfold_locales
  fix f f' :: stream_file and d :: bytes and sz :: u64
  show "sf_operationV f = Receive \<Longrightarrow> rh_start stream_receiver f = Inr f' \<Longrightarrow>
      stream_writing f' \<and> sf_disk f' = []"
    by (auto simp: stream_receiver_def StreamFile_start_def fstream_open_def stream_writing_def
        cmd_simps split: if_splits)
  show "stream_writing f \<Longrightarrow> stream_writing (rh_receivedData stream_receiver d f) \<and>
      sf_disk (rh_receivedData stream_receiver d f) = sf_disk f @ d"
    by (simp add: stream_receiver_def StreamFile_receivedData_def stream_writing_def)
  show "stream_writing f \<Longrightarrow>
      stream_writing (snd (rh_receivedTransferSize stream_receiver sz f)) \<and>
      sf_disk (snd (rh_receivedTransferSize stream_receiver sz f)) = sf_disk f"
    by (simp add: stream_receiver_def StreamFile_receivedTransferSize_def split: option.split)
  show "sf_disk (rh_finished stream_receiver f) = sf_disk f"
    by (simp add: stream_receiver_def StreamFile_finished_def)
qed

interpretation stream_source: data_source stream_transmitter stream_content stream_rest
proof unfold_locales
  fix f f' :: stream_file and n :: nat
  show "th_start stream_transmitter f = Inr f' \<Longrightarrow> stream_rest f' = stream_content f"
    by (cases "sf_operationV f")
      (auto simp: stream_transmitter_def StreamFile_start_def fstream_open_def stream_rest_def
        stream_content_def cmd_simps split: if_splits)
  show "stream_rest (snd (th_requestedTransferSize stream_transmitter f)) = stream_rest f"
    by (simp add: stream_transmitter_def StreamFile_requestedTransferSize_def)
  show "fst (th_sendData stream_transmitter n f) = take n (stream_rest f)"
    by (simp add: stream_transmitter_def StreamFile_sendData_def stream_rest_def)
  show "stream_rest (snd (th_sendData stream_transmitter n f)) = drop n (stream_rest f)"
    by (auto simp: stream_transmitter_def StreamFile_sendData_def stream_rest_def add.commute
        min_def)
qed

subsection \<open>\<open>NullSinkFile\<close>\<close>

record null_sink_file =
  nf_size :: "u64 option"

definition NullSinkFile_receivedTransferSize :: "u64 \<Rightarrow> null_sink_file \<Rightarrow> bool \<times> null_sink_file" where
  "NullSinkFile_receivedTransferSize transferSize f =
     (case nf_size f of None \<Rightarrow> (True, f) | Some sz \<Rightarrow> (transferSize \<le> sz, f))"

definition null_receiver :: "null_sink_file receive_handler" where
  "null_receiver =
     \<lparr>rh_start = block [],
      rh_finished = (\<lambda>f. f),
      rh_receivedTransferSize = NullSinkFile_receivedTransferSize,
      rh_receivedData = (\<lambda>d f. f)\<rparr>"

end
