(* ===== verification/ClientReadInvariant.thy ===== *)
theory ClientReadInvariant
  imports ClientRead Files
begin

text \<open>
  The download invariant of the client: \<open>client_read_data\<close> and \<open>client_read_size\<close> are kept by
  every event, for every data handler that is a sink. The functions of the base class are
  covered by the contract \<open>client_frame\<close>; what is left are the handlers of this class.
\<close>

lemma client_read_data_delivered:
  assumes "client_read_data (Some n) ready contents s"
    and "cr_dallyV s \<or> ended (trace s) \<or> unat (cr_receiveDataSize s) \<le> n"
  shows "client_read_data None ready contents s"
proof -
  obtain h ds where ds: "cr_dataHandlerV s = Some h" "contents h = concat ds"
      "cr_lastReceivedBlockNumber s = block_at (length ds)"
      "\<forall>d\<in>set ds. length d \<le> unat (cr_receiveDataSize s)" "ended (trace s) \<or> ready h"
      "\<not> cr_dallyV s \<longrightarrow> (\<forall>d\<in>set (butlast ds). length d = unat (cr_receiveDataSize s))"
      "ds \<noteq> []" "length (last ds) = n" "client_read_size s"
    using assms(1) unfolding client_read_data_def by auto
  have "\<forall>d\<in>set ds. length d = unat (cr_receiveDataSize s)"
    if "\<not> cr_dallyV s" "\<not> ended (trace s)"
  proof
    fix d assume "d \<in> set ds"
    then have "d \<in> set (butlast ds) \<or> d = last ds"
      using ds(7) by (metis append_butlast_last_id in_set_conv_decomp_last set_ConsD set_append UnE
          empty_iff empty_set)
    moreover have "length (last ds) = unat (cr_receiveDataSize s)"
      using ds(4,7,8) assms(2) that by (auto intro!: antisym)
    ultimately show "length d = unat (cr_receiveDataSize s)"
      using ds(6) that by auto
  qed
  with ds(1-6,9) show ?thesis
    unfolding client_read_data_def by (intro conjI, intro exI [of _ h] exI [of _ ds]) auto
qed

lemma client_read_data_updates:
  "client_read_data delivered ready contents (s\<lparr>cr_oackReceived := b\<rparr>) =
   client_read_data delivered ready contents s"
  "client_read_data delivered ready contents (s\<lparr>co_receiveTimeoutV := t\<rparr>) =
   client_read_data delivered ready contents s"
  by (cases delivered; simp add: client_read_data_def client_read_size_def)+

context data_sink
begin

lemma client_read_data_finished:
  "keeps (client_read_data delivered ready contents) (ClientRead_finished N D status info)"
proof (rule keepsI)
  fix s assume s: "client_read_data delivered ready contents s"
  then obtain h where h: "cr_dataHandlerV s = Some h" unfolding client_read_data_def by auto
  then obtain ok tr where "final (ClientRead_finished N D status info s) =
      s\<lparr>cr_dataHandlerV := Some (rh_finished D h), co_errorInformationV := info,
        trace := trace s @ Called TimerCancel ok # tr\<rparr>"
    using ClientRead_finished_final [of N D status info s] by auto
  with s h show "client_read_data delivered ready contents (final (ClientRead_finished N D status info s))"
    by (auto simp: client_read_data_def client_read_size_def finished_sink split: option.splits)
qed

lemma client_read_frame:
  "client_frame (client_read_data delivered ready contents) (ClientRead_finished N D)"
proof
  fix s s' :: "'h client_read" and status info
  show "same_frame s s' \<Longrightarrow> client_read_data delivered ready contents s \<Longrightarrow>
      client_read_data delivered ready contents s'"
    by (rule client_read_data_frame)
  show "keeps (client_read_data delivered ready contents) (ClientRead_finished N D status info)"
    by (rule client_read_data_finished)
  show "client_read_data delivered ready contents s \<Longrightarrow>
      ended (trace (final (ClientRead_finished N D status info s)))"
    using ClientRead_finished_final [of N D status info s] by (auto simp: client_read_data_def)
qed

lemmas read_keeps =
  client_frame.keeps_reject [OF client_read_frame] client_frame.keeps_steps(2,4,5) [OF client_read_frame]
  client_frame_F [OF client_read_frame]

lemma client_read_continue:
  assumes "client_read_data (Some (length (dp_data p))) ready contents s"
  shows "client_read_data None ready contents (final (ClientRead_continue N D p s))"
proof (cases "DataPacket_dataSize p < unat (cr_receiveDataSize s)")
  case full: False
  then have "client_read_data None ready contents s"
    using assms by (intro client_read_data_delivered) (auto simp: DataPacket_dataSize_def)
  with full show ?thesis
    by (simp add: ClientRead_continue_def keepsD [OF read_keeps(3)])
next
  case short: True
  show ?thesis
  proof (cases "cr_dallyV s")
    case True
    then have "client_read_data None ready contents s"
      using assms by (intro client_read_data_delivered) auto
    with short True show ?thesis
      by (simp add: ClientRead_continue_def keepsD [OF read_keeps(4)])
  next
    case False
    then show ?thesis
      using short client_read_data_delivered [OF keepsD [OF read_keeps(5) assms]]
        client_frame_ended [OF client_read_frame assms]
      by (auto simp: ClientRead_continue_def)
  qed
qed

text \<open>A retransmitted packet may be short as well; the state is one in which all is delivered.\<close>

lemma client_read_continue_again:
  "client_read_data None ready contents s \<Longrightarrow>
   client_read_data None ready contents (final (ClientRead_continue N D p s))"
  by (simp add: ClientRead_continue_def keepsD [OF read_keeps(3)] keepsD [OF read_keeps(4)]
      keepsD [OF read_keeps(5)])

lemma client_read_data_receive:
  assumes "client_read_data None ready contents s" and "\<not> ended (trace s)"
    and "length d \<le> unat (cr_receiveDataSize s)" and "cr_dataHandlerV s = Some h"
  shows "client_read_data (Some (length d)) ready contents
    (s\<lparr>cr_dataHandlerV := Some (rh_receivedData D d h),
       cr_lastReceivedBlockNumber := BlockNumber_preincrement (cr_lastReceivedBlockNumber s)\<rparr>)"
proof -
  obtain ds where ds: "contents h = concat ds" "cr_lastReceivedBlockNumber s = block_at (length ds)"
      "\<forall>d\<in>set ds. length d \<le> unat (cr_receiveDataSize s)" "ready h"
      "\<not> cr_dallyV s \<longrightarrow> (\<forall>d\<in>set ds. length d = unat (cr_receiveDataSize s))" "client_read_size s"
    using assms unfolding client_read_data_def by auto
  have "ready (rh_receivedData D d h) \<and> contents (rh_receivedData D d h) = contents h @ d"
    by (rule receivedData_sink [OF ds(4)])
  with ds assms(3) show ?thesis
    unfolding client_read_data_def
    by (intro conjI, intro exI [of _ "rh_receivedData D d h"] exI [of _ "ds @ [d]"])
      (auto simp: block_at_Suc client_read_size_def)
qed

lemma client_read_data_no_data:
  assumes "client_read_data None ready contents s" and "\<not> ended (trace s)"
    and "cr_lastReceivedBlockNumber s = BlockNumber 0"
  shows "\<exists>h. cr_dataHandlerV s = Some h \<and> ready h \<and> contents h = []"
proof -
  obtain h ds where ds: "cr_dataHandlerV s = Some h" "contents h = concat ds"
      "cr_lastReceivedBlockNumber s = block_at (length ds)" "ready h"
    using assms(1,2) unfolding client_read_data_def by auto
  moreover have "ds = []"
    using ds(3) assms(3) block_at_nonzero by (cases "length ds") auto
  ultimately show ?thesis by simp
qed

text \<open>Before the first block, a new block size and a notice of the transfer size are harmless.\<close>

lemma client_read_data_resize:
  assumes "client_read_data None ready contents s" and "\<not> ended (trace s)"
    and "cr_lastReceivedBlockNumber s = BlockNumber 0"
    and "negotiate_blockSize (cr_optionsConfigurationV s) opts = Inr (b, rest)"
  shows "client_read_data None ready contents
    (case b of None \<Rightarrow> s | Some v \<Rightarrow> s\<lparr>cr_receiveDataSize := v\<rparr>)"
proof (cases b)
  case None
  with assms(1) show ?thesis by simp
next
  case (Some v)
  obtain h where "cr_dataHandlerV s = Some h \<and> ready h \<and> contents h = []"
    using client_read_data_no_data [OF assms(1-3)] ..
  moreover obtain b' where "oc_blockSizeOption (cr_optionsConfigurationV s) = Some b'"
      "BlockSizeOptionMin \<le> v" "v \<le> b'"
    using negotiate_blockSize_bounds [of _ opts v rest] assms(4) Some by blast
  ultimately show ?thesis
    using assms(3) Some unfolding client_read_data_def
    by (intro conjI, intro exI [of _ h] exI [of _ "[]"]) (auto simp: client_read_size_def)
qed

lemma client_read_data_transferSize:
  assumes "client_read_data None ready contents s" and "\<not> ended (trace s)"
    and "cr_lastReceivedBlockNumber s = BlockNumber 0"
    and "ClientRead_receivedTransferSize D sz s = Inr (accepted, s')"
  shows "client_read_data None ready contents s'"
proof (cases sz)
  case None
  with assms(1,4) show ?thesis by (simp add: ClientRead_receivedTransferSize_def)
next
  case (Some v)
  obtain h where h: "cr_dataHandlerV s = Some h" "ready h" "contents h = []"
    using client_read_data_no_data [OF assms(1-3)] by auto
  with receivedTransferSize_sink [of h v] assms Some show ?thesis
    unfolding client_read_data_def ClientRead_receivedTransferSize_def
    by (intro conjI, intro exI [of _ "snd (rh_receivedTransferSize D v h)"] exI [of _ "[]"])
      (auto simp: client_read_size_def split: prod.splits)
qed

lemma client_read_data_dataPacket:
  assumes "client_read_data None ready contents s" and "\<not> ended (trace s)"
  shows "client_read_data None ready contents (final (ClientRead_dataPacket H N D remote p s))"
proof -
  obtain h where h: "cr_dataHandlerV s = Some h"
    using assms(1) unfolding client_read_data_def by auto
  have again: "keeps (client_read_data None ready contents)
      (block [\<lambda>s. ClientOperation_send H N (ClientRead_finished N D)
                (ACK \<lparr>ap_blockNumber = cr_lastReceivedBlockNumber s\<rparr>) s,
              ClientRead_continue N D p])"
    by (intro keeps_block) (auto intro: keepsI keepsD [OF read_keeps(2)] client_read_continue_again)
  let ?s1 = "s\<lparr>cr_dataHandlerV := Some (rh_receivedData D (dp_data p) h),
       cr_lastReceivedBlockNumber := BlockNumber_preincrement (cr_lastReceivedBlockNumber s)\<rparr>"
  let ?send = "ClientOperation_send H N (ClientRead_finished N D)
       (ACK \<lparr>ap_blockNumber = cr_lastReceivedBlockNumber ?s1\<rparr>)"
  have deliver: "client_read_data None ready contents (final (block [?send, ClientRead_continue N D p] ?s1))"
    if "length (dp_data p) \<le> unat (cr_receiveDataSize s)"
  proof -
    have s1: "client_read_data (Some (length (dp_data p))) ready contents ?s1"
      by (rule client_read_data_receive [OF assms that h])
    have sent: "client_read_data (Some (length (dp_data p))) ready contents (final (?send ?s1))"
      by (rule keepsD [OF read_keeps(2) s1])
    show ?thesis
    proof (cases "?send ?s1")
      case (Inl es)
      then obtain e s2 where s2: "?send ?s1 = Inl (e, s2)" by (cases es) auto
      have "ended (trace s2)"
        by (rule client_frame.send_throws [OF client_read_frame s2 s1])
      with sent s2 show ?thesis
        by (auto simp: block.simps intro: client_read_data_delivered)
    next
      case (Inr s2)
      with client_read_continue [of p s2 N] sent show ?thesis
        by (auto simp: block.simps split: sum.splits)
    qed
  qed
  show ?thesis
    using deliver keepsD [OF again assms(1)] keepsD [OF read_keeps(1) assms(1)] h
    by (auto simp: ClientRead_dataPacket_def ClientRead_on_handler_def DataPacket_dataSize_def
        block.simps(2) modify_apply)
qed

lemma client_read_data_oack:
  assumes "client_read_data None ready contents s" and "\<not> ended (trace s)"
  shows "client_read_data None ready contents
    (final (ClientRead_optionsAcknowledgementPacket H N D remote p s))"
proof (cases "cr_lastReceivedBlockNumber s = BlockNumber 0")
  case False
  then show ?thesis
    by (simp add: ClientRead_optionsAcknowledgementPacket_def keepsD [OF read_keeps(1) assms(1)])
next
  case first: True
  note branches = final_branches [where P = "client_read_data None ready contents"]
  have accept: "keeps (client_read_data None ready contents)
      (block [
           modify (\<lambda>s. s\<lparr>cr_oackReceived := True\<rparr>),
           ClientOperation_send H N (ClientRead_finished N D) (ACK \<lparr>ap_blockNumber = BlockNumber 0\<rparr>),
           ClientOperation_receive N (ClientRead_finished N D)])"
    by (rule keeps_block) (auto intro: keeps_modify read_keeps simp: client_read_data_updates)
  have s1: "client_read_data None ready contents (case b of None \<Rightarrow> s | Some v \<Rightarrow> s\<lparr>cr_receiveDataSize := v\<rparr>)"
    if "negotiate_blockSize (cr_optionsConfigurationV s) opts = Inr (b, rest)" for opts b rest
    by (rule client_read_data_resize [OF assms first that])
  have s2: "client_read_data None ready contents (case t of None \<Rightarrow> s' | Some v \<Rightarrow> s'\<lparr>co_receiveTimeoutV := uint v\<rparr>)"
    if "client_read_data None ready contents s'" for t and s' :: "'h client_read"
    using that by (simp add: client_read_data_updates split: option.split)
  have s3: "client_read_data None ready contents s3"
    if "ClientRead_receivedTransferSize D sz (case t of None \<Rightarrow> (case b of None \<Rightarrow> s
          | Some v \<Rightarrow> s\<lparr>cr_receiveDataSize := v\<rparr>)
        | Some v \<Rightarrow> (case b of None \<Rightarrow> s | Some v \<Rightarrow> s\<lparr>cr_receiveDataSize := v\<rparr>)
            \<lparr>co_receiveTimeoutV := uint v\<rparr>) = Inr (a, s3)"
      and "negotiate_blockSize (cr_optionsConfigurationV s) opts = Inr (b, rest)"
    for sz and t :: "8 word option" and b a s3 opts rest
    using assms(2) first
    by (intro client_read_data_transferSize [OF s2 [OF s1 [OF that(2)]] _ _ that(1)])
      (auto split: option.split)
  have e3: "s' = s3" if "ClientRead_receivedTransferSize D sz s3 = Inl (e, s')" for sz s3 e s'
    using that by (auto simp: ClientRead_receivedTransferSize_def split: option.splits prod.splits)
  show ?thesis
    unfolding ClientRead_optionsAcknowledgementPacket_def Let_def
    by (intro branches)
      (auto simp: first assms(1) dest!: e3
        intro!: keepsD [OF read_keeps(1)] keepsD [OF accept] s2 intro: s1 s3)
qed

text \<open>Every event keeps the invariant.\<close>

lemma client_read_data_on:
  assumes "raw_data H" and "client_read_data None ready contents s"
    and "delivers input \<longrightarrow> \<not> ended (trace s)"
  shows "client_read_data None ready contents (final (ClientRead_on H N D input s))"
proof -
  have "client_read_data None ready contents
      (final (call_handler (ClientRead_handlers H N D) remote p s))"
    if "client_read_data None ready contents s" "\<not> ended (trace s)" for remote p s
    using that
    by (cases p)
      (simp_all add: ClientRead_handlers_def ClientOperation_readRequestPacket_def
        ClientOperation_writeRequestPacket_def ClientRead_acknowledgementPacket_def
        keepsD [OF read_keeps(1)] client_read_data_dataPacket client_read_data_oack
        keepsD [OF client_frame.keeps_errorPacket [OF client_read_frame]])
  moreover have "keeps (client_read_data None ready contents)
      (ph_invalidPacket (ClientRead_handlers H N D) remote raw)" for remote raw
    by (simp add: ClientRead_handlers_def ClientOperation_invalidPacket_def read_keeps(1))
  ultimately show ?thesis
    unfolding ClientRead_on_def using assms
    by (intro client_frame.on_establishes [OF client_read_frame]) auto
qed

text \<open>A request that was sent has started the handler and reset the operation.\<close>

lemma client_read_has_handler:
  "client_frame (\<lambda>s. cr_dataHandlerV s \<noteq> None) (ClientRead_finished N D)"
proof
  fix s s' :: "'h client_read" and status info
  show "same_frame s s' \<Longrightarrow> cr_dataHandlerV s \<noteq> None \<Longrightarrow> cr_dataHandlerV s' \<noteq> None"
    by (simp add: client_read_more)
  show "keeps (\<lambda>s. cr_dataHandlerV s \<noteq> None) (ClientRead_finished N D status info)"
  proof (rule keepsI)
    fix s :: "'h client_read" assume "cr_dataHandlerV s \<noteq> None"
    with ClientRead_finished_final [of N D status info s]
    show "cr_dataHandlerV (final (ClientRead_finished N D status info s)) \<noteq> None" by auto
  qed
  show "cr_dataHandlerV s \<noteq> None \<Longrightarrow> ended (trace (final (ClientRead_finished N D status info s)))"
    using ClientRead_finished_final [of N D status info s] by auto
qed

lemma client_read_ended_frame:
  "client_frame (\<lambda>s. ended (trace s)) (ClientRead_finished N D)"
proof
  fix s s' :: "'h client_read" and status info
  show "same_frame s s' \<Longrightarrow> ended (trace s) \<Longrightarrow> ended (trace s')"
    by (auto simp: same_frame_def)
  have *: "ended (trace s) \<Longrightarrow> ended (trace (final (ClientRead_finished N D status info s)))" for s
    using ClientRead_finished_final [of N D status info s] by (cases "cr_dataHandlerV s") auto
  then show "keeps (\<lambda>s. ended (trace s)) (ClientRead_finished N D status info)"
    by (rule keepsI)
  show "ended (trace s) \<Longrightarrow> ended (trace (final (ClientRead_finished N D status info s)))"
    by (rule *)
qed

lemma client_read_requested:
  assumes "ClientRead_request H N D s0 = Inr s" and "\<not> ended (trace s)"
    and "cr_dataHandlerV s0 = Some h0" and "sink h0"
  shows "client_read_data None ready contents s \<and> cr_oackReceived s = cr_oackReceived s0"
proof -
  let ?F = "ClientRead_finished N D"
  let ?sendFirst = "\<lambda>s. ClientOperation_sendFirst H N ?F
     (RRQ \<lparr>rq_filename = cr_filenameV s, rq_mode = cr_modeV s, rq_options = ClientRead_options s\<rparr>) s"
  let ?E = "\<lambda>s :: 'h client_read. ended (trace s)"
  let ?guarded = "\<lambda>cs. try_catch is_boost_exception (block cs) (?F CommunicationError None)"
  note has = client_read_has_handler [of N] and ends = client_read_ended_frame [of N]
  have noF: "?F CommunicationError None s' \<noteq> Inr s" for s'
    using client_frame_ended_Inr [OF has, of CommunicationError None s' s] assms(2)
    by (cases "cr_dataHandlerV s'")
      (auto simp: ClientRead_finished_def noexcept_def ClientRead_on_handler_def block.simps)
  have step: "\<exists>s2. c s1 = Inr s2 \<and> ?guarded cs s2 = Inr s" if "?guarded (c # cs) s1 = Inr s" for c cs s1
    using that noF by (auto simp: try_catch_block split: sum.splits if_splits)
  have E: "\<not> ended (trace s')" if "?guarded cs s' = Inr s" "\<forall>c\<in>set cs. keeps ?E c" for cs s'
  proof
    assume "ended (trace s')"
    moreover have "keeps ?E (?guarded cs)"
      using that(2) by (intro keeps_try_catch keeps_block client_frame_F [OF ends]) auto
    ultimately show False using that(1) assms(2) by (auto dest: keepsD)
  qed
  have keeps: "keeps ?E (modify (\<lambda>s. s\<lparr>cr_receiveDataSize := DefaultDataSize\<rparr>))"
      "keeps ?E (modify (\<lambda>s. s\<lparr>cr_lastReceivedBlockNumber := BlockNumber 0\<rparr>))"
      "keeps ?E ?sendFirst" "keeps ?E (ClientOperation_receiveFirst N ?F)"
      "keeps ?E (ClientRead_start_handler D)"
    by (simp_all add: keeps_modify client_frame.keeps_steps(3) [OF ends])
      (auto intro!: keepsI simp: keepsD [OF client_frame.keeps_steps(1) [OF ends]]
        ClientRead_start_handler_def split: option.split sum.split)
  have "?guarded [ClientOperation_initialise N ?F, ClientRead_start_handler D,
      modify (\<lambda>s. s\<lparr>cr_receiveDataSize := DefaultDataSize\<rparr>),
      modify (\<lambda>s. s\<lparr>cr_lastReceivedBlockNumber := BlockNumber 0\<rparr>), ?sendFirst,
      ClientOperation_receiveFirst N ?F] s0 = Inr s"
    using assms(1,3) by (simp add: ClientRead_request_def)
  from step [OF this] obtain s1 where s1: "ClientOperation_initialise N ?F s0 = Inr s1"
    "?guarded [ClientRead_start_handler D, modify (\<lambda>s. s\<lparr>cr_receiveDataSize := DefaultDataSize\<rparr>),
      modify (\<lambda>s. s\<lparr>cr_lastReceivedBlockNumber := BlockNumber 0\<rparr>), ?sendFirst,
      ClientOperation_receiveFirst N ?F] s1 = Inr s" by blast
  have "\<not> ended (trace s1)" by (rule E [OF s1(2)]) (simp add: keeps)
  moreover have "runs_on same_frame (ClientOperation_initialise N ?F) s0"
    using assms(3) by (intro client_frame.runs_on_initialise [OF has]) simp
  ultimately have f1: "same_frame s0 s1" using s1(1) by (simp add: runs_on_def)
  from step [OF s1(2)] obtain s2 where s2: "ClientRead_start_handler D s1 = Inr s2"
    "?guarded [modify (\<lambda>s. s\<lparr>cr_receiveDataSize := DefaultDataSize\<rparr>),
      modify (\<lambda>s. s\<lparr>cr_lastReceivedBlockNumber := BlockNumber 0\<rparr>), ?sendFirst,
      ClientOperation_receiveFirst N ?F] s2 = Inr s" by blast
  then obtain h where h: "rh_start D h0 = Inr h" "s2 = s1\<lparr>cr_dataHandlerV := Some h\<rparr>"
    using assms(3) by (auto simp: ClientRead_start_handler_def client_read_more [OF f1] split: sum.splits)
  let ?s3 = "s2\<lparr>cr_receiveDataSize := DefaultDataSize, cr_lastReceivedBlockNumber := BlockNumber 0\<rparr>"
  from s2(2) have "?guarded [?sendFirst, ClientOperation_receiveFirst N ?F] ?s3 = Inr s"
    by (simp add: try_catch_block modify_apply)
  from step [OF this] obtain s4 where s4: "?sendFirst ?s3 = Inr s4"
    "?guarded [ClientOperation_receiveFirst N ?F] s4 = Inr s" by blast
  then have "\<not> ended (trace s4)" by (intro E [OF s4(2)]) (simp add: keeps)
  then have f4: "same_frame ?s3 s4"
    using client_frame.runs_on_steps(1) [OF has, of ?s3 H N] s4(1) h(2) by (auto simp: runs_on_def)
  from step [OF s4(2)] have r: "ClientOperation_receiveFirst N ?F s4 = Inr s"
    by (auto simp: try_catch_def block.simps)
  have "cr_dataHandlerV s4 \<noteq> None" using h(2) by (simp add: client_read_more(2) [OF f4])
  from client_frame.runs_on_steps(3) [OF has this, of N] r assms(2) have f5: "same_frame s4 s"
    by (simp add: runs_on_def)
  have "ready h \<and> contents h = []"
    by (rule start_sink [OF assms(4) h(1)])
  then have "client_read_data None ready contents ?s3"
    using h(2) unfolding client_read_data_def
    by (intro conjI, intro exI [of _ h] exI [of _ "[]"]) (auto simp: client_read_size_def)
  from client_read_data_frame [OF client_relation.R_trans [OF f4 f5] this]
  show ?thesis
    using h(2) by (simp add: client_read_more [OF f1] client_read_more [OF f4] client_read_more [OF f5])
qed

lemma client_read_reachable_data:
  assumes "client_read_reachable H N D s0 s" and "raw_data H"
    and "cr_dataHandlerV s0 = Some h0" and "sink h0"
  shows "client_read_data None ready contents s"
  using assms(1)
proof induction
  case (requested s)
  then show ?case using client_read_requested assms(3,4) by blast
next
  case (step s input)
  then show ?case by (intro client_read_data_on assms(2))
qed

end

end
