(* ===== verification/ClientReadSteps.thy ===== *)
theory ClientReadSteps
  imports ClientReadInvariant
begin

text \<open>
  What the client's download does on each kind of packet when no call on the socket or the
  timer fails: the functional behaviour of every branch, as equations for the state it leaves.
\<close>

lemma client_read_sent [simp]:
  "cr_dataHandlerV (client_sent H p c s) = cr_dataHandlerV s"
  "cr_lastReceivedBlockNumber (client_sent H p c s) = cr_lastReceivedBlockNumber s"
  "cr_receiveDataSize (client_sent H p c s) = cr_receiveDataSize s"
  "cr_dallyV (client_sent H p c s) = cr_dallyV s"
  "cr_oackReceived (client_sent H p c s) = cr_oackReceived s"
  "cr_optionNegotiationHandlerV (client_sent H p c s) = cr_optionNegotiationHandlerV s"
  "cr_optionsConfigurationV (client_sent H p c s) = cr_optionsConfigurationV s"
  by (simp_all add: client_sent_def Let_def)

lemma client_read_waiting [simp]:
  "cr_dataHandlerV (client_waiting w s) = cr_dataHandlerV s"
  "cr_lastReceivedBlockNumber (client_waiting w s) = cr_lastReceivedBlockNumber s"
  "cr_receiveDataSize (client_waiting w s) = cr_receiveDataSize s"
  "cr_dallyV (client_waiting w s) = cr_dallyV s"
  "cr_oackReceived (client_waiting w s) = cr_oackReceived s"
  "cr_optionNegotiationHandlerV (client_waiting w s) = cr_optionNegotiationHandlerV s"
  "cr_optionsConfigurationV (client_waiting w s) = cr_optionsConfigurationV s"
  by (simp_all add: client_waiting_def)

lemma client_read_finished [simp]:
  "cr_dataHandlerV (client_finished st i s) = cr_dataHandlerV s"
  "cr_lastReceivedBlockNumber (client_finished st i s) = cr_lastReceivedBlockNumber s"
  "cr_receiveDataSize (client_finished st i s) = cr_receiveDataSize s"
  by (simp_all add: client_finished_def)

abbreviation sent_ack :: "helper \<Rightarrow> block_number \<Rightarrow> 'a client_op_scheme \<Rightarrow> 'a client_op_scheme" where
  "sent_ack H b \<equiv> client_sent H (ACK \<lparr>ap_blockNumber = b\<rparr>) (\<lambda>raw s. SocketSend raw)"

abbreviation sent_error ::
    "helper \<Rightarrow> error_code \<Rightarrow> string \<Rightarrow> 'a client_op_scheme \<Rightarrow> 'a client_op_scheme" where
  "sent_error H code msg \<equiv>
     client_sent H (ERR \<lparr>ep_errorCode = code, ep_errorMessage = msg\<rparr>) (\<lambda>raw s. SocketSend raw)"

lemma ClientRead_finished_ok [cmd_simps]:
  "never_fails N \<Longrightarrow> cr_dataHandlerV s = Some h \<Longrightarrow>
   ClientRead_finished N D status info s =
     Inr (client_finished status info (s\<lparr>cr_dataHandlerV := Some (rh_finished D h)\<rparr>))"
  by (simp add: ClientRead_finished_def ClientRead_on_handler_def cmd_simps noexcept_def)

lemma ClientRead_reject_ok [cmd_simps]:
  "never_fails N \<Longrightarrow> cr_dataHandlerV s = Some h \<Longrightarrow>
   ClientOperation_reject H N (ClientRead_finished N D) status code msg s =
     Inr (client_finished status (Some (code, msg))
       ((sent_error H code msg s)\<lparr>cr_dataHandlerV := Some (rh_finished D h)\<rparr>))"
  by (simp add: ClientOperation_reject_def cmd_simps ErrorPacket_errorInformation_def Let_def)

text \<open>The end of a data packet's handling, after the ACK was sent.\<close>

definition client_read_continued :: "'h receive_handler \<Rightarrow> nat \<Rightarrow> 'h client_read \<Rightarrow> 'h client_read" where
  "client_read_continued D n s =
     (if n < unat (cr_receiveDataSize s)
      then if cr_dallyV s then client_waiting TimeoutDally s
           else client_finished Successful None
             (s\<lparr>cr_dataHandlerV := map_option (rh_finished D) (cr_dataHandlerV s)\<rparr>)
      else client_waiting TimeoutNormal s)"

lemma ClientRead_continue_ok [cmd_simps]:
  "never_fails N \<Longrightarrow> cr_dataHandlerV s = Some h \<Longrightarrow>
   ClientRead_continue N D p s = Inr (client_read_continued D (length (dp_data p)) s)"
  by (simp add: ClientRead_continue_def client_read_continued_def DataPacket_dataSize_def cmd_simps)

definition client_read_negotiates :: "'h client_read \<Rightarrow> bool" where
  "client_read_negotiates s \<longleftrightarrow>
     cr_oackReceived s \<or>
     (case cr_optionNegotiationHandlerV s of None \<Rightarrow> True | Some n \<Rightarrow> fst (n []))"

lemma ClientRead_dataPacket_next:
  assumes "never_fails N" and "cr_dataHandlerV s = Some h"
    and "dp_blockNumber p = BlockNumber_preincrement (cr_lastReceivedBlockNumber s)"
    and "dp_blockNumber p \<noteq> cr_lastReceivedBlockNumber s"
    and "length (dp_data p) \<le> unat (cr_receiveDataSize s)"
    and "dp_blockNumber p = BlockNumber 1 \<longrightarrow> client_read_negotiates s"
  shows "ClientRead_dataPacket H N D remote p s =
    Inr (client_read_continued D (length (dp_data p)) (sent_ack H (dp_blockNumber p)
      (s\<lparr>cr_dataHandlerV := Some (rh_receivedData D (dp_data p) h),
         cr_lastReceivedBlockNumber := dp_blockNumber p\<rparr>)))"
  using assms
  by (auto simp: ClientRead_dataPacket_def ClientRead_on_handler_def DataPacket_dataSize_def
      BlockNumber_preincrement_def client_read_negotiates_def not_less cmd_simps split: option.splits)

lemma ClientRead_dataPacket_again:
  assumes "never_fails N" and "cr_dataHandlerV s = Some h"
    and "dp_blockNumber p = cr_lastReceivedBlockNumber s"
  shows "ClientRead_dataPacket H N D remote p s =
    Inr (client_read_continued D (length (dp_data p)) (sent_ack H (dp_blockNumber p) s))"
  using assms by (simp add: ClientRead_dataPacket_def cmd_simps)

lemma ClientRead_dataPacket_unexpected:
  assumes "never_fails N" and "cr_dataHandlerV s = Some h"
    and "dp_blockNumber p \<noteq> cr_lastReceivedBlockNumber s"
    and "dp_blockNumber p \<noteq> BlockNumber_preincrement (cr_lastReceivedBlockNumber s)"
  shows "ClientRead_dataPacket H N D remote p s =
    Inr (client_finished TransferError (Some (IllegalTftpOperation, ''Block Number not expected''))
      ((sent_error H IllegalTftpOperation ''Block Number not expected'' s)
         \<lparr>cr_dataHandlerV := Some (rh_finished D h)\<rparr>))"
  using assms by (simp add: ClientRead_dataPacket_def BlockNumber_preincrement_def cmd_simps)

lemma ClientRead_dataPacket_too_big:
  assumes "never_fails N" and "cr_dataHandlerV s = Some h"
    and "dp_blockNumber p \<noteq> cr_lastReceivedBlockNumber s"
    and "dp_blockNumber p = BlockNumber_preincrement (cr_lastReceivedBlockNumber s)"
    and "unat (cr_receiveDataSize s) < length (dp_data p)"
  shows "ClientRead_dataPacket H N D remote p s =
    Inr (client_finished TransferError (Some (IllegalTftpOperation, ''Too much data''))
      ((sent_error H IllegalTftpOperation ''Too much data'' s)
         \<lparr>cr_dataHandlerV := Some (rh_finished D h)\<rparr>))"
  using assms
  by (simp add: ClientRead_dataPacket_def DataPacket_dataSize_def BlockNumber_preincrement_def cmd_simps)

text \<open>The state once the options of an OACK are in force.\<close>

definition client_read_agreed :: "u16 option \<Rightarrow> u8 option \<Rightarrow> 'h client_read \<Rightarrow> 'h client_read" where
  "client_read_agreed b t s =
     (let s = (case b of None \<Rightarrow> s | Some v \<Rightarrow> s\<lparr>cr_receiveDataSize := v\<rparr>)
      in case t of None \<Rightarrow> s | Some v \<Rightarrow> s\<lparr>co_receiveTimeoutV := uint v\<rparr>)"

lemma ClientRead_oack_ok:
  assumes "never_fails N" and "cr_dataHandlerV s = Some h"
    and "cr_lastReceivedBlockNumber s = BlockNumber 0" and "op_options p \<noteq> []"
    and "negotiate_blockSize (cr_optionsConfigurationV s) (op_options p) = Inr (b, opts1)"
    and "negotiate_timeout (cr_optionsConfigurationV s) opts1 = Inr (t, opts2)"
    and "negotiate_transferSize (oc_handleTransferSizeOption (cr_optionsConfigurationV s)) opts2 =
      Inr (None, [])"
    and "accepts_no_options (cr_optionNegotiationHandlerV s)"
  shows "ClientRead_optionsAcknowledgementPacket H N D remote p s =
    Inr (client_waiting TimeoutNormal (sent_ack H (BlockNumber 0)
      ((client_read_agreed b t s)\<lparr>cr_oackReceived := True\<rparr>)))"
  using assms
  by (cases b; cases t; cases "cr_optionNegotiationHandlerV s")
    (simp_all add: ClientRead_optionsAcknowledgementPacket_def Let_def cmd_simps
      ClientRead_receivedTransferSize_def client_read_agreed_def)

end
