(* ===== verification/ServerOperation.thy ===== *)
theory ServerOperation
  imports OperationFrame
begin

text \<open>
  \<open>servers/implementation/OperationImpl.cpp\<close>, the base of the two server operations. It is
  written like the client's, but for a socket that is connected from the start, so that there
  is no first reception. \<open>F\<close>, \<open>V\<close>, \<open>N\<close> and \<open>H\<close> are as in \<open>ClientOperation\<close>. The remote
  endpoint of the connected socket is the one it was connected to.
\<close>

record server_op = world +
  so_receiveTimeoutV :: int
  so_tftpRetriesV :: u16
  so_completionHandlerV :: bool
  so_remoteV :: endpoint
  so_localV :: endpoint
  so_receivePacketSize :: nat
  so_transmitPacketV :: bytes
  so_transmitCounterV :: u32
  so_errorInformationV :: error_information

subsection \<open>Setters\<close>

definition ServerOperation_tftpTimeout :: "int \<Rightarrow> 'a server_op_scheme cmd" where
  "ServerOperation_tftpTimeout timeout = modify (\<lambda>s. s\<lparr>so_receiveTimeoutV := timeout\<rparr>)"

definition ServerOperation_tftpRetries :: "u16 \<Rightarrow> 'a server_op_scheme cmd" where
  "ServerOperation_tftpRetries retries = modify (\<lambda>s. s\<lparr>so_tftpRetriesV := retries\<rparr>)"

definition ServerOperation_remote :: "endpoint \<Rightarrow> 'a server_op_scheme cmd" where
  "ServerOperation_remote remote = modify (\<lambda>s. s\<lparr>so_remoteV := remote\<rparr>)"

definition ServerOperation_local :: "endpoint \<Rightarrow> 'a server_op_scheme cmd" where
  "ServerOperation_local local = modify (\<lambda>s. s\<lparr>so_localV := local\<rparr>)"

definition ServerOperation_completionHandler :: "bool \<Rightarrow> 'a server_op_scheme cmd" where
  "ServerOperation_completionHandler handler = modify (\<lambda>s. s\<lparr>so_completionHandlerV := handler\<rparr>)"

definition ServerOperation_maxReceivePacketSize :: "u16 \<Rightarrow> 'a server_op_scheme cmd" where
  "ServerOperation_maxReceivePacketSize sz = modify (\<lambda>s. s\<lparr>so_receivePacketSize := unat sz\<rparr>)"

definition ServerOperation_receiveTimeout :: "int \<Rightarrow> 'a server_op_scheme cmd" where
  "ServerOperation_receiveTimeout t = modify (\<lambda>s. s\<lparr>so_receiveTimeoutV := t\<rparr>)"

subsection \<open>Start and end of an operation\<close>

definition ServerOperation_finished :: "net \<Rightarrow> 'a server_op_scheme finisher" where
  "ServerOperation_finished N status info =
     block [
       modify (\<lambda>s. s\<lparr>so_errorInformationV := info\<rparr>),
       system_call N TimerCancel,
       system_call N SocketCancel,
       system_call N SocketClose,
       \<lambda>s. if so_completionHandlerV s then modify (\<lambda>s. s\<lparr>trace := trace s @ [Completed status]\<rparr>) s
           else block [] s]"

definition ServerOperation_initialise ::
    "net \<Rightarrow> 'a server_op_scheme finisher \<Rightarrow> 'a server_op_scheme cmd" where
  "ServerOperation_initialise N F =
     try_catch is_system_error
       (block [
          \<lambda>s. system_call N (SocketOpen (endpoint_protocol (so_remoteV s))) s,
          \<lambda>s. if \<not> is_unspecified (ep_address (so_localV s))
              then system_call N (SocketBind (so_localV s)) s else block [] s,
          \<lambda>s. system_call N (SocketConnect (so_remoteV s)) s])
       (block [
          \<lambda>s. if net_is_open N (trace s) then system_call N SocketClose s else block [] s,
          F CommunicationError None])"

subsection \<open>Sending\<close>

definition ServerOperation_send ::
    "helper \<Rightarrow> net \<Rightarrow> 'a server_op_scheme finisher \<Rightarrow> packet \<Rightarrow> 'a server_op_scheme cmd" where
  "ServerOperation_send H N F packet =
     try_catch is_system_error
       (block [
          modify (\<lambda>s. s\<lparr>so_transmitCounterV := 1\<rparr>),
          modify (\<lambda>s. s\<lparr>so_transmitPacketV := Packet_encode H packet\<rparr>),
          \<lambda>s. count_transmit (packet_packetType packet) (length (so_transmitPacketV s)) s,
          \<lambda>s. system_call N (SocketSend (so_transmitPacketV s)) s])
       (F CommunicationError None)"

text \<open>An error packet is built, sent, and the operation finished with its information.\<close>

definition ServerOperation_reject ::
    "helper \<Rightarrow> net \<Rightarrow> 'a server_op_scheme finisher \<Rightarrow> transfer_status \<Rightarrow> error_code \<Rightarrow> string \<Rightarrow>
     'a server_op_scheme cmd" where
  "ServerOperation_reject H N F status code msg =
     (let errorPacket = \<lparr>ep_errorCode = code, ep_errorMessage = msg\<rparr>
      in block [
           ServerOperation_send H N F (ERR errorPacket),
           F status (ErrorPacket_errorInformation errorPacket)])"

definition ServerOperation_gracefulAbort ::
    "helper \<Rightarrow> net \<Rightarrow> 'a server_op_scheme finisher \<Rightarrow> error_code \<Rightarrow> string \<Rightarrow>
     'a server_op_scheme cmd" where
  "ServerOperation_gracefulAbort H N F code msg =
     (let errorPacket = \<lparr>ep_errorCode = code, ep_errorMessage = msg\<rparr>
      in block [
           ServerOperation_send H N F (ERR errorPacket),
           F Aborted (ErrorPacket_errorInformation errorPacket)])"

definition ServerOperation_abort :: "'a server_op_scheme finisher \<Rightarrow> 'a server_op_scheme cmd" where
  "ServerOperation_abort F = F Aborted None"

subsection \<open>Starting to receive\<close>

definition ServerOperation_receive ::
    "net \<Rightarrow> 'a server_op_scheme finisher \<Rightarrow> 'a server_op_scheme cmd" where
  "ServerOperation_receive N F =
     try_catch is_system_error
       (block [
          \<lambda>s. system_call N (AsyncReceive (so_receivePacketSize s)) s,
          \<lambda>s. system_call N (ExpiresAfter (so_receiveTimeoutV s)) s,
          system_call N (AsyncWait TimeoutNormal)])
       (F CommunicationError None)"

definition ServerOperation_receiveDally ::
    "net \<Rightarrow> 'a server_op_scheme finisher \<Rightarrow> 'a server_op_scheme cmd" where
  "ServerOperation_receiveDally N F =
     try_catch is_system_error
       (block [
          \<lambda>s. system_call N (AsyncReceive (so_receivePacketSize s)) s,
          \<lambda>s. system_call N (ExpiresAfter (2 * so_receiveTimeoutV s)) s,
          system_call N (AsyncWait TimeoutDally)])
       (F CommunicationError None)"

subsection \<open>Packets no server operation expects, and errors\<close>

definition ServerOperation_readRequestPacket ::
    "helper \<Rightarrow> net \<Rightarrow> 'a server_op_scheme finisher \<Rightarrow> endpoint \<Rightarrow> request_packet \<Rightarrow>
     'a server_op_scheme cmd" where
  "ServerOperation_readRequestPacket H N F remote p =
     ServerOperation_reject H N F TransferError IllegalTftpOperation ''RRQ packet isn't expected''"

definition ServerOperation_writeRequestPacket ::
    "helper \<Rightarrow> net \<Rightarrow> 'a server_op_scheme finisher \<Rightarrow> endpoint \<Rightarrow> request_packet \<Rightarrow>
     'a server_op_scheme cmd" where
  "ServerOperation_writeRequestPacket H N F remote p =
     ServerOperation_reject H N F TransferError IllegalTftpOperation ''WRQ packet isn't expected''"

definition ServerOperation_errorPacket ::
    "helper \<Rightarrow> 'a server_op_scheme finisher \<Rightarrow> endpoint \<Rightarrow> error_packet \<Rightarrow>
     'a server_op_scheme cmd" where
  "ServerOperation_errorPacket H F remote p =
     (\<lambda>s. if Packet_packetType H (so_transmitPacketV s) = OptionsAcknowledgement
          then if ep_errorCode p = TftpOptionRefused
               then F OptionNegotiationError (ErrorPacket_errorInformation p) s
               else F TransferError (ErrorPacket_errorInformation p) s
          else F TransferError (ErrorPacket_errorInformation p) s)"

definition ServerOperation_optionsAcknowledgementPacket ::
    "helper \<Rightarrow> net \<Rightarrow> 'a server_op_scheme finisher \<Rightarrow> endpoint \<Rightarrow> oack_packet \<Rightarrow>
     'a server_op_scheme cmd" where
  "ServerOperation_optionsAcknowledgementPacket H N F remote p =
     ServerOperation_reject H N F TransferError IllegalTftpOperation ''OACK packet isn't expected''"

definition ServerOperation_invalidPacket ::
    "helper \<Rightarrow> net \<Rightarrow> 'a server_op_scheme finisher \<Rightarrow> endpoint \<Rightarrow> bytes \<Rightarrow>
     'a server_op_scheme cmd" where
  "ServerOperation_invalidPacket H N F remote rawPacket =
     ServerOperation_reject H N F TransferError IllegalTftpOperation
       ''Invalid packet isn't expected''"

subsection \<open>Completion of a reception\<close>

text \<open>\<open>remote_endpoint\<close> is called outside any try block.\<close>

definition ServerOperation_receiveHandler ::
    "helper \<Rightarrow> net \<Rightarrow> 'a server_op_scheme finisher \<Rightarrow> 'a server_op_scheme packet_handler \<Rightarrow>
     io_error \<Rightarrow> bytes \<Rightarrow> 'a server_op_scheme cmd" where
  "ServerOperation_receiveHandler H N F V errorCode rawPacket =
     (if errorCode = OperationAborted then block []
      else if errorCode \<noteq> NoError then F CommunicationError None
      else (\<lambda>s.
        case system_call N RemoteEndpoint s of
          Inl (e, s') \<Rightarrow> Inl (e, s')
        | Inr s' \<Rightarrow> PacketHandler_packet H V (so_remoteV s') rawPacket s'))"

subsection \<open>Expiry of the timer\<close>

definition ServerOperation_timeoutHandler ::
    "helper \<Rightarrow> net \<Rightarrow> 'a server_op_scheme finisher \<Rightarrow> io_error \<Rightarrow> 'a server_op_scheme cmd" where
  "ServerOperation_timeoutHandler H N F errorCode =
     (if errorCode = OperationAborted then block []
      else if errorCode \<noteq> NoError then F CommunicationError None
      else (\<lambda>s.
        if ucast (so_tftpRetriesV s) < so_transmitCounterV s then F CommunicationError None s
        else try_catch is_system_error
          (block [
             \<lambda>s. count_transmit (Packet_packetType H (so_transmitPacketV s))
                   (length (so_transmitPacketV s)) s,
             \<lambda>s. system_call N (SocketSend (so_transmitPacketV s)) s,
             modify (\<lambda>s. s\<lparr>so_transmitCounterV := so_transmitCounterV s + 1\<rparr>),
             \<lambda>s. system_call N (ExpiresAfter (so_receiveTimeoutV s)) s,
             system_call N (AsyncWait TimeoutNormal)])
          (F CommunicationError None) s))"

definition ServerOperation_timeoutDallyHandler ::
    "'a server_op_scheme finisher \<Rightarrow> io_error \<Rightarrow> 'a server_op_scheme cmd" where
  "ServerOperation_timeoutDallyHandler F errorCode =
     (if errorCode = OperationAborted then block []
      else if errorCode \<noteq> NoError then F CommunicationError None
      else F Successful None)"

lemma ServerOperation_finished_final:
  "\<exists>ok tr. final (ServerOperation_finished N status info s) =
     s\<lparr>so_errorInformationV := info, trace := trace s @ Called TimerCancel ok # tr\<rparr>"
  by (auto simp: ServerOperation_finished_def block.simps modify_apply system_call_def Let_def)

subsection \<open>Events\<close>

text \<open>
  What an operation is called with once it runs: the completion tokens, and the two ways its
  user ends it.
\<close>

datatype server_input =
    Received io_error bytes
  | NormalTimeout io_error
  | DallyTimeout io_error
  | GracefulAbort error_code string
  | Abort

fun ServerOperation_on ::
    "helper \<Rightarrow> net \<Rightarrow> 'a server_op_scheme finisher \<Rightarrow> 'a server_op_scheme packet_handler \<Rightarrow>
     server_input \<Rightarrow> 'a server_op_scheme cmd" where
  "ServerOperation_on H N F V (Received e raw) = ServerOperation_receiveHandler H N F V e raw"
| "ServerOperation_on H N F V (NormalTimeout e) = ServerOperation_timeoutHandler H N F e"
| "ServerOperation_on H N F V (DallyTimeout e) = ServerOperation_timeoutDallyHandler F e"
| "ServerOperation_on H N F V (GracefulAbort code msg) = ServerOperation_gracefulAbort H N F code msg"
| "ServerOperation_on H N F V Abort = ServerOperation_abort F"

fun server_delivers :: "server_input \<Rightarrow> bool" where
  "server_delivers (Received e raw) \<longleftrightarrow> e = NoError"
| "server_delivers _ \<longleftrightarrow> False"

subsection \<open>Contract with the derived classes\<close>

text \<open>
  The base class touches only its own fields, and of those neither the configuration nor the
  size of the receive buffer, which only setters change.
\<close>

definition server_same_frame :: "'a server_op_scheme \<Rightarrow> 'a server_op_scheme \<Rightarrow> bool" where
  "server_same_frame s s' \<longleftrightarrow>
     (\<exists>tr. trace s' = trace s @ tr) \<and>
     server_op.more s' = server_op.more s \<and>
     so_receivePacketSize s' = so_receivePacketSize s \<and>
     so_receiveTimeoutV s' = so_receiveTimeoutV s \<and>
     so_tftpRetriesV s' = so_tftpRetriesV s \<and>
     so_completionHandlerV s' = so_completionHandlerV s \<and>
     so_remoteV s' = so_remoteV s \<and>
     so_localV s' = so_localV s"

interpretation server_relation: frame_relation server_same_frame
  by unfold_locales (auto simp: server_same_frame_def)

lemma no_tftp_system_call: "no_tftp (system_call N c)" "no_tftp (\<lambda>s. system_call N (c' s) s)"
  "no_tftp (\<lambda>s. count_transmit (t s) (n s) s)"
  by (auto simp: no_tftp_def system_call_def count_transmit_def modify_apply is_tftp_exception_def Let_def)

text \<open>With a \<open>finished\<close> that throws no \<open>TftpException\<close>, neither do the operations.\<close>

lemma ServerOperation_no_tftp:
  assumes "\<And>status info. no_tftp (F status info)"
  shows "no_tftp (ServerOperation_send H N F p)" "no_tftp (ServerOperation_receive N F)"
    "no_tftp (ServerOperation_reject H N F status code msg)" "no_tftp (ServerOperation_initialise N F)"
proof -
  show send: "no_tftp (ServerOperation_send H N F p)" for p
    unfolding ServerOperation_send_def by (auto intro!: no_tftp_intros no_tftp_system_call assms)
  show "no_tftp (ServerOperation_receive N F)"
    unfolding ServerOperation_receive_def by (auto intro!: no_tftp_intros no_tftp_system_call assms)
  show "no_tftp (ServerOperation_reject H N F status code msg)"
    unfolding ServerOperation_reject_def Let_def by (auto intro!: no_tftp_intros send assms)
  show "no_tftp (ServerOperation_initialise N F)"
    unfolding ServerOperation_initialise_def by (auto intro!: no_tftp_intros no_tftp_system_call assms)
qed

locale server_frame = operation_frame server_same_frame P F
  for P :: "'a server_op_scheme \<Rightarrow> bool" and F :: "'a server_op_scheme finisher"
begin

lemma modify_steps:
  "frame_step server_same_frame (modify (\<lambda>s. s\<lparr>so_transmitPacketV := b\<rparr>)) s"
  "frame_step server_same_frame (modify (\<lambda>s. s\<lparr>so_transmitCounterV := n\<rparr>)) s"
  "frame_step server_same_frame (modify (\<lambda>s. s\<lparr>so_transmitCounterV := so_transmitCounterV s + 1\<rparr>)) s"
  by (rule frame_step_modify, simp add: server_same_frame_def)+

lemmas steps = server_relation.frame_steps modify_steps frame_step_if

lemmas try_defs =
  ServerOperation_send_def ServerOperation_receive_def ServerOperation_receiveDally_def

lemma keeps_steps:
  "keeps P (ServerOperation_send H N F p)"
  "keeps P (ServerOperation_receive N F)"
  "keeps P (ServerOperation_receiveDally N F)"
  unfolding try_defs by (rule keeps_try; auto intro!: steps keeps_F)+

lemma runs_on_steps:
  assumes "P s"
  shows "runs_on server_same_frame (ServerOperation_send H N F p) s"
    and "runs_on server_same_frame (ServerOperation_receive N F) s"
    and "runs_on server_same_frame (ServerOperation_receiveDally N F) s"
  unfolding try_defs by (rule runs_on_try [OF _ assms]; auto intro!: steps dest: ended_F_Inr)+

lemma send_throws:
  assumes "ServerOperation_send H N F p s = Inl (e, s')" and "P s"
  shows "ended (trace s')"
  using assms(1) unfolding ServerOperation_send_def
  by (rule try_throws [OF _ assms(2), rotated]) (auto intro!: steps)

lemma keeps_close:
  "keeps P (block [\<lambda>s. if net_is_open N (trace s) then system_call N SocketClose s else block [] s,
     F CommunicationError None])"
  by (rule keeps_block) (auto intro!: keeps_F steps intro: keeps_frame_step)

lemma close_ends:
  assumes "P s" and "block [\<lambda>s. if net_is_open N (trace s) then system_call N SocketClose s
     else block [] s, F CommunicationError None] s = Inr s'"
  shows "ended (trace s')"
  using assms frame [OF server_relation.R_call [of s SocketClose] assms(1)]
  by (auto simp: block.simps system_call_def Let_def dest: ended_F_Inr split: if_splits sum.splits)

lemma keeps_initialise: "keeps P (ServerOperation_initialise N F)"
  unfolding ServerOperation_initialise_def
  by (rule keeps_try [OF _ keeps_close]) (auto intro!: steps)

lemma runs_on_initialise: "P s \<Longrightarrow> runs_on server_same_frame (ServerOperation_initialise N F) s"
  unfolding ServerOperation_initialise_def
  by (rule runs_on_try; auto intro!: steps dest: close_ends)

lemma keeps_reject: "keeps P (ServerOperation_reject H N F status code msg)"
  unfolding ServerOperation_reject_def Let_def
  by (intro keeps_block) (auto intro: keeps_steps keeps_F)

text \<open>A rejection ends the operation, whether or not the error packet can be sent.\<close>

lemma reject_ends:
  assumes "P s"
  shows "ended (trace (final (ServerOperation_reject H N F status code msg s)))"
proof (cases "ServerOperation_send H N F (ERR \<lparr>ep_errorCode = code, ep_errorMessage = msg\<rparr>) s")
  case (Inl es)
  then show ?thesis
    using send_throws [OF _ assms]
    by (cases es) (auto simp: ServerOperation_reject_def Let_def block.simps)
next
  case (Inr s')
  with keepsD [OF keeps_steps(1) assms] have "P s'" by (metis final.simps(2))
  moreover have "ServerOperation_reject H N F status code msg s =
      F status (ErrorPacket_errorInformation \<lparr>ep_errorCode = code, ep_errorMessage = msg\<rparr>) s'"
    using Inr by (simp add: ServerOperation_reject_def Let_def block.simps block_single split: sum.split)
  ultimately show ?thesis by (simp only: ended_F)
qed

lemma keeps_gracefulAbort: "keeps P (ServerOperation_gracefulAbort H N F code msg)"
  unfolding ServerOperation_gracefulAbort_def Let_def
  by (intro keeps_block) (auto intro!: keeps_steps keeps_F keeps_fun_if keeps_block)

lemma keeps_abort: "keeps P (ServerOperation_abort F)"
  unfolding ServerOperation_abort_def by (rule keeps_F)

lemma keeps_errorPacket: "keeps P (ServerOperation_errorPacket H F remote p)"
  unfolding ServerOperation_errorPacket_def
  by (intro keeps_fun_if keeps_F)

lemma keeps_timeouts:
  "keeps P (ServerOperation_timeoutHandler H N F errorCode)"
  "keeps P (ServerOperation_timeoutDallyHandler F errorCode)"
  unfolding ServerOperation_timeoutHandler_def
    ServerOperation_timeoutDallyHandler_def
  by (rule keeps_errors, (rule keeps_resend | rule keeps_F); auto intro!: steps)+

lemma receiveHandler_establishes:
  assumes "raw_data H" and "P s" and "errorCode = NoError \<Longrightarrow> \<not> ended (trace s)"
    and "\<And>remote p s. P s \<Longrightarrow> \<not> ended (trace s) \<Longrightarrow> P (final (call_handler V remote p s))"
    and "\<And>remote raw. keeps P (ph_invalidPacket V remote raw)"
  shows "P (final (ServerOperation_receiveHandler H N F V errorCode raw s))"
proof (cases "errorCode = NoError")
  case True
  then show ?thesis
    using packet_after_establishes [OF assms(1,2) _ _ assms(4,5), where c = RemoteEndpoint
        and h = "\<lambda>e s. Inl (e, s)" and N = N and raw = raw and r = so_remoteV] assms(3)
    by (simp add: ServerOperation_receiveHandler_def)
next
  case False
  then show ?thesis
    using keepsD [OF keeps_F assms(2)] assms(2)
    by (simp add: ServerOperation_receiveHandler_def block.simps)
qed

lemma on_establishes:
  assumes "raw_data H" and "P s" and "server_delivers input \<Longrightarrow> \<not> ended (trace s)"
    and "\<And>remote p s. P s \<Longrightarrow> \<not> ended (trace s) \<Longrightarrow> P (final (call_handler V remote p s))"
    and "\<And>remote raw. keeps P (ph_invalidPacket V remote raw)"
  shows "P (final (ServerOperation_on H N F V input s))"
  using assms receiveHandler_establishes [OF assms(1,2) _ assms(4,5)]
  by (cases input)
    (auto intro: keepsD [OF keeps_timeouts(1)] keepsD [OF keeps_timeouts(2)]
      keepsD [OF keeps_gracefulAbort] keepsD [OF keeps_abort])

text \<open>
  The frame of both \<open>start\<close> functions: the socket is initialised, \<open>c\<close> does the rest, and what
  is thrown is caught. If the operation still runs afterwards, nothing was thrown but a
  \<open>TftpException\<close>, after the initialisation, and what \<open>c\<close> establishes holds.
\<close>

lemma start_establishes:
  assumes start: "try_catch is_exception (try_catch is_tftp_exception
      (block [ServerOperation_initialise N F, c, d]) (block [])) (F CommunicationError None) s0 = Inr s"
    and "\<not> ended (trace s)" and "P s0" and "\<And>status info. no_tftp (F status info)"
    and rest: "\<And>s1. P s1 \<Longrightarrow> ended (trace s1) \<or> server_same_frame s0 s1 \<Longrightarrow>
      Q (final (block [c, d] s1))"
    and ends: "\<And>s'. Q s' \<Longrightarrow> F CommunicationError None s' = Inr s \<Longrightarrow> ended (trace s)"
  shows "Q s"
proof -
  let ?body = "block [ServerOperation_initialise N F, c, d]"
  have init: "P (final (ServerOperation_initialise N F s0))"
    by (rule keepsD [OF keeps_initialise assms(3)])
  have F: False if "F CommunicationError None s' = Inr s" "P s' \<or> Q s'" for s'
    using that ended_F_Inr [of CommunicationError None s' s] ends [of s'] assms(2) by auto
  show ?thesis
  proof (cases "ServerOperation_initialise N F s0")
    case (Inl es)
    then obtain e s1 where s1: "ServerOperation_initialise N F s0 = Inl (e, s1)" by (cases es) auto
    have "no_tftp (ServerOperation_initialise N F)"
      by (rule ServerOperation_no_tftp(4)) (rule assms(4))
    from this s1 have "\<not> is_tftp_exception e" by (rule no_tftpD)
    with start s1 F [of s1] init show ?thesis
      by (auto simp: try_catch_def block.simps split: if_splits)
  next
    case (Inr s1)
    with init runs_on_initialise [OF assms(3), of N] have s1: "P s1" "ended (trace s1) \<or> server_same_frame s0 s1"
      by (simp_all add: runs_on_def)
    have body: "?body s0 = block [c, d] s1" using Inr by (simp add: block.simps)
    show ?thesis
      using rest [OF s1] start body
      by (cases "block [c, d] s1") (auto simp: try_catch_def block.simps(1) split: if_splits dest: F)
  qed
qed

end

lemmas server_frame_F = operation_frame.keeps_F [OF server_frame.axioms]
lemmas server_frame_ended = operation_frame.ended_F [OF server_frame.axioms]
lemmas server_frame_ended_Inr = operation_frame.ended_F_Inr [OF server_frame.axioms]

subsection \<open>Operations on a network that accepts every call\<close>

text \<open>
  What \<open>send\<close>, the receive operations and \<open>finished\<close> do to the state when no
  call fails.
\<close>

definition server_sent :: "helper \<Rightarrow> packet \<Rightarrow>
    'a server_op_scheme \<Rightarrow> 'a server_op_scheme" where
  "server_sent H p s =
     (let raw = Packet_encode H p
      in s\<lparr>so_transmitCounterV := 1, so_transmitPacketV := raw,
           globalTransmit := PacketStatistic_packet (packet_packetType p) (length raw) (globalTransmit s),
           trace := trace s @ [Called (SocketSend raw) True]\<rparr>)"

definition server_waiting :: "wait_handler \<Rightarrow> 'a server_op_scheme \<Rightarrow> 'a server_op_scheme" where
  "server_waiting w s =
     s\<lparr>trace := trace s @
       [Called (AsyncReceive (so_receivePacketSize s)) True,
        Called (ExpiresAfter ((if w = TimeoutDally then 2 else 1) * so_receiveTimeoutV s)) True,
        Called (AsyncWait w) True]\<rparr>"

definition server_finished ::
    "transfer_status \<Rightarrow> error_information \<Rightarrow> 'a server_op_scheme \<Rightarrow> 'a server_op_scheme" where
  "server_finished status info s =
     s\<lparr>so_errorInformationV := info,
       trace := trace s @ [Called TimerCancel True, Called SocketCancel True, Called SocketClose True] @
         (if so_completionHandlerV s then [Completed status] else [])\<rparr>"

lemmas server_state_defs = server_sent_def server_waiting_def server_finished_def

lemma server_send_ok [cmd_simps]:
  "never_fails N \<Longrightarrow> ServerOperation_send H N F p s = Inr (server_sent H p s)"
  by (simp add: ServerOperation_send_def try_catch_def server_sent_def Let_def cmd_simps)

lemma server_receive_ok [cmd_simps]:
  assumes "never_fails N"
  shows "ServerOperation_receive N F s = Inr (server_waiting TimeoutNormal s)"
    and "ServerOperation_receiveDally N F s = Inr (server_waiting TimeoutDally s)"
  using assms
  by (simp_all add: ServerOperation_receive_def
      ServerOperation_receiveDally_def try_catch_def server_waiting_def cmd_simps)

lemma server_finished_ok [cmd_simps]:
  "never_fails N \<Longrightarrow> ServerOperation_finished N status info s = Inr (server_finished status info s)"
  by (simp add: ServerOperation_finished_def server_finished_def cmd_simps)

text \<open>The freshly opened and connected socket, bound if a local address is set.\<close>

abbreviation server_opened :: "'a server_op_scheme \<Rightarrow> 'a server_op_scheme" where
  "server_opened s \<equiv>
     s\<lparr>trace := trace s @ [Called (SocketOpen (endpoint_protocol (so_remoteV s))) True] @
       (if is_unspecified (ep_address (so_localV s)) then []
        else [Called (SocketBind (so_localV s)) True]) @ [Called (SocketConnect (so_remoteV s)) True]\<rparr>"

lemma ServerOperation_initialise_ok [cmd_simps]:
  "never_fails N \<Longrightarrow> ServerOperation_initialise N F s = Inr (server_opened s)"
  by (simp add: ServerOperation_initialise_def try_catch_def cmd_simps)

lemma server_sent_simps [simp]:
  "server_op.more (server_sent H p s) = server_op.more s"
  "so_transmitPacketV (server_sent H p s) = Packet_encode H p"
  "so_transmitCounterV (server_sent H p s) = 1"
  "so_completionHandlerV (server_sent H p s) = so_completionHandlerV s"
  "so_errorInformationV (server_sent H p s) = so_errorInformationV s"
  "so_receivePacketSize (server_sent H p s) = so_receivePacketSize s"
  "so_remoteV (server_sent H p s) = so_remoteV s"
  "so_tftpRetriesV (server_sent H p s) = so_tftpRetriesV s"
  "trace (server_sent H p s) = trace s @ [Called (SocketSend (Packet_encode H p)) True]"
  by (simp_all add: server_sent_def Let_def)

lemma server_waiting_simps [simp]:
  "server_op.more (server_waiting w s) = server_op.more s"
  "so_transmitPacketV (server_waiting w s) = so_transmitPacketV s"
  "so_transmitCounterV (server_waiting w s) = so_transmitCounterV s"
  "so_completionHandlerV (server_waiting w s) = so_completionHandlerV s"
  "so_errorInformationV (server_waiting w s) = so_errorInformationV s"
  "so_receivePacketSize (server_waiting w s) = so_receivePacketSize s"
  "so_remoteV (server_waiting w s) = so_remoteV s"
  "so_tftpRetriesV (server_waiting w s) = so_tftpRetriesV s"
  "sent (trace (server_waiting w s)) = sent (trace s)"
  "completions (trace (server_waiting w s)) = completions (trace s)"
  by (simp_all add: server_waiting_def)

lemma server_finished_simps [simp]:
  "server_op.more (server_finished st i s) = server_op.more s"
  "so_errorInformationV (server_finished st i s) = i"
  "so_transmitPacketV (server_finished st i s) = so_transmitPacketV s"
  "so_completionHandlerV (server_finished st i s) = so_completionHandlerV s"
  "sent (trace (server_finished st i s)) = sent (trace s)"
  "completions (trace (server_finished st i s)) =
     completions (trace s) @ (if so_completionHandlerV s then [st] else [])"
  by (simp_all add: server_finished_def)

subsection \<open>Retransmission\<close>

definition server_resent :: "helper \<Rightarrow> 'a server_op_scheme \<Rightarrow> 'a server_op_scheme" where
  "server_resent H s =
     s\<lparr>globalTransmit := PacketStatistic_packet (Packet_packetType H (so_transmitPacketV s))
           (length (so_transmitPacketV s)) (globalTransmit s),
       so_transmitCounterV := so_transmitCounterV s + 1,
       trace := trace s @ [Called (SocketSend (so_transmitPacketV s)) True,
         Called (ExpiresAfter (so_receiveTimeoutV s)) True, Called (AsyncWait TimeoutNormal) True]\<rparr>"

lemma server_timeout_resends:
  assumes "never_fails N" and "\<not> ucast (so_tftpRetriesV s) < so_transmitCounterV s"
  shows "ServerOperation_timeoutHandler H N F NoError s = Inr (server_resent H s)"
  using assms
  by (simp add: ServerOperation_timeoutHandler_def try_catch_def server_resent_def cmd_simps)

lemma server_timeout_gives_up:
  "ucast (so_tftpRetriesV s) < so_transmitCounterV s \<Longrightarrow>
   ServerOperation_timeoutHandler H N F NoError s = F CommunicationError None s"
  by (simp add: ServerOperation_timeoutHandler_def)

lemma server_timeouts_resend:
  assumes "never_fails N" and "so_transmitCounterV s = 1" and "n \<le> unat (so_tftpRetriesV s)"
  shows "\<exists>s'. block (replicate n (ServerOperation_timeoutHandler H N F NoError)) s = Inr s' \<and>
    so_transmitCounterV s' = word_of_nat (Suc n) \<and> so_tftpRetriesV s' = so_tftpRetriesV s \<and>
    so_transmitPacketV s' = so_transmitPacketV s \<and> server_op.more s' = server_op.more s \<and>
    sent (trace s') = sent (trace s) @ replicate n (so_transmitPacketV s) \<and>
    completions (trace s') = completions (trace s)"
  using assms(3)
proof (induction n)
  case 0
  then show ?case using assms(2) by (simp add: block.simps)
next
  case (Suc n)
  then obtain s' where s': "block (replicate n (ServerOperation_timeoutHandler H N F NoError)) s = Inr s'"
      "so_transmitCounterV s' = word_of_nat (Suc n)" "so_tftpRetriesV s' = so_tftpRetriesV s"
      "so_transmitPacketV s' = so_transmitPacketV s" "server_op.more s' = server_op.more s"
      "sent (trace s') = sent (trace s) @ replicate n (so_transmitPacketV s)"
      "completions (trace s') = completions (trace s)"
    by auto
  have "\<not> ucast (so_tftpRetriesV s') < so_transmitCounterV s'"
    using Suc.prems s'(2,3) retries_less_counter [of n "so_tftpRetriesV s"] by simp
  from server_timeout_resends [OF assms(1) this, of H F]
  have "block (replicate (Suc n) (ServerOperation_timeoutHandler H N F NoError)) s =
      Inr (server_resent H s')"
    by (simp only: replicate_Suc replicate_append_same [symmetric] block_append s'(1)
        block.simps sum.case)
  then show ?case
    using s' by (simp add: server_resent_def replicate_append_same del: block.simps)
qed

end
