(* ===== verification/ServerRead.thy ===== *)
theory ServerRead
  imports ServerOperation DataHandler Configuration
begin

text \<open>
  \<open>servers/implementation/ReadOperationImpl.cpp\<close>: the server's side of a download. The state
  extends that of the base class, \<open>'h\<close> is the state of the data handler and \<open>S\<close> its virtual
  functions. \<open>start\<close> answers the request with an OACK or the first block.
\<close>

record 'h server_read = server_op +
  sr_optionsConfigurationV :: options_configuration
  sr_dataHandlerV :: "'h option"
  sr_clientOptionsV :: tftp_options
  sr_additionalNegotiatedOptionsV :: options
  sr_transmitDataSize :: u16
  sr_lastDataPacketTransmitted :: bool
  sr_lastTransmittedBlockNumber :: block_number
  sr_lastReceivedBlockNumber :: block_number

definition ServerRead_new :: "world \<Rightarrow> 'h server_read" where
  "ServerRead_new w =
     \<lparr>trace = trace w, globalTransmit = globalTransmit w, globalReceive = globalReceive w,
      so_receiveTimeoutV = DefaultTftpReceiveTimeout, so_tftpRetriesV = DefaultTftpRetries,
      so_completionHandlerV = False, so_remoteV = no_endpoint, so_localV = no_endpoint,
      so_receivePacketSize = unat DefaultMaxPacketSize, so_transmitPacketV = [],
      so_transmitCounterV = 0, so_errorInformationV = None,
      sr_optionsConfigurationV = TftpOptionsConfiguration_default, sr_dataHandlerV = None,
      sr_clientOptionsV = no_tftp_options, sr_additionalNegotiatedOptionsV = [],
      sr_transmitDataSize = DefaultDataSize, sr_lastDataPacketTransmitted = False,
      sr_lastTransmittedBlockNumber = BlockNumber 0, sr_lastReceivedBlockNumber = BlockNumber 0\<rparr>"

subsection \<open>Setters\<close>

definition ServerRead_optionsConfiguration :: "options_configuration \<Rightarrow> 'h server_read cmd" where
  "ServerRead_optionsConfiguration cfg = modify (\<lambda>s. s\<lparr>sr_optionsConfigurationV := cfg\<rparr>)"

definition ServerRead_dataHandler :: "'h option \<Rightarrow> 'h server_read cmd" where
  "ServerRead_dataHandler handler = modify (\<lambda>s. s\<lparr>sr_dataHandlerV := handler\<rparr>)"

definition ServerRead_clientOptions :: "tftp_options \<Rightarrow> 'h server_read cmd" where
  "ServerRead_clientOptions opts = modify (\<lambda>s. s\<lparr>sr_clientOptionsV := opts\<rparr>)"

definition ServerRead_additionalNegotiatedOptions :: "options \<Rightarrow> 'h server_read cmd" where
  "ServerRead_additionalNegotiatedOptions opts =
     modify (\<lambda>s. s\<lparr>sr_additionalNegotiatedOptionsV := opts\<rparr>)"

subsection \<open>Calls on the data handler\<close>

definition ServerRead_on_handler :: "('h \<Rightarrow> 'h) \<Rightarrow> 'h server_read cmd" where
  "ServerRead_on_handler f s =
     (case sr_dataHandlerV s of
        None \<Rightarrow> Inl (Undefined, s)
      | Some h \<Rightarrow> Inr (s\<lparr>sr_dataHandlerV := Some (f h)\<rparr>))"

definition ServerRead_start_handler :: "'h transmit_handler \<Rightarrow> 'h server_read cmd" where
  "ServerRead_start_handler S s =
     (case sr_dataHandlerV s of
        None \<Rightarrow> Inl (Undefined, s)
      | Some h \<Rightarrow>
          (case th_start S h of
             Inl (e, h') \<Rightarrow> Inl (e, s\<lparr>sr_dataHandlerV := Some h'\<rparr>)
           | Inr h' \<Rightarrow> Inr (s\<lparr>sr_dataHandlerV := Some h'\<rparr>)))"

subsection \<open>The operation\<close>

definition ServerRead_finished :: "net \<Rightarrow> 'h transmit_handler \<Rightarrow> 'h server_read finisher" where
  "ServerRead_finished N S status info =
     noexcept (block [
       ServerRead_on_handler (th_finished S),
       ServerOperation_finished N status info])"

definition ServerRead_sendData ::
    "helper \<Rightarrow> net \<Rightarrow> 'h transmit_handler \<Rightarrow> 'h server_read cmd" where
  "ServerRead_sendData H N S =
     block [
       modify (\<lambda>s. s\<lparr>sr_lastTransmittedBlockNumber :=
         BlockNumber_preincrement (sr_lastTransmittedBlockNumber s)\<rparr>),
       \<lambda>s. case sr_dataHandlerV s of
             None \<Rightarrow> throw Undefined s
           | Some h \<Rightarrow>
               let (d, h') = th_sendData S (unat (sr_transmitDataSize s)) h;
                   data = \<lparr>dp_blockNumber = sr_lastTransmittedBlockNumber s, dp_data = d\<rparr>
               in block [
                    modify (\<lambda>s. s\<lparr>sr_dataHandlerV := Some h'\<rparr>),
                    \<lambda>s. if DataPacket_dataSize data < unat (sr_transmitDataSize s)
                        then modify (\<lambda>s. s\<lparr>sr_lastDataPacketTransmitted := True\<rparr>) s
                        else block [] s,
                    ServerOperation_send H N (ServerRead_finished N S) (DATA data)] s]"

text \<open>
  The options of the OACK. The block size and the timeout that are granted come into force
  at once; the transfer size needs the data handler and may end the operation, which is why
  it is separate.
\<close>

definition ServerRead_grant :: "'h server_read \<Rightarrow> options \<times> 'h server_read" where
  "ServerRead_grant s =
     (let cfg = sr_optionsConfigurationV s; opts = sr_clientOptionsV s;
          serverOptions = sr_additionalNegotiatedOptionsV s;
          (serverOptions, s) =
            (case (oc_blockSizeOption cfg, to_blockSize opts) of
               (Some b, Some c) \<Rightarrow>
                 (try_emplace (TftpOptions_name BlockSize) (to_string (unat (min c b))) serverOptions,
                  s\<lparr>sr_transmitDataSize := min c b\<rparr>)
             | _ \<Rightarrow> (serverOptions, s))
      in case (oc_timeoutOption cfg, to_timeout opts) of
           (Some t, Some c) \<Rightarrow>
             if uint c \<le> t
             then (try_emplace (TftpOptions_name Timeout) (to_string (unat c)) serverOptions,
                   s\<lparr>so_receiveTimeoutV := uint c\<rparr>)
             else (serverOptions, s)
         | _ \<Rightarrow> (serverOptions, s))"

definition ServerRead_start ::
    "helper \<Rightarrow> net \<Rightarrow> 'h transmit_handler \<Rightarrow> 'h server_read cmd" where
  "ServerRead_start H N S s =
     (let F = ServerRead_finished N S;
          answer = (\<lambda>serverOptions.
            if serverOptions \<noteq> []
            then block [
              modify (\<lambda>s. s\<lparr>sr_lastReceivedBlockNumber := BlockNumber 0xFFFF\<rparr>),
              ServerOperation_send H N F (OACK \<lparr>op_options = serverOptions\<rparr>),
              ServerOperation_receive N F]
            else block [ServerRead_sendData H N S, ServerOperation_receive N F])
      in if sr_dataHandlerV s = None then throw TftpEx s
      else try_catch is_exception
        (try_catch is_tftp_exception
          (block [
             ServerOperation_initialise N F,
             ServerRead_start_handler S,
             \<lambda>s. if \<not> TftpOptions_bool (sr_clientOptionsV s) \<and> sr_additionalNegotiatedOptionsV s = []
                 then block [ServerRead_sendData H N S, ServerOperation_receive N F] s
                 else
                   let (serverOptions, s) = ServerRead_grant s in
                   case (oc_handleTransferSizeOption (sr_optionsConfigurationV s),
                         to_transferSize (sr_clientOptionsV s)) of
                     (True, Some transferSize) \<Rightarrow>
                       if transferSize \<noteq> 0
                       then ServerOperation_reject H N F TransferError TftpOptionRefused
                         ''transfer size must be 0'' s
                       else (case sr_dataHandlerV s of
                           None \<Rightarrow> throw Undefined s
                         | Some h \<Rightarrow>
                             let (newTransferSize, h') = th_requestedTransferSize S h
                             in answer
                                  (case newTransferSize of
                                     None \<Rightarrow> serverOptions
                                   | Some n \<Rightarrow> try_emplace (TftpOptions_name TransferSize)
                                       (to_string (unat n)) serverOptions)
                                  (s\<lparr>sr_dataHandlerV := Some h'\<rparr>))
                   | _ \<Rightarrow> answer serverOptions s])
          (block []))
        (F CommunicationError None) s)"

definition ServerRead_dataPacket ::
    "helper \<Rightarrow> net \<Rightarrow> 'h transmit_handler \<Rightarrow> endpoint \<Rightarrow> data_packet \<Rightarrow> 'h server_read cmd" where
  "ServerRead_dataPacket H N S remote p =
     ServerOperation_reject H N (ServerRead_finished N S) TransferError IllegalTftpOperation
       ''DATA packet isn't expected''"

definition ServerRead_acknowledgementPacket ::
    "helper \<Rightarrow> net \<Rightarrow> 'h transmit_handler \<Rightarrow> endpoint \<Rightarrow> ack_packet \<Rightarrow> 'h server_read cmd" where
  "ServerRead_acknowledgementPacket H N S remote p =
     (\<lambda>s. if BlockNumber_equal (ap_blockNumber p) (sr_lastReceivedBlockNumber s)
          then ServerOperation_receive N (ServerRead_finished N S) s
          else if \<not> BlockNumber_equal (ap_blockNumber p) (sr_lastTransmittedBlockNumber s)
          then ServerOperation_reject H N (ServerRead_finished N S) TransferError
            IllegalTftpOperation ''Wrong block number'' s
          else block [
            modify (\<lambda>s. s\<lparr>sr_lastReceivedBlockNumber := ap_blockNumber p\<rparr>),
            \<lambda>s. if sr_lastDataPacketTransmitted s
                then ServerRead_finished N S Successful None s
                else block [
                  ServerRead_sendData H N S,
                  ServerOperation_receive N (ServerRead_finished N S)] s] s)"

definition ServerRead_handlers ::
    "helper \<Rightarrow> net \<Rightarrow> 'h transmit_handler \<Rightarrow> 'h server_read packet_handler" where
  "ServerRead_handlers H N S =
     \<lparr>ph_readRequestPacket = ServerOperation_readRequestPacket H N (ServerRead_finished N S),
      ph_writeRequestPacket = ServerOperation_writeRequestPacket H N (ServerRead_finished N S),
      ph_dataPacket = ServerRead_dataPacket H N S,
      ph_acknowledgementPacket = ServerRead_acknowledgementPacket H N S,
      ph_errorPacket = ServerOperation_errorPacket H (ServerRead_finished N S),
      ph_optionsAcknowledgementPacket =
        ServerOperation_optionsAcknowledgementPacket H N (ServerRead_finished N S),
      ph_invalidPacket = ServerOperation_invalidPacket H N (ServerRead_finished N S)\<rparr>"

definition ServerRead_on ::
    "helper \<Rightarrow> net \<Rightarrow> 'h transmit_handler \<Rightarrow> server_input \<Rightarrow> 'h server_read cmd" where
  "ServerRead_on H N S = ServerOperation_on H N (ServerRead_finished N S) (ServerRead_handlers H N S)"

end
