(* ===== verification/ServerReadSteps.thy ===== *)
theory ServerReadSteps
  imports ServerRead Files
begin

text \<open>
  What the server's side of a download does on each packet when no call on the socket or the
  timer fails.
\<close>

lemma server_read_sent [simp]:
  "sr_dataHandlerV (server_sent H p s) = sr_dataHandlerV s"
  "sr_transmitDataSize (server_sent H p s) = sr_transmitDataSize s"
  "sr_lastDataPacketTransmitted (server_sent H p s) = sr_lastDataPacketTransmitted s"
  "sr_lastTransmittedBlockNumber (server_sent H p s) = sr_lastTransmittedBlockNumber s"
  "sr_lastReceivedBlockNumber (server_sent H p s) = sr_lastReceivedBlockNumber s"
  by (simp_all add: server_sent_def Let_def)

lemma server_read_waiting [simp]:
  "sr_dataHandlerV (server_waiting w s) = sr_dataHandlerV s"
  "sr_transmitDataSize (server_waiting w s) = sr_transmitDataSize s"
  "sr_lastDataPacketTransmitted (server_waiting w s) = sr_lastDataPacketTransmitted s"
  "sr_lastTransmittedBlockNumber (server_waiting w s) = sr_lastTransmittedBlockNumber s"
  "sr_lastReceivedBlockNumber (server_waiting w s) = sr_lastReceivedBlockNumber s"
  by (simp_all add: server_waiting_def)

lemma ServerRead_finished_ok [cmd_simps]:
  "never_fails N \<Longrightarrow> sr_dataHandlerV s = Some h \<Longrightarrow>
   ServerRead_finished N S status info s =
     Inr (server_finished status info (s\<lparr>sr_dataHandlerV := Some (th_finished S h)\<rparr>))"
  by (simp add: ServerRead_finished_def ServerRead_on_handler_def cmd_simps noexcept_def)

lemma ServerRead_reject_ok [cmd_simps]:
  "never_fails N \<Longrightarrow> sr_dataHandlerV s = Some h \<Longrightarrow>
   ServerOperation_reject H N (ServerRead_finished N S) status code msg s =
     Inr (server_finished status (Some (code, msg))
       ((server_sent H (ERR \<lparr>ep_errorCode = code, ep_errorMessage = msg\<rparr>) s)
          \<lparr>sr_dataHandlerV := Some (th_finished S h)\<rparr>))"
  by (simp add: ServerOperation_reject_def cmd_simps ErrorPacket_errorInformation_def Let_def)

text \<open>The state after the next block was asked of the handler and sent.\<close>

definition server_read_next ::
    "helper \<Rightarrow> 'h transmit_handler \<Rightarrow> 'h \<Rightarrow> 'h server_read \<Rightarrow> 'h server_read" where
  "server_read_next H S h s =
     (let b = BlockNumber_preincrement (sr_lastTransmittedBlockNumber s);
          (d, h') = th_sendData S (unat (sr_transmitDataSize s)) h
      in server_sent H (DATA \<lparr>dp_blockNumber = b, dp_data = d\<rparr>)
           (s\<lparr>sr_lastTransmittedBlockNumber := b, sr_dataHandlerV := Some h',
              sr_lastDataPacketTransmitted := sr_lastDataPacketTransmitted s \<or>
                length d < unat (sr_transmitDataSize s)\<rparr>))"

lemma ServerRead_sendData_ok [cmd_simps]:
  "never_fails N \<Longrightarrow> sr_dataHandlerV s = Some h \<Longrightarrow>
   ServerRead_sendData H N S s = Inr (server_read_next H S h s)"
  by (simp add: ServerRead_sendData_def server_read_next_def DataPacket_dataSize_def Let_def
      cmd_simps split: prod.split)

lemma ServerRead_ack_next:
  assumes "never_fails N" and "sr_dataHandlerV s = Some h"
    and "ap_blockNumber p = sr_lastTransmittedBlockNumber s"
    and "ap_blockNumber p \<noteq> sr_lastReceivedBlockNumber s"
  shows "ServerRead_acknowledgementPacket H N S remote p s =
    (let s1 = s\<lparr>sr_lastReceivedBlockNumber := ap_blockNumber p\<rparr>
     in if sr_lastDataPacketTransmitted s
        then Inr (server_finished Successful None (s1\<lparr>sr_dataHandlerV := Some (th_finished S h)\<rparr>))
        else Inr (server_waiting TimeoutNormal (server_read_next H S h s1)))"
  using assms by (simp add: ServerRead_acknowledgementPacket_def Let_def cmd_simps)

lemma ServerRead_ack_again:
  assumes "never_fails N" and "ap_blockNumber p = sr_lastReceivedBlockNumber s"
  shows "ServerRead_acknowledgementPacket H N S remote p s = Inr (server_waiting TimeoutNormal s)"
  using assms by (simp add: ServerRead_acknowledgementPacket_def cmd_simps)

lemma ServerRead_ack_unexpected:
  assumes "never_fails N" and "sr_dataHandlerV s = Some h"
    and "ap_blockNumber p \<noteq> sr_lastTransmittedBlockNumber s"
    and "ap_blockNumber p \<noteq> sr_lastReceivedBlockNumber s"
  shows "ServerRead_acknowledgementPacket H N S remote p s =
    Inr (server_finished TransferError (Some (IllegalTftpOperation, ''Wrong block number''))
       ((server_sent H (ERR \<lparr>ep_errorCode = IllegalTftpOperation,
            ep_errorMessage = ''Wrong block number''\<rparr>) s)\<lparr>sr_dataHandlerV := Some (th_finished S h)\<rparr>))"
  using assms by (simp add: ServerRead_acknowledgementPacket_def cmd_simps)

subsection \<open>Start\<close>

lemma ServerRead_start_plain:
  assumes "never_fails N" and "sr_dataHandlerV s = Some h0" and "th_start S h0 = Inr h"
    and "sr_clientOptionsV s = no_tftp_options" and "sr_additionalNegotiatedOptionsV s = []"
  shows "ServerRead_start H N S s =
    Inr (server_waiting TimeoutNormal (server_read_next H S h ((server_opened s)\<lparr>sr_dataHandlerV := Some h\<rparr>)))"
  using assms
  by (simp add: ServerRead_start_def ServerRead_start_handler_def Let_def try_catch_def cmd_simps
      TftpOptions_bool_def no_tftp_options_def)

end
