(* ===== verification/StopAndWait.thy ===== *)
theory StopAndWait
  imports OperationFrame
begin

text \<open>
  A receiver and a sender of numbered blocks, connected by two channels. A transfer in this
  library is one of these in each direction: in a download the client receives, in an upload
  the server. What the two sides promise is the locale \<open>stop_and_wait\<close>; it is proved once and
  interpreted on the operations of the model.
\<close>

subsection \<open>Machines and channels\<close>

text \<open>
  A machine reacts to a packet and to the expiry of its timer with a new state and the packets
  it sends; a machine that no longer runs has closed its socket and takes nothing.
\<close>

record ('m, 'p) machine =
  mc_running :: "'m \<Rightarrow> bool"
  mc_takes :: "'p \<Rightarrow> 'm \<Rightarrow> 'm \<times> 'p list"
  mc_expires :: "'m \<Rightarrow> 'm \<times> 'p list"

text \<open>
  The states of a receiver, the channel to it, a sender and the channel to it, from a given
  state on. The channels keep the order; they may lose any packet and double any packet, at any
  time, and the timers may expire at any time.
\<close>

inductive lossy ::
    "('r, 'p) machine \<Rightarrow> ('s, 'p) machine \<Rightarrow> 'r \<times> 'p list \<times> 's \<times> 'p list \<Rightarrow>
     'r \<times> 'p list \<times> 's \<times> 'p list \<Rightarrow> bool"
  for MR MS x0 where
  start: "lossy MR MS x0 x0"
| receiver_takes: "lossy MR MS x0 (r', tr, s, ts @ out)"
    if "lossy MR MS x0 (r, p # tr, s, ts)" and "mc_running MR r" and "mc_takes MR p r = (r', out)"
| receiver_expires: "lossy MR MS x0 (r', tr, s, ts @ out)"
    if "lossy MR MS x0 (r, tr, s, ts)" and "mc_running MR r" and "mc_expires MR r = (r', out)"
| sender_takes: "lossy MR MS x0 (r, tr @ out, s', ts)"
    if "lossy MR MS x0 (r, tr, s, p # ts)" and "mc_running MS s" and "mc_takes MS p s = (s', out)"
| sender_expires: "lossy MR MS x0 (r, tr @ out, s', ts)"
    if "lossy MR MS x0 (r, tr, s, ts)" and "mc_running MS s" and "mc_expires MS s = (s', out)"
| lost_to_receiver: "lossy MR MS x0 (r, ps @ qs, s, ts)" if "lossy MR MS x0 (r, ps @ p # qs, s, ts)"
| lost_to_sender: "lossy MR MS x0 (r, tr, s, ps @ qs)" if "lossy MR MS x0 (r, tr, s, ps @ p # qs)"
| doubled_to_receiver: "lossy MR MS x0 (r, ps @ p # p # qs, s, ts)"
    if "lossy MR MS x0 (r, ps @ p # qs, s, ts)"
| doubled_to_sender: "lossy MR MS x0 (r, tr, s, ps @ p # p # qs)"
    if "lossy MR MS x0 (r, tr, s, ps @ p # qs)"

text \<open>
  An operation as a machine: \<open>takes\<close> and \<open>expires\<close> are its completion tokens, and what it
  sends are the datagrams it sent over the connected socket meanwhile. A repetition of a
  request goes to the listening server and is not among them.
\<close>

fun socket_sent :: "event \<Rightarrow> bytes list" where
  "socket_sent (Called (SocketSend b) True) = [b]"
| "socket_sent _ = []"

definition emitted :: "event list \<Rightarrow> event list \<Rightarrow> bytes list" where
  "emitted tr tr' = concat (map socket_sent (drop (length tr) tr'))"

lemma emitted_append [simp]: "emitted tr (tr @ tr') = concat (map socket_sent tr')"
  by (simp add: emitted_def)

lemma emitted_same [simp]: "emitted tr tr = []"
  by (simp add: emitted_def)

definition operation_machine ::
    "(bytes \<Rightarrow> 'a world_scheme cmd) \<Rightarrow> 'a world_scheme cmd \<Rightarrow> ('a world_scheme, bytes) machine" where
  "operation_machine takes expires =
     \<lparr>mc_running = (\<lambda>m. \<not> ended (trace m)),
      mc_takes = (\<lambda>p m. (final (takes p m), emitted (trace m) (trace (final (takes p m))))),
      mc_expires = (\<lambda>m. (final (expires m), emitted (trace m) (trace (final (expires m)))))\<rparr>"

lemma operation_machine_simps [simp]:
  "mc_running (operation_machine takes expires) m \<longleftrightarrow> \<not> ended (trace m)"
  "mc_takes (operation_machine takes expires) p m =
     (final (takes p m), emitted (trace m) (trace (final (takes p m))))"
  "mc_expires (operation_machine takes expires) m =
     (final (expires m), emitted (trace m) (trace (final (expires m))))"
  by (simp_all add: operation_machine_def)

text \<open>Without losses: the receiver gets the sender's packet and the sender the answer.\<close>

fun exchange :: "('r, 'p) machine \<Rightarrow> ('s, 'p) machine \<Rightarrow> 'r \<times> 's \<times> 'p list \<Rightarrow> ('r \<times> 's \<times> 'p list) option" where
  "exchange MR MS (r, s, [p]) =
     (case mc_takes MR p r of
        (r', [a]) \<Rightarrow> (case mc_takes MS a s of (s', out) \<Rightarrow> Some (r', s', out))
      | _ \<Rightarrow> None)"
| "exchange MR MS _ = None"

primrec exchanges ::
    "nat \<Rightarrow> ('r, 'p) machine \<Rightarrow> ('s, 'p) machine \<Rightarrow> 'r \<times> 's \<times> 'p list \<Rightarrow> ('r \<times> 's \<times> 'p list) option" where
  "exchanges 0 MR MS x = Some x"
| "exchanges (Suc n) MR MS x = Option.bind (exchange MR MS x) (exchanges n MR MS)"

subsection \<open>Channel contents\<close>

text \<open>All packets are number \<open>k\<close>; some of number \<open>k\<close>, then some of number \<open>k + 1\<close>.\<close>

definition all_at :: "(nat \<Rightarrow> 'p) \<Rightarrow> nat \<Rightarrow> 'p list \<Rightarrow> bool" where
  "all_at f k ps \<longleftrightarrow> set ps \<subseteq> {f k}"

primrec step_at :: "(nat \<Rightarrow> 'p) \<Rightarrow> nat \<Rightarrow> 'p list \<Rightarrow> bool" where
  "step_at f k [] \<longleftrightarrow> True"
| "step_at f k (p # ps) \<longleftrightarrow> p = f k \<and> step_at f k ps \<or> p = f (Suc k) \<and> all_at f (Suc k) ps"

lemma all_at_simps [simp]:
  "all_at f k []" "all_at f k (p # ps) \<longleftrightarrow> p = f k \<and> all_at f k ps"
  "all_at f k (ps @ qs) \<longleftrightarrow> all_at f k ps \<and> all_at f k qs"
  by (auto simp: all_at_def)

lemma step_at_old: "all_at f k ps \<Longrightarrow> step_at f k ps"
  by (induction ps) auto

lemma step_at_new: "all_at f (Suc k) ps \<Longrightarrow> step_at f k ps"
  by (cases ps) auto

lemma step_at_snoc: "step_at f k ps \<Longrightarrow> step_at f k (ps @ [f (Suc k)])"
  by (induction ps) auto

lemma step_at_lost: "step_at f k (ps @ p # qs) \<Longrightarrow> step_at f k (ps @ qs)"
  by (induction ps) (auto dest: step_at_new)

lemma step_at_doubled: "step_at f k (ps @ p # qs) \<Longrightarrow> step_at f k (ps @ p # p # qs)"
  by (induction ps) auto

text \<open>
  At most one block is under way: either the receiver, with \<open>i\<close> blocks, waits for the block
  the sender has sent, or it has that block and the sender waits for the acknowledgement.
  Blocks are numbered from 1; those up to \<open>b\<close> do not travel on the channel. They stand for a
  request, which goes to the listening server.
\<close>

definition in_step :: "nat \<Rightarrow> (nat \<Rightarrow> 'p) \<Rightarrow> (nat \<Rightarrow> 'p) \<Rightarrow> nat \<Rightarrow> nat \<Rightarrow> 'p list \<Rightarrow> 'p list \<Rightarrow> bool" where
  "in_step b data ack i j tr ts \<longleftrightarrow>
     i = j \<and> step_at data j tr \<and> (j \<le> b \<longrightarrow> all_at data (Suc j) tr) \<and>
       all_at ack j ts \<and> (j = 0 \<longrightarrow> ts = []) \<or>
     i = Suc j \<and> all_at data (Suc j) tr \<and> (Suc j \<le> b \<longrightarrow> tr = []) \<and>
       step_at ack j ts \<and> (j = 0 \<longrightarrow> all_at ack 1 ts)"

lemma in_step_lost:
  "in_step b data ack i j (ps @ p # qs) ts \<Longrightarrow> in_step b data ack i j (ps @ qs) ts"
  "in_step b data ack i j tr (ps @ p # qs) \<Longrightarrow> in_step b data ack i j tr (ps @ qs)"
  by (auto simp: in_step_def dest: step_at_lost)

lemma in_step_doubled:
  "in_step b data ack i j (ps @ p # qs) ts \<Longrightarrow> in_step b data ack i j (ps @ p # p # qs) ts"
  "in_step b data ack i j tr (ps @ p # qs) \<Longrightarrow> in_step b data ack i j tr (ps @ p # p # qs)"
  by (auto simp: in_step_def dest: step_at_doubled)

lemma in_step_ack: "in_step b data ack i j tr ts \<Longrightarrow> 0 < i \<Longrightarrow> in_step b data ack i j tr (ts @ [ack i])"
  by (auto simp: in_step_def dest: step_at_snoc)

lemma in_step_data:
  "in_step b data ack i j tr ts \<Longrightarrow> b \<le> j \<Longrightarrow> in_step b data ack i j (tr @ [data (Suc j)]) ts"
  by (auto simp: in_step_def dest: step_at_snoc)

text \<open>A packet at the head of a channel is a repetition or the one that is waited for.\<close>

lemma in_step_receiver:
  assumes "in_step b data ack i j (p # tr) ts" and "b \<le> i"
  obtains "b < i" "p = data i" "in_step b data ack i j tr (ts @ [ack i])"
  | "p = data (Suc i)" "i = j" "in_step b data ack (Suc i) j tr (ts @ [ack (Suc i)])"
  using assms
  by (cases "b < i \<and> p = data i")
    (auto simp: in_step_def dest: step_at_old step_at_snoc split: if_splits)

lemma in_step_sender:
  assumes "in_step b data ack i j tr (p # ts)"
  obtains "0 < j" "p = ack j" "in_step b data ack i j tr ts"
  | "p = ack (Suc j)" "i = Suc j" "in_step b data ack i j tr ts"
    "in_step b data ack i (Suc j) (tr @ [data (Suc (Suc j))]) ts"
  using assms
  by (cases "0 < j \<and> p = ack j")
    (auto simp: in_step_def dest: step_at_old step_at_new step_at_snoc)

text \<open>
  The invariant of a transfer. \<open>R i\<close> is a running receiver that holds \<open>i\<close> blocks, \<open>R_end ok i\<close>
  one that has ended, with success or not; \<open>S j\<close> is a running sender that has sent block
  \<open>j + 1\<close> and waits for its acknowledgement, \<open>S_end ok\<close> one that has ended. Block
  \<open>Suc L\<close> is the last.
\<close>

definition synchronous :: "nat \<Rightarrow> nat \<Rightarrow> (nat \<Rightarrow> 'p) \<Rightarrow> (nat \<Rightarrow> 'p) \<Rightarrow> (nat \<Rightarrow> 'r \<Rightarrow> bool) \<Rightarrow> (bool \<Rightarrow> nat \<Rightarrow> 'r \<Rightarrow> bool) \<Rightarrow>
    (nat \<Rightarrow> 's \<Rightarrow> bool) \<Rightarrow> (bool \<Rightarrow> 's \<Rightarrow> bool) \<Rightarrow> 'r \<times> 'p list \<times> 's \<times> 'p list \<Rightarrow> bool" where
  "synchronous b L data ack R R_end S S_end = (\<lambda>(r, tr, s, ts). \<exists>i j.
     (R i r \<or> R_end True i r \<and> i = Suc L \<or> R_end False i r) \<and>
     (S j s \<or> S_end True s \<and> i = Suc L \<or> S_end False s) \<and> in_step b data ack i j tr ts)"

lemma synchronousI:
  "R i r \<or> R_end True i r \<and> i = Suc L \<or> R_end False i r \<Longrightarrow>
   S j s \<or> S_end True s \<and> i = Suc L \<or> S_end False s \<Longrightarrow> in_step b data ack i j tr ts \<Longrightarrow>
   synchronous b L data ack R R_end S S_end (r, tr, s, ts)"
  by (auto simp: synchronous_def)

lemma synchronousE:
  assumes "synchronous b L data ack R R_end S S_end (r, tr, s, ts)"
  obtains i j where "R i r \<or> R_end True i r \<and> i = Suc L \<or> R_end False i r"
    "S j s \<or> S_end True s \<and> i = Suc L \<or> S_end False s" "in_step b data ack i j tr ts"
  using assms by (auto simp: synchronous_def)

lemma synchronous_channels:
  "synchronous b L data ack R R_end S S_end (r, ps @ p # qs, s, ts) \<Longrightarrow>
     synchronous b L data ack R R_end S S_end (r, ps @ qs, s, ts) \<and>
     synchronous b L data ack R R_end S S_end (r, ps @ p # p # qs, s, ts)"
  "synchronous b L data ack R R_end S S_end (r, tr, s, ps @ p # qs) \<Longrightarrow>
     synchronous b L data ack R R_end S S_end (r, tr, s, ps @ qs) \<and>
     synchronous b L data ack R R_end S S_end (r, tr, s, ps @ p # p # qs)"
  by (auto elim!: synchronousE intro: synchronousI in_step_lost in_step_doubled)

text \<open>
  What the invariant says of the completions: each side completes at most once, and the
  receiver holds every block if one of them completed with success.
\<close>

definition outcomes :: "transfer_status list set" where
  "outcomes = {[], [Successful], [CommunicationError]}"

lemma outcomes_exist:
  assumes "Q [] \<or> Q [Successful] \<and> P \<or> Q [CommunicationError]"
  shows "\<exists>rc. Q rc \<and> rc \<in> outcomes \<and> (Successful \<in> set rc \<longrightarrow> P)"
  using assms
proof (elim disjE)
  assume "Q [Successful] \<and> P"
  then show ?thesis by (intro exI [of _ "[Successful]"]) (simp add: outcomes_def)
qed (rule exI [of _ "[]"], simp add: outcomes_def, rule exI [of _ "[CommunicationError]"], simp add: outcomes_def)

lemma synchronous_outcome:
  assumes "synchronous b L data ack R R_end S S_end (r, tr, s, ts)"
    and R: "\<And>i. R i r \<Longrightarrow> PR i [] r"
    and R_end: "\<And>ok i. R_end ok i r \<Longrightarrow> PR i [if ok then Successful else CommunicationError] r"
    and S: "\<And>j. S j s \<Longrightarrow> PS [] s"
    and S_end: "\<And>ok. S_end ok s \<Longrightarrow> PS [if ok then Successful else CommunicationError] s"
  obtains i rc rs where "PR i rc r" "PS rs s" "rc \<in> outcomes" "rs \<in> outcomes"
    "Successful \<in> set rc \<union> set rs \<Longrightarrow> i = Suc L"
proof -
  obtain i j where r: "R i r \<or> R_end True i r \<and> i = Suc L \<or> R_end False i r"
    and s: "S j s \<or> S_end True s \<and> i = Suc L \<or> S_end False s"
    using assms(1) by (rule synchronousE)
  have "\<exists>rc. PR i rc r \<and> rc \<in> outcomes \<and> (Successful \<in> set rc \<longrightarrow> i = Suc L)"
    using r R [of i] R_end [of True i] R_end [of False i] by (intro outcomes_exist) auto
  then obtain rc where rc: "PR i rc r" "rc \<in> outcomes" "Successful \<in> set rc \<Longrightarrow> i = Suc L" by blast
  have "\<exists>rs. PS rs s \<and> rs \<in> outcomes \<and> (Successful \<in> set rs \<longrightarrow> i = Suc L)"
    using s S [of j] S_end [of True] S_end [of False] by (intro outcomes_exist) auto
  then obtain rs where rs: "PS rs s" "rs \<in> outcomes" "Successful \<in> set rs \<Longrightarrow> i = Suc L" by blast
  show ?thesis
    by (rule that [OF rc(1) rs(1) rc(2) rs(2)]) (use rc(3) rs(3) in auto)
qed

subsection \<open>The contract\<close>

text \<open>What the two sides promise; the parameters are those of \<open>synchronous\<close>.\<close>

locale stop_and_wait =
  fixes MR :: "('r, 'p) machine"
    and MS :: "('s, 'p) machine"
    and data :: "nat \<Rightarrow> 'p"
    and ack :: "nat \<Rightarrow> 'p"
    and b :: nat
    and L :: nat
    and R :: "nat \<Rightarrow> 'r \<Rightarrow> bool"
    and R_end :: "bool \<Rightarrow> nat \<Rightarrow> 'r \<Rightarrow> bool"
    and S :: "nat \<Rightarrow> 's \<Rightarrow> bool"
    and S_end :: "bool \<Rightarrow> 's \<Rightarrow> bool"
  assumes R_running: "R i r \<Longrightarrow> b \<le> i \<and> i \<le> L"
    and R_ended: "R_end ok i r \<Longrightarrow> \<not> mc_running MR r"
    and S_running: "S j s \<Longrightarrow> j \<le> L"
    and S_ended: "S_end ok s \<Longrightarrow> \<not> mc_running MS s"
    and R_next: "R i r \<Longrightarrow> mc_takes MR (data (Suc i)) r = (r', out) \<Longrightarrow>
      out = [ack (Suc i)] \<and> (if i < L then R (Suc i) r' else R_end True (Suc i) r')"
    and R_again: "R i r \<Longrightarrow> b < i \<Longrightarrow> mc_takes MR (data i) r = (r', out) \<Longrightarrow>
      out = [ack i] \<and> R i r'"
    and R_expires: "R i r \<Longrightarrow> mc_expires MR r = (r', out) \<Longrightarrow>
      (out = [ack i] \<and> 0 < i \<or> out = []) \<and> R i r' \<or> out = [] \<and> R_end False i r'"
    and S_next: "S j s \<Longrightarrow> mc_takes MS (ack (Suc j)) s = (s', out) \<Longrightarrow>
      (if j < L then out = [data (Suc (Suc j))] \<and> S (Suc j) s' else out = [] \<and> S_end True s')"
    and S_again: "S j s \<Longrightarrow> 0 < j \<Longrightarrow> mc_takes MS (ack j) s = (s', out) \<Longrightarrow> out = [] \<and> S j s'"
    and S_expires: "S j s \<Longrightarrow> mc_expires MS s = (s', out) \<Longrightarrow>
      (out = [data (Suc j)] \<and> b \<le> j \<or> out = []) \<and> S j s' \<or> out = [] \<and> S_end False s'"
begin

abbreviation sync :: "'r \<times> 'p list \<times> 's \<times> 'p list \<Rightarrow> bool" where
  "sync \<equiv> synchronous b L data ack R R_end S S_end"

lemma sync_receiver_takes:
  assumes "sync (r, p # tr, s, ts)" and "mc_running MR r" and "mc_takes MR p r = (r', out)"
  shows "sync (r', tr, s, ts @ out)"
proof -
  obtain i j where r: "R i r" and s: "S j s \<or> S_end True s \<and> i = Suc L \<or> S_end False s"
    and ch: "in_step b data ack i j (p # tr) ts"
    using assms(1,2) by (auto elim!: synchronousE dest: R_ended)
  have s: "S j s \<or> S_end False s"
    using s R_running [OF r] by auto
  from ch conjunct1 [OF R_running [OF r]] show ?thesis
  proof (cases rule: in_step_receiver)
    case 1
    then have "out = [ack i]" "R i r'"
      using R_again [OF r 1(1)] assms(3) by auto
    with 1(3) s show ?thesis by (auto intro: synchronousI)
  next
    case 2
    then have "out = [ack (Suc i)]" "R (Suc i) r' \<or> R_end True (Suc i) r' \<and> Suc i = Suc L"
      using R_next [OF r, of r' out] assms(3) R_running [OF r] by (auto split: if_splits)
    with 2(3) s show ?thesis by (auto intro: synchronousI)
  qed
qed

lemma sync_sender_takes:
  assumes "sync (r, tr, s, p # ts)" and "mc_running MS s" and "mc_takes MS p s = (s', out)"
  shows "sync (r, tr @ out, s', ts)"
proof -
  obtain i j where s: "S j s" and r: "R i r \<or> R_end True i r \<and> i = Suc L \<or> R_end False i r"
    and ch: "in_step b data ack i j tr (p # ts)"
    using assms(1,2) by (auto elim!: synchronousE dest: S_ended)
  from ch show ?thesis
  proof (cases rule: in_step_sender)
    case 1
    then have "out = []" "S j s'"
      using S_again [OF s] assms(3) by auto
    with 1(3) r show ?thesis by (auto intro: synchronousI)
  next
    case 2
    show ?thesis
    proof (cases "j < L")
      case True
      then have "out = [data (Suc (Suc j))]" "S (Suc j) s'"
        using S_next [OF s, of s' out] assms(3) 2(1) by auto
      with 2(4) r show ?thesis by (auto intro: synchronousI)
    next
      case False
      then have "out = []" "S_end True s'" "i = Suc L"
        using S_next [OF s, of s' out] assms(3) 2(1,2) S_running [OF s] by auto
      with 2(3) r show ?thesis by (auto intro: synchronousI)
    qed
  qed
qed

lemma sync_expires:
  assumes "sync (r, tr, s, ts)"
  shows "mc_running MR r \<Longrightarrow> mc_expires MR r = (r', out) \<Longrightarrow> sync (r', tr, s, ts @ out)"
    and "mc_running MS s \<Longrightarrow> mc_expires MS s = (s', out) \<Longrightarrow> sync (r, tr @ out, s', ts)"
proof -
  obtain i j where ij: "R i r \<or> R_end True i r \<and> i = Suc L \<or> R_end False i r"
    "S j s \<or> S_end True s \<and> i = Suc L \<or> S_end False s" "in_step b data ack i j tr ts"
    using assms by (rule synchronousE)
  show "sync (r', tr, s, ts @ out)" if "mc_running MR r" "mc_expires MR r = (r', out)"
  proof -
    have "R i r" using ij(1) that(1) by (auto dest: R_ended)
    from R_expires [OF this that(2)] show ?thesis
      using ij(2,3) in_step_ack [OF ij(3)] by (auto intro: synchronousI)
  qed
  show "sync (r, tr @ out, s', ts)" if "mc_running MS s" "mc_expires MS s = (s', out)"
  proof -
    have "S j s" using ij(2) that(1) by (auto dest: S_ended)
    from S_expires [OF this that(2)] show ?thesis
      using ij(1,3) in_step_data [OF ij(3)] by (auto intro: synchronousI)
  qed
qed

text \<open>Whatever the channels do, the two sides stay in step.\<close>

lemma lossy_synchronous:
  assumes "lossy MR MS x0 x" and "sync x0"
  shows "sync x"
  using assms(1)
proof induction
  case start
  show ?case by (rule assms(2))
next
  case (receiver_takes r p tr s ts r' out)
  then show ?case by (intro sync_receiver_takes)
next
  case (receiver_expires r tr s ts r' out)
  then show ?case by (intro sync_expires(1))
next
  case (sender_takes r tr s p ts s' out)
  then show ?case by (intro sync_sender_takes)
next
  case (sender_expires r tr s ts s' out)
  then show ?case by (intro sync_expires(2))
qed (use synchronous_channels in \<open>fast+\<close>)

text \<open>Without losses, as many rounds as blocks are left complete the transfer.\<close>

lemma exchange_step:
  assumes "R i r" and "S i s"
  shows "\<exists>r' s'. if i < L
    then exchange MR MS (r, s, [data (Suc i)]) = Some (r', s', [data (Suc (Suc i))]) \<and>
      R (Suc i) r' \<and> S (Suc i) s'
    else exchange MR MS (r, s, [data (Suc i)]) = Some (r', s', []) \<and> R_end True (Suc L) r' \<and> S_end True s'"
proof -
  obtain r' out where r: "mc_takes MR (data (Suc i)) r = (r', out)" by fastforce
  obtain s' out' where s: "mc_takes MS (ack (Suc i)) s = (s', out')" by fastforce
  have "i \<le> L" using R_running [OF assms(1)] by simp
  with R_next [OF assms(1) r] S_next [OF assms(2) s] r s show ?thesis
    by (intro exI [of _ r'] exI [of _ s']) (auto split: if_splits)
qed

lemma exchanges_complete:
  assumes "R i r" and "S i s" and "i + k = L"
  shows "\<exists>r' s'. exchanges (Suc k) MR MS (r, s, [data (Suc i)]) = Some (r', s', []) \<and>
    R_end True (Suc L) r' \<and> S_end True s'"
  using assms
proof (induction k arbitrary: i r s)
  case 0
  then show ?case using exchange_step [OF 0(1,2)] by auto
next
  case (Suc k)
  then obtain r' s' where "exchange MR MS (r, s, [data (Suc i)]) = Some (r', s', [data (Suc (Suc i))])"
      "R (Suc i) r'" "S (Suc i) s'"
    using exchange_step [OF Suc.prems(1,2)] by auto
  with Suc.IH [of "Suc i" r' s'] Suc.prems(3) show ?case by simp
qed

end

end
