(* ===== verification/Machines.thy ===== *)
theory Machines
  imports StopAndWait ClientOperation ServerOperation DataHandler
begin

text \<open>
  The operations of client and server as machines: \<open>F\<close> is \<open>finished\<close> and \<open>V\<close> the packet
  handlers of the derived class.
\<close>

lemma counted_simps [simp]:
  "trace (counted t n w) = trace w"
  "co_receiveEndpointV (counted t n c) = co_receiveEndpointV c"
  "co_completionHandlerV (counted t n c) = co_completionHandlerV c"
  "co_transmitPacketV (counted t n c) = co_transmitPacketV c"
  "co_remoteV (counted t n c) = co_remoteV c"
  "so_completionHandlerV (counted t n s) = so_completionHandlerV s"
  "so_transmitPacketV (counted t n s) = so_transmitPacketV s"
  by (simp_all add: counted_def)

subsection \<open>Client\<close>

text \<open>
  The reception and the timer that are pending: those of the unconnected socket until the
  first datagram from the server came, those of the connected socket afterwards. \<open>sender\<close> is
  the endpoint of the server operation.
\<close>

definition client_reception :: "endpoint \<Rightarrow> bytes \<Rightarrow> 'a client_op_scheme \<Rightarrow> client_input" where
  "client_reception sender raw c =
     (if co_receiveEndpointV c = no_endpoint then FirstReceived NoError sender raw
      else client_input.Received NoError raw)"

definition client_expiry :: "'a client_op_scheme \<Rightarrow> client_input" where
  "client_expiry c =
     (if co_receiveEndpointV c = no_endpoint then FirstTimeout NoError
      else client_input.NormalTimeout NoError)"

definition client_machine ::
    "helper \<Rightarrow> net \<Rightarrow> 'a client_op_scheme finisher \<Rightarrow> 'a client_op_scheme packet_handler \<Rightarrow> endpoint \<Rightarrow>
     ('a client_op_scheme, bytes) machine" where
  "client_machine H N F V sender =
     operation_machine
       (\<lambda>raw c. ClientOperation_on H N F V (client_reception sender raw c) c)
       (\<lambda>c. ClientOperation_on H N F V (client_expiry c) c)"

definition client_connected :: "endpoint \<Rightarrow> 'a client_op_scheme \<Rightarrow> 'a client_op_scheme" where
  "client_connected sender c =
     (if co_receiveEndpointV c = no_endpoint
      then c\<lparr>co_receiveEndpointV := sender, trace := trace c @ [Called (SocketConnect sender) True]\<rparr>
      else c)"

text \<open>A client that is connected, or will be by a datagram of \<open>sender\<close>.\<close>

definition client_reachable_by :: "endpoint \<Rightarrow> 'a client_op_scheme \<Rightarrow> bool" where
  "client_reachable_by sender c \<longleftrightarrow>
     sender \<noteq> no_endpoint \<and>
     (co_receiveEndpointV c = no_endpoint \<longrightarrow> ep_address (co_remoteV c) = ep_address sender)"

lemma client_connected_simps [simp]:
  "client_op.more (client_connected sender c) = client_op.more c"
  "co_completionHandlerV (client_connected sender c) = co_completionHandlerV c"
  "completions (trace (client_connected sender c)) = completions (trace c)"
  "ended (trace (client_connected sender c)) = ended (trace c)"
  "emitted (trace c) (trace (client_connected sender c) @ tr) = concat (map socket_sent tr)"
  "co_transmitPacketV (client_connected sender c) = co_transmitPacketV c"
  "client_reachable_by sender c \<Longrightarrow> co_receiveEndpointV (client_connected sender c) \<noteq> no_endpoint"
  by (simp_all add: client_connected_def client_reachable_by_def)

lemma client_resent_simps [simp]:
  "co_receiveEndpointV (client_resent H call w c) = co_receiveEndpointV c"
  "co_completionHandlerV (client_resent H call w c) = co_completionHandlerV c"
  "co_transmitPacketV (client_resent H call w c) = co_transmitPacketV c"
  "co_remoteV (client_resent H call w c) = co_remoteV c"
  "completions (trace (client_resent H call w c)) = completions (trace c)"
  "call (co_transmitPacketV c) c \<noteq> TimerCancel \<Longrightarrow>
     ended (trace (client_resent H call w c)) = ended (trace c)"
  by (simp_all add: client_resent_def)

lemma client_reachable_by_counted [simp]:
  "client_reachable_by sender (counted t n c) = client_reachable_by sender c"
  by (simp add: client_reachable_by_def)

lemma client_machine_takes:
  assumes "raw_data H" and "never_fails N" and "wf_packet p" and "client_reachable_by sender c"
    and "call_handler V (co_receiveEndpointV (client_connected sender c)) p
      (client_connected sender c) = Inr c'"
  shows "mc_takes (client_machine H N F V sender) (Packet_encode H p) c =
    (counted (packet_packetType p) (length (Packet_encode H p)) c', emitted (trace c) (trace c'))"
proof -
  have *: "PacketHandler_packet H V (co_receiveEndpointV (client_connected sender c)) (Packet_encode H p)
      (client_connected sender c) =
      Inr (counted (packet_packetType p) (length (Packet_encode H p)) c')"
    by (rule PacketHandler_packet_encode [OF assms(1,3,5)])
  show ?thesis
  proof (cases "co_receiveEndpointV c = no_endpoint")
    case True
    then show ?thesis
      using * assms(2,4)
      by (simp add: client_machine_def client_reception_def ClientOperation_receiveFirstHandler_def
          client_connected_def client_reachable_by_def cmd_simps counted_def)
  next
    case False
    then show ?thesis
      using *
      by (simp add: client_machine_def client_reception_def ClientOperation_receiveHandler_def
          client_connected_def counted_def)
  qed
qed

lemma client_machine_expires:
  assumes "never_fails N"
  shows "mc_expires (client_machine H N F V sender) c =
    (if ucast (co_tftpRetriesV c) < co_transmitCounterV c
     then (final (F CommunicationError None c), emitted (trace c) (trace (final (F CommunicationError None c))))
     else if co_receiveEndpointV c = no_endpoint
     then (client_resent H (\<lambda>b s. SocketSendTo b (co_remoteV s)) TimeoutFirst c, [])
     else (client_resent H (\<lambda>b s. SocketSend b) TimeoutNormal c, [co_transmitPacketV c]))"
  using assms
  by (simp add: client_machine_def client_expiry_def ClientOperation_timeoutFirstHandler_def
      ClientOperation_timeoutHandler_def try_catch_def client_resent_def cmd_simps)

subsection \<open>Server\<close>

definition server_machine ::
    "helper \<Rightarrow> net \<Rightarrow> 'a server_op_scheme finisher \<Rightarrow> 'a server_op_scheme packet_handler \<Rightarrow>
     ('a server_op_scheme, bytes) machine" where
  "server_machine H N F V =
     operation_machine
       (\<lambda>raw. ServerOperation_on H N F V (server_input.Received NoError raw))
       (ServerOperation_on H N F V (server_input.NormalTimeout NoError))"

abbreviation server_called :: "'a server_op_scheme \<Rightarrow> 'a server_op_scheme" where
  "server_called s \<equiv> s\<lparr>trace := trace s @ [Called RemoteEndpoint True]\<rparr>"

lemma server_machine_takes:
  assumes "raw_data H" and "never_fails N" and "wf_packet p"
    and "call_handler V (so_remoteV s) p (server_called s) = Inr s'"
  shows "mc_takes (server_machine H N F V) (Packet_encode H p) s =
    (counted (packet_packetType p) (length (Packet_encode H p)) s', emitted (trace s) (trace s'))"
  using PacketHandler_packet_encode [OF assms(1,3,4)] assms(2)
  by (simp add: server_machine_def ServerOperation_receiveHandler_def cmd_simps counted_def)

lemma server_machine_expires:
  assumes "never_fails N"
  shows "mc_expires (server_machine H N F V) s =
    (if ucast (so_tftpRetriesV s) < so_transmitCounterV s
     then (final (F CommunicationError None s), emitted (trace s) (trace (final (F CommunicationError None s))))
     else (server_resent H s, [so_transmitPacketV s]))"
  using assms
  by (simp add: server_machine_def ServerOperation_timeoutHandler_def try_catch_def server_resent_def
      cmd_simps)

subsection \<open>Acknowledgements and blocks of a file\<close>

text \<open>Block \<open>k\<close>, counted from 1, of the file \<open>xs\<close>, and the acknowledgement of block \<open>k\<close>.\<close>

definition block_packet :: "nat \<Rightarrow> bytes \<Rightarrow> nat \<Rightarrow> data_packet" where
  "block_packet n xs k = \<lparr>dp_blockNumber = block_at k, dp_data = chunk n xs (k - 1)\<rparr>"

definition data_datagram :: "helper \<Rightarrow> nat \<Rightarrow> bytes \<Rightarrow> nat \<Rightarrow> bytes" where
  "data_datagram H n xs k = Packet_encode H (DATA (block_packet n xs k))"

definition ack_datagram :: "helper \<Rightarrow> nat \<Rightarrow> bytes" where
  "ack_datagram H k = Packet_encode H (ACK \<lparr>ap_blockNumber = block_at k\<rparr>)"

end
