(* ===== verification/Download.thy ===== *)
theory Download
  imports ClientReadSteps ServerReadSteps Machines
begin

text \<open>
  A client's download and the server operation that serves it, as the two sides of
  \<open>stop_and_wait\<close>: for any handlers that meet the contracts \<open>data_sink\<close> and \<open>data_source\<close>,
  any block size and files of any size, so that block numbers wrap.
\<close>

subsection \<open>The client as receiver\<close>

definition client_read_machine ::
    "helper \<Rightarrow> net \<Rightarrow> 'h receive_handler \<Rightarrow> endpoint \<Rightarrow> ('h client_read, bytes) machine" where
  "client_read_machine H N D =
     client_machine H N (ClientRead_finished N D) (ClientRead_handlers H N D)"

text \<open>A running client that holds \<open>i\<close> blocks of size \<open>n\<close> of the file \<open>xs\<close>, and one that has ended.\<close>

definition client_reads ::
    "helper \<Rightarrow> endpoint \<Rightarrow> transfer_status list \<Rightarrow> ('h \<Rightarrow> bool) \<Rightarrow> ('h \<Rightarrow> bytes) \<Rightarrow> nat \<Rightarrow> bytes \<Rightarrow>
     nat \<Rightarrow> 'h client_read \<Rightarrow> bool" where
  "client_reads H sender cc ready contents n xs i c \<longleftrightarrow>
     i \<le> last_chunk n xs \<and>
     (\<exists>h. cr_dataHandlerV c = Some h \<and> ready h \<and> contents h = take (i * n) xs) \<and>
     cr_lastReceivedBlockNumber c = block_at i \<and> unat (cr_receiveDataSize c) = n \<and>
     \<not> cr_dallyV c \<and> client_read_negotiates c \<and> co_completionHandlerV c \<and>
     completions (trace c) = cc \<and> \<not> ended (trace c) \<and> client_reachable_by sender c \<and>
     (if co_receiveEndpointV c = no_endpoint then i = 0 else co_transmitPacketV c = ack_datagram H i)"

definition client_has_read ::
    "transfer_status list \<Rightarrow> ('h \<Rightarrow> bytes) \<Rightarrow> nat \<Rightarrow> bytes \<Rightarrow> bool \<Rightarrow> nat \<Rightarrow> 'h client_read \<Rightarrow> bool" where
  "client_has_read cc contents n xs ok i c \<longleftrightarrow>
     (\<exists>h. cr_dataHandlerV c = Some h \<and> contents h = take (i * n) xs) \<and>
     completions (trace c) = cc @ [if ok then Successful else CommunicationError] \<and> ended (trace c)"

lemma counted_client_read [simp]:
  "cr_dataHandlerV (counted t n c) = cr_dataHandlerV c"
  "cr_lastReceivedBlockNumber (counted t n c) = cr_lastReceivedBlockNumber c"
  "cr_receiveDataSize (counted t n c) = cr_receiveDataSize c"
  "cr_dallyV (counted t n c) = cr_dallyV c"
  "client_read_negotiates (counted t n c) = client_read_negotiates c"
  "client_read_negotiates (c\<lparr>trace := tr\<rparr>) = client_read_negotiates c"
  "client_read_negotiates (client_sent H p call c) = client_read_negotiates c"
  by (simp_all add: counted_def client_read_negotiates_def)

lemma client_read_connected [simp]:
  "cr_dataHandlerV (client_connected sender c) = cr_dataHandlerV c"
  "cr_lastReceivedBlockNumber (client_connected sender c) = cr_lastReceivedBlockNumber c"
  "cr_receiveDataSize (client_connected sender c) = cr_receiveDataSize c"
  "cr_dallyV (client_connected sender c) = cr_dallyV c"
  "client_read_negotiates (client_connected sender c) = client_read_negotiates c"
  by (simp_all add: client_connected_def client_read_negotiates_def)

lemma client_read_resent [simp]:
  "cr_dataHandlerV (client_resent H call w c) = cr_dataHandlerV c"
  "cr_lastReceivedBlockNumber (client_resent H call w c) = cr_lastReceivedBlockNumber c"
  "cr_receiveDataSize (client_resent H call w c) = cr_receiveDataSize c"
  "cr_dallyV (client_resent H call w c) = cr_dallyV c"
  "client_read_negotiates (client_resent H call w c) = client_read_negotiates c"
  "cr_optionsConfigurationV (client_resent H call w c) = cr_optionsConfigurationV c"
  "cr_optionNegotiationHandlerV (client_resent H call w c) = cr_optionNegotiationHandlerV c"
  by (simp_all add: client_resent_def client_read_negotiates_def)

lemma client_read_takes:
  assumes "raw_data H" and "never_fails N" and "client_reachable_by sender c"
    and "ClientRead_dataPacket H N D (co_receiveEndpointV (client_connected sender c)) p
      (client_connected sender c) = Inr c'"
  shows "mc_takes (client_read_machine H N D sender) (Packet_encode H (DATA p)) c =
    (counted Data (length (Packet_encode H (DATA p))) c', emitted (trace c) (trace c'))"
  using client_machine_takes [OF assms(1,2) _ assms(3), where p = "DATA p" and c' = c'] assms(4)
  by (simp add: client_read_machine_def ClientRead_handlers_def)

lemma client_reads_next:
  assumes "raw_data H" and N: "never_fails N" and D: "data_sink D sink ready contents" and n: "0 < n"
    and c: "client_reads H sender cc ready contents n xs i c"
    and takes: "mc_takes (client_read_machine H N D sender) (data_datagram H n xs (Suc i)) c = (c', out)"
  shows "out = [ack_datagram H (Suc i)] \<and>
    (if i < last_chunk n xs
     then client_reads H sender cc ready contents n xs (Suc i) c' \<and> co_receiveEndpointV c' \<noteq> no_endpoint
     else client_has_read cc contents n xs True (Suc i) c')"
proof -
  obtain h where h: "cr_dataHandlerV c = Some h" "ready h" "contents h = take (i * n) xs"
    using c by (auto simp: client_reads_def)
  define h' where "h' = rh_receivedData D (chunk n xs i) h"
  have h': "ready h'" "contents h' = take (Suc i * n) xs"
    using data_sink.receivedData_sink [OF D h(2)] h(3) take_Suc_chunk [of i n xs]
    by (simp_all add: h'_def)
  define c1 where "c1 = client_connected sender c"
  define s1 where "s1 = sent_ack H (block_at (Suc i))
    (c1\<lparr>cr_dataHandlerV := Some h', cr_lastReceivedBlockNumber := block_at (Suc i)\<rparr>)"
  have s1: "trace s1 = trace c1 @ [Called (SocketSend (ack_datagram H (Suc i))) True]"
      "cr_dataHandlerV s1 = Some h'" "cr_lastReceivedBlockNumber s1 = block_at (Suc i)"
      "unat (cr_receiveDataSize s1) = n" "\<not> cr_dallyV s1" "co_completionHandlerV s1"
      "client_read_negotiates s1" "co_receiveEndpointV s1 \<noteq> no_endpoint"
      "co_transmitPacketV s1 = ack_datagram H (Suc i)" "sender \<noteq> no_endpoint"
    using c by (simp_all add: s1_def c1_def client_reads_def ack_datagram_def client_read_negotiates_def
        client_connected_def client_reachable_by_def)
  have c1: "completions (trace c1) = cc" "\<not> ended (trace c1)"
      "emitted (trace c) (trace c1 @ tr) = concat (map socket_sent tr)" for tr
    using c by (simp_all add: c1_def client_reads_def)
  have "ClientRead_dataPacket H N D (co_receiveEndpointV c1) (block_packet n xs (Suc i)) c1 =
      Inr (client_read_continued D (length (chunk n xs i)) s1)"
    using c h length_chunk_le [of n xs i] block_at_Suc_neq [of i]
    by (subst ClientRead_dataPacket_next [OF N, where h = h])
      (auto simp: block_packet_def client_reads_def block_at_Suc h'_def c1_def s1_def)
  from client_read_takes [OF assms(1) N _ this [unfolded c1_def]] c
  have "mc_takes (client_read_machine H N D sender) (data_datagram H n xs (Suc i)) c =
      (counted Data (length (data_datagram H n xs (Suc i)))
        (client_read_continued D (length (chunk n xs i)) s1),
       emitted (trace c) (trace (client_read_continued D (length (chunk n xs i)) s1)))"
    by (simp add: client_reads_def data_datagram_def)
  with takes have eq: "c' = counted Data (length (data_datagram H n xs (Suc i)))
        (client_read_continued D (length (chunk n xs i)) s1)"
      "out = emitted (trace c) (trace (client_read_continued D (length (chunk n xs i)) s1))"
    by simp_all
  show ?thesis
  proof (cases "i < last_chunk n xs")
    case True
    then have "client_read_continued D (length (chunk n xs i)) s1 = client_waiting TimeoutNormal s1"
      using length_chunk [OF n, of xs i] s1(4) by (simp add: client_read_continued_def)
    with True show ?thesis
      unfolding eq using s1 c1 h'
      by (simp add: client_reads_def client_waiting_def client_reachable_by_def)
  next
    case False
    then have "client_read_continued D (length (chunk n xs i)) s1 =
        client_finished Successful None (s1\<lparr>cr_dataHandlerV := Some (rh_finished D h')\<rparr>)"
      using length_chunk [OF n, of xs i] s1 by (simp add: client_read_continued_def)
    with False show ?thesis
      unfolding eq using s1 c1 h' data_sink.finished_sink [OF D]
      by (simp add: client_has_read_def client_finished_def)
  qed
qed

lemma client_reads_again:
  assumes "raw_data H" and N: "never_fails N" and n: "0 < n" and i: "0 < i"
    and c: "client_reads H sender cc ready contents n xs i c"
    and takes: "mc_takes (client_read_machine H N D sender) (data_datagram H n xs i) c = (c', out)"
  shows "out = [ack_datagram H i] \<and> client_reads H sender cc ready contents n xs i c' \<and>
    co_receiveEndpointV c' \<noteq> no_endpoint"
proof -
  obtain h where h: "cr_dataHandlerV c = Some h"
    using c by (auto simp: client_reads_def)
  have conn: "co_receiveEndpointV c \<noteq> no_endpoint" "client_connected sender c = c"
    using c i by (auto simp: client_reads_def client_connected_def split: if_splits)
  define s1 where "s1 = client_waiting TimeoutNormal (sent_ack H (block_at i) c)"
  have "\<not> length (chunk n xs (i - 1)) < n"
    using c i length_chunk [OF n, of xs "i - 1"] by (auto simp: client_reads_def)
  then have "ClientRead_dataPacket H N D (co_receiveEndpointV c) (block_packet n xs i) c = Inr s1"
    using c h by (subst ClientRead_dataPacket_again [OF N, where h = h])
      (simp_all add: block_packet_def client_reads_def client_read_continued_def s1_def)
  with client_read_takes [OF assms(1) N, where c = c and p = "block_packet n xs i" and D = D and c' = s1
      and sender = sender] c takes
  have "c' = counted Data (length (data_datagram H n xs i)) s1" "out = emitted (trace c) (trace s1)"
    by (simp_all add: conn client_reads_def data_datagram_def)
  then show ?thesis
    using c conn(1)
    by (simp add: s1_def client_reads_def client_waiting_def ack_datagram_def client_reachable_by_def)
qed

lemma client_reads_expires:
  assumes N: "never_fails N" and D: "data_sink D sink ready contents"
    and c: "client_reads H sender cc ready contents n xs i c"
    and expires: "mc_expires (client_read_machine H N D sender) c = (c', out)"
  shows "out = (if co_receiveEndpointV c = no_endpoint then [] else [ack_datagram H i]) \<and>
      client_reads H sender cc ready contents n xs i c' \<and>
      co_receiveEndpointV c' = co_receiveEndpointV c \<and>
      cr_optionsConfigurationV c' = cr_optionsConfigurationV c \<and>
      cr_optionNegotiationHandlerV c' = cr_optionNegotiationHandlerV c \<or>
    out = [] \<and> client_has_read cc contents n xs False i c'"
proof -
  obtain h where h: "cr_dataHandlerV c = Some h" "contents h = take (i * n) xs"
    using c by (auto simp: client_reads_def)
  have fin: "ClientRead_finished N D CommunicationError None c =
      Inr (client_finished CommunicationError None (c\<lparr>cr_dataHandlerV := Some (rh_finished D h)\<rparr>))"
    by (rule ClientRead_finished_ok [OF N h(1)])
  show ?thesis
  proof (cases "ucast (co_tftpRetriesV c) < co_transmitCounterV c")
    case True
    with expires have "c' = client_finished CommunicationError None (c\<lparr>cr_dataHandlerV := Some (rh_finished D h)\<rparr>)"
        "out = emitted (trace c) (trace c')"
      unfolding client_read_machine_def client_machine_expires [OF N] by (auto simp: fin)
    then show ?thesis
      using c h data_sink.finished_sink [OF D]
      by (simp add: client_reads_def client_has_read_def client_finished_def)
  next
    case False
    with expires obtain call w where "c' = client_resent H call w c"
        "out = (if co_receiveEndpointV c = no_endpoint then [] else [co_transmitPacketV c])"
        "socket_sent (Called (call (co_transmitPacketV c) c) True) = out"
        "call (co_transmitPacketV c) c \<noteq> TimerCancel"
      unfolding client_read_machine_def client_machine_expires [OF N] by (auto split: if_splits)
    then show ?thesis
      using c by (auto simp: client_reads_def client_reachable_by_def split: if_splits)
  qed
qed

subsection \<open>The server as sender\<close>

definition server_read_machine ::
    "helper \<Rightarrow> net \<Rightarrow> 'h transmit_handler \<Rightarrow> ('h server_read, bytes) machine" where
  "server_read_machine H N S =
     server_machine H N (ServerRead_finished N S) (ServerRead_handlers H N S)"

text \<open>A running server that has sent block \<open>j + 1\<close>, and one that has ended.\<close>

definition server_sends ::
    "helper \<Rightarrow> transfer_status list \<Rightarrow> ('g \<Rightarrow> bytes) \<Rightarrow> nat \<Rightarrow> bytes \<Rightarrow> nat \<Rightarrow> 'g server_read \<Rightarrow> bool" where
  "server_sends H sc rest n xs j s \<longleftrightarrow>
     j \<le> last_chunk n xs \<and>
     (\<exists>g. sr_dataHandlerV s = Some g \<and> rest g = drop (Suc j * n) xs) \<and>
     sr_lastTransmittedBlockNumber s = block_at (Suc j) \<and>
     sr_lastReceivedBlockNumber s = block_at j \<and> unat (sr_transmitDataSize s) = n \<and>
     (sr_lastDataPacketTransmitted s \<longleftrightarrow> j = last_chunk n xs) \<and> so_completionHandlerV s \<and>
     so_transmitPacketV s = data_datagram H n xs (Suc j) \<and>
     completions (trace s) = sc \<and> \<not> ended (trace s)"

definition server_has_sent :: "transfer_status list \<Rightarrow> bool \<Rightarrow> 'g server_read \<Rightarrow> bool" where
  "server_has_sent sc ok s \<longleftrightarrow>
     completions (trace s) = sc @ [if ok then Successful else CommunicationError] \<and> ended (trace s)"

lemma counted_server_read [simp]:
  "sr_dataHandlerV (counted t n s) = sr_dataHandlerV s"
  "sr_transmitDataSize (counted t n s) = sr_transmitDataSize s"
  "sr_lastDataPacketTransmitted (counted t n s) = sr_lastDataPacketTransmitted s"
  "sr_lastTransmittedBlockNumber (counted t n s) = sr_lastTransmittedBlockNumber s"
  "sr_lastReceivedBlockNumber (counted t n s) = sr_lastReceivedBlockNumber s"
  by (simp_all add: counted_def)

lemma server_read_takes:
  assumes "raw_data H" and "never_fails N"
    and "ServerRead_acknowledgementPacket H N S (so_remoteV s) p (server_called s) = Inr s'"
  shows "mc_takes (server_read_machine H N S) (Packet_encode H (ACK p)) s =
    (counted Acknowledgement (length (Packet_encode H (ACK p))) s', emitted (trace s) (trace s'))"
  using server_machine_takes [OF assms(1,2), where p = "ACK p" and s' = s'] assms(3)
  by (simp add: server_read_machine_def ServerRead_handlers_def)

text \<open>The next block, from a state in which the previous one is acknowledged.\<close>

lemma server_sends_block:
  assumes S: "data_source S content rest" and n: "0 < n" "unat (sr_transmitDataSize s) = n"
    and g: "rest g = drop (j * n) xs" and s: "sr_lastTransmittedBlockNumber s = block_at j"
    "sr_lastReceivedBlockNumber s = block_at j" "\<not> sr_lastDataPacketTransmitted s"
    "so_completionHandlerV s" "completions (trace s) = sc" "\<not> ended (trace s)"
    and j: "j \<le> last_chunk n xs"
  shows "server_sends H sc rest n xs j (server_read_next H S g s)"
    and "trace (server_read_next H S g s) = trace s @ [Called (SocketSend (data_datagram H n xs (Suc j))) True]"
proof -
  obtain d g' where d: "th_sendData S n g = (d, g')" by (cases "th_sendData S n g")
  have *: "d = chunk n xs j" "rest g' = drop (Suc j * n) xs"
    using data_source.sendData_source [OF S, of n g] data_source.sendData_rest [OF S, of n g] g d
    by (simp_all add: chunk_def add.commute)
  show tr: "trace (server_read_next H S g s) = trace s @ [Called (SocketSend (data_datagram H n xs (Suc j))) True]"
    using n s d *(1)
    by (simp add: server_read_next_def Let_def block_at_Suc data_datagram_def block_packet_def)
  show "server_sends H sc rest n xs j (server_read_next H S g s)"
    using n s d * j length_chunk [OF n(1), of xs j] unfolding server_sends_def tr
    by (auto simp: server_read_next_def Let_def block_at_Suc data_datagram_def block_packet_def)
qed

lemma server_sends_next:
  assumes "raw_data H" and N: "never_fails N" and S: "data_source S content rest" and n: "0 < n"
    and s: "server_sends H sc rest n xs j s"
    and takes: "mc_takes (server_read_machine H N S) (ack_datagram H (Suc j)) s = (s', out)"
  shows "if j < last_chunk n xs
    then out = [data_datagram H n xs (Suc (Suc j))] \<and> server_sends H sc rest n xs (Suc j) s'
    else out = [] \<and> server_has_sent sc True s'"
proof -
  obtain g where g: "sr_dataHandlerV s = Some g" "rest g = drop (Suc j * n) xs"
    using s by (auto simp: server_sends_def)
  define s1 where "s1 = (server_called s)\<lparr>sr_lastReceivedBlockNumber := block_at (Suc j)\<rparr>"
  define s2 where "s2 = (if sr_lastDataPacketTransmitted s
    then server_finished Successful None (s1\<lparr>sr_dataHandlerV := Some (th_finished S g)\<rparr>)
    else server_waiting TimeoutNormal (server_read_next H S g s1))"
  have "ServerRead_acknowledgementPacket H N S (so_remoteV s) \<lparr>ap_blockNumber = block_at (Suc j)\<rparr>
      (server_called s) = Inr s2"
    using s g block_at_Suc_neq [of j]
    by (subst ServerRead_ack_next [OF N, where h = g])
      (auto simp: server_sends_def Let_def s1_def s2_def)
  from server_read_takes [OF assms(1) N this] takes
  have s': "s' = counted Acknowledgement (length (ack_datagram H (Suc j))) s2"
      "out = emitted (trace s) (trace s2)"
    by (simp_all add: ack_datagram_def)
  show ?thesis
  proof (cases "j < last_chunk n xs")
    case True
    then have "server_sends H sc rest n xs (Suc j) (server_read_next H S g s1)"
        "trace (server_read_next H S g s1) =
          trace s1 @ [Called (SocketSend (data_datagram H n xs (Suc (Suc j)))) True]"
      using s g(2) n server_sends_block [OF S n, of s1 g "Suc j" xs sc H]
      by (simp_all add: server_sends_def s1_def)
    with True s show ?thesis
      unfolding s' by (simp add: s2_def server_sends_def server_waiting_def s1_def)
  next
    case False
    with s show ?thesis
      unfolding s' by (simp add: s2_def s1_def server_sends_def server_has_sent_def server_finished_def)
  qed
qed

lemma server_sends_again:
  assumes "raw_data H" and N: "never_fails N" and s: "server_sends H sc rest n xs j s"
    and takes: "mc_takes (server_read_machine H N S) (ack_datagram H j) s = (s', out)"
  shows "out = [] \<and> server_sends H sc rest n xs j s'"
proof -
  have "ServerRead_acknowledgementPacket H N S (so_remoteV s) \<lparr>ap_blockNumber = block_at j\<rparr>
      (server_called s) = Inr (server_waiting TimeoutNormal (server_called s))"
    using s by (subst ServerRead_ack_again [OF N]) (simp_all add: server_sends_def)
  from server_read_takes [OF assms(1) N this] takes s show ?thesis
    by (auto simp: ack_datagram_def server_sends_def server_waiting_def)
qed

lemma server_sends_expires:
  assumes N: "never_fails N" and s: "server_sends H sc rest n xs j s"
    and expires: "mc_expires (server_read_machine H N S) s = (s', out)"
  shows "(out = [data_datagram H n xs (Suc j)] \<and> 0 \<le> j \<or> out = []) \<and> server_sends H sc rest n xs j s' \<or>
    out = [] \<and> server_has_sent sc False s'"
proof -
  obtain g where g: "sr_dataHandlerV s = Some g"
    using s by (auto simp: server_sends_def)
  have fin: "ServerRead_finished N S CommunicationError None s =
      Inr (server_finished CommunicationError None (s\<lparr>sr_dataHandlerV := Some (th_finished S g)\<rparr>))"
    by (rule ServerRead_finished_ok [OF N g])
  show ?thesis
  proof (cases "ucast (so_tftpRetriesV s) < so_transmitCounterV s")
    case True
    with expires have "s' = server_finished CommunicationError None (s\<lparr>sr_dataHandlerV := Some (th_finished S g)\<rparr>)"
        "out = emitted (trace s) (trace s')"
      unfolding server_read_machine_def server_machine_expires [OF N] by (auto simp: fin)
    then show ?thesis
      using s by (simp add: server_sends_def server_has_sent_def server_finished_def)
  next
    case False
    with expires have "s' = server_resent H s" "out = [so_transmitPacketV s]"
      unfolding server_read_machine_def server_machine_expires [OF N] by auto
    then show ?thesis
      using s by (simp add: server_sends_def server_resent_def)
  qed
qed

subsection \<open>The two sides together\<close>

text \<open>Without options, the client is connected when the first block came.\<close>

definition download_receiver ::
    "helper \<Rightarrow> endpoint \<Rightarrow> transfer_status list \<Rightarrow> ('h \<Rightarrow> bool) \<Rightarrow> ('h \<Rightarrow> bytes) \<Rightarrow> nat \<Rightarrow> bytes \<Rightarrow>
     nat \<Rightarrow> 'h client_read \<Rightarrow> bool" where
  "download_receiver H sender cc ready contents n xs i c \<longleftrightarrow>
     client_reads H sender cc ready contents n xs i c \<and> (co_receiveEndpointV c \<noteq> no_endpoint \<longrightarrow> 0 < i)"

lemma download_receiverD:
  assumes "download_receiver H sender cc ready contents n xs i c"
  shows "client_reads H sender cc ready contents n xs i c" "co_receiveEndpointV c \<noteq> no_endpoint \<Longrightarrow> 0 < i"
  using assms by (simp_all add: download_receiver_def)

lemma download_contract:
  assumes "raw_data H" and "never_fails Nc" and "never_fails Ns"
    and "data_sink D sink ready contents" and "data_source S content rest" and "0 < n"
  shows "stop_and_wait (client_read_machine H Nc D sender) (server_read_machine H Ns S)
    (data_datagram H n xs) (ack_datagram H) 0 (last_chunk n xs)
    (download_receiver H sender cc ready contents n xs) (client_has_read cc contents n xs)
    (server_sends H sc rest n xs) (server_has_sent sc)"
proof
  fix i j ok c c' s s' out
  let ?R = "download_receiver H sender cc ready contents n xs"
  note simps = client_read_machine_def client_machine_def server_read_machine_def server_machine_def
    client_reads_def client_has_read_def server_sends_def server_has_sent_def download_receiver_def
  show "?R i c \<Longrightarrow> 0 \<le> i \<and> i \<le> last_chunk n xs"
    and "client_has_read cc contents n xs ok i c \<Longrightarrow> \<not> mc_running (client_read_machine H Nc D sender) c"
    and "server_sends H sc rest n xs j s \<Longrightarrow> j \<le> last_chunk n xs"
    and "server_has_sent sc ok s \<Longrightarrow> \<not> mc_running (server_read_machine H Ns S) s"
    by (simp_all add: simps)
  show "out = [ack_datagram H (Suc i)] \<and>
      (if i < last_chunk n xs then ?R (Suc i) c' else client_has_read cc contents n xs True (Suc i) c')"
    if "?R i c" "mc_takes (client_read_machine H Nc D sender) (data_datagram H n xs (Suc i)) c = (c', out)"
    using client_reads_next [OF assms(1,2,4,6) download_receiverD(1) [OF that(1)] that(2)]
    by (auto simp: download_receiver_def split: if_splits)
  show "out = [ack_datagram H i] \<and> ?R i c'"
    if "?R i c" "0 < i" "mc_takes (client_read_machine H Nc D sender) (data_datagram H n xs i) c = (c', out)"
    using client_reads_again [OF assms(1,2,6) that(2) download_receiverD(1) [OF that(1)] that(3)] that(2)
    by (auto simp: download_receiver_def)
  show "(out = [ack_datagram H i] \<and> 0 < i \<or> out = []) \<and> ?R i c' \<or>
      out = [] \<and> client_has_read cc contents n xs False i c'"
    if "?R i c" "mc_expires (client_read_machine H Nc D sender) c = (c', out)"
    using client_reads_expires [OF assms(2,4) download_receiverD(1) [OF that(1)] that(2)]
      download_receiverD(2) [OF that(1)]
    by (auto simp: download_receiver_def split: if_splits)
qed (rule server_sends_next [OF assms(1,3,5,6)] server_sends_again [OF assms(1,3)]
    server_sends_expires [OF assms(3)]; assumption)+

interpretation memory_download: stop_and_wait
  "client_read_machine big_endian_helper quiet_net memory_receiver sender"
  "server_read_machine big_endian_helper quiet_net memory_transmitter"
  "data_datagram big_endian_helper 512 xs" "ack_datagram big_endian_helper" 0 "last_chunk 512 xs"
  "download_receiver big_endian_helper sender cc (\<lambda>f. mf_operationV f = Receive) mf_dataV 512 xs"
  "client_has_read cc mf_dataV 512 xs"
  "server_sends big_endian_helper sc memory_rest 512 xs" "server_has_sent sc"
  for sender cc sc xs
  by (rule download_contract [OF big_endian.raw_data_axioms never_fails_quiet_net never_fails_quiet_net
        memory_sink.data_sink_axioms memory_source.data_source_axioms]) simp

subsection \<open>Request and start\<close>

text \<open>The state of the client when its request was sent.\<close>

definition client_read_reset :: "'h \<Rightarrow> 'h client_read \<Rightarrow> 'h client_read" where
  "client_read_reset h c =
     (client_opened c)\<lparr>cr_dataHandlerV := Some h, cr_receiveDataSize := DefaultDataSize,
       cr_lastReceivedBlockNumber := BlockNumber 0\<rparr>"

definition client_read_rrq :: "'h client_read \<Rightarrow> packet" where
  "client_read_rrq c = RRQ \<lparr>rq_filename = cr_filenameV c, rq_mode = cr_modeV c,
     rq_options = ClientRead_options c\<rparr>"

lemma ClientRead_request_ok:
  assumes "never_fails N" and "cr_dataHandlerV c = Some h0" and "rh_start D h0 = Inr h"
  shows "ClientRead_request H N D c =
    Inr (client_waiting TimeoutFirst (client_sent H (client_read_rrq c)
      (\<lambda>b s. SocketSendTo b (co_remoteV s)) (client_read_reset h c)))"
  using assms
  by (simp add: ClientRead_request_def ClientRead_start_handler_def try_catch_def cmd_simps
      client_read_reset_def client_read_rrq_def ClientRead_options_def)

text \<open>
  A client before its request, and a server operation before its start, with handlers that
  start; \<open>xs\<close> is the content of the server's.
\<close>

definition fresh_client :: "('h \<Rightarrow> bool) \<Rightarrow> 'h receive_handler \<Rightarrow> endpoint \<Rightarrow> 'h client_read \<Rightarrow> bool" where
  "fresh_client sink D sender c \<longleftrightarrow>
     (\<exists>h. cr_dataHandlerV c = Some h \<and> sink h \<and> returned (rh_start D h)) \<and>
     \<not> cr_dallyV c \<and> accepts_no_options (cr_optionNegotiationHandlerV c) \<and> co_completionHandlerV c \<and>
     \<not> ended (trace c) \<and> sender \<noteq> no_endpoint \<and> ep_address (co_remoteV c) = ep_address sender"

definition fresh_server ::
    "'g transmit_handler \<Rightarrow> ('g \<Rightarrow> bytes) \<Rightarrow> bytes \<Rightarrow> 'g server_read \<Rightarrow> bool" where
  "fresh_server S content xs s \<longleftrightarrow>
     (\<exists>g. sr_dataHandlerV s = Some g \<and> content g = xs \<and> returned (th_start S g)) \<and>
     sr_transmitDataSize s = DefaultDataSize \<and> \<not> sr_lastDataPacketTransmitted s \<and>
     sr_lastTransmittedBlockNumber s = BlockNumber 0 \<and>
     sr_lastReceivedBlockNumber s = BlockNumber 0 \<and> so_completionHandlerV s \<and> \<not> ended (trace s)"

lemma returnedE: "returned r \<Longrightarrow> (\<And>s. r = Inr s \<Longrightarrow> thesis) \<Longrightarrow> thesis"
  by (cases r) auto

lemma fresh_client_requested:
  assumes "never_fails N" and "data_sink D sink ready contents" and "fresh_client sink D sender c"
  shows "\<exists>c1. ClientRead_request H N D c = Inr c1 \<and>
    client_reads H sender (completions (trace c)) ready contents 512 xs 0 c1 \<and>
    co_receiveEndpointV c1 = no_endpoint \<and>
    cr_optionsConfigurationV c1 = cr_optionsConfigurationV c \<and> accepts_no_options (cr_optionNegotiationHandlerV c1)"
proof -
  obtain h0 h where h: "cr_dataHandlerV c = Some h0" "sink h0" "rh_start D h0 = Inr h"
    using assms(3) by (auto simp: fresh_client_def elim: returnedE)
  have "ready h \<and> contents h = []"
    by (rule data_sink.start_sink [OF assms(2) h(2,3)])
  with assms(3) show ?thesis
    unfolding ClientRead_request_ok [OF assms(1) h(1,3)]
    by (cases "cr_optionNegotiationHandlerV c")
      (simp_all add: client_reads_def client_read_reset_def fresh_client_def client_read_negotiates_def
        DefaultDataSize_def client_sent_def Let_def client_reachable_by_def client_waiting_def)
qed

lemma fresh_server_started:
  assumes "never_fails N" and "data_source S content rest" and "fresh_server S content xs s"
    and "sr_clientOptionsV s = no_tftp_options" and "sr_additionalNegotiatedOptionsV s = []"
  shows "\<exists>s1. ServerRead_start H N S s = Inr s1 \<and>
    server_sends H (completions (trace s)) rest 512 xs 0 s1 \<and>
    emitted (trace s) (trace s1) = [data_datagram H 512 xs 1]"
proof -
  obtain g0 g where g: "sr_dataHandlerV s = Some g0" "content g0 = xs" "th_start S g0 = Inr g"
    using assms(3) by (auto simp: fresh_server_def elim: returnedE)
  let ?s = "(server_opened s)\<lparr>sr_dataHandlerV := Some g\<rparr>"
  have "server_sends H (completions (trace s)) rest 512 xs 0 (server_read_next H S g ?s)"
      "trace (server_read_next H S g ?s) = trace ?s @ [Called (SocketSend (data_datagram H 512 xs (Suc 0))) True]"
    using server_sends_block [OF assms(2), of 512 ?s g 0 xs "completions (trace s)" H] assms(3) g
      data_source.start_source [OF assms(2) g(3)]
    by (simp_all add: fresh_server_def DefaultDataSize_def)
  then show ?thesis
    unfolding ServerRead_start_plain [OF assms(1) g(1,3) assms(4,5)]
    by (simp add: server_sends_def server_waiting_def)
qed

text \<open>The request, the start of the server operation, and \<open>n\<close> exchanges.\<close>

definition download ::
    "nat \<Rightarrow> helper \<Rightarrow> net \<Rightarrow> net \<Rightarrow> 'h receive_handler \<Rightarrow> 'g transmit_handler \<Rightarrow> endpoint \<Rightarrow>
     'h client_read \<Rightarrow> 'g server_read \<Rightarrow> ('h client_read \<times> 'g server_read \<times> bytes list) option" where
  "download n H Nc Ns D S sender c0 s0 =
     (case (ClientRead_request H Nc D c0, ServerRead_start H Ns S s0) of
        (Inr c1, Inr s1) \<Rightarrow>
          exchanges n (client_read_machine H Nc D sender) (server_read_machine H Ns S)
            (c1, s1, emitted (trace s0) (trace s1))
      | _ \<Rightarrow> None)"

lemma download_plain:
  assumes "raw_data H" and N: "never_fails Nc" "never_fails Ns"
    and D: "data_sink D sink ready contents" and S: "data_source S content rest"
    and c: "fresh_client sink D sender c" and s: "fresh_server S content xs s"
    and plain: "sr_clientOptionsV s = no_tftp_options" "sr_additionalNegotiatedOptionsV s = []"
  shows "\<exists>c' s'. download (Suc (last_chunk 512 xs)) H Nc Ns D S sender c s = Some (c', s', []) \<and>
    client_has_read (completions (trace c)) contents 512 xs True (Suc (last_chunk 512 xs)) c' \<and>
    server_has_sent (completions (trace s)) True s'"
proof -
  obtain c1 where c1: "ClientRead_request H Nc D c = Inr c1"
      "client_reads H sender (completions (trace c)) ready contents 512 xs 0 c1"
      "co_receiveEndpointV c1 = no_endpoint"
    using fresh_client_requested [OF N(1) D c] by blast
  obtain s1 where s1: "ServerRead_start H Ns S s = Inr s1"
      "server_sends H (completions (trace s)) rest 512 xs 0 s1"
      "emitted (trace s) (trace s1) = [data_datagram H 512 xs 1]"
    using fresh_server_started [OF N(2) S s plain] by blast
  have "download_receiver H sender (completions (trace c)) ready contents 512 xs 0 c1"
    using c1(2,3) by (simp add: download_receiver_def)
  from stop_and_wait.exchanges_complete [OF download_contract [OF assms(1) N D S] this s1(2),
        where k = "last_chunk 512 xs"]
  show ?thesis
    by (simp add: download_def c1(1) s1(1,3))
qed

text \<open>What the invariant says of the client's handler and of the completions.\<close>

lemma download_outcome:
  assumes "synchronous 0 (last_chunk n xs) data ack (download_receiver H sender cc ready contents n xs)
      (client_has_read cc contents n xs) (server_sends H sc rest n xs) (server_has_sent sc) (c, tc, s, ts)"
    and "0 < n"
  shows "\<exists>h i rc rs. cr_dataHandlerV c = Some h \<and> contents h = take (i * n) xs \<and>
    completions (trace c) = cc @ rc \<and> completions (trace s) = sc @ rs \<and> rc \<in> outcomes \<and> rs \<in> outcomes \<and>
    (Successful \<in> set rc \<union> set rs \<longrightarrow> contents h = xs)"
proof -
  obtain i rc rs where
    c: "\<exists>h. cr_dataHandlerV c = Some h \<and> contents h = take (i * n) xs \<and> completions (trace c) = cc @ rc"
    and s: "completions (trace s) = sc @ rs" "rc \<in> outcomes" "rs \<in> outcomes"
    and i: "Successful \<in> set rc \<union> set rs \<Longrightarrow> i = Suc (last_chunk n xs)"
    by (rule synchronous_outcome [OF assms(1), where PS = "\<lambda>rs s. completions (trace s) = sc @ rs"
          and PR = "\<lambda>i rc c. \<exists>h. cr_dataHandlerV c = Some h \<and> contents h = take (i * n) xs \<and>
            completions (trace c) = cc @ rc"])
      (auto simp: download_receiver_def client_reads_def client_has_read_def server_sends_def
        server_has_sent_def)
  have "Successful \<in> set rc \<union> set rs \<longrightarrow> take (i * n) xs = xs"
    using i take_last_chunk [OF assms(2), of xs] by blast
  with c s show ?thesis by metis
qed

end
