(* ===== verification/ClientWrite.thy ===== *)
theory ClientWrite
  imports ClientOperation DataHandler Configuration
begin

text \<open>
  \<open>clients/implementation/WriteOperationImpl.cpp\<close>: the client's upload. As in \<open>ClientRead\<close>,
  the state extends that of the base class, \<open>'h\<close> is the state of the data handler and \<open>S\<close>
  its virtual functions.
\<close>

record 'h client_write = client_op +
  cw_optionsConfigurationV :: options_configuration
  cw_additionalOptionsV :: options
  cw_optionNegotiationHandlerV :: "(options \<Rightarrow> bool \<times> options) option"
  cw_dataHandlerV :: "'h option"
  cw_filenameV :: string
  cw_modeV :: transfer_mode
  cw_transmitDataSize :: u16
  cw_lastDataPacketTransmitted :: bool
  cw_lastTransmittedBlockNumber :: block_number
  cw_lastReceivedBlockNumber :: block_number
  cw_transferSize :: "u64 option"

definition ClientWrite_new :: "world \<Rightarrow> 'h client_write" where
  "ClientWrite_new w =
     \<lparr>trace = trace w, globalTransmit = globalTransmit w, globalReceive = globalReceive w,
      co_receiveTimeoutV = DefaultTftpReceiveTimeout, co_tftpRetriesV = DefaultTftpRetries,
      co_completionHandlerV = False, co_remoteV = no_endpoint, co_localV = no_endpoint,
      co_receivePacketSize = unat DefaultMaxPacketSize, co_receiveEndpointV = no_endpoint,
      co_transmitPacketV = [], co_transmitCounterV = 0, co_errorInformationV = None,
      cw_optionsConfigurationV = TftpOptionsConfiguration_default, cw_additionalOptionsV = [],
      cw_optionNegotiationHandlerV = None, cw_dataHandlerV = None, cw_filenameV = [],
      cw_modeV = InvalidMode, cw_transmitDataSize = DefaultDataSize,
      cw_lastDataPacketTransmitted = False, cw_lastTransmittedBlockNumber = BlockNumber 0,
      cw_lastReceivedBlockNumber = BlockNumber 0, cw_transferSize = None\<rparr>"

subsection \<open>Setters\<close>

definition ClientWrite_optionsConfiguration :: "options_configuration \<Rightarrow> 'h client_write cmd" where
  "ClientWrite_optionsConfiguration cfg = modify (\<lambda>s. s\<lparr>cw_optionsConfigurationV := cfg\<rparr>)"

definition ClientWrite_additionalOptions :: "options \<Rightarrow> 'h client_write cmd" where
  "ClientWrite_additionalOptions opts = modify (\<lambda>s. s\<lparr>cw_additionalOptionsV := opts\<rparr>)"

definition ClientWrite_optionNegotiationHandler ::
    "(options \<Rightarrow> bool \<times> options) option \<Rightarrow> 'h client_write cmd" where
  "ClientWrite_optionNegotiationHandler handler =
     modify (\<lambda>s. s\<lparr>cw_optionNegotiationHandlerV := handler\<rparr>)"

definition ClientWrite_dataHandler :: "'h option \<Rightarrow> 'h client_write cmd" where
  "ClientWrite_dataHandler handler = modify (\<lambda>s. s\<lparr>cw_dataHandlerV := handler\<rparr>)"

definition ClientWrite_filename :: "string \<Rightarrow> 'h client_write cmd" where
  "ClientWrite_filename filename = modify (\<lambda>s. s\<lparr>cw_filenameV := filename\<rparr>)"

definition ClientWrite_mode :: "transfer_mode \<Rightarrow> 'h client_write cmd" where
  "ClientWrite_mode mode = modify (\<lambda>s. s\<lparr>cw_modeV := mode\<rparr>)"

subsection \<open>Calls on the data handler\<close>

definition ClientWrite_on_handler :: "('h \<Rightarrow> 'h) \<Rightarrow> 'h client_write cmd" where
  "ClientWrite_on_handler f s =
     (case cw_dataHandlerV s of
        None \<Rightarrow> Inl (Undefined, s)
      | Some h \<Rightarrow> Inr (s\<lparr>cw_dataHandlerV := Some (f h)\<rparr>))"

definition ClientWrite_start_handler :: "'h transmit_handler \<Rightarrow> 'h client_write cmd" where
  "ClientWrite_start_handler S s =
     (case cw_dataHandlerV s of
        None \<Rightarrow> Inl (Undefined, s)
      | Some h \<Rightarrow>
          (case th_start S h of
             Inl (e, h') \<Rightarrow> Inl (e, s\<lparr>cw_dataHandlerV := Some h'\<rparr>)
           | Inr h' \<Rightarrow> Inr (s\<lparr>cw_dataHandlerV := Some h'\<rparr>)))"

subsection \<open>The operation\<close>

definition ClientWrite_finished :: "net \<Rightarrow> 'h transmit_handler \<Rightarrow> 'h client_write finisher" where
  "ClientWrite_finished N S status info =
     noexcept (block [
       ClientWrite_on_handler (th_finished S),
       ClientOperation_finished N status info])"

text \<open>The block size and timeout options, as for a download.\<close>

definition ClientWrite_options :: "'h client_write \<Rightarrow> options" where
  "ClientWrite_options s =
     (let cfg = cw_optionsConfigurationV s;
          options = cw_additionalOptionsV s;
          options = (case oc_blockSizeOption cfg of
            None \<Rightarrow> options
          | Some b \<Rightarrow> try_emplace (TftpOptions_name BlockSize) (to_string (unat b)) options)
      in case oc_timeoutOption cfg of
           None \<Rightarrow> options
         | Some t \<Rightarrow> try_emplace (TftpOptions_name Timeout)
                      (to_string (unat (word_of_int t :: u16))) options)"

text \<open>The transfer size is asked of the data handler if it is to be negotiated.\<close>

definition ClientWrite_askTransferSize :: "'h transmit_handler \<Rightarrow> 'h client_write cmd" where
  "ClientWrite_askTransferSize S s =
     (if oc_handleTransferSizeOption (cw_optionsConfigurationV s)
      then case cw_dataHandlerV s of
             None \<Rightarrow> Inl (Undefined, s)
           | Some h \<Rightarrow> let (sz, h') = th_requestedTransferSize S h
               in Inr (s\<lparr>cw_dataHandlerV := Some h', cw_transferSize := sz\<rparr>)
      else Inr s)"

definition ClientWrite_requestOptions :: "'h client_write \<Rightarrow> options" where
  "ClientWrite_requestOptions s =
     (case (oc_handleTransferSizeOption (cw_optionsConfigurationV s), cw_transferSize s) of
        (True, Some sz) \<Rightarrow>
          try_emplace (TftpOptions_name TransferSize) (to_string (unat sz)) (ClientWrite_options s)
      | _ \<Rightarrow> ClientWrite_options s)"

definition ClientWrite_request ::
    "helper \<Rightarrow> net \<Rightarrow> 'h transmit_handler \<Rightarrow> 'h client_write cmd" where
  "ClientWrite_request H N S =
     (\<lambda>s. if cw_dataHandlerV s = None then throw TftpEx s
      else try_catch is_boost_exception
        (block [
           ClientOperation_initialise N (ClientWrite_finished N S),
           ClientWrite_start_handler S,
           modify (\<lambda>s. s\<lparr>cw_transmitDataSize := DefaultDataSize,
                         cw_lastDataPacketTransmitted := False,
                         cw_lastTransmittedBlockNumber := BlockNumber 0,
                         cw_lastReceivedBlockNumber := BlockNumber 0xFFFF\<rparr>),
           ClientWrite_askTransferSize S,
           \<lambda>s. ClientOperation_sendFirst H N (ClientWrite_finished N S)
                 (WRQ \<lparr>rq_filename = cw_filenameV s, rq_mode = cw_modeV s,
                       rq_options = ClientWrite_requestOptions s\<rparr>) s,
           ClientOperation_receiveFirst N (ClientWrite_finished N S)])
        (ClientWrite_finished N S CommunicationError None) s)"

definition ClientWrite_sendData ::
    "helper \<Rightarrow> net \<Rightarrow> 'h transmit_handler \<Rightarrow> 'h client_write cmd" where
  "ClientWrite_sendData H N S =
     block [
       modify (\<lambda>s. s\<lparr>cw_lastTransmittedBlockNumber :=
         BlockNumber_preincrement (cw_lastTransmittedBlockNumber s)\<rparr>),
       \<lambda>s. case cw_dataHandlerV s of
             None \<Rightarrow> throw Undefined s
           | Some h \<Rightarrow>
               let (d, h') = th_sendData S (unat (cw_transmitDataSize s)) h;
                   data = \<lparr>dp_blockNumber = cw_lastTransmittedBlockNumber s, dp_data = d\<rparr>
               in block [
                    modify (\<lambda>s. s\<lparr>cw_dataHandlerV := Some h'\<rparr>),
                    \<lambda>s. if DataPacket_dataSize data < unat (cw_transmitDataSize s)
                        then modify (\<lambda>s. s\<lparr>cw_lastDataPacketTransmitted := True\<rparr>) s
                        else block [] s,
                    ClientOperation_send H N (ClientWrite_finished N S) (DATA data)] s]"

definition ClientWrite_dataPacket ::
    "helper \<Rightarrow> net \<Rightarrow> 'h transmit_handler \<Rightarrow> endpoint \<Rightarrow> data_packet \<Rightarrow> 'h client_write cmd" where
  "ClientWrite_dataPacket H N S remote p =
     ClientOperation_reject H N (ClientWrite_finished N S) TransferError IllegalTftpOperation
       ''DATA not expected''"

definition ClientWrite_acknowledgementPacket ::
    "helper \<Rightarrow> net \<Rightarrow> 'h transmit_handler \<Rightarrow> endpoint \<Rightarrow> ack_packet \<Rightarrow> 'h client_write cmd" where
  "ClientWrite_acknowledgementPacket H N S remote p =
     (\<lambda>s. if BlockNumber_equal (ap_blockNumber p) (cw_lastReceivedBlockNumber s)
          then ClientOperation_receive N (ClientWrite_finished N S) s
          else if \<not> BlockNumber_equal (ap_blockNumber p) (cw_lastTransmittedBlockNumber s)
          then ClientOperation_reject H N (ClientWrite_finished N S) TransferError
            IllegalTftpOperation ''Wrong block number'' s
          else block [
            modify (\<lambda>s. s\<lparr>cw_lastReceivedBlockNumber := ap_blockNumber p\<rparr>),
            \<lambda>s. if BlockNumber_equal (ap_blockNumber p) (BlockNumber 0) \<and>
                  (case cw_optionNegotiationHandlerV s of None \<Rightarrow> False | Some n \<Rightarrow> \<not> fst (n []))
                then ClientOperation_reject H N (ClientWrite_finished N S) TransferError
                  TftpOptionRefused ''Option Negotiation Failed'' s
                else if cw_lastDataPacketTransmitted s
                then ClientWrite_finished N S Successful None s
                else block [
                  ClientWrite_sendData H N S,
                  ClientOperation_receive N (ClientWrite_finished N S)] s] s)"

definition ClientWrite_optionsAcknowledgementPacket ::
    "helper \<Rightarrow> net \<Rightarrow> 'h transmit_handler \<Rightarrow> endpoint \<Rightarrow> oack_packet \<Rightarrow> 'h client_write cmd" where
  "ClientWrite_optionsAcknowledgementPacket H N S remote p s =
     (let reject = ClientOperation_reject H N (ClientWrite_finished N S);
          refuse = reject OptionNegotiationError TftpOptionRefused;
          cfg = cw_optionsConfigurationV s
      in if cw_lastReceivedBlockNumber s \<noteq> BlockNumber 0xFFFF
         then reject TransferError IllegalTftpOperation ''OACK must occur after WRQ'' s
         else if op_options p = []
         then reject TransferError IllegalTftpOperation ''Empty OACK not allowed'' s
         else
      case negotiate_blockSize cfg (op_options p) of
        Inl msg \<Rightarrow> refuse msg s
      | Inr (blockSizeValue, remoteOptions) \<Rightarrow>
      let s = (case blockSizeValue of None \<Rightarrow> s | Some v \<Rightarrow> s\<lparr>cw_transmitDataSize := v\<rparr>) in
      case negotiate_timeout cfg remoteOptions of
        Inl msg \<Rightarrow> refuse msg s
      | Inr (timeoutValue, remoteOptions) \<Rightarrow>
      let s = (case timeoutValue of None \<Rightarrow> s | Some v \<Rightarrow> s\<lparr>co_receiveTimeoutV := uint v\<rparr>) in
      case negotiate_transferSize
             (oc_handleTransferSizeOption cfg \<and> cw_transferSize s \<noteq> None) remoteOptions of
        Inl msg \<Rightarrow> refuse msg s
      | Inr (transferSizeValue, remoteOptions) \<Rightarrow>
      if transferSizeValue \<noteq> None \<and> transferSizeValue \<noteq> cw_transferSize s
      then refuse ''transfer size invalid'' s
      else
      let (negotiated, remoteOptions) =
            (case cw_optionNegotiationHandlerV s of
               None \<Rightarrow> (True, remoteOptions) | Some n \<Rightarrow> n remoteOptions)
      in if \<not> negotiated
         then refuse ''Option negotiation failed'' s
         else if remoteOptions \<noteq> []
         then refuse ''Unexpected options'' s
         else block [
           ClientWrite_sendData H N S,
           ClientOperation_receive N (ClientWrite_finished N S)] s)"

definition ClientWrite_handlers ::
    "helper \<Rightarrow> net \<Rightarrow> 'h transmit_handler \<Rightarrow> 'h client_write packet_handler" where
  "ClientWrite_handlers H N S =
     \<lparr>ph_readRequestPacket = ClientOperation_readRequestPacket H N (ClientWrite_finished N S),
      ph_writeRequestPacket = ClientOperation_writeRequestPacket H N (ClientWrite_finished N S),
      ph_dataPacket = ClientWrite_dataPacket H N S,
      ph_acknowledgementPacket = ClientWrite_acknowledgementPacket H N S,
      ph_errorPacket = ClientOperation_errorPacket H (ClientWrite_finished N S),
      ph_optionsAcknowledgementPacket = ClientWrite_optionsAcknowledgementPacket H N S,
      ph_invalidPacket = ClientOperation_invalidPacket H N (ClientWrite_finished N S)\<rparr>"

definition ClientWrite_on ::
    "helper \<Rightarrow> net \<Rightarrow> 'h transmit_handler \<Rightarrow> client_input \<Rightarrow> 'h client_write cmd" where
  "ClientWrite_on H N S =
     ClientOperation_on H N (ClientWrite_finished N S) (ClientWrite_handlers H N S)"

inductive client_write_reachable ::
    "helper \<Rightarrow> net \<Rightarrow> 'h transmit_handler \<Rightarrow> 'h client_write \<Rightarrow> 'h client_write \<Rightarrow> bool"
  for H N S s0 where
  requested: "client_write_reachable H N S s0 s"
    if "ClientWrite_request H N S s0 = Inr s" and "\<not> ended (trace s)"
| step: "client_write_reachable H N S s0 (final (ClientWrite_on H N S input s))"
    if "client_write_reachable H N S s0 s" and "delivers input \<longrightarrow> \<not> ended (trace s)"

end
