(* ===== verification/ServerWrite.thy ===== *)
theory ServerWrite
  imports ServerOperation DataHandler Configuration
begin

text \<open>
  \<open>servers/implementation/WriteOperationImpl.cpp\<close>: the server's side of an upload. As in
  \<open>ServerRead\<close>, with a data handler \<open>D\<close> that receives. \<open>start\<close> answers the request with an
  OACK or with the acknowledgement of block 0.
\<close>

record 'h server_write = server_op +
  sw_optionsConfigurationV :: options_configuration
  sw_dataHandlerV :: "'h option"
  sw_clientOptionsV :: tftp_options
  sw_additionalNegotiatedOptionsV :: options
  sw_dallyV :: bool
  sw_receiveDataSize :: u16
  sw_lastReceivedBlockNumber :: block_number

definition ServerWrite_new :: "world \<Rightarrow> 'h server_write" where
  "ServerWrite_new w =
     \<lparr>trace = trace w, globalTransmit = globalTransmit w, globalReceive = globalReceive w,
      so_receiveTimeoutV = DefaultTftpReceiveTimeout, so_tftpRetriesV = DefaultTftpRetries,
      so_completionHandlerV = False, so_remoteV = no_endpoint, so_localV = no_endpoint,
      so_receivePacketSize = unat DefaultMaxPacketSize, so_transmitPacketV = [],
      so_transmitCounterV = 0, so_errorInformationV = None,
      sw_optionsConfigurationV = TftpOptionsConfiguration_default, sw_dataHandlerV = None,
      sw_clientOptionsV = no_tftp_options, sw_additionalNegotiatedOptionsV = [],
      sw_dallyV = False, sw_receiveDataSize = DefaultDataSize, sw_lastReceivedBlockNumber = BlockNumber 0\<rparr>"

subsection \<open>Setters\<close>

definition ServerWrite_dally :: "bool \<Rightarrow> 'h server_write cmd" where
  "ServerWrite_dally dally = modify (\<lambda>s. s\<lparr>sw_dallyV := dally\<rparr>)"

definition ServerWrite_optionsConfiguration :: "options_configuration \<Rightarrow> 'h server_write cmd" where
  "ServerWrite_optionsConfiguration cfg =
     block [
       modify (\<lambda>s. s\<lparr>sw_optionsConfigurationV := cfg\<rparr>),
       \<lambda>s. ServerOperation_maxReceivePacketSize
             (DefaultTftpDataPacketHeaderSize +
              max DefaultDataSize
                (case oc_blockSizeOption (sw_optionsConfigurationV s) of
                   None \<Rightarrow> DefaultDataSize | Some b \<Rightarrow> b)) s]"

definition ServerWrite_dataHandler :: "'h option \<Rightarrow> 'h server_write cmd" where
  "ServerWrite_dataHandler handler = modify (\<lambda>s. s\<lparr>sw_dataHandlerV := handler\<rparr>)"

definition ServerWrite_clientOptions :: "tftp_options \<Rightarrow> 'h server_write cmd" where
  "ServerWrite_clientOptions opts = modify (\<lambda>s. s\<lparr>sw_clientOptionsV := opts\<rparr>)"

definition ServerWrite_additionalNegotiatedOptions :: "options \<Rightarrow> 'h server_write cmd" where
  "ServerWrite_additionalNegotiatedOptions opts =
     modify (\<lambda>s. s\<lparr>sw_additionalNegotiatedOptionsV := opts\<rparr>)"

subsection \<open>Calls on the data handler\<close>

definition ServerWrite_on_handler :: "('h \<Rightarrow> 'h) \<Rightarrow> 'h server_write cmd" where
  "ServerWrite_on_handler f s =
     (case sw_dataHandlerV s of
        None \<Rightarrow> Inl (Undefined, s)
      | Some h \<Rightarrow> Inr (s\<lparr>sw_dataHandlerV := Some (f h)\<rparr>))"

definition ServerWrite_start_handler :: "'h receive_handler \<Rightarrow> 'h server_write cmd" where
  "ServerWrite_start_handler D s =
     (case sw_dataHandlerV s of
        None \<Rightarrow> Inl (Undefined, s)
      | Some h \<Rightarrow>
          (case rh_start D h of
             Inl (e, h') \<Rightarrow> Inl (e, s\<lparr>sw_dataHandlerV := Some h'\<rparr>)
           | Inr h' \<Rightarrow> Inr (s\<lparr>sw_dataHandlerV := Some h'\<rparr>)))"

subsection \<open>The operation\<close>

definition ServerWrite_finished :: "net \<Rightarrow> 'h receive_handler \<Rightarrow> 'h server_write finisher" where
  "ServerWrite_finished N D status info =
     noexcept (block [
       ServerWrite_on_handler (rh_finished D),
       ServerOperation_finished N status info])"

text \<open>
  The options of the OACK. The block size and the timeout that are granted come into force
  at once; the transfer size needs the data handler and may end the operation, which is why
  it is separate.
\<close>

definition ServerWrite_grant :: "'h server_write \<Rightarrow> options \<times> 'h server_write" where
  "ServerWrite_grant s =
     (let cfg = sw_optionsConfigurationV s; opts = sw_clientOptionsV s;
          serverOptions = sw_additionalNegotiatedOptionsV s;
          (serverOptions, s) =
            (case (oc_blockSizeOption cfg, to_blockSize opts) of
               (Some b, Some c) \<Rightarrow>
                 (try_emplace (TftpOptions_name BlockSize) (to_string (unat (min c b))) serverOptions,
                  s\<lparr>sw_receiveDataSize := min c b\<rparr>)
             | _ \<Rightarrow> (serverOptions, s))
      in case (oc_timeoutOption cfg, to_timeout opts) of
           (Some t, Some c) \<Rightarrow>
             if uint c \<le> t
             then (try_emplace (TftpOptions_name Timeout) (to_string (unat c)) serverOptions,
                   s\<lparr>so_receiveTimeoutV := uint c\<rparr>)
             else (serverOptions, s)
         | _ \<Rightarrow> (serverOptions, s))"

definition ServerWrite_start ::
    "helper \<Rightarrow> net \<Rightarrow> 'h receive_handler \<Rightarrow> 'h server_write cmd" where
  "ServerWrite_start H N D s =
     (let F = ServerWrite_finished N D;
          answer = (\<lambda>serverOptions. block [
            ServerOperation_send H N F
              (if serverOptions \<noteq> [] then OACK \<lparr>op_options = serverOptions\<rparr>
               else ACK \<lparr>ap_blockNumber = BlockNumber 0\<rparr>),
            ServerOperation_receive N F])
      in if sw_dataHandlerV s = None then throw TftpEx s
      else try_catch is_exception
        (try_catch is_tftp_exception
          (block [
             ServerOperation_initialise N F,
             ServerWrite_start_handler D,
             \<lambda>s. if \<not> TftpOptions_bool (sw_clientOptionsV s) \<and> sw_additionalNegotiatedOptionsV s = []
                 then answer [] s
                 else
                   let (serverOptions, s) = ServerWrite_grant s in
                   case (oc_handleTransferSizeOption (sw_optionsConfigurationV s),
                         to_transferSize (sw_clientOptionsV s)) of
                     (True, Some transferSize) \<Rightarrow>
                       (case sw_dataHandlerV s of
                           None \<Rightarrow> throw Undefined s
                         | Some h \<Rightarrow>
                             let (accepted, h') = rh_receivedTransferSize D transferSize h;
                                 s = s\<lparr>sw_dataHandlerV := Some h'\<rparr>
                             in if \<not> accepted
                                then ServerOperation_reject H N F TransferError
                                  DiskFullOrAllocationExceeds ''File to big'' s
                                else answer (try_emplace (TftpOptions_name TransferSize)
                                  (to_string (unat transferSize)) serverOptions) s)
                   | _ \<Rightarrow> answer serverOptions s])
          (block []))
        (F CommunicationError None) s)"

text \<open>After an ACK: the end of the transfer, or the next packet.\<close>

definition ServerWrite_continue ::
    "net \<Rightarrow> 'h receive_handler \<Rightarrow> data_packet \<Rightarrow> 'h server_write cmd" where
  "ServerWrite_continue N D p =
     (\<lambda>s. if DataPacket_dataSize p < unat (sw_receiveDataSize s)
          then if sw_dallyV s then ServerOperation_receiveDally N (ServerWrite_finished N D) s
               else ServerWrite_finished N D Successful None s
          else ServerOperation_receive N (ServerWrite_finished N D) s)"

definition ServerWrite_dataPacket ::
    "helper \<Rightarrow> net \<Rightarrow> 'h receive_handler \<Rightarrow> endpoint \<Rightarrow> data_packet \<Rightarrow> 'h server_write cmd" where
  "ServerWrite_dataPacket H N D remote p =
     (\<lambda>s. if BlockNumber_equal (dp_blockNumber p) (sw_lastReceivedBlockNumber s)
          then block [
            \<lambda>s. ServerOperation_send H N (ServerWrite_finished N D)
                  (ACK \<lparr>ap_blockNumber = sw_lastReceivedBlockNumber s\<rparr>) s,
            ServerWrite_continue N D p] s
          else if \<not> BlockNumber_equal_int (dp_blockNumber p)
                      (BlockNumber_next (sw_lastReceivedBlockNumber s))
          then ServerOperation_reject H N (ServerWrite_finished N D) TransferError
            IllegalTftpOperation ''Block Number not expected'' s
          else if DataPacket_dataSize p > unat (sw_receiveDataSize s)
          then ServerOperation_reject H N (ServerWrite_finished N D) TransferError
            IllegalTftpOperation ''Too much data'' s
          else block [
            ServerWrite_on_handler (rh_receivedData D (dp_data p)),
            modify (\<lambda>s. s\<lparr>sw_lastReceivedBlockNumber :=
              BlockNumber_preincrement (sw_lastReceivedBlockNumber s)\<rparr>),
            \<lambda>s. ServerOperation_send H N (ServerWrite_finished N D)
                  (ACK \<lparr>ap_blockNumber = sw_lastReceivedBlockNumber s\<rparr>) s,
            ServerWrite_continue N D p] s)"

definition ServerWrite_acknowledgementPacket ::
    "helper \<Rightarrow> net \<Rightarrow> 'h receive_handler \<Rightarrow> endpoint \<Rightarrow> ack_packet \<Rightarrow> 'h server_write cmd" where
  "ServerWrite_acknowledgementPacket H N D remote p =
     ServerOperation_reject H N (ServerWrite_finished N D) TransferError IllegalTftpOperation
       ''ACK not expected''"

definition ServerWrite_handlers ::
    "helper \<Rightarrow> net \<Rightarrow> 'h receive_handler \<Rightarrow> 'h server_write packet_handler" where
  "ServerWrite_handlers H N D =
     \<lparr>ph_readRequestPacket = ServerOperation_readRequestPacket H N (ServerWrite_finished N D),
      ph_writeRequestPacket = ServerOperation_writeRequestPacket H N (ServerWrite_finished N D),
      ph_dataPacket = ServerWrite_dataPacket H N D,
      ph_acknowledgementPacket = ServerWrite_acknowledgementPacket H N D,
      ph_errorPacket = ServerOperation_errorPacket H (ServerWrite_finished N D),
      ph_optionsAcknowledgementPacket =
        ServerOperation_optionsAcknowledgementPacket H N (ServerWrite_finished N D),
      ph_invalidPacket = ServerOperation_invalidPacket H N (ServerWrite_finished N D)\<rparr>"

definition ServerWrite_on ::
    "helper \<Rightarrow> net \<Rightarrow> 'h receive_handler \<Rightarrow> server_input \<Rightarrow> 'h server_write cmd" where
  "ServerWrite_on H N D = ServerOperation_on H N (ServerWrite_finished N D) (ServerWrite_handlers H N D)"

end
