(* ===== verification/Instances.thy ===== *)
theory Instances
  imports ClientRead ClientWrite ServerRead ServerWrite Files
begin

text \<open>
  Operations as a user sets them up through the setters, with memory files as data handlers.
  The general theorems are instantiated at these.
\<close>

definition no_world :: world where
  "no_world = \<lparr>trace = [], globalTransmit = [], globalReceive = []\<rparr>"

definition host :: "32 word \<Rightarrow> u16 \<Rightarrow> endpoint" where
  "host a p = \<lparr>ep_address = V4 a, ep_port = p\<rparr>"

definition memory_client_read :: "memory_file client_read" where
  "memory_client_read = final (block [
     ClientOperation_remote (host 1 69),
     ClientOperation_completionHandler True,
     ClientRead_filename ''f'',
     ClientRead_mode OCTET,
     ClientRead_dataHandler (Some MemoryFile_receive)] (ClientRead_new no_world))"

definition memory_client_write :: "bytes \<Rightarrow> memory_file client_write" where
  "memory_client_write d = final (block [
     ClientOperation_remote (host 1 69),
     ClientOperation_completionHandler True,
     ClientWrite_filename ''f'',
     ClientWrite_mode OCTET,
     ClientWrite_dataHandler (Some (MemoryFile_transmit d))] (ClientWrite_new no_world))"

definition memory_server_read :: "bytes \<Rightarrow> memory_file server_read" where
  "memory_server_read d = final (block [
     ServerOperation_remote (host 2 1024),
     ServerOperation_completionHandler True,
     ServerRead_dataHandler (Some (MemoryFile_transmit d))] (ServerRead_new no_world))"

definition memory_server_write :: "memory_file server_write" where
  "memory_server_write = final (block [
     ServerOperation_remote (host 2 1024),
     ServerOperation_completionHandler True,
     ServerWrite_dataHandler (Some MemoryFile_receive)] (ServerWrite_new no_world))"

lemmas setter_defs =
  ClientOperation_remote_def ClientOperation_completionHandler_def
  ClientRead_filename_def ClientRead_mode_def ClientRead_dataHandler_def
  ClientWrite_filename_def ClientWrite_mode_def ClientWrite_dataHandler_def
  ServerOperation_remote_def ServerOperation_completionHandler_def
  ServerRead_dataHandler_def ServerWrite_dataHandler_def

lemma memory_client_read_eq [simp]:
  "memory_client_read = (ClientRead_new no_world)
     \<lparr>co_remoteV := host 1 69, co_completionHandlerV := True, cr_filenameV := ''f'',
      cr_modeV := OCTET, cr_dataHandlerV := Some MemoryFile_receive\<rparr>"
  by (simp add: memory_client_read_def setter_defs cmd_simps)

lemma memory_client_write_eq [simp]:
  "memory_client_write d = (ClientWrite_new no_world)
     \<lparr>co_remoteV := host 1 69, co_completionHandlerV := True, cw_filenameV := ''f'',
      cw_modeV := OCTET, cw_dataHandlerV := Some (MemoryFile_transmit d)\<rparr>"
  by (simp add: memory_client_write_def setter_defs cmd_simps)

lemma memory_server_read_eq [simp]:
  "memory_server_read d = (ServerRead_new no_world)
     \<lparr>so_remoteV := host 2 1024, so_completionHandlerV := True,
      sr_dataHandlerV := Some (MemoryFile_transmit d)\<rparr>"
  by (simp add: memory_server_read_def setter_defs cmd_simps)

lemma memory_server_write_eq [simp]:
  "memory_server_write = (ServerWrite_new no_world)
     \<lparr>so_remoteV := host 2 1024, so_completionHandlerV := True,
      sw_dataHandlerV := Some MemoryFile_receive\<rparr>"
  by (simp add: memory_server_write_def setter_defs cmd_simps)

lemmas new_simps = no_world_def host_def ClientRead_new_def ClientWrite_new_def
  ServerRead_new_def ServerWrite_new_def

lemma memory_starts [simp]:
  "rh_start memory_receiver MemoryFile_receive = Inr MemoryFile_receive"
  "th_start memory_transmitter (MemoryFile_transmit d) = Inr (MemoryFile_transmit d)"
  "mf_operationV MemoryFile_receive = Receive"
  by (simp_all add: memory_receiver_def memory_transmitter_def MemoryFile_start_def
      MemoryFile_receive_def MemoryFile_transmit_def cmd_simps)

text \<open>A smaller block size than the one asked for.\<close>

lemma negotiate_example:
  "negotiate_blockSize (TftpOptionsConfiguration_default\<lparr>oc_blockSizeOption := Some 1428\<rparr>)
     [(''blksize'', ''1024'')] = Inr (Some 1024, [])"
  "negotiate_timeout cfg [] = Inr (None, [])" "negotiate_transferSize expected [] = Inr (None, [])"
proof -
  have "to_string 1024 = ''1024''" by code_simp
  with stoull_to_string [of 1024] have "stoull ''1024'' = Inr 1024" by simp
  then show "negotiate_blockSize (TftpOptionsConfiguration_default\<lparr>oc_blockSizeOption := Some 1428\<rparr>)
     [(''blksize'', ''1024'')] = Inr (Some 1024, [])"
    by (simp add: negotiate_blockSize_def Options_getOption_def map_extract_def map_erase_def
        find_Cons TftpOptions_name_def BlockSizeOptionMin_def BlockSizeOptionMax_def)
  show "negotiate_timeout cfg [] = Inr (None, [])" "negotiate_transferSize expected [] = Inr (None, [])"
    by (simp_all add: negotiate_timeout_def negotiate_transferSize_def Options_getOption_def
        map_extract_def map_erase_def)
qed

end
