(* ===== verification/Server.thy ===== *)
theory Server
  imports ServerRead ServerWrite
begin

text \<open>
  \<open>servers/implementation/ServerImpl.cpp\<close>: the listening server. It decodes requests, splits
  their options into known and other ones, and calls the request handler its user registered;
  it answers everything else with an error packet, and creates operations with the configured
  defaults.

  The request handler is a parameter \<open>R\<close>, a command on the state of its user, which extends the
  one of the server; a call is recorded in the trace. The server itself only knows whether it
  has been given one.
\<close>

type_synonym 's request_handler =
  "endpoint \<Rightarrow> request_type \<Rightarrow> string \<Rightarrow> transfer_mode \<Rightarrow> tftp_options \<Rightarrow> options \<Rightarrow> 's cmd"

record server = world +
  sv_requestHandlerV :: bool
  sv_serverAddressV :: endpoint
  sv_tftpTimeoutDefaultV :: "int option"
  sv_tftpRetriesDefaultV :: "u16 option"
  sv_dallyDefaultV :: "bool option"
  sv_optionsConfigurationDefaultV :: "options_configuration option"
  sv_localV :: ip_address
  sv_receivePacketSize :: nat
  sv_remoteEndpointV :: endpoint

text \<open>\<open>Server.cpp\<close>: \<open>DefaultLocalEndpoint\<close> is any IPv4 address, port 69.\<close>

definition ServerImpl_new :: "world \<Rightarrow> server" where
  "ServerImpl_new w =
     \<lparr>trace = trace w, globalTransmit = globalTransmit w, globalReceive = globalReceive w,
      sv_requestHandlerV = False,
      sv_serverAddressV = \<lparr>ep_address = V4 0, ep_port = DefaultTftpPort\<rparr>,
      sv_tftpTimeoutDefaultV = None, sv_tftpRetriesDefaultV = None, sv_dallyDefaultV = None,
      sv_optionsConfigurationDefaultV = None, sv_localV = V4 0,
      sv_receivePacketSize = unat DefaultMaxPacketSize, sv_remoteEndpointV = no_endpoint\<rparr>"

subsection \<open>Setters\<close>

definition ServerImpl_requestHandler :: "bool \<Rightarrow> 'a server_scheme cmd" where
  "ServerImpl_requestHandler handler = modify (\<lambda>s. s\<lparr>sv_requestHandlerV := handler\<rparr>)"

definition ServerImpl_serverAddress :: "endpoint \<Rightarrow> 'a server_scheme cmd" where
  "ServerImpl_serverAddress serverAddress = modify (\<lambda>s. s\<lparr>sv_serverAddressV := serverAddress\<rparr>)"

definition ServerImpl_tftpTimeoutDefault :: "int \<Rightarrow> 'a server_scheme cmd" where
  "ServerImpl_tftpTimeoutDefault timeout = modify (\<lambda>s. s\<lparr>sv_tftpTimeoutDefaultV := Some timeout\<rparr>)"

definition ServerImpl_tftpRetriesDefault :: "u16 \<Rightarrow> 'a server_scheme cmd" where
  "ServerImpl_tftpRetriesDefault retries = modify (\<lambda>s. s\<lparr>sv_tftpRetriesDefaultV := Some retries\<rparr>)"

definition ServerImpl_dallyDefault :: "bool \<Rightarrow> 'a server_scheme cmd" where
  "ServerImpl_dallyDefault dally = modify (\<lambda>s. s\<lparr>sv_dallyDefaultV := Some dally\<rparr>)"

definition ServerImpl_optionsConfigurationDefault :: "options_configuration \<Rightarrow> 'a server_scheme cmd" where
  "ServerImpl_optionsConfigurationDefault cfg =
     modify (\<lambda>s. s\<lparr>sv_optionsConfigurationDefaultV := Some cfg\<rparr>)"

definition ServerImpl_localDefault :: "ip_address \<Rightarrow> 'a server_scheme cmd" where
  "ServerImpl_localDefault local = modify (\<lambda>s. s\<lparr>sv_localV := local\<rparr>)"

subsection \<open>Operations with the configured defaults\<close>

definition ServerImpl_readOperation :: "'a server_scheme \<Rightarrow> world \<Rightarrow> 'h server_read result" where
  "ServerImpl_readOperation sv w =
     block [
       set_default (sv_tftpTimeoutDefaultV sv) ServerOperation_tftpTimeout,
       set_default (sv_tftpRetriesDefaultV sv) ServerOperation_tftpRetries,
       set_default (sv_optionsConfigurationDefaultV sv) ServerRead_optionsConfiguration,
       if \<not> is_unspecified (sv_localV sv)
       then ServerOperation_local \<lparr>ep_address = sv_localV sv, ep_port = 0\<rparr> else block []]
     (ServerRead_new w)"

definition ServerImpl_writeOperation :: "'a server_scheme \<Rightarrow> world \<Rightarrow> 'h server_write result" where
  "ServerImpl_writeOperation sv w =
     block [
       set_default (sv_tftpTimeoutDefaultV sv) ServerOperation_tftpTimeout,
       set_default (sv_tftpRetriesDefaultV sv) ServerOperation_tftpRetries,
       set_default (sv_dallyDefaultV sv) ServerWrite_dally,
       set_default (sv_optionsConfigurationDefaultV sv) ServerWrite_optionsConfiguration,
       if \<not> is_unspecified (sv_localV sv)
       then ServerOperation_local \<lparr>ep_address = sv_localV sv, ep_port = 0\<rparr> else block []]
     (ServerWrite_new w)"

subsection \<open>Rejecting a request\<close>

text \<open>An error packet from a socket of its own, unbound or bound to a local address.\<close>

definition ServerImpl_errorOperation ::
    "helper \<Rightarrow> net \<Rightarrow> endpoint \<Rightarrow> error_code \<Rightarrow> string \<Rightarrow> 'a world_scheme cmd" where
  "ServerImpl_errorOperation H N remote errorCode errorMessage =
     (let rawPacket = Packet_encode H (ERR \<lparr>ep_errorCode = errorCode, ep_errorMessage = errorMessage\<rparr>)
      in try_catch is_system_error
        (block [
           system_call N (SocketOpen (endpoint_protocol remote)),
           system_call N (SocketConnect remote),
           count_transmit Error (length rawPacket),
           system_call N (SocketSend rawPacket)])
        (block []))"

definition ServerImpl_errorOperation_local ::
    "helper \<Rightarrow> net \<Rightarrow> endpoint \<Rightarrow> endpoint \<Rightarrow> error_code \<Rightarrow> string \<Rightarrow> 'a world_scheme cmd" where
  "ServerImpl_errorOperation_local H N remote local errorCode errorMessage =
     (let rawPacket = Packet_encode H (ERR \<lparr>ep_errorCode = errorCode, ep_errorMessage = errorMessage\<rparr>)
      in try_catch is_system_error
        (block [
           system_call N (SocketOpen (endpoint_protocol remote)),
           system_call N (SocketBind local),
           system_call N (SocketConnect remote),
           count_transmit Error (length rawPacket),
           system_call N (SocketSend rawPacket)])
        (block []))"

subsection \<open>Listening\<close>

definition ServerImpl_receive :: "net \<Rightarrow> 'a server_scheme cmd" where
  "ServerImpl_receive N =
     try_catch is_system_error
       (\<lambda>s. system_call N (AsyncReceiveFrom (sv_receivePacketSize s)) s)
       (throw CommunicationEx)"

definition ServerImpl_start :: "net \<Rightarrow> 'a server_scheme cmd" where
  "ServerImpl_start N =
     try_catch is_system_error
       (block [
          \<lambda>s. system_call N (SocketOpen (endpoint_protocol (sv_serverAddressV s))) s,
          \<lambda>s. system_call N (SocketBind (sv_serverAddressV s)) s,
          ServerImpl_receive N])
       (block [
          \<lambda>s. if net_is_open N (trace s) then system_call N SocketClose s else block [] s,
          throw CommunicationEx])"

definition ServerImpl_stop :: "net \<Rightarrow> 'a server_scheme cmd" where
  "ServerImpl_stop N = block [system_call N SocketCancel, system_call N SocketClose]"

subsection \<open>Received packets\<close>

text \<open>The known options, and the remaining ones.\<close>

definition ServerImpl_tftpOptions :: "options \<Rightarrow> tftp_options \<times> options" where
  "ServerImpl_tftpOptions clientOptions =
     (let ((blockSizeValid, blockSize), clientOptions) =
            Options_getOption clientOptions (TftpOptions_name BlockSize)
              BlockSizeOptionMin BlockSizeOptionMax;
          clientOptions = map_erase (TftpOptions_name BlockSize) clientOptions;
          ((timeoutValid, timeout), clientOptions) =
            Options_getOption clientOptions (TftpOptions_name Timeout)
              TimeoutOptionMin TimeoutOptionMax;
          clientOptions = map_erase (TftpOptions_name Timeout) clientOptions;
          ((transferSizeValid, transferSize), clientOptions) =
            Options_getOption clientOptions (TftpOptions_name TransferSize) 0 (- 1);
          clientOptions = map_erase (TftpOptions_name TransferSize) clientOptions
      in (\<lparr>to_blockSize = blockSize, to_timeout = timeout, to_transferSize = transferSize\<rparr>,
          clientOptions))"

text \<open>The call of the \<open>std::function\<close>, which throws when it is empty.\<close>

definition call_requestHandler ::
    "'a server_scheme request_handler \<Rightarrow> 'a server_scheme request_handler" where
  "call_requestHandler R remote t filename mode decoded rest s =
     (if \<not> sv_requestHandlerV s then throw BadFunctionCall s
      else block [
        modify (\<lambda>s. s\<lparr>trace := trace s @ [Requested remote t filename mode decoded rest]\<rparr>),
        R remote t filename mode decoded rest] s)"

definition ServerImpl_readRequestPacket ::
    "helper \<Rightarrow> net \<Rightarrow> 'a server_scheme request_handler \<Rightarrow> endpoint \<Rightarrow> request_packet \<Rightarrow> 'a server_scheme cmd" where
  "ServerImpl_readRequestPacket H N R remote p =
     block [
       \<lambda>s. if \<not> sv_requestHandlerV s
           then ServerImpl_errorOperation H N remote FileNotFound ''RRQ packet isn't accepted'' s
           else block [] s,
       let (decodedOptions, receivedOptions) = ServerImpl_tftpOptions (rq_options p)
       in call_requestHandler R remote Read (rq_filename p) (rq_mode p) decodedOptions receivedOptions]"

definition ServerImpl_writeRequestPacket ::
    "helper \<Rightarrow> net \<Rightarrow> 'a server_scheme request_handler \<Rightarrow> endpoint \<Rightarrow> request_packet \<Rightarrow> 'a server_scheme cmd" where
  "ServerImpl_writeRequestPacket H N R remote p =
     block [
       \<lambda>s. if \<not> sv_requestHandlerV s
           then ServerImpl_errorOperation H N remote FileNotFound ''WRQ'' s
           else block [] s,
       let (decodedOptions, receivedOptions) = ServerImpl_tftpOptions (rq_options p)
       in call_requestHandler R remote Write (rq_filename p) (rq_mode p) decodedOptions receivedOptions]"

definition ServerImpl_dataPacket :: "helper \<Rightarrow> net \<Rightarrow> endpoint \<Rightarrow> data_packet \<Rightarrow> 'a server_scheme cmd" where
  "ServerImpl_dataPacket H N remote p =
     ServerImpl_errorOperation H N remote IllegalTftpOperation ''DATA packet isn't expected''"

definition ServerImpl_acknowledgementPacket :: "helper \<Rightarrow> net \<Rightarrow> endpoint \<Rightarrow> ack_packet \<Rightarrow> 'a server_scheme cmd" where
  "ServerImpl_acknowledgementPacket H N remote p =
     ServerImpl_errorOperation H N remote IllegalTftpOperation ''ACK packet isn't expected''"

definition ServerImpl_errorPacket :: "helper \<Rightarrow> net \<Rightarrow> endpoint \<Rightarrow> error_packet \<Rightarrow> 'a server_scheme cmd" where
  "ServerImpl_errorPacket H N remote p =
     ServerImpl_errorOperation H N remote IllegalTftpOperation ''ERR packet isn't expected''"

definition ServerImpl_optionsAcknowledgementPacket ::
    "helper \<Rightarrow> net \<Rightarrow> endpoint \<Rightarrow> oack_packet \<Rightarrow> 'a server_scheme cmd" where
  "ServerImpl_optionsAcknowledgementPacket H N remote p =
     ServerImpl_errorOperation H N remote IllegalTftpOperation ''OACK packet isn't expected''"

definition ServerImpl_handlers ::
    "helper \<Rightarrow> net \<Rightarrow> 'a server_scheme request_handler \<Rightarrow> 'a server_scheme packet_handler" where
  "ServerImpl_handlers H N R =
     \<lparr>ph_readRequestPacket = ServerImpl_readRequestPacket H N R,
      ph_writeRequestPacket = ServerImpl_writeRequestPacket H N R,
      ph_dataPacket = ServerImpl_dataPacket H N,
      ph_acknowledgementPacket = ServerImpl_acknowledgementPacket H N,
      ph_errorPacket = ServerImpl_errorPacket H N,
      ph_optionsAcknowledgementPacket = ServerImpl_optionsAcknowledgementPacket H N,
      ph_invalidPacket = (\<lambda>remote rawPacket. block [])\<rparr>"

definition ServerImpl_receiveHandler ::
    "helper \<Rightarrow> net \<Rightarrow> 'a server_scheme request_handler \<Rightarrow> io_error \<Rightarrow> endpoint \<Rightarrow> bytes \<Rightarrow> 'a server_scheme cmd" where
  "ServerImpl_receiveHandler H N R errorCode sender rawPacket =
     (if errorCode = OperationAborted then block []
      else if errorCode \<noteq> NoError then throw CommunicationEx
      else block [
        modify (\<lambda>s. s\<lparr>sv_remoteEndpointV := sender\<rparr>),
        try_catch is_tftp_exception
          (\<lambda>s. PacketHandler_packet H (ServerImpl_handlers H N R) (sv_remoteEndpointV s) rawPacket s)
          (block []),
        ServerImpl_receive N])"

end
