(* ===== verification/Negotiation.thy ===== *)
theory Negotiation
  imports ClientReadSteps ServerReadSteps Server
begin

text \<open>
  Option negotiation across the two sides: the options of a request as the server decodes
  them, what the server grants, and what the client makes of that.
\<close>

subsection \<open>A number on the wire\<close>

lemma Options_getOption_to_string:
  assumes "map_find opts name = Some (to_string (unat v))" and "mn \<le> v" and "v \<le> mx"
    and "LENGTH('a::len) \<le> 64"
  shows "Options_getOption opts name mn (mx :: 'a word) = ((True, Some v), map_erase name opts)"
proof -
  have small: "unat (ucast x :: u64) = unat x" for x :: "'a word"
  proof -
    have "unat x < 2 ^ LENGTH('a)" by (rule unsigned_less)
    also have "\<dots> \<le> 2 ^ 64" using assms(4) by (intro power_increasing) auto
    finally show ?thesis by (simp add: unsigned_ucast_eq take_bit_nat_eq_self)
  qed
  have "stoull (to_string (unat v)) = Inr (ucast v)"
    using stoull_to_string_unat [of "ucast v"] by (simp add: small)
  moreover have "\<not> ucast v < (ucast mn :: u64)" "\<not> ucast mx < (ucast v :: u64)"
    using assms(2,3) by (simp_all add: word_less_nat_alt word_le_nat_alt small)
  moreover have "ucast (ucast v :: u64) = v"
    using ucast_u64_le [OF assms(4), of "ucast v" mx] assms(3)
    by (simp add: word_unat_eq_iff word_le_nat_alt small)
  ultimately show ?thesis
    using assms(1) by (simp add: Options_getOption_def map_extract_def)
qed

lemma no_options:
  assumes "\<And>k. map_find m k = None"
  shows "m = []"
proof (cases m)
  case (Cons e m')
  then show ?thesis using assms [of "fst e"] by (cases e) (simp add: find_Cons)
qed

subsection \<open>From the client's configuration to the server\<close>

lemma is_map_option: "is_map m \<Longrightarrow> is_map (case x of None \<Rightarrow> m | Some v \<Rightarrow> try_emplace k (f v) m)"
  by (simp add: is_map_try_emplace split: option.split)

lemma find_option:
  "is_map m \<Longrightarrow> map_find (case x of None \<Rightarrow> m | Some v \<Rightarrow> try_emplace k (f v) m) j =
     (case map_find m j of Some w \<Rightarrow> Some w | None \<Rightarrow> if j = k then map_option f x else None)"
  by (auto simp: find_try_emplace split: option.split)

text \<open>The value of an option of a request, from the additional options or the configuration.\<close>

fun requested_option :: "options_configuration \<Rightarrow> known_option \<Rightarrow> string option" where
  "requested_option cfg BlockSize = map_option (\<lambda>b. to_string (unat b)) (oc_blockSizeOption cfg)"
| "requested_option cfg Timeout =
     map_option (\<lambda>t. to_string (unat (word_of_int t :: u16))) (oc_timeoutOption cfg)"
| "requested_option cfg TransferSize = (if oc_handleTransferSizeOption cfg then Some ''0'' else None)"

lemma find_ClientRead_options:
  assumes "is_map (cr_additionalOptionsV c)"
  shows "map_find (ClientRead_options c) name =
    (case map_find (cr_additionalOptionsV c) name of
       Some v \<Rightarrow> Some v
     | None \<Rightarrow>
         (if name = TftpOptions_name BlockSize then requested_option (cr_optionsConfigurationV c) BlockSize
          else if name = TftpOptions_name Timeout then requested_option (cr_optionsConfigurationV c) Timeout
          else if name = TftpOptions_name TransferSize
          then requested_option (cr_optionsConfigurationV c) TransferSize
          else None))"
  using assms
  by (cases "map_find (cr_additionalOptionsV c) name")
    (auto simp: ClientRead_options_def Let_def find_option is_map_option find_try_emplace
      split: option.split)

text \<open>A configuration whose values fit the options.\<close>

definition negotiable :: "options_configuration \<Rightarrow> bool" where
  "negotiable cfg \<longleftrightarrow>
     (\<forall>b. oc_blockSizeOption cfg = Some b \<longrightarrow> BlockSizeOptionMin \<le> b \<and> b \<le> BlockSizeOptionMax) \<and>
     (\<forall>t. oc_timeoutOption cfg = Some t \<longrightarrow> 1 \<le> t \<and> t \<le> 255)"

text \<open>A timeout goes through a 16-bit and an 8-bit integer.\<close>

lemma timeout_option_value:
  assumes "1 \<le> t" and "t \<le> (255 :: int)"
  shows "unat (word_of_int t :: u16) = unat (word_of_int t :: u8)" and "uint (word_of_int t :: u8) = t"
    and "TimeoutOptionMin \<le> word_of_int t" and "word_of_int t \<le> TimeoutOptionMax"
proof -
  have w: "uint (word_of_int t :: u16) = t" "uint (word_of_int t :: u8) = t"
    using assms by (simp_all add: uint_word_of_int)
  then show "uint (word_of_int t :: u8) = t" by simp
  show "unat (word_of_int t :: u16) = unat (word_of_int t :: u8)"
    using w by (metis nat_uint_eq)
  show "TimeoutOptionMin \<le> word_of_int t" "word_of_int t \<le> TimeoutOptionMax"
    using w assms by (simp_all add: TimeoutOptionMin_def TimeoutOptionMax_def word_le_def)
qed

text \<open>The server decodes what the client configured, and nothing is left.\<close>

definition plain_request :: "'h client_read \<Rightarrow> bool" where
  "plain_request c \<longleftrightarrow> cr_additionalOptionsV c = [] \<and>
     \<not> oc_handleTransferSizeOption (cr_optionsConfigurationV c)"

lemma ServerImpl_tftpOptions_request:
  assumes "plain_request c" and "negotiable (cr_optionsConfigurationV c)"
  shows "ServerImpl_tftpOptions (ClientRead_options c) =
    (\<lparr>to_blockSize = oc_blockSizeOption (cr_optionsConfigurationV c),
      to_timeout = map_option word_of_int (oc_timeoutOption (cr_optionsConfigurationV c)),
      to_transferSize = None\<rparr>, [])"
proof -
  define opts where "opts = ClientRead_options c"
  define opts1 where "opts1 = map_erase (TftpOptions_name BlockSize) opts"
  define opts2 where "opts2 = map_erase (TftpOptions_name Timeout) opts1"
  note find = find_ClientRead_options [of c, folded opts_def]
  have absent: "cr_additionalOptionsV c = []" "oc_handleTransferSizeOption (cr_optionsConfigurationV c) = False"
    using assms(1) by (simp_all add: plain_request_def)
  have b: "Options_getOption opts (TftpOptions_name BlockSize) BlockSizeOptionMin BlockSizeOptionMax =
      ((True, oc_blockSizeOption (cr_optionsConfigurationV c)), opts1)"
  proof (cases "oc_blockSizeOption (cr_optionsConfigurationV c)")
    case None
    then show ?thesis
      using find absent by (simp add: Options_getOption_def map_extract_def opts1_def)
  next
    case (Some b)
    then show ?thesis
      using find absent assms(2) unfolding opts1_def negotiable_def
      by (intro trans [OF Options_getOption_to_string]) simp_all
  qed
  have find1: "map_find opts1 name = (if name = TftpOptions_name Timeout
      then requested_option (cr_optionsConfigurationV c) Timeout else None)" for name
    using find [of name] absent by (auto simp: opts1_def find_map_erase)
  have t: "Options_getOption opts1 (TftpOptions_name Timeout) TimeoutOptionMin TimeoutOptionMax =
      ((True, map_option word_of_int (oc_timeoutOption (cr_optionsConfigurationV c))), opts2)"
  proof (cases "oc_timeoutOption (cr_optionsConfigurationV c)")
    case None
    then show ?thesis
      using find1 by (simp add: Options_getOption_def map_extract_def opts2_def)
  next
    case (Some t)
    then have "1 \<le> t" "t \<le> 255" using assms(2) by (simp_all add: negotiable_def)
    from timeout_option_value [OF this] Some show ?thesis
      using find1 unfolding opts2_def
      by (intro trans [OF Options_getOption_to_string]) simp_all
  qed
  have "opts2 = []"
    by (rule no_options) (simp add: opts2_def find_map_erase find1)
  moreover have "map_erase (TftpOptions_name BlockSize) opts1 = opts1"
      "map_erase (TftpOptions_name Timeout) opts2 = opts2"
    by (simp_all add: opts1_def opts2_def map_erase_def)
  moreover have "Options_getOption [] name (0 :: u64) (- 1) = ((True, None), [])" "map_erase name [] = ([] :: options)"
    for name
    by (simp_all add: Options_getOption_def map_extract_def map_erase_def)
  ultimately show ?thesis
    unfolding ServerImpl_tftpOptions_def opts_def [symmetric] by (simp add: b t)
qed

subsection \<open>What the two sides agree on\<close>

text \<open>The smaller block size, and the client's timeout if the server allows as much.\<close>

definition agreed_block :: "options_configuration \<Rightarrow> options_configuration \<Rightarrow> u16 option" where
  "agreed_block client server =
     (case (oc_blockSizeOption client, oc_blockSizeOption server) of
        (Some b, Some b') \<Rightarrow> Some (min b b') | _ \<Rightarrow> None)"

definition agreed_timeout :: "options_configuration \<Rightarrow> options_configuration \<Rightarrow> u8 option" where
  "agreed_timeout client server =
     (case (oc_timeoutOption client, oc_timeoutOption server) of
        (Some t, Some t') \<Rightarrow> if t \<le> t' then Some (word_of_int t) else None | _ \<Rightarrow> None)"

text \<open>A server operation that got the options of the client's request.\<close>

definition asked_by :: "'h client_read \<Rightarrow> 'g server_read \<Rightarrow> bool" where
  "asked_by c s \<longleftrightarrow>
     sr_clientOptionsV s = fst (ServerImpl_tftpOptions (ClientRead_options c)) \<and>
     sr_additionalNegotiatedOptionsV s = snd (ServerImpl_tftpOptions (ClientRead_options c))"

definition server_read_granted :: "u16 option \<Rightarrow> u8 option \<Rightarrow> 'g server_read \<Rightarrow> 'g server_read" where
  "server_read_granted b t s =
     (let s = (case b of None \<Rightarrow> s | Some v \<Rightarrow> s\<lparr>sr_transmitDataSize := v\<rparr>)
      in case t of None \<Rightarrow> s | Some v \<Rightarrow> s\<lparr>so_receiveTimeoutV := uint v\<rparr>)"

definition granted_options :: "u16 option \<Rightarrow> u8 option \<Rightarrow> options" where
  "granted_options b t =
     (let opts = (case b of None \<Rightarrow> [] | Some v \<Rightarrow> try_emplace (TftpOptions_name BlockSize) (to_string (unat v)) [])
      in case t of None \<Rightarrow> opts | Some v \<Rightarrow> try_emplace (TftpOptions_name Timeout) (to_string (unat v)) opts)"

lemma find_granted_options:
  "map_find (granted_options b t) name =
     (if name = TftpOptions_name BlockSize then map_option (\<lambda>v. to_string (unat v)) b
      else if name = TftpOptions_name Timeout then map_option (\<lambda>v. to_string (unat v)) t
      else None)"
  by (cases b; cases t) (simp_all add: granted_options_def find_Cons is_map_def find_try_emplace)

lemma ServerRead_grant_asked:
  assumes "asked_by c s" and "plain_request c" and "negotiable (cr_optionsConfigurationV c)"
  shows "ServerRead_grant s =
    (let b = agreed_block (cr_optionsConfigurationV c) (sr_optionsConfigurationV s);
         t = agreed_timeout (cr_optionsConfigurationV c) (sr_optionsConfigurationV s)
     in (granted_options b t, server_read_granted b t s))"
proof -
  have opts: "to_blockSize (sr_clientOptionsV s) = oc_blockSizeOption (cr_optionsConfigurationV c)"
      "to_timeout (sr_clientOptionsV s) = map_option word_of_int (oc_timeoutOption (cr_optionsConfigurationV c))"
      "sr_additionalNegotiatedOptionsV s = []"
    using assms(1) by (simp_all add: asked_by_def ServerImpl_tftpOptions_request [OF assms(2,3)])
  have t: "uint (word_of_int t :: u8) = t" if "oc_timeoutOption (cr_optionsConfigurationV c) = Some t" for t
    using that assms(3) timeout_option_value(2) [of t] by (simp add: negotiable_def)
  show ?thesis
    by (auto simp: ServerRead_grant_def opts t agreed_block_def agreed_timeout_def granted_options_def
        server_read_granted_def Let_def split: option.split)
qed

text \<open>The client accepts what it was granted.\<close>

lemma negotiate_granted:
  assumes "negotiable client" and "negotiable server"
    and b: "b = agreed_block client server" and t: "t = agreed_timeout client server"
  shows "negotiate_blockSize client (granted_options b t) = Inr (b, granted_options None t)"
    and "negotiate_timeout client (granted_options None t) = Inr (t, granted_options None None)"
    and "negotiate_transferSize expected (granted_options None None) = Inr (None, [])"
proof -
  have rest: "map_erase (TftpOptions_name BlockSize) (granted_options b t) = granted_options None t"
      "map_erase (TftpOptions_name Timeout) (granted_options None t) = []"
    by (cases b; cases t; simp add: granted_options_def map_erase_def)+
  show "negotiate_blockSize client (granted_options b t) = Inr (b, granted_options None t)"
  proof (cases b)
    case None
    then show ?thesis
      using rest(1) find_granted_options [of b t "TftpOptions_name BlockSize"]
      by (simp add: negotiate_blockSize_def Options_getOption_def map_extract_def)
  next
    case (Some v)
    then obtain b1 where "oc_blockSizeOption client = Some b1" "BlockSizeOptionMin \<le> v" "v \<le> BlockSizeOptionMax"
        "v \<le> b1"
      using assms by (auto simp: agreed_block_def negotiable_def min_def split: option.splits if_splits)
    with Some rest(1) Options_getOption_to_string [of "granted_options b t" "TftpOptions_name BlockSize" v
        BlockSizeOptionMin BlockSizeOptionMax] show ?thesis
      by (simp add: negotiate_blockSize_def find_granted_options not_less)
  qed
  show "negotiate_timeout client (granted_options None t) = Inr (t, granted_options None None)"
  proof (cases t)
    case None
    then show ?thesis
      by (simp add: negotiate_timeout_def Options_getOption_def map_extract_def granted_options_def map_erase_def)
  next
    case (Some v)
    then obtain t1 where t1: "oc_timeoutOption client = Some t1" "v = word_of_int t1" "1 \<le> t1" "t1 \<le> 255"
      using assms by (auto simp: agreed_timeout_def negotiable_def split: option.splits if_splits)
    with Some rest(2) timeout_option_value [of t1]
      Options_getOption_to_string [of "granted_options None t" "TftpOptions_name Timeout" v
        TimeoutOptionMin TimeoutOptionMax] show ?thesis
      by (simp add: negotiate_timeout_def find_granted_options) (simp add: granted_options_def)
  qed
  show "negotiate_transferSize expected (granted_options None None) = Inr (None, [])"
    by (simp add: negotiate_transferSize_def Options_getOption_def map_extract_def granted_options_def map_erase_def)
qed

end
