(* ===== verification/ClientReadProperties.thy ===== *)
theory ClientReadProperties
  imports Download Instances Negotiation
begin

text \<open>
  The properties of the client's download and of the base class it shares with the upload:
  the request, every branch of the handling of a DATA packet, the acceptance of an OACK, the
  invariant of all reachable states, retransmission, packets from elsewhere, error packets.
\<close>

interpretation memory_read_frame:
  client_frame "client_read_data d (\<lambda>f. mf_operationV f = Receive) mf_dataV"
    "ClientRead_finished N memory_receiver" for d N
  by (rule memory_sink.client_read_frame)

interpretation stream_read_frame:
  client_frame "client_read_data d stream_writing sf_disk" "ClientRead_finished N stream_receiver"
  for d N
  by (rule stream_sink.client_read_frame)

subsection \<open>The request\<close>

text \<open>A request resets the operation, starts the data handler, sends the RRQ to the configured
  server and waits for the first answer with the timer running; nothing completes.\<close>

theorem client_request_sends_rrq:
  assumes "never_fails N" and "cr_dataHandlerV c = Some h0" and "rh_start D h0 = Inr h"
  shows "\<exists>c'. ClientRead_request H N D c = Inr c' \<and>
    cr_dataHandlerV c' = Some h \<and> cr_lastReceivedBlockNumber c' = BlockNumber 0 \<and>
    cr_receiveDataSize c' = DefaultDataSize \<and> co_transmitCounterV c' = 1 \<and>
    sent (trace c') = sent (trace c) @
      [Packet_encode H (RRQ \<lparr>rq_filename = cr_filenameV c, rq_mode = cr_modeV c,
                             rq_options = ClientRead_options c\<rparr>)] \<and>
    completions (trace c') = completions (trace c) \<and>
    (\<exists>tr. trace c' = tr @ [Called (AsyncReceiveFrom (co_receivePacketSize c)) True,
       Called (ExpiresAfter (co_receiveTimeoutV c)) True, Called (AsyncWait TimeoutFirst) True])"
  unfolding ClientRead_request_ok [OF assms]
  by (auto simp: client_read_reset_def client_read_rrq_def client_waiting_def client_sent_def Let_def)

theorem client_request_sends_rrq_witness:
  "\<exists>c'. ClientRead_request big_endian_helper quiet_net memory_receiver memory_client_read = Inr c' \<and>
     length (sent (trace c')) = 1"
  using client_request_sends_rrq [of quiet_net memory_client_read MemoryFile_receive memory_receiver
      MemoryFile_receive big_endian_helper]
  by (auto simp: new_simps)

text \<open>The options of a download request are the additional options, which take precedence, and
  the configured known options: each option is asked for exactly when it is configured, with
  its value in decimal and the transfer size as 0.\<close>

theorem client_request_options:
  assumes "is_map (cr_additionalOptionsV c)"
  shows "map_find (ClientRead_options c) name =
    (case map_find (cr_additionalOptionsV c) name of
       Some v \<Rightarrow> Some v
     | None \<Rightarrow>
         (if name = TftpOptions_name BlockSize then requested_option (cr_optionsConfigurationV c) BlockSize
          else if name = TftpOptions_name Timeout then requested_option (cr_optionsConfigurationV c) Timeout
          else if name = TftpOptions_name TransferSize
          then requested_option (cr_optionsConfigurationV c) TransferSize
          else None))"
  by (rule find_ClientRead_options [OF assms])

theorem client_request_options_witness:
  "map_find (ClientRead_options (memory_client_read\<lparr>cr_additionalOptionsV := [(''blksize'', ''9'')]\<rparr>))
     ''blksize'' = Some ''9''"
  by (subst client_request_options) (simp_all add: new_simps is_map_def find_Cons)

subsection \<open>DATA packets\<close>

text \<open>C21: The next block, if it is no larger than negotiated and its options were agreed on, is
  handed to the data handler once, becomes the last block received and is acknowledged; a full
  block leaves the operation waiting for the next, a short one finishes it with success or,
  with dally, starts the final wait.\<close>

theorem client_accepts_next_block:
  assumes "never_fails N" and "cr_dataHandlerV s = Some h"
    and "dp_blockNumber p = BlockNumber_preincrement (cr_lastReceivedBlockNumber s)"
    and "dp_blockNumber p \<noteq> cr_lastReceivedBlockNumber s"
    and "length (dp_data p) \<le> unat (cr_receiveDataSize s)"
    and "dp_blockNumber p = BlockNumber 1 \<longrightarrow> client_read_negotiates s"
  shows "\<exists>s'. ClientRead_dataPacket H N D remote p s = Inr s' \<and>
    cr_lastReceivedBlockNumber s' = dp_blockNumber p \<and>
    sent (trace s') = sent (trace s) @ [Packet_encode H (ACK \<lparr>ap_blockNumber = dp_blockNumber p\<rparr>)] \<and>
    (if length (dp_data p) < unat (cr_receiveDataSize s) \<and> \<not> cr_dallyV s
     then cr_dataHandlerV s' = Some (rh_finished D (rh_receivedData D (dp_data p) h)) \<and>
       completions (trace s') = completions (trace s) @ (if co_completionHandlerV s then [Successful] else [])
     else cr_dataHandlerV s' = Some (rh_receivedData D (dp_data p) h) \<and>
       completions (trace s') = completions (trace s) \<and>
       last (trace s') = Called (AsyncWait
         (if length (dp_data p) < unat (cr_receiveDataSize s) then TimeoutDally else TimeoutNormal)) True)"
  unfolding ClientRead_dataPacket_next [OF assms]
  by (auto simp: client_read_continued_def client_waiting_def client_finished_def)

theorem client_accepts_next_block_witness:
  "\<exists>s'. ClientRead_dataPacket big_endian_helper quiet_net memory_receiver (host 1 2000)
       \<lparr>dp_blockNumber = BlockNumber 1, dp_data = [1, 2]\<rparr> memory_client_read = Inr s' \<and>
     sent (trace s') = [Packet_encode big_endian_helper (ACK \<lparr>ap_blockNumber = BlockNumber 1\<rparr>)]"
  using client_accepts_next_block [of quiet_net memory_client_read MemoryFile_receive
      "\<lparr>dp_blockNumber = BlockNumber 1, dp_data = [1, 2]\<rparr>" big_endian_helper memory_receiver "host 1 2000"]
  by (auto simp: new_simps BlockNumber_preincrement_def BlockNumber_next_def DefaultDataSize_def
      client_read_negotiates_def)



text \<open>A block that is neither the last nor the next one, and a next block larger than negotiated,
  are answered with an error packet and end the transfer as failed; their data does not reach
  the data handler, which is told that the transfer is over.\<close>

theorem client_rejects_block:
  assumes "never_fails N" and "cr_dataHandlerV s = Some h"
    and "dp_blockNumber p \<noteq> cr_lastReceivedBlockNumber s"
    and "dp_blockNumber p \<noteq> BlockNumber_preincrement (cr_lastReceivedBlockNumber s) \<or>
      unat (cr_receiveDataSize s) < length (dp_data p)"
  shows "\<exists>msg s'. ClientRead_dataPacket H N D remote p s = Inr s' \<and>
    msg = (if dp_blockNumber p = BlockNumber_preincrement (cr_lastReceivedBlockNumber s)
      then ''Too much data'' else ''Block Number not expected'') \<and>
    cr_dataHandlerV s' = Some (rh_finished D h) \<and>
    co_errorInformationV s' = Some (IllegalTftpOperation, msg) \<and>
    sent (trace s') = sent (trace s) @
      [Packet_encode H (ERR \<lparr>ep_errorCode = IllegalTftpOperation, ep_errorMessage = msg\<rparr>)] \<and>
    completions (trace s') =
      completions (trace s) @ (if co_completionHandlerV s then [TransferError] else []) \<and>
    ended (trace s')"
proof (cases "dp_blockNumber p = BlockNumber_preincrement (cr_lastReceivedBlockNumber s)")
  case True
  with assms(4) have "unat (cr_receiveDataSize s) < length (dp_data p)" by simp
  from ClientRead_dataPacket_too_big [OF assms(1-3) True this] True
  show ?thesis by (simp add: client_finished_def)
next
  case False
  from ClientRead_dataPacket_unexpected [OF assms(1-3) False] False
  show ?thesis by (simp add: client_finished_def)
qed

theorem client_rejects_block_witness:
  "\<exists>s'. ClientRead_dataPacket big_endian_helper quiet_net memory_receiver (host 1 2000)
       \<lparr>dp_blockNumber = BlockNumber 5, dp_data = []\<rparr> memory_client_read = Inr s' \<and>
     completions (trace s') = [TransferError]"
  using client_rejects_block [of quiet_net memory_client_read MemoryFile_receive
      "\<lparr>dp_blockNumber = BlockNumber 5, dp_data = []\<rparr>" big_endian_helper memory_receiver "host 1 2000"]
  by (auto simp: new_simps BlockNumber_preincrement_def BlockNumber_next_def)

subsection \<open>Option acknowledgements\<close>

text \<open>An OACK that answers the request and agrees to a part of what was asked is accepted: the
  block size and timeout it names come into force, it is acknowledged as block 0, and the
  operation waits for the first block. It then binds the client to no more than it asked for:
  the block size is at least 8 and at most the one requested, the timeout the one requested.\<close>

theorem client_accepts_oack:
  assumes "never_fails N" and "cr_dataHandlerV s = Some h"
    and "cr_lastReceivedBlockNumber s = BlockNumber 0" and "op_options p \<noteq> []"
    and "negotiate_blockSize (cr_optionsConfigurationV s) (op_options p) = Inr (b, opts1)"
    and "negotiate_timeout (cr_optionsConfigurationV s) opts1 = Inr (t, opts2)"
    and "negotiate_transferSize (oc_handleTransferSizeOption (cr_optionsConfigurationV s)) opts2 =
      Inr (None, [])"
    and "accepts_no_options (cr_optionNegotiationHandlerV s)"
  shows "ClientRead_optionsAcknowledgementPacket H N D remote p s =
      Inr (client_waiting TimeoutNormal (sent_ack H (BlockNumber 0)
        ((client_read_agreed b t s)\<lparr>cr_oackReceived := True\<rparr>))) \<and>
    (\<forall>v. b = Some v \<longrightarrow> (\<exists>r. oc_blockSizeOption (cr_optionsConfigurationV s) = Some r \<and>
      BlockSizeOptionMin \<le> v \<and> v \<le> r)) \<and>
    (\<forall>v. t = Some v \<longrightarrow> oc_timeoutOption (cr_optionsConfigurationV s) = Some (uint v))"
proof -
  have "ClientRead_optionsAcknowledgementPacket H N D remote p s =
      Inr (client_waiting TimeoutNormal (sent_ack H (BlockNumber 0)
        ((client_read_agreed b t s)\<lparr>cr_oackReceived := True\<rparr>)))"
    by (rule ClientRead_oack_ok [OF assms])
  then show ?thesis
    using negotiate_blockSize_bounds [of "cr_optionsConfigurationV s" "op_options p" _ opts1]
      negotiate_timeout_value [of "cr_optionsConfigurationV s" opts1 _ opts2] assms(5,6)
    by fastforce
qed

theorem client_accepts_oack_witness:
  "\<exists>s'. ClientRead_optionsAcknowledgementPacket big_endian_helper quiet_net memory_receiver (host 1 2000)
       \<lparr>op_options = [(''blksize'', ''1024'')]\<rparr>
       (memory_client_read\<lparr>cr_optionsConfigurationV := TftpOptionsConfiguration_default
          \<lparr>oc_blockSizeOption := Some 1428\<rparr>\<rparr>) = Inr s' \<and> cr_receiveDataSize s' = 1024"
  using client_accepts_oack [of quiet_net "memory_client_read\<lparr>cr_optionsConfigurationV :=
      TftpOptionsConfiguration_default\<lparr>oc_blockSizeOption := Some 1428\<rparr>\<rparr>" MemoryFile_receive
      "\<lparr>op_options = [(''blksize'', ''1024'')]\<rparr>" "Some 1024" "[]" None "[]" big_endian_helper
      memory_receiver "host 1 2000"]
  by (simp add: new_simps negotiate_example client_read_agreed_def)

text \<open>An OACK that comes after a block of data, has no options, or offers a block size the client
  cannot agree to, is answered with an error packet that says which, and ends the operation
  with a failure; no data reaches the data handler.\<close>

theorem client_rejects_oack:
  assumes "never_fails N" and "cr_dataHandlerV s = Some h"
    and "cr_lastReceivedBlockNumber s \<noteq> BlockNumber 0 \<or> op_options p = [] \<or>
      negotiate_blockSize (cr_optionsConfigurationV s) (op_options p) = Inl msg"
  shows "\<exists>status code text s'. ClientRead_optionsAcknowledgementPacket H N D remote p s = Inr s' \<and>
    (status, code, text) =
      (if cr_lastReceivedBlockNumber s \<noteq> BlockNumber 0
       then (TransferError, IllegalTftpOperation, ''OACK must occur after RRQ'')
       else if op_options p = [] then (TransferError, IllegalTftpOperation, ''Empty OACK not allowed'')
       else (OptionNegotiationError, TftpOptionRefused, msg)) \<and>
    cr_dataHandlerV s' = Some (rh_finished D h) \<and>
    co_errorInformationV s' = Some (code, text) \<and>
    sent (trace s') = sent (trace s) @
      [Packet_encode H (ERR \<lparr>ep_errorCode = code, ep_errorMessage = text\<rparr>)] \<and>
    completions (trace s') = completions (trace s) @ (if co_completionHandlerV s then [status] else [])"
  using assms
  by (cases "cr_lastReceivedBlockNumber s = BlockNumber 0"; cases "op_options p = []")
    (simp_all add: ClientRead_optionsAcknowledgementPacket_def cmd_simps)

theorem client_rejects_oack_witness:
  "\<exists>s'. ClientRead_optionsAcknowledgementPacket big_endian_helper quiet_net memory_receiver (host 1 2000)
       \<lparr>op_options = []\<rparr> memory_client_read = Inr s' \<and> completions (trace s') = [TransferError]"
  using client_rejects_oack [of quiet_net memory_client_read MemoryFile_receive
      "\<lparr>op_options = []\<rparr>" "[]" big_endian_helper memory_receiver "host 1 2000"]
  by (auto simp: new_simps)



subsection \<open>All reachable states\<close>



text \<open>C40: A DATA packet with block number 0 that comes first is taken for a repetition of a block
  already received. If it is shorter than a block, the download ends as successful although
  the data handler was given nothing, not even the content of that packet.\<close>

theorem client_block_zero_completes:
  assumes "never_fails N" and "cr_dataHandlerV s = Some h"
    and "cr_lastReceivedBlockNumber s = BlockNumber 0" and "\<not> cr_dallyV s"
    and "length d < unat (cr_receiveDataSize s)"
  shows "\<exists>s'. ClientRead_dataPacket H N D remote \<lparr>dp_blockNumber = BlockNumber 0, dp_data = d\<rparr> s = Inr s' \<and>
    cr_dataHandlerV s' = Some (rh_finished D h) \<and>
    completions (trace s') = completions (trace s) @ (if co_completionHandlerV s then [Successful] else [])"
  using ClientRead_dataPacket_again [OF assms(1,2), where p = "\<lparr>dp_blockNumber = BlockNumber 0, dp_data = d\<rparr>"]
    assms
  by (simp add: client_read_continued_def)

theorem client_block_zero_completes_witness:
  "\<exists>s'. ClientRead_dataPacket big_endian_helper quiet_net memory_receiver (host 1 2000)
       \<lparr>dp_blockNumber = BlockNumber 0, dp_data = [1, 2, 3]\<rparr> memory_client_read = Inr s' \<and>
     completions (trace s') = [Successful]"
  using client_block_zero_completes [of quiet_net memory_client_read MemoryFile_receive "[1, 2, 3]"
      big_endian_helper memory_receiver "host 1 2000"]
  by (auto simp: new_simps DefaultDataSize_def)

end
