(* ===== verification/ClientOperationProperties.thy ===== *)
theory ClientOperationProperties
  imports Instances
begin

text \<open>
  The properties of the base class of the client operations, for any derived class: \<open>F\<close> is its
  \<open>finished\<close>, \<open>V\<close> its packet handlers.
\<close>

subsection \<open>Retransmission\<close>

text \<open>C34: When nothing is received, the last packet is sent again on each expiry of the timer, as
  often as retries are configured and no more; the operation is otherwise unchanged. The
  expiry after that ends it with a communication error. This holds before the first answer
  and after it, for every number of retries of the 16-bit setting.\<close>

theorem client_retransmission:
  assumes "never_fails N" and "co_transmitCounterV s = 1"
    and "T = ClientOperation_timeoutFirstHandler H N F NoError \<or> T = ClientOperation_timeoutHandler H N F NoError"
  shows "\<exists>s'. block (replicate (unat (co_tftpRetriesV s)) T) s = Inr s' \<and>
    sent (trace s') = sent (trace s) @ replicate (unat (co_tftpRetriesV s)) (co_transmitPacketV s) \<and>
    completions (trace s') = completions (trace s) \<and> client_op.more s' = client_op.more s \<and>
    T s' = F CommunicationError None s'"
proof -
  have T: "resends H F T"
    using assms(3) client_timeouts_resends [OF assms(1), of H F] by auto
  from client_timeouts_resend [OF this assms(2) order_refl] obtain s' where
    s': "block (replicate (unat (co_tftpRetriesV s)) T) s = Inr s'"
      "co_transmitCounterV s' = word_of_nat (Suc (unat (co_tftpRetriesV s)))"
      "co_tftpRetriesV s' = co_tftpRetriesV s" "client_op.more s' = client_op.more s"
      "sent (trace s') = sent (trace s) @ replicate (unat (co_tftpRetriesV s)) (co_transmitPacketV s)"
      "completions (trace s') = completions (trace s)"
    by blast
  moreover have "T s' = F CommunicationError None s'"
    using client_timeouts_give_up [OF T, of s'] s'(2,3) by simp
  ultimately show ?thesis by blast
qed

theorem client_retransmission_witness:
  "\<exists>s'. block (replicate 1 (ClientOperation_timeoutFirstHandler big_endian_helper quiet_net
        (ClientRead_finished quiet_net memory_receiver) NoError))
      (memory_client_read\<lparr>co_transmitCounterV := 1, co_transmitPacketV := [9]\<rparr>) = Inr s' \<and>
     sent (trace s') = [[9]]"
  using client_retransmission [of quiet_net "memory_client_read\<lparr>co_transmitCounterV := 1,
      co_transmitPacketV := [9]\<rparr>" "ClientOperation_timeoutFirstHandler big_endian_helper quiet_net
        (ClientRead_finished quiet_net memory_receiver) NoError"]
  by (auto simp: new_simps DefaultTftpRetries_def)

subsection \<open>Packets from elsewhere\<close>

text \<open>As long as the transfer identifier of the server is not known, a datagram from another host
  is not processed, whatever it holds: its sender gets an error packet with code 5, the
  operation keeps listening and nothing else of it changes.\<close>

theorem client_wrong_source:
  assumes "never_fails N" and "ep_address (co_remoteV s) \<noteq> ep_address sender"
  shows "\<exists>s'. ClientOperation_receiveFirstHandler H N F V NoError sender raw s = Inr s' \<and>
    trace s' = trace s @
      [Called (SocketSendTo (Packet_encode H (ERR \<lparr>ep_errorCode = UnknownTransferId,
          ep_errorMessage = ''Packet from wrong source''\<rparr>)) sender) True,
       Called (AsyncReceiveFrom (co_receivePacketSize s)) True] \<and>
    client_op.more s' = client_op.more s \<and> co_transmitPacketV s' = co_transmitPacketV s \<and>
    co_transmitCounterV s' = co_transmitCounterV s \<and> globalReceive s' = globalReceive s"
  using assms
  by (simp add: ClientOperation_receiveFirstHandler_def cmd_simps Let_def try_catch_def)

theorem client_wrong_source_witness:
  "\<exists>s'. ClientOperation_receiveFirstHandler big_endian_helper quiet_net
       (ClientRead_finished quiet_net memory_receiver)
       (ClientRead_handlers big_endian_helper quiet_net memory_receiver) NoError (host 7 69) [0, 3, 0, 1]
       memory_client_read = Inr s' \<and> client_op.more s' = client_op.more memory_client_read"
  using client_wrong_source [of quiet_net memory_client_read "host 7 69" big_endian_helper
      "ClientRead_finished quiet_net memory_receiver"
      "ClientRead_handlers big_endian_helper quiet_net memory_receiver" "[0, 3, 0, 1]"]
  by (auto simp: new_simps)

subsection \<open>Error packets\<close>

text \<open>A received error packet ends the operation without an answer, and its status says in which
  phase it came: in reply to a request it is an option negotiation error for code 8 and a
  request error otherwise, in reply to any later packet a transfer error; code and message
  are kept.\<close>

theorem client_error_packet:
  assumes "raw_data H" and "co_transmitPacketV s = Packet_encode H p"
  shows "ClientOperation_errorPacket H F remote e s =
    F (case p of
         RRQ r \<Rightarrow> if ep_errorCode e = TftpOptionRefused then OptionNegotiationError else RequestError
       | WRQ r \<Rightarrow> if ep_errorCode e = TftpOptionRefused then OptionNegotiationError else RequestError
       | _ \<Rightarrow> TransferError)
      (Some (ep_errorCode e, ep_errorMessage e)) s"
  using packetType_encode [OF assms(1), of p] assms(2)
  by (cases p) (auto simp: ClientOperation_errorPacket_def ErrorPacket_errorInformation_def)

theorem client_error_packet_witness:
  "ClientOperation_errorPacket big_endian_helper (ClientRead_finished quiet_net memory_receiver) (host 1 69)
     \<lparr>ep_errorCode = FileNotFound, ep_errorMessage = []\<rparr>
     (memory_client_read\<lparr>co_transmitPacketV := Packet_encode big_endian_helper
        (RRQ \<lparr>rq_filename = ''f'', rq_mode = OCTET, rq_options = []\<rparr>)\<rparr>) =
   ClientRead_finished quiet_net memory_receiver RequestError (Some (FileNotFound, []))
     (memory_client_read\<lparr>co_transmitPacketV := Packet_encode big_endian_helper
        (RRQ \<lparr>rq_filename = ''f'', rq_mode = OCTET, rq_options = []\<rparr>)\<rparr>)"
  using client_error_packet [OF big_endian.raw_data_axioms, where
      s = "memory_client_read\<lparr>co_transmitPacketV := Packet_encode big_endian_helper
        (RRQ \<lparr>rq_filename = ''f'', rq_mode = OCTET, rq_options = []\<rparr>)\<rparr>"
      and p = "RRQ \<lparr>rq_filename = ''f'', rq_mode = OCTET, rq_options = []\<rparr>"
      and e = "\<lparr>ep_errorCode = FileNotFound, ep_errorMessage = []\<rparr>" and remote = "host 1 69"
      and F = "ClientRead_finished quiet_net memory_receiver"]
  by simp

end
