(* ===== verification/ClientWriteSteps.thy ===== *)
theory ClientWriteSteps
  imports ClientWrite Files
begin

text \<open>
  What the client's upload does on each kind of packet when no call on the socket or the
  timer fails.
\<close>

lemma client_write_sent [simp]:
  "cw_dataHandlerV (client_sent H p c s) = cw_dataHandlerV s"
  "cw_transmitDataSize (client_sent H p c s) = cw_transmitDataSize s"
  "cw_lastDataPacketTransmitted (client_sent H p c s) = cw_lastDataPacketTransmitted s"
  "cw_lastTransmittedBlockNumber (client_sent H p c s) = cw_lastTransmittedBlockNumber s"
  "cw_lastReceivedBlockNumber (client_sent H p c s) = cw_lastReceivedBlockNumber s"
  "cw_optionNegotiationHandlerV (client_sent H p c s) = cw_optionNegotiationHandlerV s"
  "cw_optionsConfigurationV (client_sent H p c s) = cw_optionsConfigurationV s"
  by (simp_all add: client_sent_def Let_def)

lemma client_write_waiting [simp]:
  "cw_dataHandlerV (client_waiting w s) = cw_dataHandlerV s"
  "cw_transmitDataSize (client_waiting w s) = cw_transmitDataSize s"
  "cw_lastDataPacketTransmitted (client_waiting w s) = cw_lastDataPacketTransmitted s"
  "cw_lastTransmittedBlockNumber (client_waiting w s) = cw_lastTransmittedBlockNumber s"
  "cw_lastReceivedBlockNumber (client_waiting w s) = cw_lastReceivedBlockNumber s"
  "cw_optionNegotiationHandlerV (client_waiting w s) = cw_optionNegotiationHandlerV s"
  by (simp_all add: client_waiting_def)

lemma client_write_finished [simp]:
  "cw_dataHandlerV (client_finished st i s) = cw_dataHandlerV s"
  by (simp_all add: client_finished_def)

lemma ClientWrite_finished_ok [cmd_simps]:
  "never_fails N \<Longrightarrow> cw_dataHandlerV s = Some h \<Longrightarrow>
   ClientWrite_finished N S status info s =
     Inr (client_finished status info (s\<lparr>cw_dataHandlerV := Some (th_finished S h)\<rparr>))"
  by (simp add: ClientWrite_finished_def ClientWrite_on_handler_def cmd_simps noexcept_def)

lemma ClientWrite_reject_ok [cmd_simps]:
  "never_fails N \<Longrightarrow> cw_dataHandlerV s = Some h \<Longrightarrow>
   ClientOperation_reject H N (ClientWrite_finished N S) status code msg s =
     Inr (client_finished status (Some (code, msg))
       ((client_sent H (ERR \<lparr>ep_errorCode = code, ep_errorMessage = msg\<rparr>) (\<lambda>raw s. SocketSend raw) s)
         \<lparr>cw_dataHandlerV := Some (th_finished S h)\<rparr>))"
  by (simp add: ClientOperation_reject_def cmd_simps ErrorPacket_errorInformation_def Let_def)

text \<open>The state after the next block was asked of the handler and sent.\<close>

definition client_write_next ::
    "helper \<Rightarrow> 'h transmit_handler \<Rightarrow> 'h \<Rightarrow> 'h client_write \<Rightarrow> 'h client_write" where
  "client_write_next H S h s =
     (let b = BlockNumber_preincrement (cw_lastTransmittedBlockNumber s);
          (d, h') = th_sendData S (unat (cw_transmitDataSize s)) h
      in client_sent H (DATA \<lparr>dp_blockNumber = b, dp_data = d\<rparr>) (\<lambda>raw s. SocketSend raw)
           (s\<lparr>cw_lastTransmittedBlockNumber := b, cw_dataHandlerV := Some h',
              cw_lastDataPacketTransmitted := cw_lastDataPacketTransmitted s \<or>
                length d < unat (cw_transmitDataSize s)\<rparr>))"

lemma ClientWrite_sendData_ok [cmd_simps]:
  "never_fails N \<Longrightarrow> cw_dataHandlerV s = Some h \<Longrightarrow>
   ClientWrite_sendData H N S s = Inr (client_write_next H S h s)"
  by (simp add: ClientWrite_sendData_def client_write_next_def DataPacket_dataSize_def Let_def
      cmd_simps split: prod.split)

text \<open>An ACK of block 0 ends the negotiation: no option was agreed on.\<close>

definition client_write_negotiates :: "'h client_write \<Rightarrow> bool" where
  "client_write_negotiates s \<longleftrightarrow>
     (case cw_optionNegotiationHandlerV s of None \<Rightarrow> True | Some n \<Rightarrow> fst (n []))"

lemma ClientWrite_ack_next:
  assumes "never_fails N" and "cw_dataHandlerV s = Some h"
    and "ap_blockNumber p = cw_lastTransmittedBlockNumber s"
    and "ap_blockNumber p \<noteq> cw_lastReceivedBlockNumber s"
    and "ap_blockNumber p = BlockNumber 0 \<longrightarrow> client_write_negotiates s"
  shows "ClientWrite_acknowledgementPacket H N S remote p s =
    (let s1 = s\<lparr>cw_lastReceivedBlockNumber := ap_blockNumber p\<rparr>
     in if cw_lastDataPacketTransmitted s
        then Inr (client_finished Successful None (s1\<lparr>cw_dataHandlerV := Some (th_finished S h)\<rparr>))
        else Inr (client_waiting TimeoutNormal (client_write_next H S h s1)))"
  using assms
  by (auto simp: ClientWrite_acknowledgementPacket_def client_write_negotiates_def Let_def cmd_simps
      split: option.splits)

lemma ClientWrite_ack_again:
  assumes "never_fails N" and "ap_blockNumber p = cw_lastReceivedBlockNumber s"
  shows "ClientWrite_acknowledgementPacket H N S remote p s = Inr (client_waiting TimeoutNormal s)"
  using assms by (simp add: ClientWrite_acknowledgementPacket_def cmd_simps)

lemma ClientWrite_ack_unexpected:
  assumes "never_fails N" and "cw_dataHandlerV s = Some h"
    and "ap_blockNumber p \<noteq> cw_lastTransmittedBlockNumber s"
    and "ap_blockNumber p \<noteq> cw_lastReceivedBlockNumber s"
  shows "ClientWrite_acknowledgementPacket H N S remote p s =
    Inr (client_finished TransferError (Some (IllegalTftpOperation, ''Wrong block number''))
       ((client_sent H (ERR \<lparr>ep_errorCode = IllegalTftpOperation, ep_errorMessage = ''Wrong block number''\<rparr>)
           (\<lambda>raw s. SocketSend raw) s)\<lparr>cw_dataHandlerV := Some (th_finished S h)\<rparr>))"
  using assms by (simp add: ClientWrite_acknowledgementPacket_def cmd_simps)

text \<open>The state once the options of an OACK are in force.\<close>

definition client_write_agreed :: "u16 option \<Rightarrow> u8 option \<Rightarrow> 'h client_write \<Rightarrow> 'h client_write" where
  "client_write_agreed b t s =
     (let s = (case b of None \<Rightarrow> s | Some v \<Rightarrow> s\<lparr>cw_transmitDataSize := v\<rparr>)
      in case t of None \<Rightarrow> s | Some v \<Rightarrow> s\<lparr>co_receiveTimeoutV := uint v\<rparr>)"

lemma client_write_agreed_handler [simp]:
  "cw_dataHandlerV (client_write_agreed b t s) = cw_dataHandlerV s"
  "cw_transferSize (client_write_agreed b t s) = cw_transferSize s"
  "cw_lastTransmittedBlockNumber (client_write_agreed b t s) = cw_lastTransmittedBlockNumber s"
  "cw_lastReceivedBlockNumber (client_write_agreed b t s) = cw_lastReceivedBlockNumber s"
  "cw_lastDataPacketTransmitted (client_write_agreed b t s) = cw_lastDataPacketTransmitted s"
  by (simp_all add: client_write_agreed_def Let_def split: option.split)

lemma ClientWrite_oack_ok:
  assumes "never_fails N" and "cw_dataHandlerV s = Some h"
    and "cw_lastReceivedBlockNumber s = BlockNumber 0xFFFF" and "op_options p \<noteq> []"
    and "negotiate_blockSize (cw_optionsConfigurationV s) (op_options p) = Inr (b, opts1)"
    and "negotiate_timeout (cw_optionsConfigurationV s) opts1 = Inr (t, opts2)"
    and "negotiate_transferSize (oc_handleTransferSizeOption (cw_optionsConfigurationV s) \<and>
      cw_transferSize s \<noteq> None) opts2 = Inr (sz, [])"
    and "sz = None \<or> sz = cw_transferSize s" and "accepts_no_options (cw_optionNegotiationHandlerV s)"
  shows "ClientWrite_optionsAcknowledgementPacket H N S remote p s =
    Inr (client_waiting TimeoutNormal (client_write_next H S h (client_write_agreed b t s)))"
  using assms
  by (cases b; cases t; cases "cw_optionNegotiationHandlerV s")
    (auto simp: ClientWrite_optionsAcknowledgementPacket_def Let_def cmd_simps client_write_agreed_def)

subsection \<open>Request\<close>

definition client_write_reset :: "'h \<Rightarrow> 'h client_write \<Rightarrow> 'h client_write" where
  "client_write_reset h c =
     (client_opened c)\<lparr>cw_dataHandlerV := Some h, cw_transmitDataSize := DefaultDataSize,
       cw_lastDataPacketTransmitted := False, cw_lastTransmittedBlockNumber := BlockNumber 0,
       cw_lastReceivedBlockNumber := BlockNumber 0xFFFF\<rparr>"

text \<open>The handler and the transfer size after the handler may have been asked for it.\<close>

definition client_write_asked :: "'h transmit_handler \<Rightarrow> 'h client_write \<Rightarrow> 'h client_write" where
  "client_write_asked S c =
     (case cw_dataHandlerV c of
        None \<Rightarrow> c
      | Some h \<Rightarrow>
          if oc_handleTransferSizeOption (cw_optionsConfigurationV c)
          then let (sz, h') = th_requestedTransferSize S h
            in c\<lparr>cw_dataHandlerV := Some h', cw_transferSize := sz\<rparr>
          else c)"

definition client_write_wrq :: "'h client_write \<Rightarrow> packet" where
  "client_write_wrq c = WRQ \<lparr>rq_filename = cw_filenameV c, rq_mode = cw_modeV c,
     rq_options = ClientWrite_requestOptions c\<rparr>"

lemma ClientWrite_request_ok:
  assumes "never_fails N" and "cw_dataHandlerV c = Some h0" and "th_start S h0 = Inr h"
  shows "ClientWrite_request H N S c =
    (let c1 = client_write_asked S (client_write_reset h c)
     in Inr (client_waiting TimeoutFirst (client_sent H (client_write_wrq c1)
          (\<lambda>b s. SocketSendTo b (co_remoteV s)) c1)))"
  using assms
  by (simp add: ClientWrite_request_def ClientWrite_start_handler_def try_catch_def cmd_simps
      client_write_reset_def client_write_wrq_def client_write_asked_def
      ClientWrite_askTransferSize_def Let_def split: prod.split)

end
