(* ===== verification/ClientWriteProperties.thy ===== *)
theory ClientWriteProperties
  imports ClientWriteSteps Instances
begin

text \<open>
  The properties of the client's upload: what it makes of acknowledgements that are not the
  one it waits for, and of a doubled OACK.
\<close>

subsection \<open>Acknowledgements\<close>

text \<open>An acknowledgement other than that of the last block sent never makes an upload send data. A
  repetition of the previous one is ignored, so that a delayed packet cannot double all that
  follow it; any other is answered with an error packet and ends the transfer as failed.\<close>

theorem upload_stale_acknowledgement:
  assumes "never_fails N" and "cw_dataHandlerV s = Some h"
    and "b = cw_lastReceivedBlockNumber s \<or> b \<noteq> cw_lastTransmittedBlockNumber s"
  shows "\<exists>s'. ClientWrite_acknowledgementPacket H N S remote \<lparr>ap_blockNumber = b\<rparr> s = Inr s' \<and>
    (if b = cw_lastReceivedBlockNumber s
     then sent (trace s') = sent (trace s) \<and> completions (trace s') = completions (trace s) \<and>
       client_op.more s' = client_op.more s \<and> last (trace s') = Called (AsyncWait TimeoutNormal) True
     else sent (trace s') = sent (trace s) @
         [Packet_encode H (ERR \<lparr>ep_errorCode = IllegalTftpOperation, ep_errorMessage = ''Wrong block number''\<rparr>)] \<and>
       completions (trace s') = completions (trace s) @ (if co_completionHandlerV s then [TransferError] else []) \<and>
       cw_dataHandlerV s' = Some (th_finished S h) \<and> ended (trace s'))"
proof (cases "b = cw_lastReceivedBlockNumber s")
  case True
  then show ?thesis
    using ClientWrite_ack_again [OF assms(1), of "\<lparr>ap_blockNumber = b\<rparr>" s H S remote]
    by (simp add: client_waiting_def)
next
  case False
  with assms(3) show ?thesis
    using ClientWrite_ack_unexpected [OF assms(1,2), of "\<lparr>ap_blockNumber = b\<rparr>" H S remote]
    by (simp add: client_finished_def)
qed

theorem upload_stale_acknowledgement_witness:
  "\<exists>s'. ClientWrite_acknowledgementPacket big_endian_helper quiet_net memory_transmitter (host 1 2000)
       \<lparr>ap_blockNumber = BlockNumber 7\<rparr> (memory_client_write [1, 2]) = Inr s' \<and>
     completions (trace s') = [TransferError]"
  using upload_stale_acknowledgement [of quiet_net "memory_client_write [1, 2]" "MemoryFile_transmit [1, 2]"
      "BlockNumber 7" big_endian_helper memory_transmitter "host 1 2000"]
  by (auto simp: new_simps)

subsection \<open>Option acknowledgements\<close>

text \<open>The state after an OACK was accepted.\<close>

definition client_write_oacked ::
    "helper \<Rightarrow> 'h transmit_handler \<Rightarrow> 'h \<Rightarrow> u16 option \<Rightarrow> u8 option \<Rightarrow> 'h client_write \<Rightarrow> 'h client_write" where
  "client_write_oacked H S h b t s =
     client_waiting TimeoutNormal (client_write_next H S h (client_write_agreed b t s))"

lemma client_write_oacked_simps:
  assumes "th_sendData S (unat (case b of None \<Rightarrow> cw_transmitDataSize s | Some v \<Rightarrow> v)) h = (d, h')"
  shows "cw_dataHandlerV (client_write_oacked H S h b t s) = Some h'"
    and "cw_lastReceivedBlockNumber (client_write_oacked H S h b t s) = cw_lastReceivedBlockNumber s"
    and "cw_lastTransmittedBlockNumber (client_write_oacked H S h b t s) =
      BlockNumber_preincrement (cw_lastTransmittedBlockNumber s)"
    and "cw_transmitDataSize (client_write_oacked H S h b t s) =
      (case b of None \<Rightarrow> cw_transmitDataSize s | Some v \<Rightarrow> v)"
    and "cw_optionsConfigurationV (client_write_oacked H S h b t s) = cw_optionsConfigurationV s"
    and "cw_optionNegotiationHandlerV (client_write_oacked H S h b t s) = cw_optionNegotiationHandlerV s"
    and "cw_transferSize (client_write_oacked H S h b t s) = cw_transferSize s"
    and "co_completionHandlerV (client_write_oacked H S h b t s) = co_completionHandlerV s"
    and "completions (trace (client_write_oacked H S h b t s)) = completions (trace s)"
    and "sent (trace (client_write_oacked H S h b t s)) = sent (trace s) @
      [Packet_encode H (DATA \<lparr>dp_blockNumber = BlockNumber_preincrement (cw_lastTransmittedBlockNumber s),
         dp_data = d\<rparr>)]"
  using assms
  by (cases b; cases t; simp add: client_write_oacked_def client_write_next_def client_write_agreed_def
      client_waiting_def client_sent_def Let_def)+

text \<open>C37: A doubled OACK breaks an upload. The second copy is accepted like the first, as the number of
  the last acknowledged block does not change, and makes the client send block 2 although
  block 1 is not acknowledged; the acknowledgement of block 1 then counts as wrong, and the
  transfer fails.\<close>

theorem upload_duplicate_oack:
  assumes "never_fails N" and "cw_dataHandlerV s = Some h" and "op_options p \<noteq> []"
    and "cw_lastReceivedBlockNumber s = BlockNumber 0xFFFF" and "cw_lastTransmittedBlockNumber s = BlockNumber 0"
    and "negotiate_blockSize (cw_optionsConfigurationV s) (op_options p) = Inr (b, opts1)"
    and "negotiate_timeout (cw_optionsConfigurationV s) opts1 = Inr (t, opts2)"
    and "negotiate_transferSize (oc_handleTransferSizeOption (cw_optionsConfigurationV s) \<and>
      cw_transferSize s \<noteq> None) opts2 = Inr (None, [])"
    and "cw_optionNegotiationHandlerV s = None"
  shows "\<exists>s1 s2 s3 d1 d2. ClientWrite_optionsAcknowledgementPacket H N S remote p s = Inr s1 \<and>
    ClientWrite_optionsAcknowledgementPacket H N S remote p s1 = Inr s2 \<and>
    sent (trace s2) = sent (trace s) @
      [Packet_encode H (DATA \<lparr>dp_blockNumber = BlockNumber 1, dp_data = d1\<rparr>),
       Packet_encode H (DATA \<lparr>dp_blockNumber = BlockNumber 2, dp_data = d2\<rparr>)] \<and>
    ClientWrite_acknowledgementPacket H N S remote \<lparr>ap_blockNumber = BlockNumber 1\<rparr> s2 = Inr s3 \<and>
    completions (trace s3) = completions (trace s) @ (if co_completionHandlerV s then [TransferError] else [])"
proof -
  let ?n = "unat (case b of None \<Rightarrow> cw_transmitDataSize s | Some v \<Rightarrow> v)"
  obtain d1 h1 where d1: "th_sendData S ?n h = (d1, h1)" by fastforce
  obtain d2 h2 where d2: "th_sendData S ?n h1 = (d2, h2)" by fastforce
  define s1 where "s1 = client_write_oacked H S h b t s"
  define s2 where "s2 = client_write_oacked H S h1 b t s1"
  note s1 = client_write_oacked_simps [OF d1, of H t, folded s1_def]
  have "th_sendData S (unat (case b of None \<Rightarrow> cw_transmitDataSize s1 | Some v \<Rightarrow> v)) h1 = (d2, h2)"
    using d2 s1(4) by (simp split: option.splits)
  note s2 = client_write_oacked_simps [OF this, of H t, folded s2_def]
  have one: "ClientWrite_optionsAcknowledgementPacket H N S remote p s = Inr s1"
    unfolding s1_def client_write_oacked_def
    by (rule ClientWrite_oack_ok [OF assms(1,2,4,3,6-8)]) (simp_all add: assms(9))
  have two: "ClientWrite_optionsAcknowledgementPacket H N S remote p s1 = Inr s2"
    unfolding s2_def client_write_oacked_def
    by (rule ClientWrite_oack_ok [where ?opts1.0 = opts1 and ?opts2.0 = opts2 and sz = None])
      (use assms s1 in simp_all)
  define s3 where "s3 = client_finished TransferError (Some (IllegalTftpOperation, ''Wrong block number''))
       ((client_sent H (ERR \<lparr>ep_errorCode = IllegalTftpOperation, ep_errorMessage = ''Wrong block number''\<rparr>)
           (\<lambda>raw s. SocketSend raw) s2)\<lparr>cw_dataHandlerV := Some (th_finished S h2)\<rparr>)"
  have three: "ClientWrite_acknowledgementPacket H N S remote \<lparr>ap_blockNumber = BlockNumber 1\<rparr> s2 = Inr s3"
    unfolding s3_def
    by (rule ClientWrite_ack_unexpected [OF assms(1) s2(1)])
      (use s1 s2 assms(4,5) in \<open>simp_all add: BlockNumber_preincrement_def BlockNumber_next_def\<close>)
  show ?thesis
    using one two three s1 s2 assms(5)
    by (intro exI [of _ s1] exI [of _ s2] exI [of _ s3] exI [of _ d1] exI [of _ d2])
      (simp add: s3_def BlockNumber_preincrement_def BlockNumber_next_def)
qed

theorem upload_duplicate_oack_witness:
  "\<exists>s s1 s2 s3. ClientWrite_optionsAcknowledgementPacket big_endian_helper quiet_net memory_transmitter (host 1 2000)
       \<lparr>op_options = [(''blksize'', ''1024'')]\<rparr> s = Inr s1 \<and>
     ClientWrite_optionsAcknowledgementPacket big_endian_helper quiet_net memory_transmitter (host 1 2000)
       \<lparr>op_options = [(''blksize'', ''1024'')]\<rparr> s1 = Inr s2 \<and>
     ClientWrite_acknowledgementPacket big_endian_helper quiet_net memory_transmitter (host 1 2000)
       \<lparr>ap_blockNumber = BlockNumber 1\<rparr> s2 = Inr s3 \<and> completions (trace s3) = [TransferError]"
proof -
  define s where "s = (memory_client_write [1, 2])\<lparr>cw_lastReceivedBlockNumber := BlockNumber 0xFFFF,
    cw_optionsConfigurationV := TftpOptionsConfiguration_default\<lparr>oc_blockSizeOption := Some 1428\<rparr>\<rparr>"
  have s: "cw_dataHandlerV s = Some (MemoryFile_transmit [1, 2])" "cw_lastReceivedBlockNumber s = BlockNumber 0xFFFF"
      "cw_lastTransmittedBlockNumber s = BlockNumber 0" "cw_optionNegotiationHandlerV s = None"
      "cw_optionsConfigurationV s = TftpOptionsConfiguration_default\<lparr>oc_blockSizeOption := Some 1428\<rparr>"
      "completions (trace s) = []" "co_completionHandlerV s"
    by (simp_all add: s_def new_simps)
  show ?thesis
    using upload_duplicate_oack [of quiet_net s "MemoryFile_transmit [1, 2]" "\<lparr>op_options = [(''blksize'', ''1024'')]\<rparr>"
        "Some 1024" "[]" None "[]" big_endian_helper memory_transmitter "host 1 2000"] s
    by (auto simp: negotiate_example)
qed

end
