(* ===== verification/ClientWriteInvariant.thy ===== *)
theory ClientWriteInvariant
  imports ClientWriteSteps Instances
begin

text \<open>
  The invariant of the client's side of an upload, for any data handler that is a source: what
  was taken from the handler is a prefix of the file, block by block.
\<close>

lemma client_write_more:
  fixes s s' :: "'h client_write"
  assumes "same_frame s s'"
  shows "cw_dataHandlerV s' = cw_dataHandlerV s"
    and "cw_transmitDataSize s' = cw_transmitDataSize s"
    and "cw_lastDataPacketTransmitted s' = cw_lastDataPacketTransmitted s"
    and "cw_lastTransmittedBlockNumber s' = cw_lastTransmittedBlockNumber s"
  using assms by (cases s; cases s'; simp add: same_frame_def)+

lemma ClientWrite_finished_final:
  assumes "cw_dataHandlerV s = Some h"
  shows "\<exists>ok tr. final (ClientWrite_finished N S status info s) =
    s\<lparr>cw_dataHandlerV := Some (th_finished S h), co_errorInformationV := info,
      trace := trace s @ Called TimerCancel ok # tr\<rparr>"
proof -
  obtain ok tr where "final (ClientOperation_finished N status info (s\<lparr>cw_dataHandlerV := Some (th_finished S h)\<rparr>)) =
      s\<lparr>cw_dataHandlerV := Some (th_finished S h), co_errorInformationV := info,
        trace := trace s @ Called TimerCancel ok # tr\<rparr>"
    using ClientOperation_finished_final [of N status info "s\<lparr>cw_dataHandlerV := Some (th_finished S h)\<rparr>"]
    by auto
  then show ?thesis
    using assms
    by (intro exI [of _ ok] exI [of _ tr])
      (auto simp: ClientWrite_finished_def ClientWrite_on_handler_def block.simps split: sum.split)
qed

text \<open>
  The blocks \<open>ds\<close> were taken, \<open>zs\<close> is what is left of the file, until the operation ends.
\<close>

definition client_write_data :: "('h \<Rightarrow> bytes) \<Rightarrow> bytes \<Rightarrow> 'h client_write \<Rightarrow> bool" where
  "client_write_data rest xs s \<longleftrightarrow>
     (\<exists>h ds zs. cw_dataHandlerV s = Some h \<and> cw_lastTransmittedBlockNumber s = block_at (length ds) \<and>
        concat ds @ zs = xs \<and> (cw_lastDataPacketTransmitted s \<longrightarrow> zs = []) \<and>
        (\<not> ended (trace s) \<longrightarrow> rest h = zs))"

text \<open>While the request is made, the operation has ended already or the invariant holds.\<close>

definition client_write_safe :: "('h \<Rightarrow> bytes) \<Rightarrow> bytes \<Rightarrow> 'h client_write \<Rightarrow> bool" where
  "client_write_safe rest xs s \<longleftrightarrow>
     cw_dataHandlerV s \<noteq> None \<and> (ended (trace s) \<or> client_write_data rest xs s)"

lemma client_write_finished_keeps:
  assumes "\<And>s h info tr ok. P s \<Longrightarrow> cw_dataHandlerV s = Some h \<Longrightarrow>
      P (s\<lparr>cw_dataHandlerV := Some (th_finished S h), co_errorInformationV := info,
        trace := trace s @ Called TimerCancel ok # tr\<rparr>)"
    and "\<And>s. P s \<Longrightarrow> cw_dataHandlerV s \<noteq> None" and "\<And>s s'. same_frame s s' \<Longrightarrow> P s \<Longrightarrow> P s'"
  shows "client_frame P (ClientWrite_finished N S)"
proof
  fix s s' :: "'a client_write" and status info
  show "same_frame s s' \<Longrightarrow> P s \<Longrightarrow> P s'" by (rule assms(3))
  have *: "P (final (ClientWrite_finished N S status info s)) \<and>
      ended (trace (final (ClientWrite_finished N S status info s)))" if s: "P s" for s
  proof -
    obtain h where h: "cw_dataHandlerV s = Some h" using assms(2) [OF s] by blast
    obtain ok tr where eq: "final (ClientWrite_finished N S status info s) =
        s\<lparr>cw_dataHandlerV := Some (th_finished S h), co_errorInformationV := info,
          trace := trace s @ Called TimerCancel ok # tr\<rparr>"
      using ClientWrite_finished_final [OF h, of N S status info] by blast
    show ?thesis
      using assms(1) [OF s h] by (simp add: eq)
  qed
  then show "keeps P (ClientWrite_finished N S status info)"
    by (intro keepsI) simp
  show "P s \<Longrightarrow> ended (trace (final (ClientWrite_finished N S status info s)))"
    using * by simp
qed

lemma client_write_data_frame:
  assumes "same_frame s s'" and "client_write_data rest xs s"
  shows "client_write_data rest xs s'"
proof -
  have "ended (trace s) \<Longrightarrow> ended (trace s')"
    using assms(1) by (auto simp: same_frame_def)
  with assms(2) show ?thesis
    unfolding client_write_data_def client_write_more [OF assms(1)] by blast
qed

lemma client_write_data_frame_of: "client_frame (client_write_data rest xs) (ClientWrite_finished N S)"
proof (rule client_write_finished_keeps)
  fix s s' :: "'a client_write"
  show "same_frame s s' \<Longrightarrow> client_write_data rest xs s \<Longrightarrow> client_write_data rest xs s'"
    by (rule client_write_data_frame)
qed (auto simp: client_write_data_def)

lemma client_write_safe_frame: "client_frame (client_write_safe rest xs) (ClientWrite_finished N S)"
proof (rule client_write_finished_keeps)
  fix s s' :: "'a client_write"
  assume "same_frame s s'" and "client_write_safe rest xs s"
  then show "client_write_safe rest xs s'"
    using client_write_data_frame [of s s' rest xs] client_relation.R_ended [of s s']
    by (auto simp: client_write_safe_def client_write_more)
qed (auto simp: client_write_safe_def)

lemmas client_write_keeps =
  client_frame.keeps_reject [OF client_write_data_frame_of] client_frame.keeps_steps [OF client_write_data_frame_of]
  client_frame_F [OF client_write_data_frame_of]

text \<open>Taking the next block.\<close>

lemma ClientWrite_sendData_sends:
  assumes "cw_dataHandlerV s = Some h" and "th_sendData S (unat (cw_transmitDataSize s)) h = (d, h')"
  shows "ClientWrite_sendData H N S s = ClientOperation_send H N (ClientWrite_finished N S)
      (DATA \<lparr>dp_blockNumber = BlockNumber_preincrement (cw_lastTransmittedBlockNumber s), dp_data = d\<rparr>)
      (let s0 = s\<lparr>cw_lastTransmittedBlockNumber := BlockNumber_preincrement (cw_lastTransmittedBlockNumber s),
             cw_dataHandlerV := Some h'\<rparr>
       in if length d < unat (cw_transmitDataSize s) then s0\<lparr>cw_lastDataPacketTransmitted := True\<rparr> else s0)"
  using assms
  by (simp add: ClientWrite_sendData_def block_modify DataPacket_dataSize_def Let_def)
    (simp add: block.simps modify_apply split: sum.split)

lemma client_write_data_next:
  assumes S: "data_source S content rest" and s: "client_write_data rest xs s" and "\<not> ended (trace s)"
  shows "client_write_data rest xs (final (ClientWrite_sendData H N S s))"
proof -
  let ?n = "unat (cw_transmitDataSize s)"
  obtain h ds where h: "cw_dataHandlerV s = Some h" "cw_lastTransmittedBlockNumber s = block_at (length ds)"
      "concat ds @ rest h = xs" "cw_lastDataPacketTransmitted s \<longrightarrow> rest h = []"
    using s assms(3) by (auto simp: client_write_data_def)
  obtain d h' where d: "th_sendData S ?n h = (d, h')" by fastforce
  then have d': "d = take ?n (rest h)" "rest h' = drop ?n (rest h)"
    using data_source.sendData_source [OF S, of ?n h] data_source.sendData_rest [OF S, of ?n h] by simp_all
  define s0 where "s0 = s\<lparr>cw_lastTransmittedBlockNumber := block_at (Suc (length ds)), cw_dataHandlerV := Some h'\<rparr>"
  define s1 where "s1 = (if length d < ?n then s0\<lparr>cw_lastDataPacketTransmitted := True\<rparr> else s0)"
  have "concat (ds @ [d]) @ rest h' = xs" using h(3) d' by simp
  moreover have "length d < ?n \<Longrightarrow> rest h' = []" "rest h = [] \<Longrightarrow> rest h' = []" using d' by auto
  ultimately have "client_write_data rest xs s1"
    using h(4) unfolding client_write_data_def
    by (intro exI [of _ h'] exI [of _ "ds @ [d]"] exI [of _ "rest h'"]) (auto simp: s1_def s0_def)
  moreover have "ClientWrite_sendData H N S s = ClientOperation_send H N (ClientWrite_finished N S)
      (DATA \<lparr>dp_blockNumber = block_at (Suc (length ds)), dp_data = d\<rparr>) s1"
    using ClientWrite_sendData_sends [OF h(1) d] h(2) by (simp add: s1_def s0_def block_at_Suc Let_def)
  ultimately show ?thesis
    using keepsD [OF client_write_keeps(3)] by simp
qed

lemma client_write_data_more:
  assumes "data_source S content rest" and "client_write_data rest xs s" and "\<not> ended (trace s)"
  shows "client_write_data rest xs
    (final (block [ClientWrite_sendData H N S, ClientOperation_receive N (ClientWrite_finished N S)] s))"
  by (rule final_block_keeps) (auto intro: client_write_data_next [OF assms] client_write_keeps)

lemma client_write_data_updates:
  "client_write_data rest xs (s\<lparr>cw_lastReceivedBlockNumber := b\<rparr>) = client_write_data rest xs s"
  "client_write_data rest xs (s\<lparr>co_receiveTimeoutV := t\<rparr>) = client_write_data rest xs s"
  "client_write_data rest xs (s\<lparr>cw_transmitDataSize := n\<rparr>) = client_write_data rest xs s"
  "client_write_data rest xs (s\<lparr>cw_transferSize := z\<rparr>) = client_write_data rest xs s"
  by (simp_all add: client_write_data_def)

lemma client_write_data_ack:
  assumes S: "data_source S content rest" and s: "client_write_data rest xs s" and "\<not> ended (trace s)"
  shows "client_write_data rest xs (final (ClientWrite_acknowledgementPacket H N S remote p s))"
proof -
  define s1 where "s1 = s\<lparr>cw_lastReceivedBlockNumber := ap_blockNumber p\<rparr>"
  have s1: "client_write_data rest xs s1" "\<not> ended (trace s1)"
    using s assms(3) by (simp_all add: s1_def client_write_data_updates)
  have eq: "ClientWrite_acknowledgementPacket H N S remote p s =
    (if ap_blockNumber p = cw_lastReceivedBlockNumber s
     then ClientOperation_receive N (ClientWrite_finished N S) s
     else if ap_blockNumber p \<noteq> cw_lastTransmittedBlockNumber s
     then ClientOperation_reject H N (ClientWrite_finished N S) TransferError
       IllegalTftpOperation ''Wrong block number'' s
     else if ap_blockNumber p = BlockNumber 0 \<and>
       (case cw_optionNegotiationHandlerV s of None \<Rightarrow> False | Some n \<Rightarrow> \<not> fst (n []))
     then ClientOperation_reject H N (ClientWrite_finished N S) TransferError
       TftpOptionRefused ''Option Negotiation Failed'' s1
     else if cw_lastDataPacketTransmitted s then ClientWrite_finished N S Successful None s1
     else block [ClientWrite_sendData H N S, ClientOperation_receive N (ClientWrite_finished N S)] s1)"
    by (simp add: ClientWrite_acknowledgementPacket_def block_modify s1_def)
  show ?thesis
    unfolding eq
    by (intro final_if [where P = "client_write_data rest xs"] client_write_data_more [OF S s1]
        keepsD [OF client_write_keeps(1)] keepsD [OF client_write_keeps(5)] keepsD [OF client_write_keeps(7)] s s1(1))
qed

lemma client_write_data_oack:
  assumes S: "data_source S content rest" and s: "client_write_data rest xs s" and "\<not> ended (trace s)"
  shows "client_write_data rest xs (final (ClientWrite_optionsAcknowledgementPacket H N S remote p s))"
proof -
  let ?P = "\<lambda>s. client_write_data rest xs s \<and> \<not> ended (trace s)"
  note branches = final_branches [where P = "client_write_data rest xs"]
  have "?P (case b of None \<Rightarrow> s | Some v \<Rightarrow> s\<lparr>cw_transmitDataSize := v\<rparr>)" for b
    using s assms(3) by (simp add: client_write_data_updates split: option.split)
  moreover have "?P (case t of None \<Rightarrow> s' | Some v \<Rightarrow> s'\<lparr>co_receiveTimeoutV := uint v\<rparr>)"
    if "?P s'" for t :: "8 word option" and s'
    using that by (simp add: client_write_data_updates split: option.split)
  ultimately show ?thesis
    unfolding ClientWrite_optionsAcknowledgementPacket_def Let_def
    by (intro branches) (use s in \<open>auto intro!: keepsD [OF client_write_keeps(1)] client_write_data_more [OF S]\<close>)
qed

text \<open>Every event keeps the invariant.\<close>

lemma client_write_data_on:
  assumes "raw_data H" and "data_source S content rest" and "client_write_data rest xs s"
    and "delivers input \<longrightarrow> \<not> ended (trace s)"
  shows "client_write_data rest xs (final (ClientWrite_on H N S input s))"
proof -
  have "client_write_data rest xs (final (call_handler (ClientWrite_handlers H N S) remote p s))"
    if "client_write_data rest xs s" "\<not> ended (trace s)" for remote p s
    using that
    by (cases p)
      (simp_all add: ClientWrite_handlers_def ClientOperation_readRequestPacket_def
        ClientOperation_writeRequestPacket_def ClientWrite_dataPacket_def
        keepsD [OF client_write_keeps(1)] client_write_data_ack [OF assms(2)] client_write_data_oack [OF assms(2)]
        keepsD [OF client_frame.keeps_errorPacket [OF client_write_data_frame_of]])
  moreover have "keeps (client_write_data rest xs) (ph_invalidPacket (ClientWrite_handlers H N S) remote raw)"
    for remote raw
    by (simp add: ClientWrite_handlers_def ClientOperation_invalidPacket_def client_write_keeps(1))
  ultimately show ?thesis
    unfolding ClientWrite_on_def using assms(1,3,4)
    by (intro client_frame.on_establishes [OF client_write_data_frame_of]) auto
qed

subsection \<open>The request\<close>

definition client_write_set :: "'h client_write \<Rightarrow> bool" where
  "client_write_set s \<longleftrightarrow> cw_dataHandlerV s \<noteq> None"

lemma client_write_set_frame: "client_frame client_write_set (ClientWrite_finished N S)"
  by (rule client_write_finished_keeps) (auto simp: client_write_set_def client_write_more)

lemma client_write_data_start:
  assumes "cw_dataHandlerV s = Some h" and "cw_lastTransmittedBlockNumber s = BlockNumber 0"
    and "\<not> cw_lastDataPacketTransmitted s"
  shows "client_write_data rest (rest h) s"
  using assms unfolding client_write_data_def
  by (intro exI [of _ h] exI [of _ "[]"] exI [of _ "rest h"]) simp

lemma client_write_data_same:
  assumes "client_write_data rest xs s" and "cw_dataHandlerV s = Some h" and "rest h' = rest h"
  shows "client_write_data rest xs (s\<lparr>cw_dataHandlerV := Some h'\<rparr>)"
  using assms unfolding client_write_data_def by (elim exE) (intro exI; force)

lemma client_write_ask_keeps:
  assumes "data_source S content rest"
  shows "keeps (client_write_safe rest xs) (ClientWrite_askTransferSize S)"
proof (rule keepsI)
  fix s assume "client_write_safe rest xs s"
  then show "client_write_safe rest xs (final (ClientWrite_askTransferSize S s))"
    using client_write_data_same [of rest xs s] data_source.requestedTransferSize_source [OF assms]
    by (auto simp: ClientWrite_askTransferSize_def client_write_safe_def client_write_data_updates split_beta)
qed

text \<open>What the request does after the socket was initialised.\<close>

abbreviation client_write_requests :: "helper \<Rightarrow> net \<Rightarrow> 'h transmit_handler \<Rightarrow> 'h client_write cmd list" where
  "client_write_requests H N S \<equiv>
    [ClientWrite_start_handler S,
     modify (\<lambda>s. s\<lparr>cw_transmitDataSize := DefaultDataSize, cw_lastDataPacketTransmitted := False,
       cw_lastTransmittedBlockNumber := BlockNumber 0, cw_lastReceivedBlockNumber := BlockNumber 0xFFFF\<rparr>),
     ClientWrite_askTransferSize S,
     \<lambda>s. ClientOperation_sendFirst H N (ClientWrite_finished N S)
       (WRQ \<lparr>rq_filename = cw_filenameV s, rq_mode = cw_modeV s, rq_options = ClientWrite_requestOptions s\<rparr>) s,
     ClientOperation_receiveFirst N (ClientWrite_finished N S)]"

lemma client_write_requests_keep:
  assumes "c \<in> set (client_write_requests H N S)"
  shows "keeps client_write_set c"
proof -
  have "keeps client_write_set (ClientWrite_start_handler S)"
    by (rule keepsI) (auto simp: client_write_set_def ClientWrite_start_handler_def split: sum.split)
  moreover have "keeps client_write_set (ClientWrite_askTransferSize S)"
    by (rule keepsI) (auto simp: client_write_set_def ClientWrite_askTransferSize_def split_beta)
  moreover have "keeps client_write_set (modify (\<lambda>s. s\<lparr>cw_transmitDataSize := DefaultDataSize,
       cw_lastDataPacketTransmitted := False,
       cw_lastTransmittedBlockNumber := BlockNumber 0, cw_lastReceivedBlockNumber := BlockNumber 0xFFFF\<rparr>))"
    by (rule keeps_modify) (simp add: client_write_set_def)
  ultimately show ?thesis
    using assms by (auto intro: keeps_fun client_frame.keeps_steps [OF client_write_set_frame])
qed

lemma client_write_requests_safe:
  assumes S: "data_source S content rest" and "block (client_write_requests H N S) s1 = Inr s"
    and "cw_dataHandlerV s0 = Some h0" and "ended (trace s1) \<or> same_frame s0 s1"
  shows "client_write_safe rest (content h0) s"
proof -
  let ?P = "client_write_safe rest (content h0)"
  obtain h1 h where h: "cw_dataHandlerV s1 = Some h1" "th_start S h1 = Inr h"
    using assms(2) by (auto simp: block.simps ClientWrite_start_handler_def split: option.splits sum.splits)
  define s3 where "s3 = s1\<lparr>cw_dataHandlerV := Some h, cw_transmitDataSize := DefaultDataSize,
    cw_lastDataPacketTransmitted := False, cw_lastTransmittedBlockNumber := BlockNumber 0,
    cw_lastReceivedBlockNumber := BlockNumber 0xFFFF\<rparr>"
  have "rest h = content h1" by (rule data_source.start_source [OF S h(2)])
  moreover have "same_frame s0 s1 \<Longrightarrow> h1 = h0" using h(1) assms(3) by (simp add: client_write_more)
  ultimately have "?P s3"
    using assms(4) client_write_data_start [of s3 h rest]
    by (auto simp: client_write_safe_def s3_def)
  moreover have "keeps ?P (block (drop 2 (client_write_requests H N S)))"
    by (rule keeps_block)
      (auto intro: client_write_ask_keeps [OF S] keeps_fun client_frame.keeps_steps [OF client_write_safe_frame])
  moreover have "block (drop 2 (client_write_requests H N S)) s3 = Inr s"
    using assms(2) h by (simp add: block.simps ClientWrite_start_handler_def modify_apply s3_def)
  ultimately show ?thesis by (auto dest: keepsD)
qed

lemma client_write_requested:
  assumes S: "data_source S content rest" and "ClientWrite_request H N S s0 = Inr s"
    and "\<not> ended (trace s)" and h0: "cw_dataHandlerV s0 = Some h0"
  shows "client_write_data rest (content h0) s"
proof -
  let ?F = "ClientWrite_finished N S"
  let ?init = "ClientOperation_initialise N ?F"
  have request: "try_catch is_boost_exception (block (?init # client_write_requests H N S))
      (?F CommunicationError None) s0 = Inr s"
    using assms(2) h0 by (simp add: ClientWrite_request_def)
  have set: "client_write_set (final (block (?init # client_write_requests H N S) s0))"
    using h0
    by (intro final_block_keeps [where P = client_write_set] client_write_requests_keep
        keepsD [OF client_frame.keeps_initialise [OF client_write_set_frame]])
      (simp_all add: client_write_set_def)
  have "?F CommunicationError None s' \<noteq> Inr s" if "client_write_set s'" for s'
    using client_frame_ended_Inr [OF client_write_set_frame _ that] assms(3) by blast
  with request set have body: "block (?init # client_write_requests H N S) s0 = Inr s"
    by (auto simp: try_catch_def split: sum.splits if_splits)
  then obtain s1 where s1: "?init s0 = Inr s1" "block (client_write_requests H N S) s1 = Inr s"
    by (auto simp: block.simps(2) [of ?init] split: sum.splits)
  have "runs_on same_frame ?init s0"
    using h0 by (intro client_frame.runs_on_initialise [OF client_write_set_frame]) (simp add: client_write_set_def)
  with s1(1) have "ended (trace s1) \<or> same_frame s0 s1" by (simp add: runs_on_def)
  from client_write_requests_safe [OF S s1(2) h0 this] assms(3) show ?thesis
    by (simp add: client_write_safe_def)
qed

lemma client_write_reachable_data:
  assumes "client_write_reachable H N S s0 s" and "raw_data H" and "data_source S content rest"
    and "cw_dataHandlerV s0 = Some h0"
  shows "client_write_data rest (content h0) s"
  using assms(1)
proof induction
  case (requested s)
  then show ?case using client_write_requested [OF assms(3)] assms(4) by blast
next
  case (step s input)
  then show ?case by (intro client_write_data_on [OF assms(2,3)])
qed

subsection \<open>The property\<close>


text \<open>An upload of three bytes whose request was sent.\<close>

lemma memory_client_write_requested:
  obtains s where "ClientWrite_request big_endian_helper quiet_net memory_transmitter
      (memory_client_write [1, 2, 3]) = Inr s"
    and "client_write_reachable big_endian_helper quiet_net memory_transmitter (memory_client_write [1, 2, 3]) s"
proof -
  define c1 where "c1 = client_write_asked memory_transmitter
    (client_write_reset (MemoryFile_transmit [1, 2, 3]) (memory_client_write [1, 2, 3]))"
  define s where "s = client_waiting TimeoutFirst (client_sent big_endian_helper (client_write_wrq c1)
    (\<lambda>b s. SocketSendTo b (co_remoteV s)) c1)"
  have s: "ClientWrite_request big_endian_helper quiet_net memory_transmitter (memory_client_write [1, 2, 3]) = Inr s"
    using ClientWrite_request_ok [of quiet_net "memory_client_write [1, 2, 3]" "MemoryFile_transmit [1, 2, 3]"
        memory_transmitter "MemoryFile_transmit [1, 2, 3]" big_endian_helper]
    by (simp add: s_def c1_def ClientWrite_new_def Let_def del: memory_client_write_eq) (simp add: ClientWrite_new_def)
  have ended: "\<not> ended (trace s)"
    by (simp add: s_def c1_def client_write_asked_def client_write_reset_def client_waiting_def new_simps
        TftpOptionsConfiguration_default_def ended_def)
  show thesis by (rule that [OF s client_write_reachable.requested [OF s ended]])
qed


end
