(* ===== verification/ServerWriteSteps.thy ===== *)
theory ServerWriteSteps
  imports ServerWrite Files
begin

text \<open>
  What the server's side of an upload does on each packet when no call on the socket or the
  timer fails.
\<close>

lemma server_write_sent [simp]:
  "sw_dataHandlerV (server_sent H p s) = sw_dataHandlerV s"
  "sw_lastReceivedBlockNumber (server_sent H p s) = sw_lastReceivedBlockNumber s"
  "sw_receiveDataSize (server_sent H p s) = sw_receiveDataSize s"
  "sw_dallyV (server_sent H p s) = sw_dallyV s"
  by (simp_all add: server_sent_def Let_def)

lemma server_write_waiting [simp]:
  "sw_dataHandlerV (server_waiting w s) = sw_dataHandlerV s"
  "sw_lastReceivedBlockNumber (server_waiting w s) = sw_lastReceivedBlockNumber s"
  "sw_receiveDataSize (server_waiting w s) = sw_receiveDataSize s"
  "sw_dallyV (server_waiting w s) = sw_dallyV s"
  by (simp_all add: server_waiting_def)

lemma server_write_finished [simp]:
  "sw_dataHandlerV (server_finished st i s) = sw_dataHandlerV s"
  "sw_lastReceivedBlockNumber (server_finished st i s) = sw_lastReceivedBlockNumber s"
  by (simp_all add: server_finished_def)

abbreviation server_sent_ack :: "helper \<Rightarrow> block_number \<Rightarrow> 'a server_op_scheme \<Rightarrow> 'a server_op_scheme" where
  "server_sent_ack H b \<equiv> server_sent H (ACK \<lparr>ap_blockNumber = b\<rparr>)"

lemma ServerWrite_finished_ok [cmd_simps]:
  "never_fails N \<Longrightarrow> sw_dataHandlerV s = Some h \<Longrightarrow>
   ServerWrite_finished N D status info s =
     Inr (server_finished status info (s\<lparr>sw_dataHandlerV := Some (rh_finished D h)\<rparr>))"
  by (simp add: ServerWrite_finished_def ServerWrite_on_handler_def cmd_simps noexcept_def)

lemma ServerWrite_reject_ok [cmd_simps]:
  "never_fails N \<Longrightarrow> sw_dataHandlerV s = Some h \<Longrightarrow>
   ServerOperation_reject H N (ServerWrite_finished N D) status code msg s =
     Inr (server_finished status (Some (code, msg))
       ((server_sent H (ERR \<lparr>ep_errorCode = code, ep_errorMessage = msg\<rparr>) s)
          \<lparr>sw_dataHandlerV := Some (rh_finished D h)\<rparr>))"
  by (simp add: ServerOperation_reject_def cmd_simps ErrorPacket_errorInformation_def Let_def)

text \<open>The end of a data packet's handling, after the ACK was sent.\<close>

definition server_write_continued :: "'h receive_handler \<Rightarrow> nat \<Rightarrow> 'h server_write \<Rightarrow> 'h server_write" where
  "server_write_continued D n s =
     (if n < unat (sw_receiveDataSize s)
      then if sw_dallyV s then server_waiting TimeoutDally s
           else server_finished Successful None
             (s\<lparr>sw_dataHandlerV := map_option (rh_finished D) (sw_dataHandlerV s)\<rparr>)
      else server_waiting TimeoutNormal s)"

lemma ServerWrite_continue_ok [cmd_simps]:
  "never_fails N \<Longrightarrow> sw_dataHandlerV s = Some h \<Longrightarrow>
   ServerWrite_continue N D p s = Inr (server_write_continued D (length (dp_data p)) s)"
  by (simp add: ServerWrite_continue_def server_write_continued_def DataPacket_dataSize_def cmd_simps)

lemma ServerWrite_dataPacket_next:
  assumes "never_fails N" and "sw_dataHandlerV s = Some h"
    and "dp_blockNumber p = BlockNumber_preincrement (sw_lastReceivedBlockNumber s)"
    and "dp_blockNumber p \<noteq> sw_lastReceivedBlockNumber s"
    and "length (dp_data p) \<le> unat (sw_receiveDataSize s)"
  shows "ServerWrite_dataPacket H N D remote p s =
    Inr (server_write_continued D (length (dp_data p)) (server_sent_ack H (dp_blockNumber p)
      (s\<lparr>sw_dataHandlerV := Some (rh_receivedData D (dp_data p) h),
         sw_lastReceivedBlockNumber := dp_blockNumber p\<rparr>)))"
  using assms
  by (simp add: ServerWrite_dataPacket_def ServerWrite_on_handler_def DataPacket_dataSize_def
      BlockNumber_preincrement_def not_less cmd_simps)

lemma ServerWrite_dataPacket_again:
  assumes "never_fails N" and "sw_dataHandlerV s = Some h"
    and "dp_blockNumber p = sw_lastReceivedBlockNumber s"
  shows "ServerWrite_dataPacket H N D remote p s =
    Inr (server_write_continued D (length (dp_data p)) (server_sent_ack H (dp_blockNumber p) s))"
  using assms by (simp add: ServerWrite_dataPacket_def cmd_simps)

lemma ServerWrite_dataPacket_refused:
  assumes "never_fails N" and "sw_dataHandlerV s = Some h"
    and "dp_blockNumber p \<noteq> sw_lastReceivedBlockNumber s"
    and "dp_blockNumber p \<noteq> BlockNumber_preincrement (sw_lastReceivedBlockNumber s) \<and>
        msg = ''Block Number not expected'' \<or>
      dp_blockNumber p = BlockNumber_preincrement (sw_lastReceivedBlockNumber s) \<and>
        unat (sw_receiveDataSize s) < length (dp_data p) \<and> msg = ''Too much data''"
  shows "ServerWrite_dataPacket H N D remote p s =
    Inr (server_finished TransferError (Some (IllegalTftpOperation, msg))
      ((server_sent H (ERR \<lparr>ep_errorCode = IllegalTftpOperation, ep_errorMessage = msg\<rparr>) s)
         \<lparr>sw_dataHandlerV := Some (rh_finished D h)\<rparr>))"
  using assms
  by (auto simp: ServerWrite_dataPacket_def DataPacket_dataSize_def BlockNumber_preincrement_def cmd_simps)

subsection \<open>Start\<close>

lemma ServerWrite_start_plain:
  assumes "never_fails N" and "sw_dataHandlerV s = Some h0" and "rh_start D h0 = Inr h"
    and "sw_clientOptionsV s = no_tftp_options" and "sw_additionalNegotiatedOptionsV s = []"
  shows "ServerWrite_start H N D s =
    Inr (server_waiting TimeoutNormal (server_sent_ack H (BlockNumber 0)
      ((server_opened s)\<lparr>sw_dataHandlerV := Some h\<rparr>)))"
  using assms
  by (simp add: ServerWrite_start_def ServerWrite_start_handler_def Let_def try_catch_def cmd_simps
      TftpOptions_bool_def no_tftp_options_def)

end
