(* ===== verification/ServerFrames.thy ===== *)
theory ServerFrames
  imports ServerReadSteps ServerWriteSteps
begin

text \<open>
  The server operations meet the contract of their base class: whatever happens, the data
  handler stays and \<open>finished\<close> ends the operation.
\<close>

lemma server_frame_more:
  fixes s s' :: "'h server_read"
  assumes "server_same_frame s s'"
  shows "sr_dataHandlerV s' = sr_dataHandlerV s"
    and "sr_transmitDataSize s' = sr_transmitDataSize s"
    and "sr_lastDataPacketTransmitted s' = sr_lastDataPacketTransmitted s"
    and "sr_lastTransmittedBlockNumber s' = sr_lastTransmittedBlockNumber s"
    and "sr_lastReceivedBlockNumber s' = sr_lastReceivedBlockNumber s"
  using assms by (cases s; cases s'; simp add: server_same_frame_def)+

lemma server_frame_more_write:
  fixes s s' :: "'h server_write"
  assumes "server_same_frame s s'"
  shows "sw_dataHandlerV s' = sw_dataHandlerV s"
    and "sw_receiveDataSize s' = sw_receiveDataSize s"
    and "sw_lastReceivedBlockNumber s' = sw_lastReceivedBlockNumber s"
    and "sw_dallyV s' = sw_dallyV s"
  using assms by (cases s; cases s'; simp add: server_same_frame_def)+

lemma ServerRead_finished_final:
  assumes "sr_dataHandlerV s = Some h"
  shows "\<exists>ok tr. final (ServerRead_finished N S status info s) =
    s\<lparr>sr_dataHandlerV := Some (th_finished S h), so_errorInformationV := info,
      trace := trace s @ Called TimerCancel ok # tr\<rparr>"
proof -
  obtain ok tr where "final (ServerOperation_finished N status info (s\<lparr>sr_dataHandlerV := Some (th_finished S h)\<rparr>)) =
      s\<lparr>sr_dataHandlerV := Some (th_finished S h), so_errorInformationV := info,
        trace := trace s @ Called TimerCancel ok # tr\<rparr>"
    using ServerOperation_finished_final [of N status info "s\<lparr>sr_dataHandlerV := Some (th_finished S h)\<rparr>"]
    by auto
  then show ?thesis
    using assms
    by (intro exI [of _ ok] exI [of _ tr])
      (auto simp: ServerRead_finished_def ServerRead_on_handler_def block.simps split: sum.split)
qed

lemma ServerWrite_finished_final:
  assumes "sw_dataHandlerV s = Some h"
  shows "\<exists>ok tr. final (ServerWrite_finished N D status info s) =
    s\<lparr>sw_dataHandlerV := Some (rh_finished D h), so_errorInformationV := info,
      trace := trace s @ Called TimerCancel ok # tr\<rparr>"
proof -
  obtain ok tr where "final (ServerOperation_finished N status info (s\<lparr>sw_dataHandlerV := Some (rh_finished D h)\<rparr>)) =
      s\<lparr>sw_dataHandlerV := Some (rh_finished D h), so_errorInformationV := info,
        trace := trace s @ Called TimerCancel ok # tr\<rparr>"
    using ServerOperation_finished_final [of N status info "s\<lparr>sw_dataHandlerV := Some (rh_finished D h)\<rparr>"]
    by auto
  then show ?thesis
    using assms
    by (intro exI [of _ ok] exI [of _ tr])
      (auto simp: ServerWrite_finished_def ServerWrite_on_handler_def block.simps split: sum.split)
qed

text \<open>With a data handler set, an operation keeps it, and \<open>finished\<close> ends it.\<close>

abbreviation server_read_set :: "'h server_read \<Rightarrow> bool" where
  "server_read_set s \<equiv> sr_dataHandlerV s \<noteq> None"

abbreviation server_write_set :: "'h server_write \<Rightarrow> bool" where
  "server_write_set s \<equiv> sw_dataHandlerV s \<noteq> None"

interpretation server_read_frame: server_frame server_read_set "ServerRead_finished N S" for N S
proof unfold_locales
  fix s s' :: "'a server_read" and status info
  show "server_same_frame s s' \<Longrightarrow> server_read_set s \<Longrightarrow> server_read_set s'"
    by (simp add: server_frame_more)
  have *: "server_read_set (final (ServerRead_finished N S status info s)) \<and>
      ended (trace (final (ServerRead_finished N S status info s)))" if "server_read_set s" for s
    using that ServerRead_finished_final [of s _ N S status info] by auto
  then show "keeps server_read_set (ServerRead_finished N S status info)"
    by (intro keepsI) simp
  show "server_read_set s \<Longrightarrow> ended (trace (final (ServerRead_finished N S status info s)))"
    using * by simp
qed

interpretation server_write_frame: server_frame server_write_set "ServerWrite_finished N D" for N D
proof unfold_locales
  fix s s' :: "'a server_write" and status info
  show "server_same_frame s s' \<Longrightarrow> server_write_set s \<Longrightarrow> server_write_set s'"
    by (simp add: server_frame_more_write)
  have *: "server_write_set (final (ServerWrite_finished N D status info s)) \<and>
      ended (trace (final (ServerWrite_finished N D status info s)))" if "server_write_set s" for s
    using that ServerWrite_finished_final [of s _ N D status info] by auto
  then show "keeps server_write_set (ServerWrite_finished N D status info)"
    by (intro keepsI) simp
  show "server_write_set s \<Longrightarrow> ended (trace (final (ServerWrite_finished N D status info s)))"
    using * by simp
qed

end
