(* ===== verification/ServerReadInvariant.thy ===== *)
theory ServerReadInvariant
  imports ServerFrames Instances
begin

text \<open>
  The invariant of the server's side of a download: in every state it can reach, whatever
  happens to its packets and calls, the blocks it took from the data handler are the blocks of
  the file, one after the other, and at most the last one is not acknowledged.
\<close>

text \<open>
  What happens to an operation that was started: its completion tokens, each only if it is
  pending, and the two ways its user ends it. The timer of the dally is never started here.
\<close>

fun server_read_pending :: "server_input \<Rightarrow> 'h server_read \<Rightarrow> bool" where
  "server_read_pending (server_input.Received e raw) s \<longleftrightarrow> e \<noteq> NoError \<or> \<not> ended (trace s)"
| "server_read_pending (server_input.DallyTimeout e) s \<longleftrightarrow> False"
| "server_read_pending input s \<longleftrightarrow> True"

inductive server_read_reachable ::
    "helper \<Rightarrow> net \<Rightarrow> 'h transmit_handler \<Rightarrow> 'h server_read \<Rightarrow> 'h server_read \<Rightarrow> bool"
  for H N S s0 where
  started: "server_read_reachable H N S s0 s"
    if "ServerRead_start H N S s0 = Inr s" and "\<not> ended (trace s)"
| step: "server_read_reachable H N S s0 (final (ServerRead_on H N S input s))"
    if "server_read_reachable H N S s0 s" and "server_read_pending input s"

text \<open>
  \<open>j\<close> blocks were taken. The block acknowledged last is the one before, the last one itself
  when the operation ended, or none.
\<close>

definition server_read_data :: "('h \<Rightarrow> bytes) \<Rightarrow> bytes \<Rightarrow> 'h server_read \<Rightarrow> bool" where
  "server_read_data rest xs s \<longleftrightarrow>
     (let n = unat (sr_transmitDataSize s) in 0 < n \<and>
      (\<exists>h j. sr_dataHandlerV s = Some h \<and> j \<le> Suc (last_chunk n xs) \<and>
        sr_lastTransmittedBlockNumber s = block_at j \<and>
        (sr_lastDataPacketTransmitted s \<longleftrightarrow> j = Suc (last_chunk n xs)) \<and>
        (\<not> ended (trace s) \<longrightarrow> rest h = drop (j * n) xs \<and>
           (if j = 0 then sr_lastReceivedBlockNumber s = BlockNumber 0xFFFF
            else sr_lastReceivedBlockNumber s = block_at (j - 1)))))"

lemma server_read_data_frame:
  assumes "server_same_frame s s'" and "server_read_data rest xs s"
  shows "server_read_data rest xs s'"
proof -
  have "ended (trace s) \<Longrightarrow> ended (trace s')"
    using assms(1) by (auto simp: server_same_frame_def)
  with assms(2) show ?thesis
    unfolding server_read_data_def Let_def server_frame_more [OF assms(1)] by metis
qed

lemma server_read_data_frame_of: "server_frame (server_read_data rest xs) (ServerRead_finished N S)"
proof
  fix s s' :: "'a server_read" and status info
  show "server_same_frame s s' \<Longrightarrow> server_read_data rest xs s \<Longrightarrow> server_read_data rest xs s'"
    by (rule server_read_data_frame)
  have *: "server_read_data rest xs (final (ServerRead_finished N S status info s)) \<and>
      ended (trace (final (ServerRead_finished N S status info s)))" if s: "server_read_data rest xs s" for s
  proof -
    obtain h where "sr_dataHandlerV s = Some h" using s by (auto simp: server_read_data_def Let_def)
    then obtain ok tr where "final (ServerRead_finished N S status info s) =
        s\<lparr>sr_dataHandlerV := Some (th_finished S h), so_errorInformationV := info,
          trace := trace s @ Called TimerCancel ok # tr\<rparr>"
      using ServerRead_finished_final [of s h N S status info] by blast
    with s show ?thesis by (auto simp: server_read_data_def Let_def)
  qed
  then show "keeps (server_read_data rest xs) (ServerRead_finished N S status info)"
    by (intro keepsI) simp
  show "server_read_data rest xs s \<Longrightarrow> ended (trace (final (ServerRead_finished N S status info s)))"
    using * by simp
qed

lemmas server_read_keeps =
  server_frame.keeps_reject [OF server_read_data_frame_of] server_frame.keeps_steps [OF server_read_data_frame_of]
  server_frame_F [OF server_read_data_frame_of]

text \<open>Taking the next block from the handler, when the one before is acknowledged.\<close>

lemma ServerRead_sendData_sends:
  assumes "sr_dataHandlerV s = Some h" and "th_sendData S (unat (sr_transmitDataSize s)) h = (d, h')"
  shows "ServerRead_sendData H N S s = ServerOperation_send H N (ServerRead_finished N S)
      (DATA \<lparr>dp_blockNumber = BlockNumber_preincrement (sr_lastTransmittedBlockNumber s), dp_data = d\<rparr>)
      (let s0 = s\<lparr>sr_lastTransmittedBlockNumber := BlockNumber_preincrement (sr_lastTransmittedBlockNumber s),
             sr_dataHandlerV := Some h'\<rparr>
       in if length d < unat (sr_transmitDataSize s) then s0\<lparr>sr_lastDataPacketTransmitted := True\<rparr> else s0)"
  using assms
  by (simp add: ServerRead_sendData_def block_modify DataPacket_dataSize_def Let_def)
    (simp add: block.simps modify_apply split: sum.split)

lemma server_read_data_next:
  assumes S: "data_source S content rest"
    and s: "sr_dataHandlerV s = Some h" "rest h = drop (j * unat (sr_transmitDataSize s)) xs"
      "0 < unat (sr_transmitDataSize s)" "sr_lastTransmittedBlockNumber s = block_at j"
      "\<not> sr_lastDataPacketTransmitted s" "sr_lastReceivedBlockNumber s = block_at j"
      "j \<le> last_chunk (unat (sr_transmitDataSize s)) xs"
  shows "server_read_data rest xs (final (ServerRead_sendData H N S s))"
proof -
  let ?n = "unat (sr_transmitDataSize s)"
  obtain d h' where d: "th_sendData S ?n h = (d, h')" by fastforce
  have "d = chunk ?n xs j" and rest': "rest h' = drop (Suc j * ?n) xs"
    using data_source.sendData_source [OF S, of ?n h] data_source.sendData_rest [OF S, of ?n h] s(2) d
    by (simp_all add: chunk_def add.commute)
  then have short: "length d < ?n \<longleftrightarrow> j = last_chunk ?n xs"
    using length_chunk [OF s(3), of xs j] s(7) by auto
  define s0 where "s0 = s\<lparr>sr_lastTransmittedBlockNumber := block_at (Suc j), sr_dataHandlerV := Some h'\<rparr>"
  define s1 where "s1 = (if length d < ?n then s0\<lparr>sr_lastDataPacketTransmitted := True\<rparr> else s0)"
  have "server_read_data rest xs s1"
    using s rest' short unfolding server_read_data_def Let_def
    by (simp add: s1_def s0_def) (intro conjI impI exI [of _ "Suc j"]; simp)
  moreover have "ServerRead_sendData H N S s = ServerOperation_send H N (ServerRead_finished N S)
      (DATA \<lparr>dp_blockNumber = block_at (Suc j), dp_data = d\<rparr>) s1"
    using ServerRead_sendData_sends [OF s(1) d] s by (simp add: s1_def s0_def block_at_Suc Let_def)
  ultimately show ?thesis
    using keepsD [OF server_read_keeps(2)] by simp
qed

text \<open>An acknowledgement.\<close>

lemma server_read_data_ack:
  assumes S: "data_source S content rest" and s: "server_read_data rest xs s" and "\<not> ended (trace s)"
  shows "server_read_data rest xs (final (ServerRead_acknowledgementPacket H N S remote p s))"
proof -
  let ?n = "unat (sr_transmitDataSize s)"
  obtain h j where h: "sr_dataHandlerV s = Some h" "rest h = drop (j * ?n) xs" "0 < ?n"
    and j: "j \<le> Suc (last_chunk ?n xs)" "sr_lastTransmittedBlockNumber s = block_at j"
      "sr_lastDataPacketTransmitted s \<longleftrightarrow> j = Suc (last_chunk ?n xs)"
    using s assms(3) by (auto simp: server_read_data_def Let_def)
  define s1 where "s1 = s\<lparr>sr_lastReceivedBlockNumber := block_at j\<rparr>"
  let ?next = "block [ServerRead_sendData H N S, ServerOperation_receive N (ServerRead_finished N S)]"
  have more: "server_read_data rest xs (final (?next s1))" if "\<not> sr_lastDataPacketTransmitted s"
  proof (rule final_block_keeps [where P = "server_read_data rest xs"])
    show "server_read_data rest xs (final (ServerRead_sendData H N S s1))"
      using h j that by (intro server_read_data_next [OF S, of s1 h j]) (auto simp: s1_def)
  qed (auto intro: server_read_keeps)
  have completed: "server_read_data rest xs (final (ServerRead_finished N S Successful None s1))"
    if "sr_lastDataPacketTransmitted s"
  proof -
    have "sr_dataHandlerV s1 = Some h" using h(1) by (simp add: s1_def)
    from ServerRead_finished_final [OF this, of N S Successful None] obtain ok tr where
      "final (ServerRead_finished N S Successful None s1) =
        s1\<lparr>sr_dataHandlerV := Some (th_finished S h), so_errorInformationV := None,
          trace := trace s1 @ Called TimerCancel ok # tr\<rparr>" by blast
    with h j show ?thesis by (auto simp: server_read_data_def Let_def s1_def)
  qed
  have "ServerRead_acknowledgementPacket H N S remote p s =
    (if BlockNumber_equal (ap_blockNumber p) (sr_lastReceivedBlockNumber s)
     then ServerOperation_receive N (ServerRead_finished N S) s
     else if \<not> BlockNumber_equal (ap_blockNumber p) (sr_lastTransmittedBlockNumber s)
     then ServerOperation_reject H N (ServerRead_finished N S) TransferError
       IllegalTftpOperation ''Wrong block number'' s
     else if sr_lastDataPacketTransmitted s then ServerRead_finished N S Successful None s1 else ?next s1)"
    using j(2)
    by (simp add: ServerRead_acknowledgementPacket_def block_modify s1_def)
  then show ?thesis
    using more completed keepsD [OF server_read_keeps(1) s] keepsD [OF server_read_keeps(3) s] by simp
qed

text \<open>Every event keeps the invariant.\<close>

lemma server_read_data_on:
  assumes "raw_data H" and "data_source S content rest" and "server_read_data rest xs s"
    and "server_read_pending input s"
  shows "server_read_data rest xs (final (ServerRead_on H N S input s))"
proof -
  have "server_read_data rest xs (final (call_handler (ServerRead_handlers H N S) remote p s))"
    if "server_read_data rest xs s" "\<not> ended (trace s)" for remote p s
    using that
    by (cases p)
      (simp_all add: ServerRead_handlers_def ServerOperation_readRequestPacket_def
        ServerOperation_writeRequestPacket_def ServerOperation_optionsAcknowledgementPacket_def
        ServerRead_dataPacket_def keepsD [OF server_read_keeps(1)] server_read_data_ack [OF assms(2)]
        keepsD [OF server_frame.keeps_errorPacket [OF server_read_data_frame_of]])
  moreover have "keeps (server_read_data rest xs) (ph_invalidPacket (ServerRead_handlers H N S) remote raw)"
    for remote raw
    by (simp add: ServerRead_handlers_def ServerOperation_invalidPacket_def server_read_keeps(1))
  ultimately show ?thesis
    unfolding ServerRead_on_def using assms(1,3,4)
    by (intro server_frame.on_establishes [OF server_read_data_frame_of]) (cases input; auto)+
qed

subsection \<open>Start\<close>

text \<open>While \<open>start\<close> runs, the operation has ended already or the invariant holds.\<close>

definition server_read_safe :: "('h \<Rightarrow> bytes) \<Rightarrow> bytes \<Rightarrow> 'h server_read \<Rightarrow> bool" where
  "server_read_safe rest xs s \<longleftrightarrow>
     sr_dataHandlerV s \<noteq> None \<and> (ended (trace s) \<or> server_read_data rest xs s)"

lemma server_read_or_ended_frame:
  assumes "\<And>s s'. server_same_frame s s' \<Longrightarrow> P s \<Longrightarrow> P s'"
  shows "server_frame (\<lambda>s. sr_dataHandlerV s \<noteq> None \<and> (ended (trace s) \<or> P s)) (ServerRead_finished N S)"
proof
  fix s s' :: "'a server_read" and status info
  let ?P = "\<lambda>s. sr_dataHandlerV s \<noteq> None \<and> (ended (trace s) \<or> P s)"
  show "server_same_frame s s' \<Longrightarrow> ?P s \<Longrightarrow> ?P s'"
    using assms [of s s'] server_relation.R_ended [of s s'] by (auto simp: server_frame_more)
  have *: "?P (final (ServerRead_finished N S status info s)) \<and>
      ended (trace (final (ServerRead_finished N S status info s)))" if "?P s" for s
    using that server_read_frame.ended_F [of s N S status info] server_read_frame.keeps_F [of N S status info]
    by (auto simp: keeps_def)
  then show "keeps ?P (ServerRead_finished N S status info)"
    by (intro keepsI) simp
  show "?P s \<Longrightarrow> ended (trace (final (ServerRead_finished N S status info s)))"
    using * by simp
qed

lemma server_read_safe_frame: "server_frame (server_read_safe rest xs) (ServerRead_finished N S)"
  unfolding server_read_safe_def by (rule server_read_or_ended_frame) (rule server_read_data_frame)

lemma server_read_ended_frame:
  "server_frame (\<lambda>s. sr_dataHandlerV s \<noteq> None \<and> ended (trace s)) (ServerRead_finished N S)"
  using server_read_or_ended_frame [of "\<lambda>_. False"] by simp

lemmas server_read_safe_keeps =
  server_frame.keeps_reject [OF server_read_safe_frame] server_frame.keeps_steps [OF server_read_safe_frame]
  server_frame_F [OF server_read_safe_frame]

text \<open>The state after the data handler was started, or one that ended before.\<close>

definition server_read_ready :: "('h \<Rightarrow> bytes) \<Rightarrow> bytes \<Rightarrow> 'h server_read \<Rightarrow> bool" where
  "server_read_ready rest xs s \<longleftrightarrow>
     (\<exists>h. sr_dataHandlerV s = Some h \<and>
        (ended (trace s) \<or>
         rest h = xs \<and> 0 < unat (sr_transmitDataSize s) \<and> \<not> sr_lastDataPacketTransmitted s \<and>
         sr_lastTransmittedBlockNumber s = BlockNumber 0 \<and> sr_lastReceivedBlockNumber s = BlockNumber 0))"

lemma server_read_ended_keeps:
  "keeps (\<lambda>s. sr_dataHandlerV s \<noteq> None \<and> ended (trace s)) (ServerRead_sendData H N S)"
  (is "keeps ?P _")
proof (rule keepsI)
  fix s assume s: "?P s"
  then obtain h where h: "sr_dataHandlerV s = Some h" by blast
  obtain d h' where d: "th_sendData S (unat (sr_transmitDataSize s)) h = (d, h')" by fastforce
  show "?P (final (ServerRead_sendData H N S s))"
    unfolding ServerRead_sendData_sends [OF h d]
    by (rule keepsD [OF server_frame.keeps_steps(1) [OF server_read_ended_frame]]) (simp add: s Let_def)
qed

lemma server_read_first_data:
  assumes S: "data_source S content rest" and s: "server_read_ready rest xs s"
  shows "server_read_safe rest xs
    (final (block [ServerRead_sendData H N S, ServerOperation_receive N (ServerRead_finished N S)] s))"
proof (rule final_block_keeps)
  obtain h where h: "sr_dataHandlerV s = Some h" using s by (auto simp: server_read_ready_def)
  show "server_read_safe rest xs (final (ServerRead_sendData H N S s))"
  proof (cases "ended (trace s)")
    case True
    with h keepsD [OF server_read_ended_keeps, of s] show ?thesis by (simp add: server_read_safe_def)
  next
    case False
    with s h have "server_read_data rest xs (final (ServerRead_sendData H N S s))"
      by (intro server_read_data_next [OF S h, of 0]) (auto simp: server_read_ready_def)
    then show ?thesis
      by (auto simp: server_read_safe_def server_read_data_def Let_def)
  qed
qed (auto intro: server_read_safe_keeps)

lemma server_read_first_oack:
  assumes s: "server_read_ready rest xs s"
  shows "server_read_safe rest xs
    (final (block [
       modify (\<lambda>s. s\<lparr>sr_lastReceivedBlockNumber := BlockNumber 0xFFFF\<rparr>),
       ServerOperation_send H N (ServerRead_finished N S) (OACK p),
       ServerOperation_receive N (ServerRead_finished N S)] s))"
proof (rule final_block_keeps)
  show "server_read_safe rest xs (final (modify (\<lambda>s. s\<lparr>sr_lastReceivedBlockNumber := BlockNumber 0xFFFF\<rparr>) s))"
    using s by (auto simp: server_read_ready_def server_read_safe_def server_read_data_def modify_apply Let_def)
qed (auto intro: server_read_safe_keeps)

text \<open>The answer to the request, for a configuration and a request without a block size of zero.\<close>

lemma server_read_ready_grant:
  assumes "server_read_ready rest xs s" and "ServerRead_grant s = (opts, s')"
    and "oc_blockSizeOption (sr_optionsConfigurationV s) \<noteq> Some 0" "to_blockSize (sr_clientOptionsV s) \<noteq> Some 0"
  shows "server_read_ready rest xs s'"
proof -
  have "0 < unat (min c b)" if "b \<noteq> 0" "c \<noteq> 0" for b c :: u16
    using that by (simp add: min_def unat_gt_0)
  with assms show ?thesis
    unfolding ServerRead_grant_def server_read_ready_def Let_def
    by (auto split: option.splits if_splits prod.splits)
qed

text \<open>Everything \<open>start\<close> does after the data handler was started.\<close>

definition server_read_answer ::
    "helper \<Rightarrow> net \<Rightarrow> 'h transmit_handler \<Rightarrow> options \<Rightarrow> 'h server_read cmd" where
  "server_read_answer H N S serverOptions =
     (if serverOptions \<noteq> []
      then block [
        modify (\<lambda>s. s\<lparr>sr_lastReceivedBlockNumber := BlockNumber 0xFFFF\<rparr>),
        ServerOperation_send H N (ServerRead_finished N S) (OACK \<lparr>op_options = serverOptions\<rparr>),
        ServerOperation_receive N (ServerRead_finished N S)]
      else block [ServerRead_sendData H N S, ServerOperation_receive N (ServerRead_finished N S)])"

definition server_read_respond :: "helper \<Rightarrow> net \<Rightarrow> 'h transmit_handler \<Rightarrow> 'h server_read cmd" where
  "server_read_respond H N S s =
     (if \<not> TftpOptions_bool (sr_clientOptionsV s) \<and> sr_additionalNegotiatedOptionsV s = []
      then block [ServerRead_sendData H N S, ServerOperation_receive N (ServerRead_finished N S)] s
      else
        let (serverOptions, s) = ServerRead_grant s in
        case (oc_handleTransferSizeOption (sr_optionsConfigurationV s), to_transferSize (sr_clientOptionsV s)) of
          (True, Some transferSize) \<Rightarrow>
            if transferSize \<noteq> 0
            then ServerOperation_reject H N (ServerRead_finished N S) TransferError TftpOptionRefused
              ''transfer size must be 0'' s
            else (case sr_dataHandlerV s of
                None \<Rightarrow> throw Undefined s
              | Some h \<Rightarrow>
                  let (newTransferSize, h') = th_requestedTransferSize S h
                  in server_read_answer H N S
                       (case newTransferSize of
                          None \<Rightarrow> serverOptions
                        | Some n \<Rightarrow> try_emplace (TftpOptions_name TransferSize) (to_string (unat n)) serverOptions)
                       (s\<lparr>sr_dataHandlerV := Some h'\<rparr>))
        | _ \<Rightarrow> server_read_answer H N S serverOptions s)"

lemma ServerRead_start_respond:
  "sr_dataHandlerV s = Some h \<Longrightarrow> ServerRead_start H N S s =
     try_catch is_exception
       (try_catch is_tftp_exception
         (block [
            ServerOperation_initialise N (ServerRead_finished N S),
            ServerRead_start_handler S,
            server_read_respond H N S])
         (block []))
       (ServerRead_finished N S CommunicationError None) s"
  unfolding ServerRead_start_def server_read_respond_def server_read_answer_def Let_def by simp

lemma server_read_answer_safe:
  assumes "data_source S content rest" and "server_read_ready rest xs s"
  shows "server_read_safe rest xs (final (server_read_answer H N S serverOptions s))"
  using server_read_first_data [OF assms] server_read_first_oack [OF assms(2)]
  by (simp add: server_read_answer_def)

lemma server_read_respond_safe:
  assumes S: "data_source S content rest" and s: "server_read_ready rest xs s"
    and "oc_blockSizeOption (sr_optionsConfigurationV s) \<noteq> Some 0" "to_blockSize (sr_clientOptionsV s) \<noteq> Some 0"
  shows "server_read_safe rest xs (final (server_read_respond H N S s))"
proof (cases "\<not> TftpOptions_bool (sr_clientOptionsV s) \<and> sr_additionalNegotiatedOptionsV s = []")
  case True
  with server_read_first_data [OF S s] show ?thesis by (simp add: server_read_respond_def)
next
  case False
  obtain opts s1 where g: "ServerRead_grant s = (opts, s1)" by fastforce
  have s1: "server_read_ready rest xs s1"
    by (rule server_read_ready_grant [OF s g assms(3,4)])
  then obtain h where h: "sr_dataHandlerV s1 = Some h" by (auto simp: server_read_ready_def)
  have set: "server_read_ready rest xs (s1\<lparr>sr_dataHandlerV := Some (snd (th_requestedTransferSize S h))\<rparr>)"
    using s1 h data_source.requestedTransferSize_source [OF S, of h] by (simp add: server_read_ready_def)
  have refuse: "server_read_safe rest xs (final (ServerOperation_reject H N (ServerRead_finished N S)
      TransferError TftpOptionRefused ''transfer size must be 0'' s1))"
    using h server_read_frame.reject_ends [of s1] keepsD [OF server_read_frame.keeps_reject, of s1]
    by (simp add: server_read_safe_def)
  show ?thesis
    unfolding server_read_respond_def
    using False g h server_read_answer_safe [OF S s1] server_read_answer_safe [OF S set] refuse
    by (auto simp: Let_def split_beta split: bool.splits option.splits)
qed

text \<open>
  An operation as the server's request handler sets it up: a data handler that starts, no block
  taken, and no block size of zero.
\<close>

definition server_read_configured :: "'h server_read \<Rightarrow> bool" where
  "server_read_configured s \<longleftrightarrow> sr_dataHandlerV s \<noteq> None \<and>
     oc_blockSizeOption (sr_optionsConfigurationV s) \<noteq> Some 0 \<and> to_blockSize (sr_clientOptionsV s) \<noteq> Some 0"

definition server_read_fresh :: "'h transmit_handler \<Rightarrow> ('h \<Rightarrow> bytes) \<Rightarrow> bytes \<Rightarrow> 'h server_read \<Rightarrow> bool" where
  "server_read_fresh S content xs s \<longleftrightarrow> server_read_configured s \<and> sr_transmitDataSize s \<noteq> 0 \<and>
     \<not> sr_lastDataPacketTransmitted s \<and> sr_lastTransmittedBlockNumber s = BlockNumber 0 \<and>
     sr_lastReceivedBlockNumber s = BlockNumber 0 \<and>
     (case sr_dataHandlerV s of None \<Rightarrow> False | Some h \<Rightarrow> content h = xs \<and> returned (th_start S h))"

lemma server_read_configured_frame: "server_frame server_read_configured (ServerRead_finished N S)"
proof
  fix s s' :: "'a server_read" and status info
  show "server_same_frame s s' \<Longrightarrow> server_read_configured s \<Longrightarrow> server_read_configured s'"
    by (cases s; cases s') (simp add: server_same_frame_def server_read_configured_def)
  have *: "server_read_configured (final (ServerRead_finished N S status info s)) \<and>
      ended (trace (final (ServerRead_finished N S status info s)))" if s: "server_read_configured s" for s
    using s ServerRead_finished_final [of s _ N S status info] by (auto simp: server_read_configured_def)
  then show "keeps server_read_configured (ServerRead_finished N S status info)"
    by (intro keepsI) simp
  show "server_read_configured s \<Longrightarrow> ended (trace (final (ServerRead_finished N S status info s)))"
    using * by simp
qed

lemma server_read_started:
  assumes fresh: "server_read_fresh S content xs s0" and S: "data_source S content rest"
    and c1: "server_read_configured s1" and s1: "ended (trace s1) \<or> server_same_frame s0 s1"
  shows "server_read_safe rest xs (final (block [ServerRead_start_handler S, server_read_respond H N S] s1))"
proof -
  obtain h1 where h1: "sr_dataHandlerV s1 = Some h1" using c1 by (auto simp: server_read_configured_def)
  show ?thesis
  proof (cases "th_start S h1")
    case (Inl eh)
    then have "ended (trace s1)"
      using s1 fresh h1 by (cases eh) (auto simp: server_read_fresh_def server_frame_more(1))
    with Inl h1 show ?thesis
      by (cases eh) (simp add: ServerRead_start_handler_def server_read_safe_def block.simps)
  next
    case (Inr h)
    let ?s2 = "s1\<lparr>sr_dataHandlerV := Some h\<rparr>"
    have "server_read_ready rest xs ?s2"
      using s1
    proof
      assume f: "server_same_frame s0 s1"
      with fresh h1 have "content h1 = xs" by (auto simp: server_read_fresh_def server_frame_more [OF f])
      with fresh data_source.start_source [OF S Inr] show ?thesis
        by (simp add: server_read_ready_def server_read_fresh_def server_frame_more [OF f] unat_gt_0)
    qed (simp add: server_read_ready_def)
    moreover have "server_read_configured ?s2" using c1 by (simp add: server_read_configured_def)
    moreover have "block [ServerRead_start_handler S, server_read_respond H N S] s1 = server_read_respond H N S ?s2"
      using h1 Inr by (simp add: ServerRead_start_handler_def block.simps split: sum.split)
    ultimately show ?thesis
      using server_read_respond_safe [OF S, of xs ?s2] by (simp add: server_read_configured_def)
  qed
qed

lemma server_read_data_start:
  assumes fresh: "server_read_fresh S content xs s0" and S: "data_source S content rest"
    and start: "ServerRead_start H N S s0 = Inr s" and "\<not> ended (trace s)"
  shows "server_read_data rest xs s"
proof -
  let ?F = "ServerRead_finished N S"
  have c0: "server_read_configured s0" using fresh by (simp add: server_read_fresh_def)
  then have start': "try_catch is_exception (try_catch is_tftp_exception
      (block [ServerOperation_initialise N ?F, ServerRead_start_handler S, server_read_respond H N S]) (block []))
      (?F CommunicationError None) s0 = Inr s"
    using start ServerRead_start_respond [of s0 _ H N S] by (auto simp: server_read_configured_def)
  have "server_read_safe rest xs s"
    using start' assms(4) c0
  proof (rule server_frame.start_establishes [OF server_read_configured_frame])
    show "no_tftp (?F status info)" for status info
      by (simp add: ServerRead_finished_def no_tftp_noexcept)
    fix s1 assume s1: "server_read_configured s1" "ended (trace s1) \<or> server_same_frame s0 s1"
    show "server_read_safe rest xs (final (block [ServerRead_start_handler S, server_read_respond H N S] s1))"
      by (rule server_read_started [OF fresh S s1])
  qed (rule server_frame_ended_Inr [OF server_read_safe_frame])
  with assms(4) show ?thesis by (simp add: server_read_safe_def)
qed

lemma server_read_reachable_data:
  assumes "server_read_reachable H N S s0 s" and "raw_data H" and "data_source S content rest"
    and "server_read_fresh S content xs s0"
  shows "server_read_data rest xs s"
  using assms(1)
proof induction
  case (started s)
  then show ?case by (rule server_read_data_start [OF assms(4,3)])
next
  case (step s input)
  then show ?case by (intro server_read_data_on [OF assms(2,3)])
qed

subsection \<open>The property\<close>

text \<open>C18: In every state a download can reach on the server, on any network and with any packets, timer
  expiries and aborts, the blocks taken from the data handler are the first \<open>j\<close> blocks of the
  file, in order; the number sent last is that of the \<open>j\<close>-th block, and the last block is
  known to be sent exactly when it was. As long as the operation runs, all blocks before the
  \<open>j\<close>-th are acknowledged and the handler still holds exactly the data not yet taken.\<close>

theorem server_read_invariant:
  assumes "raw_data H" and "data_source S content rest" and "server_read_fresh S content xs s0"
    and "server_read_reachable H N S s0 s"
  shows "0 < unat (sr_transmitDataSize s) \<and>
    (\<exists>h j. sr_dataHandlerV s = Some h \<and> j \<le> Suc (last_chunk (unat (sr_transmitDataSize s)) xs) \<and>
      sr_lastTransmittedBlockNumber s = block_at j \<and>
      (sr_lastDataPacketTransmitted s \<longleftrightarrow> j = Suc (last_chunk (unat (sr_transmitDataSize s)) xs)) \<and>
      (\<not> ended (trace s) \<longrightarrow>
         rest h = drop (j * unat (sr_transmitDataSize s)) xs \<and>
         sr_lastReceivedBlockNumber s = (if j = 0 then BlockNumber 0xFFFF else block_at (j - 1))))"
proof -
  have "server_read_data rest xs s"
    by (rule server_read_reachable_data [OF assms(4,1,2,3)])
  then obtain h j where "0 < unat (sr_transmitDataSize s)" "sr_dataHandlerV s = Some h"
      "j \<le> Suc (last_chunk (unat (sr_transmitDataSize s)) xs)" "sr_lastTransmittedBlockNumber s = block_at j"
      "sr_lastDataPacketTransmitted s \<longleftrightarrow> j = Suc (last_chunk (unat (sr_transmitDataSize s)) xs)"
      "\<not> ended (trace s) \<longrightarrow> rest h = drop (j * unat (sr_transmitDataSize s)) xs \<and>
         (if j = 0 then sr_lastReceivedBlockNumber s = BlockNumber 0xFFFF
          else sr_lastReceivedBlockNumber s = block_at (j - 1))"
    unfolding server_read_data_def Let_def by blast
  then show ?thesis by (intro conjI exI [of _ h] exI [of _ j]) auto
qed

text \<open>A started download of three bytes.\<close>

definition example_server_read :: "memory_file server_read" where
  "example_server_read = server_waiting TimeoutNormal (server_read_next big_endian_helper memory_transmitter
     (MemoryFile_transmit [1, 2, 3]) ((server_opened (memory_server_read [1, 2, 3]))
       \<lparr>sr_dataHandlerV := Some (MemoryFile_transmit [1, 2, 3])\<rparr>))"

lemma example_server_read_start:
  "ServerRead_start big_endian_helper quiet_net memory_transmitter (memory_server_read [1, 2, 3]) =
     Inr example_server_read"
  unfolding example_server_read_def
  by (rule ServerRead_start_plain [where ?h0.0 = "MemoryFile_transmit [1, 2, 3]"]) (simp_all add: new_simps)

lemma example_server_read_state:
  "\<not> ended (trace example_server_read)" "sr_transmitDataSize example_server_read = 512"
  "sr_lastReceivedBlockNumber example_server_read = BlockNumber 0"
  by (simp_all add: example_server_read_def server_read_next_def server_waiting_def server_sent_def
      new_simps DefaultDataSize_def Let_def split_beta ended_def)

lemma unat_numeral_512: "unat (512 :: u16) = 512"
  by simp

theorem server_read_invariant_witness:
  "\<exists>h j. sr_dataHandlerV example_server_read = Some h \<and> memory_rest h = drop (j * 512) [1, 2, 3] \<and>
     sr_lastReceivedBlockNumber example_server_read = (if j = 0 then BlockNumber 0xFFFF else block_at (j - 1))"
proof -
  have "server_read_fresh memory_transmitter memory_content [1, 2, 3] (memory_server_read [1, 2, 3])"
    by (simp add: server_read_fresh_def server_read_configured_def new_simps DefaultDataSize_def
        TftpOptionsConfiguration_default_def no_tftp_options_def)
      (simp add: memory_content_def MemoryFile_transmit_def)
  from server_read_invariant [OF big_endian.raw_data_axioms memory_source.data_source_axioms this
      server_read_reachable.started [OF example_server_read_start example_server_read_state(1)]]
  obtain h j where "sr_dataHandlerV example_server_read = Some h"
      "memory_rest h = drop (j * 512) [1, 2, 3]"
      "sr_lastReceivedBlockNumber example_server_read = (if j = 0 then BlockNumber 0xFFFF else block_at (j - 1))"
    using example_server_read_state(1,2) by (elim conjE exE) (simp only: simp_thms unat_numeral_512)
  then show ?thesis by (intro exI [of _ h] exI [of _ j] conjI)
qed

end
