(* ===== verification/ServerWriteInvariant.thy ===== *)
theory ServerWriteInvariant
  imports ServerFrames Instances
begin

text \<open>
  The invariant of the server's side of an upload, for any data handler that is a sink: in every
  state it can reach, whatever happens to its packets and calls, the handler holds exactly the
  blocks delivered so far, in order.
\<close>

fun server_write_pending :: "server_input \<Rightarrow> 'h server_write \<Rightarrow> bool" where
  "server_write_pending (server_input.Received e raw) s \<longleftrightarrow> e \<noteq> NoError \<or> \<not> ended (trace s)"
| "server_write_pending input s \<longleftrightarrow> True"

inductive server_write_reachable ::
    "helper \<Rightarrow> net \<Rightarrow> 'h receive_handler \<Rightarrow> 'h server_write \<Rightarrow> 'h server_write \<Rightarrow> bool"
  for H N D s0 where
  started: "server_write_reachable H N D s0 s"
    if "ServerWrite_start H N D s0 = Inr s" and "\<not> ended (trace s)"
| step: "server_write_reachable H N D s0 (final (ServerWrite_on H N D input s))"
    if "server_write_reachable H N D s0 s" and "server_write_pending input s"

text \<open>
  The blocks \<open>ds\<close> are as many as the block number says, and none is larger than the block size;
  without dally, all but the last are full, and a short one has ended the operation. \<open>Some n\<close>
  stands for the moment between the delivery of a block of size \<open>n\<close> and the reaction to its
  size.
\<close>

definition server_write_data ::
    "nat option \<Rightarrow> ('h \<Rightarrow> bool) \<Rightarrow> ('h \<Rightarrow> bytes) \<Rightarrow> 'h server_write \<Rightarrow> bool" where
  "server_write_data delivered ready contents s \<longleftrightarrow>
     (let n = unat (sw_receiveDataSize s) in
      \<exists>h ds. sw_dataHandlerV s = Some h \<and> contents h = concat ds \<and>
        sw_lastReceivedBlockNumber s = block_at (length ds) \<and>
        (\<forall>d\<in>set ds. length d \<le> n) \<and> (ended (trace s) \<or> ready h) \<and>
        (\<not> sw_dallyV s \<longrightarrow> (\<forall>d\<in>set (butlast ds). length d = n)) \<and>
        (case delivered of
           None \<Rightarrow> \<not> sw_dallyV s \<and> \<not> ended (trace s) \<longrightarrow> (\<forall>d\<in>set ds. length d = n)
         | Some k \<Rightarrow> ds \<noteq> [] \<and> length (last ds) = k))"

lemma all_full:
  assumes "\<forall>d\<in>set (butlast ds). length d = n" and "ds = [] \<or> length (last ds) = n"
  shows "\<forall>d\<in>set ds. length d = n"
  using assms by (cases ds rule: rev_cases) auto

text \<open>The operation reacted to the size of the block delivered last.\<close>

lemma server_write_data_settle:
  assumes "server_write_data (Some k) ready contents s"
    and "sw_dallyV s \<or> ended (trace s) \<or> unat (sw_receiveDataSize s) \<le> k"
  shows "server_write_data None ready contents s"
proof -
  obtain h ds where *: "sw_dataHandlerV s = Some h" "contents h = concat ds"
      "sw_lastReceivedBlockNumber s = block_at (length ds)"
      "\<forall>d\<in>set ds. length d \<le> unat (sw_receiveDataSize s)" "ended (trace s) \<or> ready h"
      "\<not> sw_dallyV s \<longrightarrow> (\<forall>d\<in>set (butlast ds). length d = unat (sw_receiveDataSize s))"
      "ds \<noteq> []" "length (last ds) = k"
    using assms(1) unfolding server_write_data_def Let_def by auto
  have "length (last ds) \<le> unat (sw_receiveDataSize s)"
    by (rule bspec [OF *(4) last_in_set [OF *(7)]])
  with *(8) assms(2) have "\<not> sw_dallyV s \<and> \<not> ended (trace s) \<longrightarrow> length (last ds) = unat (sw_receiveDataSize s)"
    by linarith
  then have "\<not> sw_dallyV s \<and> \<not> ended (trace s) \<longrightarrow> (\<forall>d\<in>set ds. length d = unat (sw_receiveDataSize s))"
    using *(6) all_full [of ds "unat (sw_receiveDataSize s)"] by blast
  with * show ?thesis
    unfolding server_write_data_def Let_def option.case by blast
qed

lemma server_write_data_frame:
  assumes "server_same_frame s s'" and "server_write_data delivered ready contents s"
  shows "server_write_data delivered ready contents s'"
proof -
  have "ended (trace s) \<Longrightarrow> ended (trace s')"
    using assms(1) by (auto simp: server_same_frame_def)
  with assms(2) show ?thesis
    unfolding server_write_data_def Let_def server_frame_more_write [OF assms(1)]
    by (cases delivered) (fastforce, fastforce)
qed

context data_sink
begin

lemma server_write_data_frame_of:
  "server_frame (server_write_data delivered ready contents) (ServerWrite_finished N D)"
proof
  fix s s' :: "'h server_write" and status info
  let ?P = "server_write_data delivered ready contents"
  show "server_same_frame s s' \<Longrightarrow> ?P s \<Longrightarrow> ?P s'"
    by (rule server_write_data_frame)
  have *: "?P (final (ServerWrite_finished N D status info s)) \<and>
      ended (trace (final (ServerWrite_finished N D status info s)))" if s: "?P s" for s
  proof -
    obtain h where h: "sw_dataHandlerV s = Some h" using s by (auto simp: server_write_data_def Let_def)
    then obtain ok tr where "final (ServerWrite_finished N D status info s) =
        s\<lparr>sw_dataHandlerV := Some (rh_finished D h), so_errorInformationV := info,
          trace := trace s @ Called TimerCancel ok # tr\<rparr>"
      using ServerWrite_finished_final [of s h N D status info] by blast
    with s h show ?thesis
      by (auto simp: server_write_data_def Let_def finished_sink split: option.splits)
  qed
  then show "keeps ?P (ServerWrite_finished N D status info)"
    by (intro keepsI) simp
  show "?P s \<Longrightarrow> ended (trace (final (ServerWrite_finished N D status info s)))"
    using * by simp
qed

lemmas server_write_keeps =
  server_frame.keeps_reject [OF server_write_data_frame_of] server_frame.keeps_steps [OF server_write_data_frame_of]
  server_frame_F [OF server_write_data_frame_of]

text \<open>The end of the handling of a block, new or repeated.\<close>

lemma server_write_continue:
  assumes "server_write_data (Some (length (dp_data p))) ready contents s"
  shows "server_write_data None ready contents (final (ServerWrite_continue N D p s))"
proof (cases "DataPacket_dataSize p < unat (sw_receiveDataSize s) \<and> \<not> sw_dallyV s")
  case True
  then show ?thesis
    using server_write_data_settle [OF keepsD [OF server_write_keeps(5) assms]]
      server_frame_ended [OF server_write_data_frame_of assms]
    by (auto simp: ServerWrite_continue_def)
next
  case False
  then have "server_write_data None ready contents s"
    using assms by (intro server_write_data_settle) (auto simp: DataPacket_dataSize_def)
  with False show ?thesis
    by (auto simp: ServerWrite_continue_def keepsD [OF server_write_keeps(3)] keepsD [OF server_write_keeps(4)])
qed

lemma server_write_continue_again:
  "keeps (server_write_data None ready contents) (ServerWrite_continue N D p)"
  unfolding ServerWrite_continue_def by (intro keeps_fun_if server_write_keeps)

lemma server_write_data_receive:
  assumes "server_write_data None ready contents s" and "\<not> ended (trace s)"
    and "length d \<le> unat (sw_receiveDataSize s)" and "sw_dataHandlerV s = Some h"
  shows "server_write_data (Some (length d)) ready contents
    (s\<lparr>sw_dataHandlerV := Some (rh_receivedData D d h),
       sw_lastReceivedBlockNumber := BlockNumber_preincrement (sw_lastReceivedBlockNumber s)\<rparr>)"
proof -
  obtain ds where ds: "contents h = concat ds" "sw_lastReceivedBlockNumber s = block_at (length ds)"
      "\<forall>d\<in>set ds. length d \<le> unat (sw_receiveDataSize s)" "ready h"
      "\<not> sw_dallyV s \<longrightarrow> (\<forall>d\<in>set ds. length d = unat (sw_receiveDataSize s))"
    using assms unfolding server_write_data_def Let_def by auto
  have "ready (rh_receivedData D d h) \<and> contents (rh_receivedData D d h) = contents h @ d"
    by (rule receivedData_sink [OF ds(4)])
  with ds assms(3) show ?thesis
    unfolding server_write_data_def Let_def
    by (intro exI [of _ "rh_receivedData D d h"] exI [of _ "ds @ [d]"]) (auto simp: block_at_Suc)
qed

lemma server_write_data_dataPacket:
  assumes "server_write_data None ready contents s" and "\<not> ended (trace s)"
  shows "server_write_data None ready contents (final (ServerWrite_dataPacket H N D remote p s))"
proof -
  let ?P = "server_write_data None ready contents"
  obtain h where h: "sw_dataHandlerV s = Some h"
    using assms(1) by (auto simp: server_write_data_def Let_def)
  have again: "keeps ?P (block [\<lambda>s. ServerOperation_send H N (ServerWrite_finished N D)
        (ACK \<lparr>ap_blockNumber = sw_lastReceivedBlockNumber s\<rparr>) s, ServerWrite_continue N D p])"
    by (intro keeps_block) (auto intro: keeps_fun server_write_keeps server_write_continue_again)
  define s1 where "s1 = s\<lparr>sw_dataHandlerV := Some (rh_receivedData D (dp_data p) h),
       sw_lastReceivedBlockNumber := BlockNumber_preincrement (sw_lastReceivedBlockNumber s)\<rparr>"
  let ?send = "ServerOperation_send H N (ServerWrite_finished N D)
       (ACK \<lparr>ap_blockNumber = sw_lastReceivedBlockNumber s1\<rparr>)"
  have deliver: "?P (final (block [?send, ServerWrite_continue N D p] s1))"
    if "length (dp_data p) \<le> unat (sw_receiveDataSize s)"
  proof -
    have s1: "server_write_data (Some (length (dp_data p))) ready contents s1"
      unfolding s1_def by (rule server_write_data_receive [OF assms that h])
    have sent: "server_write_data (Some (length (dp_data p))) ready contents (final (?send s1))"
      by (rule keepsD [OF server_write_keeps(2) s1])
    show ?thesis
    proof (cases "?send s1")
      case (Inl es)
      then obtain e s2 where s2: "?send s1 = Inl (e, s2)" by (cases es) auto
      have "ended (trace s2)"
        by (rule server_frame.send_throws [OF server_write_data_frame_of s2 s1])
      with sent s2 show ?thesis
        by (auto simp: block.simps intro: server_write_data_settle)
    next
      case (Inr s2)
      with server_write_continue [of p s2 N] sent show ?thesis
        by (auto simp: block.simps split: sum.splits)
    qed
  qed
  have "ServerWrite_dataPacket H N D remote p s =
    (if dp_blockNumber p = sw_lastReceivedBlockNumber s
     then block [\<lambda>s. ServerOperation_send H N (ServerWrite_finished N D)
        (ACK \<lparr>ap_blockNumber = sw_lastReceivedBlockNumber s\<rparr>) s, ServerWrite_continue N D p] s
     else if dp_blockNumber p \<noteq> BlockNumber (BlockNumber_next (sw_lastReceivedBlockNumber s))
     then ServerOperation_reject H N (ServerWrite_finished N D) TransferError
       IllegalTftpOperation ''Block Number not expected'' s
     else if length (dp_data p) > unat (sw_receiveDataSize s)
     then ServerOperation_reject H N (ServerWrite_finished N D) TransferError
       IllegalTftpOperation ''Too much data'' s
     else block [?send, ServerWrite_continue N D p] s1)"
    using h by (simp add: ServerWrite_dataPacket_def ServerWrite_on_handler_def DataPacket_dataSize_def s1_def
        block.simps(2) modify_apply)
  then show ?thesis
    using deliver keepsD [OF again assms(1)] keepsD [OF server_write_keeps(1) assms(1)] by simp
qed

text \<open>Every event keeps the invariant.\<close>

lemma server_write_data_on:
  assumes "raw_data H" and "server_write_data None ready contents s" and "server_write_pending input s"
  shows "server_write_data None ready contents (final (ServerWrite_on H N D input s))"
proof -
  have "server_write_data None ready contents (final (call_handler (ServerWrite_handlers H N D) remote p s))"
    if "server_write_data None ready contents s" "\<not> ended (trace s)" for remote p s
    using that
    by (cases p)
      (simp_all add: ServerWrite_handlers_def ServerOperation_readRequestPacket_def
        ServerOperation_writeRequestPacket_def ServerOperation_optionsAcknowledgementPacket_def
        ServerWrite_acknowledgementPacket_def keepsD [OF server_write_keeps(1)] server_write_data_dataPacket
        keepsD [OF server_frame.keeps_errorPacket [OF server_write_data_frame_of]])
  moreover have "keeps (server_write_data None ready contents)
      (ph_invalidPacket (ServerWrite_handlers H N D) remote raw)" for remote raw
    by (simp add: ServerWrite_handlers_def ServerOperation_invalidPacket_def server_write_keeps(1))
  ultimately show ?thesis
    unfolding ServerWrite_on_def using assms
    by (intro server_frame.on_establishes [OF server_write_data_frame_of]) (cases input; auto)+
qed

end

subsection \<open>Start\<close>

text \<open>While \<open>start\<close> runs, the operation has ended already or the invariant holds.\<close>

definition server_write_safe :: "('h \<Rightarrow> bool) \<Rightarrow> ('h \<Rightarrow> bytes) \<Rightarrow> 'h server_write \<Rightarrow> bool" where
  "server_write_safe ready contents s \<longleftrightarrow>
     sw_dataHandlerV s \<noteq> None \<and> (ended (trace s) \<or> server_write_data None ready contents s)"

lemma server_write_safe_frame:
  "server_frame (server_write_safe ready contents) (ServerWrite_finished N D)"
proof
  fix s s' :: "'a server_write" and status info
  let ?P = "server_write_safe ready contents"
  show "server_same_frame s s' \<Longrightarrow> ?P s \<Longrightarrow> ?P s'"
    using server_write_data_frame [of s s'] server_relation.R_ended [of s s']
    by (auto simp: server_write_safe_def server_frame_more_write)
  have *: "?P (final (ServerWrite_finished N D status info s)) \<and>
      ended (trace (final (ServerWrite_finished N D status info s)))" if "?P s" for s
    using that server_write_frame.ended_F [of s N D status info] server_write_frame.keeps_F [of N D status info]
    by (auto simp: server_write_safe_def keeps_def)
  then show "keeps ?P (ServerWrite_finished N D status info)"
    by (intro keepsI) simp
  show "?P s \<Longrightarrow> ended (trace (final (ServerWrite_finished N D status info s)))"
    using * by simp
qed

text \<open>The state after the data handler was started, or one that ended before.\<close>

definition server_write_ready :: "('h \<Rightarrow> bool) \<Rightarrow> ('h \<Rightarrow> bytes) \<Rightarrow> 'h server_write \<Rightarrow> bool" where
  "server_write_ready ready contents s \<longleftrightarrow>
     (\<exists>h. sw_dataHandlerV s = Some h \<and>
        (ended (trace s) \<or> ready h \<and> contents h = [] \<and> sw_lastReceivedBlockNumber s = BlockNumber 0))"

lemma server_write_ready_safe:
  "server_write_ready ready contents s \<Longrightarrow> server_write_safe ready contents s"
  unfolding server_write_ready_def server_write_safe_def server_write_data_def Let_def
  by (force intro: exI [of _ "[]"])

lemma server_write_ready_grant:
  assumes "server_write_ready ready contents s" and "ServerWrite_grant s = (opts, s')"
  shows "server_write_ready ready contents s'"
  using assms
  unfolding ServerWrite_grant_def server_write_ready_def Let_def
  by (auto split: option.splits if_splits prod.splits)

text \<open>Everything \<open>start\<close> does after the data handler was started.\<close>

definition server_write_answer ::
    "helper \<Rightarrow> net \<Rightarrow> 'h receive_handler \<Rightarrow> options \<Rightarrow> 'h server_write cmd" where
  "server_write_answer H N D serverOptions =
     block [
       ServerOperation_send H N (ServerWrite_finished N D)
         (if serverOptions \<noteq> [] then OACK \<lparr>op_options = serverOptions\<rparr>
          else ACK \<lparr>ap_blockNumber = BlockNumber 0\<rparr>),
       ServerOperation_receive N (ServerWrite_finished N D)]"

definition server_write_respond :: "helper \<Rightarrow> net \<Rightarrow> 'h receive_handler \<Rightarrow> 'h server_write cmd" where
  "server_write_respond H N D s =
     (if \<not> TftpOptions_bool (sw_clientOptionsV s) \<and> sw_additionalNegotiatedOptionsV s = []
      then server_write_answer H N D [] s
      else
        let (serverOptions, s) = ServerWrite_grant s in
        case (oc_handleTransferSizeOption (sw_optionsConfigurationV s), to_transferSize (sw_clientOptionsV s)) of
          (True, Some transferSize) \<Rightarrow>
            (case sw_dataHandlerV s of
                None \<Rightarrow> throw Undefined s
              | Some h \<Rightarrow>
                  let (accepted, h') = rh_receivedTransferSize D transferSize h;
                      s = s\<lparr>sw_dataHandlerV := Some h'\<rparr>
                  in if \<not> accepted
                     then ServerOperation_reject H N (ServerWrite_finished N D) TransferError
                       DiskFullOrAllocationExceeds ''File to big'' s
                     else server_write_answer H N D (try_emplace (TftpOptions_name TransferSize)
                       (to_string (unat transferSize)) serverOptions) s)
        | _ \<Rightarrow> server_write_answer H N D serverOptions s)"

lemma ServerWrite_start_respond:
  "sw_dataHandlerV s = Some h \<Longrightarrow> ServerWrite_start H N D s =
     try_catch is_exception
       (try_catch is_tftp_exception
         (block [
            ServerOperation_initialise N (ServerWrite_finished N D),
            ServerWrite_start_handler D,
            server_write_respond H N D])
         (block []))
       (ServerWrite_finished N D CommunicationError None) s"
  unfolding ServerWrite_start_def server_write_respond_def server_write_answer_def Let_def by simp

lemma server_write_answer_safe:
  "keeps (server_write_safe ready contents) (server_write_answer H N D serverOptions)"
  unfolding server_write_answer_def
  by (rule keeps_block) (auto intro: server_frame.keeps_steps [OF server_write_safe_frame])

text \<open>An operation as it is set up for a request: no block received, and a data handler that starts.\<close>

definition server_write_fresh :: "'h receive_handler \<Rightarrow> ('h \<Rightarrow> bool) \<Rightarrow> 'h server_write \<Rightarrow> bool" where
  "server_write_fresh D sink s \<longleftrightarrow> sw_lastReceivedBlockNumber s = BlockNumber 0 \<and>
     (case sw_dataHandlerV s of None \<Rightarrow> False | Some h \<Rightarrow> sink h \<and> returned (rh_start D h))"

context data_sink
begin

lemma server_write_respond_safe:
  assumes s: "server_write_ready ready contents s"
  shows "server_write_safe ready contents (final (server_write_respond H N D s))"
proof -
  let ?P = "server_write_safe ready contents"
  obtain opts s1 where g: "ServerWrite_grant s = (opts, s1)" by fastforce
  have s1: "server_write_ready ready contents s1"
    by (rule server_write_ready_grant [OF s g])
  then obtain h where h: "sw_dataHandlerV s1 = Some h" by (auto simp: server_write_ready_def)
  have s2: "?P (s1\<lparr>sw_dataHandlerV := Some (snd (rh_receivedTransferSize D sz h))\<rparr>)" for sz
    using s1 h receivedTransferSize_sink [of h sz]
    by (intro server_write_ready_safe) (auto simp: server_write_ready_def)
  show ?thesis
    unfolding server_write_respond_def
    using g h keepsD [OF server_write_answer_safe server_write_ready_safe [OF s]]
      keepsD [OF server_write_answer_safe server_write_ready_safe [OF s1]]
      keepsD [OF server_write_answer_safe s2]
      keepsD [OF server_frame.keeps_reject [OF server_write_safe_frame] s2]
    by (auto simp: Let_def split_beta split: bool.splits option.splits)
qed

lemma server_write_started:
  assumes fresh: "server_write_fresh D sink s0" and c1: "server_write_set s1"
    and s1: "ended (trace s1) \<or> server_same_frame s0 s1"
  shows "server_write_safe ready contents
    (final (block [ServerWrite_start_handler D, server_write_respond H N D] s1))"
proof -
  obtain h1 where h1: "sw_dataHandlerV s1 = Some h1" using c1 by blast
  show ?thesis
  proof (cases "rh_start D h1")
    case (Inl eh)
    then have "ended (trace s1)"
      using s1 fresh h1 by (cases eh) (auto simp: server_write_fresh_def server_frame_more_write(1))
    with Inl h1 show ?thesis
      by (cases eh) (simp add: ServerWrite_start_handler_def server_write_safe_def block.simps)
  next
    case (Inr h)
    let ?s2 = "s1\<lparr>sw_dataHandlerV := Some h\<rparr>"
    have "server_write_ready ready contents ?s2"
      using s1
    proof
      assume f: "server_same_frame s0 s1"
      with fresh h1 have "sink h1" by (auto simp: server_write_fresh_def server_frame_more_write [OF f])
      from start_sink [OF this Inr] fresh show ?thesis
        by (simp add: server_write_ready_def server_write_fresh_def server_frame_more_write [OF f])
    qed (simp add: server_write_ready_def)
    moreover have "block [ServerWrite_start_handler D, server_write_respond H N D] s1 =
        server_write_respond H N D ?s2"
      using h1 Inr by (simp add: ServerWrite_start_handler_def block.simps split: sum.split)
    ultimately show ?thesis
      using server_write_respond_safe [of ?s2] by simp
  qed
qed

lemma server_write_data_start:
  assumes fresh: "server_write_fresh D sink s0"
    and start: "ServerWrite_start H N D s0 = Inr s" and "\<not> ended (trace s)"
  shows "server_write_data None ready contents s"
proof -
  let ?F = "ServerWrite_finished N D"
  have c0: "server_write_set s0" using fresh by (auto simp: server_write_fresh_def split: option.splits)
  then have start': "try_catch is_exception (try_catch is_tftp_exception
      (block [ServerOperation_initialise N ?F, ServerWrite_start_handler D, server_write_respond H N D]) (block []))
      (?F CommunicationError None) s0 = Inr s"
    using start ServerWrite_start_respond [of s0 _ H N D] by auto
  have "server_write_safe ready contents s"
    using start' assms(3) c0
  proof (rule server_write_frame.start_establishes)
    show "no_tftp (?F status info)" for status info
      by (simp add: ServerWrite_finished_def no_tftp_noexcept)
    fix s1 assume s1: "server_write_set s1" "ended (trace s1) \<or> server_same_frame s0 s1"
    show "server_write_safe ready contents
        (final (block [ServerWrite_start_handler D, server_write_respond H N D] s1))"
      by (rule server_write_started [OF fresh s1])
  qed (rule server_frame_ended_Inr [OF server_write_safe_frame])
  with assms(3) show ?thesis by (simp add: server_write_safe_def)
qed

lemma server_write_reachable_data:
  assumes "server_write_reachable H N D s0 s" and "raw_data H" and "server_write_fresh D sink s0"
  shows "server_write_data None ready contents s"
  using assms(1)
proof induction
  case (started s)
  then show ?case by (rule server_write_data_start [OF assms(3)])
next
  case (step s input)
  then show ?case by (intro server_write_data_on [OF assms(2)])
qed

end

subsection \<open>The property\<close>


text \<open>A started upload.\<close>

definition example_server_write :: "memory_file server_write" where
  "example_server_write = server_waiting TimeoutNormal (server_sent_ack big_endian_helper (BlockNumber 0)
     ((server_opened memory_server_write)\<lparr>sw_dataHandlerV := Some MemoryFile_receive\<rparr>))"

lemma example_server_write_start:
  "ServerWrite_start big_endian_helper quiet_net memory_receiver memory_server_write = Inr example_server_write"
  unfolding example_server_write_def
  by (rule ServerWrite_start_plain [where ?h0.0 = MemoryFile_receive]) (simp_all add: new_simps)

lemma example_server_write_reachable:
  "server_write_reachable big_endian_helper quiet_net memory_receiver memory_server_write example_server_write"
proof -
  have "\<not> ended (trace example_server_write)"
    by (simp add: example_server_write_def server_waiting_def new_simps ended_def)
  then show ?thesis by (rule server_write_reachable.started [OF example_server_write_start])
qed


end
