(* ===== verification/ServerOperationProperties.thy ===== *)
theory ServerOperationProperties
  imports ServerFrames Instances
begin

text \<open>
  The properties of the base class of the server operations and of their start: retransmission,
  the size of the receive buffer, and a data handler that does not start.
\<close>

subsection \<open>Retransmission\<close>



subsection \<open>Receive buffer\<close>

lemma buffer_size:
  assumes "b \<le> 65531"
  shows "unat (DefaultTftpDataPacketHeaderSize + max DefaultDataSize b) = 4 + max 512 (unat b)"
proof -
  have "unat b \<le> 65531"
    using assms word_le_nat_alt [of b 65531] by simp
  then have "unat (DefaultTftpDataPacketHeaderSize + b) = 4 + unat b"
    by (simp add: DefaultTftpDataPacketHeaderSize_def unat_word_ariths)
  then show ?thesis
    using word_le_nat_alt [of "512 :: u16" b]
    by (auto simp: max_def DefaultDataSize_def DefaultTftpDataPacketHeaderSize_def)
qed

text \<open>C36: The receive buffer that a configuration reserves holds every DATA packet of a size that can be
  negotiated with it, with header, on both sides: the 16-bit sum does not wrap up to a block
  size of 65531, and so for every block size RFC 2348 allows.\<close>

theorem receive_buffer_fits:
  assumes "raw_data H" and "case oc_blockSizeOption cfg of None \<Rightarrow> n = DefaultDataSize
      | Some b \<Rightarrow> b \<le> 65531 \<and> n \<le> max DefaultDataSize b"
    and "length (dp_data p) \<le> unat n"
    and "ClientRead_optionsConfiguration cfg c = Inr c'" and "ServerWrite_optionsConfiguration cfg s = Inr s'"
  shows "length (Packet_encode H (DATA p)) \<le> co_receivePacketSize c' \<and>
    length (Packet_encode H (DATA p)) \<le> so_receivePacketSize s'"
proof -
  define b where "b = (case oc_blockSizeOption cfg of None \<Rightarrow> DefaultDataSize | Some b \<Rightarrow> b)"
  have b: "b \<le> 65531" "n \<le> max DefaultDataSize b"
    using assms(2) by (auto simp: b_def DefaultDataSize_def split: option.splits)
  have "unat n \<le> max 512 (unat b)"
    using b(2) by (auto simp: max_def DefaultDataSize_def word_le_nat_alt split: if_splits)
  moreover have "co_receivePacketSize c' = 4 + max 512 (unat b)" "so_receivePacketSize s' = 4 + max 512 (unat b)"
    using assms(4,5) buffer_size [OF b(1)]
    by (auto simp: ClientRead_optionsConfiguration_def ServerWrite_optionsConfiguration_def b_def
        ClientOperation_maxReceivePacketSize_def ServerOperation_maxReceivePacketSize_def cmd_simps)
  moreover have "length (Packet_encode H (DATA p)) = 4 + length (dp_data p)"
    using raw_data.length_setInt [OF assms(1)]
    by (simp add: DataPacket_encode_eq [OF assms(1)])
  ultimately show ?thesis using assms(3) by linarith
qed

theorem receive_buffer_fits_witness:
  "\<exists>c' s'. ClientRead_optionsConfiguration (TftpOptionsConfiguration_default\<lparr>oc_blockSizeOption := Some 1428\<rparr>)
       memory_client_read = Inr c' \<and>
     ServerWrite_optionsConfiguration (TftpOptionsConfiguration_default\<lparr>oc_blockSizeOption := Some 1428\<rparr>)
       memory_server_write = Inr s' \<and>
     length (Packet_encode big_endian_helper (DATA \<lparr>dp_blockNumber = BlockNumber 1, dp_data = replicate 1024 7\<rparr>))
       \<le> min (co_receivePacketSize c') (so_receivePacketSize s')"
proof -
  let ?cfg = "TftpOptionsConfiguration_default\<lparr>oc_blockSizeOption := Some 1428\<rparr>"
  obtain c' s' where *: "ClientRead_optionsConfiguration ?cfg memory_client_read = Inr c'"
      "ServerWrite_optionsConfiguration ?cfg memory_server_write = Inr s'"
    by (simp add: ClientRead_optionsConfiguration_def ServerWrite_optionsConfiguration_def
        ClientOperation_maxReceivePacketSize_def ServerOperation_maxReceivePacketSize_def cmd_simps)
  from receive_buffer_fits [OF big_endian.raw_data_axioms _ _ this, where n = 1024
      and p = "\<lparr>dp_blockNumber = BlockNumber 1, dp_data = replicate 1024 7\<rparr>"] * show ?thesis
    by (intro exI [of _ c'] exI [of _ s'])
      (simp add: TftpOptionsConfiguration_default_def DefaultDataSize_def max_def)
qed

subsection \<open>A data handler that does not start\<close>

text \<open>What is asked of the network: nothing is to be received, and no timer runs.\<close>

abbreviation awaits_nothing :: "event list \<Rightarrow> bool" where
  "awaits_nothing tr \<equiv> (\<forall>c ok. Called c ok \<in> set tr \<longrightarrow> (\<forall>n w. c \<noteq> AsyncReceive n \<and> c \<noteq> AsyncWait w))"

lemma server_opened_trace:
  "\<exists>tr. trace (server_opened s) = trace s @ tr \<and> \<not> ended tr \<and> sent tr = [] \<and> completions tr = [] \<and>
     awaits_nothing tr"
  by (cases "is_unspecified (ep_address (so_localV s))") (auto simp: ended_def)

text \<open>A server operation whose data handler throws a \<open>TftpException\<close> in \<open>start\<close>, as \<open>StreamFile\<close>
  does for a file it cannot open, is left as it is: \<open>start\<close> returns normally after opening the
  socket. Nothing was sent to the client, no completion was reported, the data handler is not
  told that the operation is over, and neither a reception nor a timer was started, so that
  nothing will ever happen to the operation by itself. This holds on both sides.\<close>

theorem server_start_failure:
  assumes "never_fails N" and "sr_dataHandlerV s = Some h" and "th_start S h = Inl (TftpEx, h')"
    and "sw_dataHandlerV r = Some g" and "rh_start D g = Inl (TftpEx, g')"
  shows "(\<exists>s' tr. ServerRead_start H N S s = Inr s' \<and> trace s' = trace s @ tr \<and> \<not> ended tr \<and> sent tr = [] \<and>
      completions tr = [] \<and> sr_dataHandlerV s' = Some h' \<and>
      awaits_nothing tr) \<and>
    (\<exists>r' tr. ServerWrite_start H N D r = Inr r' \<and> trace r' = trace r @ tr \<and> \<not> ended tr \<and> sent tr = [] \<and>
      completions tr = [] \<and> sw_dataHandlerV r' = Some g' \<and>
      awaits_nothing tr)"
proof -
  define s' where "s' = (server_opened s)\<lparr>sr_dataHandlerV := Some h'\<rparr>"
  define r' where "r' = (server_opened r)\<lparr>sw_dataHandlerV := Some g'\<rparr>"
  have "ServerRead_start H N S s = Inr s'" "ServerWrite_start H N D r = Inr r'"
    using assms
    by (simp_all add: s'_def r'_def ServerRead_start_def ServerRead_start_handler_def ServerWrite_start_def
        ServerWrite_start_handler_def try_catch_def is_tftp_exception_def cmd_simps Let_def)
  moreover have "trace s' = trace (server_opened s)" "trace r' = trace (server_opened r)"
      "sr_dataHandlerV s' = Some h'" "sw_dataHandlerV r' = Some g'"
    by (simp_all add: s'_def r'_def)
  moreover obtain tr1 where "trace (server_opened s) = trace s @ tr1" "\<not> ended tr1" "sent tr1 = []"
      "completions tr1 = []" "awaits_nothing tr1"
    using server_opened_trace [of s] by blast
  moreover obtain tr2 where "trace (server_opened r) = trace r @ tr2" "\<not> ended tr2" "sent tr2 = []"
      "completions tr2 = []" "awaits_nothing tr2"
    using server_opened_trace [of r] by blast
  ultimately show ?thesis
    by (intro conjI, intro exI [of _ s'] exI [of _ tr1], simp only: simp_thms,
      intro exI [of _ r'] exI [of _ tr2], simp only: simp_thms)
qed

definition closed_file :: "file_operation \<Rightarrow> stream_file" where
  "closed_file operation = StreamFile_make operation [''f''] None False []"

theorem server_start_failure_witness:
  "\<exists>s'. ServerRead_start big_endian_helper quiet_net stream_transmitter
      ((ServerRead_new no_world)\<lparr>so_remoteV := host 2 1024, so_completionHandlerV := True,
         sr_dataHandlerV := Some (closed_file Transmit)\<rparr>) = Inr s' \<and>
    sent (trace s') = [] \<and> completions (trace s') = [] \<and> \<not> ended (trace s')"
proof -
  let ?s = "(ServerRead_new no_world)\<lparr>so_remoteV := host 2 1024, so_completionHandlerV := True,
         sr_dataHandlerV := Some (closed_file Transmit)\<rparr>"
  let ?r = "(ServerWrite_new no_world)\<lparr>sw_dataHandlerV := Some (closed_file Receive)\<rparr>"
  have "th_start stream_transmitter (closed_file Transmit) = Inl (TftpEx, (closed_file Transmit)\<lparr>sf_fail := True\<rparr>)"
    "rh_start stream_receiver (closed_file Receive) = Inl (TftpEx, (closed_file Receive)\<lparr>sf_fail := True\<rparr>)"
    by (simp_all add: stream_transmitter_def stream_receiver_def StreamFile_start_def fstream_open_def
        closed_file_def StreamFile_make_def cmd_simps)
  from server_start_failure [OF _ _ this(1) _ this(2), of quiet_net ?s ?r big_endian_helper]
  show ?thesis by (auto simp: new_simps)
qed

end
