(* ===== verification/CheckFilename.thy ===== *)
theory CheckFilename
  imports Prelude
begin

text \<open>
  \<open>servers/Servers.cpp\<close>: \<open>checkFilename\<close>, which keeps a requested file name within the base
  directory. The functions of \<open>std::filesystem\<close> that look at the disk are parameters. A path
  is the sequence of its elements, as its iterators yield them.
\<close>

text \<open>
  \<open>canonical\<close> and \<open>weakly_canonical\<close> return a path or set the error code; \<open>is_regular_file\<close>
  may return \<open>false\<close> with the error code set or without. \<open>append\<close> is the operator \<open>/\<close>.
\<close>

record filesystem =
  fs_canonical :: "path \<Rightarrow> path option"
  fs_weakly_canonical :: "path \<Rightarrow> path option"
  fs_append :: "path \<Rightarrow> path \<Rightarrow> path"
  fs_is_regular_file :: "path \<Rightarrow> bool \<times> bool"

text \<open>
  \<open>std::equal( first1, last1, first2 )\<close>: it stops at the first difference, and it reads past
  the end of a second range that ends before one is found, which is undefined.
\<close>

fun std_equal :: "path \<Rightarrow> path \<Rightarrow> exn + bool" where
  "std_equal [] ys = Inr True"
| "std_equal (x # xs) [] = Inl Undefined"
| "std_equal (x # xs) (y # ys) = (if x = y then std_equal xs ys else Inr False)"

definition checkFilename :: "'a filesystem_scheme \<Rightarrow> path \<Rightarrow> path \<Rightarrow> bool \<Rightarrow> exn + path option" where
  "checkFilename FS baseDir filename mustExist =
     (case fs_canonical FS baseDir of
        None \<Rightarrow> Inr None
      | Some canonicalBaseDir \<Rightarrow>
          (case fs_weakly_canonical FS (fs_append FS canonicalBaseDir filename) of
             None \<Rightarrow> Inr None
           | Some filePath \<Rightarrow>
               (case std_equal canonicalBaseDir filePath of
                  Inl e \<Rightarrow> Inl e
                | Inr inside \<Rightarrow>
                    if \<not> inside then Inr None
                    else let (regular, errorCode) = fs_is_regular_file FS filePath
                      in if mustExist \<and> \<not> regular \<and> errorCode then Inr None
                         else Inr (Some filePath))))"

lemma std_equal_prefix: "std_equal xs ys = Inr True \<longleftrightarrow> take (length xs) ys = xs \<and> length xs \<le> length ys"
  by (induction xs ys rule: std_equal.induct) auto

lemma std_equal_undefined: "std_equal xs ys = Inl e \<longleftrightarrow> e = Undefined \<and> length ys < length xs \<and> take (length ys) xs = ys"
  by (induction xs ys rule: std_equal.induct) auto

lemma std_equal_prefixed: "std_equal xs ys = Inr True \<longleftrightarrow> (\<exists>rest. ys = xs @ rest)"
  by (induction xs ys rule: std_equal.induct) auto

lemma std_equal_proper: "std_equal xs ys = Inl e \<longleftrightarrow> e = Undefined \<and> (\<exists>r rest. xs = ys @ r # rest)"
  by (induction xs ys rule: std_equal.induct) auto

lemma checkFilename_within:
  assumes "checkFilename FS baseDir filename mustExist = Inr (Some filePath)"
  shows "\<exists>base below. fs_canonical FS baseDir = Some base \<and>
    fs_weakly_canonical FS (fs_append FS base filename) = Some (base @ below)"
  using assms std_equal_prefixed
  by (auto simp: checkFilename_def Let_def split: option.splits sum.splits if_splits prod.splits)

text \<open>C27: A path is accepted exactly when it resolves to the base directory or to something below it
  and, if it must exist, the file system does not report an error for it: no request names a
  file outside the base directory. Nothing is returned, and the behaviour is undefined,
  exactly when it resolves to a directory above the base directory.\<close>

theorem checkFilename_contained:
  "(checkFilename FS baseDir filename mustExist = Inr (Some filePath) \<longleftrightarrow>
     (\<exists>base rest. fs_canonical FS baseDir = Some base \<and>
        fs_weakly_canonical FS (fs_append FS base filename) = Some filePath \<and> filePath = base @ rest \<and>
        (mustExist \<longrightarrow> fst (fs_is_regular_file FS filePath) \<or> \<not> snd (fs_is_regular_file FS filePath)))) \<and>
   (checkFilename FS baseDir filename mustExist = Inl e \<longleftrightarrow>
     e = Undefined \<and> (\<exists>above r rest. fs_canonical FS baseDir = Some (above @ r # rest) \<and>
        fs_weakly_canonical FS (fs_append FS (above @ r # rest) filename) = Some above))"
proof (cases "fs_canonical FS baseDir")
  case None
  then show ?thesis by (simp add: checkFilename_def)
next
  case (Some base)
  show ?thesis
  proof (cases "fs_weakly_canonical FS (fs_append FS base filename)")
    case None
    with Some show ?thesis by (auto simp: checkFilename_def)
  next
    case (Some path)
    with \<open>fs_canonical FS baseDir = Some base\<close> show ?thesis
      using std_equal_prefixed [of base path] std_equal_proper [of base path e]
      by (cases "std_equal base path")
        (auto simp: checkFilename_def Let_def split: prod.split if_splits)
  qed
qed

definition example_disk :: filesystem where
  "example_disk = \<lparr>fs_canonical = Some,
     fs_weakly_canonical = (\<lambda>p. Some (if last p = ''..'' then butlast (butlast p) else p)),
     fs_append = (@), fs_is_regular_file = (\<lambda>p. (True, False))\<rparr>"

theorem checkFilename_contained_witness:
  "checkFilename example_disk [''srv'', ''tftp''] [''boot'', ''x''] True = Inr (Some [''srv'', ''tftp'', ''boot'', ''x'']) \<and>
   checkFilename example_disk [''srv'', ''tftp''] [''..''] True = Inl Undefined"
proof
  show "checkFilename example_disk [''srv'', ''tftp''] [''boot'', ''x''] True = Inr (Some [''srv'', ''tftp'', ''boot'', ''x''])"
    using checkFilename_contained [of example_disk "[''srv'', ''tftp'']" "[''boot'', ''x'']" True
        "[''srv'', ''tftp'', ''boot'', ''x'']" Undefined]
    by (simp add: example_disk_def)
  have "\<exists>above r rest. fs_canonical example_disk [''srv'', ''tftp''] = Some (above @ r # rest) \<and>
      fs_weakly_canonical example_disk (fs_append example_disk (above @ r # rest) [''..'']) = Some above"
    by (intro exI [of _ "[''srv'']"] exI [of _ "''tftp''"] exI [of _ "[]"]) (simp add: example_disk_def)
  then show "checkFilename example_disk [''srv'', ''tftp''] [''..''] True = Inl Undefined"
    using checkFilename_contained [of example_disk "[''srv'', ''tftp'']" "[''..'']" True "[]" Undefined]
    by blast
qed

end
