(* ===== verification/ServerProperties.thy ===== *)
theory ServerProperties
  imports Server CheckFilename Instances
begin

text \<open>
  The properties of the listening server and of its file name check: what becomes of a
  request, that the server goes on listening, and what happens when it has no request handler.
\<close>

subsection \<open>Requests\<close>

lemma Options_getOption_bound:
  fixes mn mx v :: "'a::len word"
  assumes "snd (fst (Options_getOption opts name mn mx)) = Some v" and "LENGTH('a) \<le> 64"
  shows "mn \<le> v \<and> v \<le> mx"
  using Options_getOption_bounds [OF _ assms(2), of opts name mn mx "fst (fst (Options_getOption opts name mn mx))" v]
    assms(1) by (metis prod.collapse)

lemma ServerImpl_tftpOptions_bounds:
  "to_blockSize (fst (ServerImpl_tftpOptions opts)) = Some v \<Longrightarrow> BlockSizeOptionMin \<le> v \<and> v \<le> BlockSizeOptionMax"
  "to_timeout (fst (ServerImpl_tftpOptions opts)) = Some t \<Longrightarrow> TimeoutOptionMin \<le> t"
  by (auto simp: ServerImpl_tftpOptions_def Let_def split_beta dest: Options_getOption_bound)

lemma ServerImpl_tftpOptions_rest:
  "map_find (snd (ServerImpl_tftpOptions opts)) name =
     (if \<exists>k. name = TftpOptions_name k then None else map_find opts name)"
proof -
  have rest: "snd (ServerImpl_tftpOptions opts) =
    map_erase (TftpOptions_name TransferSize) (map_erase (TftpOptions_name TransferSize)
      (map_erase (TftpOptions_name Timeout) (map_erase (TftpOptions_name Timeout)
        (map_erase (TftpOptions_name BlockSize) (map_erase (TftpOptions_name BlockSize) opts)))))"
    using Options_getOption_rest by (auto simp: ServerImpl_tftpOptions_def Let_def split_beta)
  have "(\<exists>k. name = TftpOptions_name k) \<longleftrightarrow> name = TftpOptions_name BlockSize \<or>
      name = TftpOptions_name Timeout \<or> name = TftpOptions_name TransferSize"
    by (metis known_option.exhaust)
  then show ?thesis
    unfolding rest by (simp add: find_map_erase)
qed

abbreviation request_packet_of :: "request_type \<Rightarrow> request_packet \<Rightarrow> packet" where
  "request_packet_of t r \<equiv> (case t of Read \<Rightarrow> RRQ r | Write \<Rightarrow> WRQ r)"

text \<open>The state in which the request handler is called.\<close>

definition server_requested ::
    "endpoint \<Rightarrow> request_type \<Rightarrow> request_packet \<Rightarrow> tftp_options \<Rightarrow> options \<Rightarrow> 'a server_scheme \<Rightarrow> 'a server_scheme" where
  "server_requested sender t r opts rest s =
     s\<lparr>sv_remoteEndpointV := sender,
       trace := trace s @ [Requested sender t (rq_filename r) (rq_mode r) opts rest]\<rparr>"

text \<open>After it: the datagram has been counted and the next reception is started.\<close>

definition server_listens_again :: "packet_type \<Rightarrow> nat \<Rightarrow> 'a server_scheme \<Rightarrow> 'a server_scheme" where
  "server_listens_again t n s =
     (counted t n s)\<lparr>trace := trace s @ [Called (AsyncReceiveFrom (sv_receivePacketSize s)) True]\<rparr>"

lemma receiveHandler_dispatched:
  assumes "never_fails N"
    and "PacketHandler_packet H (ServerImpl_handlers H N R) sender raw (s\<lparr>sv_remoteEndpointV := sender\<rparr>) =
      Inr (counted t n s1)"
  shows "ServerImpl_receiveHandler H N R NoError sender raw s = Inr (server_listens_again t n s1)"
  using assms
  by (simp add: ServerImpl_receiveHandler_def ServerImpl_receive_def server_listens_again_def cmd_simps counted_def)

lemma receiveHandler_request:
  assumes "raw_data H" and "never_fails N" and "wf_request r" and "sv_requestHandlerV s"
    and "ServerImpl_tftpOptions (rq_options r) = (opts, rest)"
    and "R sender t (rq_filename r) (rq_mode r) opts rest (server_requested sender t r opts rest s) = Inr s1"
  shows "ServerImpl_receiveHandler H N R NoError sender (Packet_encode H (request_packet_of t r)) s =
    Inr (server_listens_again (packet_packetType (request_packet_of t r))
      (length (Packet_encode H (request_packet_of t r))) s1)"
proof (rule receiveHandler_dispatched [OF assms(2)])
  have "call_handler (ServerImpl_handlers H N R) sender (request_packet_of t r) (s\<lparr>sv_remoteEndpointV := sender\<rparr>) =
      Inr s1"
    using assms(4-6)
    by (cases t) (simp_all add: ServerImpl_handlers_def ServerImpl_readRequestPacket_def
        ServerImpl_writeRequestPacket_def call_requestHandler_def server_requested_def cmd_simps)
  from PacketHandler_packet_encode [OF assms(1) _ this] assms(3)
  show "PacketHandler_packet H (ServerImpl_handlers H N R) sender (Packet_encode H (request_packet_of t r))
      (s\<lparr>sv_remoteEndpointV := sender\<rparr>) =
    Inr (counted (packet_packetType (request_packet_of t r)) (length (Packet_encode H (request_packet_of t r))) s1)"
    by (cases t) simp_all
qed

text \<open>C25: A request that arrives at the listening server is handed to the request handler exactly
  once, with the sender, its file name and mode; after what the handler does, the server listens
  again. The known options come decoded and within their limits; the others are passed on as
  received. The server itself sends nothing.\<close>

theorem server_hands_over_request:
  assumes "raw_data H" and "never_fails N" and "wf_request r" and "sv_requestHandlerV s"
    and "ServerImpl_tftpOptions (rq_options r) = (opts, rest)"
    and "R sender t (rq_filename r) (rq_mode r) opts rest (server_requested sender t r opts rest s) = Inr s1"
  shows "(\<exists>s'. ServerImpl_receiveHandler H N R NoError sender (Packet_encode H (request_packet_of t r)) s = Inr s' \<and>
      server.more s' = server.more s1 \<and>
      trace s' = trace s1 @ [Called (AsyncReceiveFrom (sv_receivePacketSize s1)) True]) \<and>
    (\<forall>v. to_blockSize opts = Some v \<longrightarrow> BlockSizeOptionMin \<le> v \<and> v \<le> BlockSizeOptionMax) \<and>
    (\<forall>v. to_timeout opts = Some v \<longrightarrow> TimeoutOptionMin \<le> v) \<and>
    (\<forall>name. map_find rest name =
      (if \<exists>k. name = TftpOptions_name k then None else map_find (rq_options r) name))"
  using receiveHandler_request [where R = R and sender = sender and t = t, OF assms] ServerImpl_tftpOptions_bounds [of "rq_options r"]
    ServerImpl_tftpOptions_rest [of "rq_options r"] assms(5)
  by (simp add: server_listens_again_def counted_def)

text \<open>A listening server, and a request handler that is not interested in anything.\<close>

definition listening_server :: "bool \<Rightarrow> server" where
  "listening_server f = final (ServerImpl_requestHandler f (ServerImpl_new no_world))"

lemma listening_server_eq [simp]: "listening_server f = (ServerImpl_new no_world)\<lparr>sv_requestHandlerV := f\<rparr>"
  by (simp add: listening_server_def ServerImpl_requestHandler_def cmd_simps)

definition bored_handler :: "'s request_handler" where
  "bored_handler remote t name mode opts rest = block []"

abbreviation example_request :: request_packet where
  "example_request \<equiv> \<lparr>rq_filename = ''f'', rq_mode = OCTET, rq_options = []\<rparr>"

lemma example_request:
  "wf_request example_request" "ServerImpl_tftpOptions (rq_options example_request) = (no_tftp_options, [])"
  by (simp_all add: wf_request_def wf_options_def is_map_def ServerImpl_tftpOptions_def Options_getOption_def
      map_extract_def map_erase_def no_tftp_options_def)

theorem server_hands_over_request_witness:
  "\<exists>s'. ServerImpl_receiveHandler big_endian_helper quiet_net bored_handler NoError (host 2 1024)
      (Packet_encode big_endian_helper (RRQ example_request)) (listening_server True) = Inr s' \<and>
    hd (trace s') = Requested (host 2 1024) Read ''f'' OCTET no_tftp_options []"
proof -
  define s where "s = listening_server True"
  have s: "sv_requestHandlerV s" "trace s = []"
    by (simp_all add: s_def ServerImpl_new_def no_world_def)
  show ?thesis
    using server_hands_over_request [OF big_endian.raw_data_axioms never_fails_quiet_net example_request(1) s(1)
        example_request(2), of bored_handler "host 2 1024" Read] s(2)
    unfolding s_def [symmetric] by (auto simp: bored_handler_def server_requested_def cmd_simps)
qed

subsection \<open>Listening\<close>

text \<open>What the dispatch of a datagram leaves of a server whose request handler, in the state its
  user is in, throws at most TFTP exceptions and sends at most one packet.\<close>

definition listens_on :: "'a server_scheme \<Rightarrow> 'a server_scheme result \<Rightarrow> bool" where
  "listens_on s r \<longleftrightarrow>
     (case r of Inl (e, s') \<Rightarrow> is_tftp_exception e | Inr s' \<Rightarrow> True) \<and>
     sv_receivePacketSize (final r) = sv_receivePacketSize s \<and>
     (\<exists>tr. trace (final r) = trace s @ tr \<and> length (sent tr) \<le> 1)"

definition lets_listen :: "'a \<Rightarrow> 'a server_scheme request_handler \<Rightarrow> bool" where
  "lets_listen x R \<longleftrightarrow>
     (\<forall>remote t name mode opts rest s. server.more s = x \<longrightarrow> listens_on s (R remote t name mode opts rest s))"

lemma block_one:
  "block [\<lambda>s. if \<not> sv_requestHandlerV s then c s else block [] s, d] s =
     (if \<not> sv_requestHandlerV s then block [c, d] s else d s)"
  by (simp add: block.simps split: sum.split)

lemma errorOperation_listens:
  "never_fails N \<Longrightarrow> listens_on s (ServerImpl_errorOperation H N remote code msg s)"
  by (simp add: listens_on_def ServerImpl_errorOperation_def Let_def try_catch_def cmd_simps)

lemma requestHandler_listens:
  assumes "sv_requestHandlerV s" and "lets_listen (server.more s) R"
  shows "listens_on s (call_requestHandler R remote t name mode opts rest s)"
proof -
  let ?s = "s\<lparr>trace := trace s @ [Requested remote t name mode opts rest]\<rparr>"
  have "listens_on ?s (R remote t name mode opts rest ?s)" using assms(2) by (simp add: lets_listen_def)
  then show ?thesis
    using assms(1)
    by (cases "R remote t name mode opts rest ?s")
      (auto simp: listens_on_def call_requestHandler_def block.simps modify_apply)
qed

lemma handlers_listen:
  assumes "never_fails N" and "sv_requestHandlerV s" and "lets_listen (server.more s) R"
  shows "listens_on s (call_handler (ServerImpl_handlers H N R) remote p s)"
proof (cases p)
  case (RRQ r)
  then show ?thesis
    using requestHandler_listens [OF assms(2,3)] assms(2)
    by (simp add: ServerImpl_handlers_def ServerImpl_readRequestPacket_def block_one split_beta)
next
  case (WRQ r)
  then show ?thesis
    using requestHandler_listens [OF assms(2,3)] assms(2)
    by (simp add: ServerImpl_handlers_def ServerImpl_writeRequestPacket_def block_one split_beta)
qed (use errorOperation_listens [OF assms(1)] in \<open>simp_all add: ServerImpl_handlers_def
    ServerImpl_dataPacket_def ServerImpl_acknowledgementPacket_def ServerImpl_errorPacket_def
    ServerImpl_optionsAcknowledgementPacket_def\<close>)

lemma dispatch_listens:
  assumes "raw_data H" and "never_fails N" and "sv_requestHandlerV s" and "lets_listen (server.more s) R"
  shows "listens_on s (PacketHandler_packet H (ServerImpl_handlers H N R) remote raw s)"
proof (cases "Packet_decode H raw")
  case (Inl e)
  then show ?thesis
    by (simp add: PacketHandler_packet_undecodable [OF assms(1) Inl] listens_on_def ServerImpl_handlers_def cmd_simps)
next
  case (Inr p)
  from handlers_listen [OF assms(2-4), of H remote p] show ?thesis
    unfolding PacketHandler_packet_decoded [OF Inr]
    by (auto simp: listens_on_def try_catch_def block.simps count_receive_apply ServerImpl_handlers_def
        split: sum.splits)
qed

text \<open>Whatever datagram arrives, from whomever, the server goes on listening: its handler returns,
  at most one packet is sent (the rejection of something that is not a request, or one by the
  request handler), and the next reception is started. The request handler may even throw a
  TFTP exception.\<close>

theorem receiveHandler_keeps_listening:
  assumes "raw_data H" and "never_fails N" and "sv_requestHandlerV s" and "lets_listen (server.more s) R"
  shows "\<exists>s' tr. ServerImpl_receiveHandler H N R NoError sender raw s = Inr s' \<and>
    trace s' = trace s @ tr @ [Called (AsyncReceiveFrom (sv_receivePacketSize s)) True] \<and> length (sent tr) \<le> 1"
proof -
  let ?s = "s\<lparr>sv_remoteEndpointV := sender\<rparr>"
  have "listens_on ?s (PacketHandler_packet H (ServerImpl_handlers H N R) sender raw ?s)"
    using assms(3,4) by (intro dispatch_listens [OF assms(1,2)]) simp_all
  then show ?thesis
    using assms(2)
    by (cases "PacketHandler_packet H (ServerImpl_handlers H N R) sender raw ?s")
      (auto simp: listens_on_def ServerImpl_receiveHandler_def ServerImpl_receive_def try_catch_def cmd_simps)
qed

definition unwilling_handler :: "'s request_handler" where
  "unwilling_handler remote t name mode opts rest = throw TftpEx"

lemma unwilling_handler_listens: "lets_listen x unwilling_handler"
  by (simp add: lets_listen_def listens_on_def unwilling_handler_def throw_apply is_tftp_exception_def)

theorem receiveHandler_keeps_listening_witness:
  "\<exists>s'. ServerImpl_receiveHandler big_endian_helper quiet_net unwilling_handler NoError (host 2 1024) [0, 3, 0, 7]
      (listening_server True) = Inr s' \<and> length (sent (trace s')) \<le> 1"
proof -
  define s where "s = listening_server True"
  have s: "sv_requestHandlerV s" "trace s = []"
    by (simp_all add: s_def ServerImpl_new_def no_world_def)
  show ?thesis
    using receiveHandler_keeps_listening [OF big_endian.raw_data_axioms never_fails_quiet_net s(1) unwilling_handler_listens,
        of "host 2 1024" "[0, 3, 0, 7]"] s(2)
    unfolding s_def [symmetric] by auto
qed

text \<open>A server without a request handler does not survive a request: it sends the rejection, goes
  on to call the empty handler, and the exception of that call leaves the completion handler
  of the reception. No further reception is started.\<close>

theorem server_without_request_handler:
  assumes "raw_data H" and "never_fails N" and "wf_request r" and "\<not> sv_requestHandlerV s"
  shows "\<exists>s' tr. ServerImpl_receiveHandler H N R NoError sender (Packet_encode H (request_packet_of t r)) s =
      Inl (BadFunctionCall, s') \<and>
    trace s' = trace s @ tr \<and> length (sent tr) = 1 \<and>
    (\<forall>n ok. Called (AsyncReceiveFrom n) ok \<notin> set tr)"
proof -
  let ?s = "s\<lparr>sv_remoteEndpointV := sender\<rparr>"
  define msg where "msg = (case t of Read \<Rightarrow> ''RRQ packet isn't accepted'' | Write \<Rightarrow> ''WRQ'')"
  define raw where "raw = Packet_encode H (ERR \<lparr>ep_errorCode = FileNotFound, ep_errorMessage = msg\<rparr>)"
  define s1 where "s1 = ?s\<lparr>trace := trace s @ [Called (SocketOpen (endpoint_protocol sender)) True,
      Called (SocketConnect sender) True, Called (SocketSend raw) True],
    globalTransmit := PacketStatistic_packet Error (length raw) (globalTransmit s)\<rparr>"
  have "ServerImpl_errorOperation H N sender FileNotFound msg ?s = Inr s1"
    using assms(2)
    by (simp add: ServerImpl_errorOperation_def Let_def try_catch_def cmd_simps raw_def s1_def)
  then have "call_handler (ServerImpl_handlers H N R) sender (request_packet_of t r) ?s = Inl (BadFunctionCall, s1)"
    using assms(4)
    by (cases t) (simp_all add: ServerImpl_handlers_def ServerImpl_readRequestPacket_def
        ServerImpl_writeRequestPacket_def block_one split_beta call_requestHandler_def msg_def s1_def cmd_simps)
  moreover have "Packet_decode H (Packet_encode H (request_packet_of t r)) = Inr (request_packet_of t r)"
    using assms(3) by (intro Packet_decode_encode [OF assms(1)]) (cases t; simp)
  ultimately have "PacketHandler_packet H (ServerImpl_handlers H N R) sender
      (Packet_encode H (request_packet_of t r)) ?s = Inl (BadFunctionCall, s1)"
    by (simp add: PacketHandler_packet_decoded try_catch_def block.simps)
  then show ?thesis
    by (simp add: ServerImpl_receiveHandler_def try_catch_def is_tftp_exception_def block.simps modify_apply s1_def)
qed

theorem server_without_request_handler_witness:
  "\<exists>s'. ServerImpl_receiveHandler big_endian_helper quiet_net bored_handler NoError (host 2 1024)
      (Packet_encode big_endian_helper (RRQ example_request)) (listening_server False) =
    Inl (BadFunctionCall, s') \<and> length (sent (trace s')) = 1"
proof -
  define s where "s = listening_server False"
  have s: "\<not> sv_requestHandlerV s" "trace s = []"
    by (simp_all add: s_def ServerImpl_new_def no_world_def)
  show ?thesis
    using server_without_request_handler [OF big_endian.raw_data_axioms never_fails_quiet_net example_request(1) s(1),
        of bored_handler "host 2 1024" Read] s(2)
    unfolding s_def [symmetric] by auto
qed

end
