(* ===== verification/Client.thy ===== *)
theory Client
  imports ClientRead ClientWrite
begin

text \<open>
  \<open>clients/implementation/ClientImpl.cpp\<close>: the factory of client operations, which gives them
  the configured defaults.
\<close>

record client =
  cl_tftpTimeoutDefaultV :: "int option"
  cl_tftpRetriesDefaultV :: "u16 option"
  cl_dallyDefaultV :: "bool option"
  cl_optionsConfigurationDefaultV :: "options_configuration option"
  cl_additionalOptionsV :: options
  cl_localV :: ip_address

definition ClientImpl_new :: client where
  "ClientImpl_new =
     \<lparr>cl_tftpTimeoutDefaultV = None, cl_tftpRetriesDefaultV = None, cl_dallyDefaultV = None,
      cl_optionsConfigurationDefaultV = None, cl_additionalOptionsV = [], cl_localV = V4 0\<rparr>"

definition ClientImpl_tftpTimeoutDefault :: "int \<Rightarrow> client cmd" where
  "ClientImpl_tftpTimeoutDefault timeout = modify (\<lambda>c. c\<lparr>cl_tftpTimeoutDefaultV := Some timeout\<rparr>)"

definition ClientImpl_tftpRetriesDefault :: "u16 \<Rightarrow> client cmd" where
  "ClientImpl_tftpRetriesDefault retries = modify (\<lambda>c. c\<lparr>cl_tftpRetriesDefaultV := Some retries\<rparr>)"

definition ClientImpl_dallyDefault :: "bool \<Rightarrow> client cmd" where
  "ClientImpl_dallyDefault dally = modify (\<lambda>c. c\<lparr>cl_dallyDefaultV := Some dally\<rparr>)"

definition ClientImpl_optionsConfigurationDefault :: "options_configuration \<Rightarrow> client cmd" where
  "ClientImpl_optionsConfigurationDefault cfg =
     modify (\<lambda>c. c\<lparr>cl_optionsConfigurationDefaultV := Some cfg\<rparr>)"

definition ClientImpl_additionalOptions :: "options \<Rightarrow> client cmd" where
  "ClientImpl_additionalOptions opts = modify (\<lambda>c. c\<lparr>cl_additionalOptionsV := opts\<rparr>)"

definition ClientImpl_localDefault :: "ip_address \<Rightarrow> client cmd" where
  "ClientImpl_localDefault local = modify (\<lambda>c. c\<lparr>cl_localV := local\<rparr>)"

definition ClientImpl_readOperation :: "client \<Rightarrow> world \<Rightarrow> 'h client_read result" where
  "ClientImpl_readOperation c w =
     block [
       set_default (cl_tftpTimeoutDefaultV c) ClientOperation_tftpTimeout,
       set_default (cl_tftpRetriesDefaultV c) ClientOperation_tftpRetries,
       set_default (cl_dallyDefaultV c) ClientRead_dally,
       set_default (cl_optionsConfigurationDefaultV c) ClientRead_optionsConfiguration,
       if cl_additionalOptionsV c \<noteq> [] then ClientRead_additionalOptions (cl_additionalOptionsV c)
       else block [],
       if \<not> is_unspecified (cl_localV c)
       then ClientOperation_local \<lparr>ep_address = cl_localV c, ep_port = 0\<rparr> else block []]
     (ClientRead_new w)"

definition ClientImpl_writeOperation :: "client \<Rightarrow> world \<Rightarrow> 'h client_write result" where
  "ClientImpl_writeOperation c w =
     block [
       set_default (cl_tftpTimeoutDefaultV c) ClientOperation_tftpTimeout,
       set_default (cl_tftpRetriesDefaultV c) ClientOperation_tftpRetries,
       set_default (cl_optionsConfigurationDefaultV c) ClientWrite_optionsConfiguration,
       if cl_additionalOptionsV c \<noteq> [] then ClientWrite_additionalOptions (cl_additionalOptionsV c)
       else block [],
       if \<not> is_unspecified (cl_localV c)
       then ClientOperation_local \<lparr>ep_address = cl_localV c, ep_port = 0\<rparr> else block []]
     (ClientWrite_new w)"

end
