(* ===== verification/NegotiatedDownload.thy ===== *)
theory NegotiatedDownload
  imports Download Negotiation
begin

text \<open>
  A download with options, from the client's configuration to the last block. The OACK counts
  as a first packet, acknowledged as block 0; so the numbers of \<open>stop_and_wait\<close> are one higher
  than those of the blocks.
\<close>

definition oack_datagram :: "helper \<Rightarrow> options \<Rightarrow> bytes" where
  "oack_datagram H opts = Packet_encode H (OACK \<lparr>op_options = opts\<rparr>)"

lemma wf_granted_options: "wf_options (granted_options b t)"
  using linorder_less_linear [of "TftpOptions_name Timeout" "TftpOptions_name BlockSize"]
  by (cases b; cases t)
    (auto simp: granted_options_def wf_options_def is_map_try_emplace is_map_def to_string_no_NUL)

subsection \<open>The client\<close>

text \<open>A client that still accepts the options granted to it.\<close>

definition client_agrees ::
    "options_configuration \<Rightarrow> nat \<Rightarrow> nat \<Rightarrow> 'h client_read \<Rightarrow> bool" where
  "client_agrees cfg n i c \<longleftrightarrow>
     i = 0 \<longrightarrow> cr_optionsConfigurationV c = cfg \<and> accepts_no_options (cr_optionNegotiationHandlerV c)"

lemma client_read_agreed_simps [simp]:
  "cr_receiveDataSize (client_read_agreed (Some v) t s) = v"
  "cr_dataHandlerV (client_read_agreed b t s) = cr_dataHandlerV s"
  "cr_lastReceivedBlockNumber (client_read_agreed b t s) = cr_lastReceivedBlockNumber s"
  "cr_dallyV (client_read_agreed b t s) = cr_dallyV s"
  "cr_optionsConfigurationV (client_read_agreed b t s) = cr_optionsConfigurationV s"
  "cr_optionNegotiationHandlerV (client_read_agreed b t s) = cr_optionNegotiationHandlerV s"
  "co_completionHandlerV (client_read_agreed b t s) = co_completionHandlerV s"
  "co_receiveEndpointV (client_read_agreed b t s) = co_receiveEndpointV s"
  "co_remoteV (client_read_agreed b t s) = co_remoteV s"
  "trace (client_read_agreed b t s) = trace s"
  by (simp_all add: client_read_agreed_def Let_def split: option.split)

lemma client_read_settings [simp]:
  "client_read_negotiates (s\<lparr>cr_oackReceived := True\<rparr>)"
  "cr_optionsConfigurationV (counted p n s) = cr_optionsConfigurationV s"
  "cr_optionNegotiationHandlerV (counted p n s) = cr_optionNegotiationHandlerV s"
  "cr_optionsConfigurationV (client_sent H q call s) = cr_optionsConfigurationV s"
  "cr_optionNegotiationHandlerV (client_sent H q call s) = cr_optionNegotiationHandlerV s"
  "cr_optionsConfigurationV (client_connected sender s) = cr_optionsConfigurationV s"
  "cr_optionNegotiationHandlerV (client_connected sender s) = cr_optionNegotiationHandlerV s"
  by (simp_all add: client_read_negotiates_def counted_def client_sent_def Let_def client_connected_def)

lemma client_oack_takes:
  assumes "raw_data H" and N: "never_fails N"
    and cfg: "negotiable client" "negotiable server" "agreed_block client server = Some v"
    and c: "client_reads H sender cc ready contents m xs 0 c"
    and agrees: "cr_optionsConfigurationV c = client" "accepts_no_options (cr_optionNegotiationHandlerV c)"
    and takes: "mc_takes (client_read_machine H N D sender)
      (oack_datagram H (granted_options (Some v) (agreed_timeout client server))) c = (c', out)"
  shows "out = [ack_datagram H 0] \<and> client_reads H sender cc ready contents (unat v) xs 0 c' \<and>
    co_receiveEndpointV c' \<noteq> no_endpoint \<and>
    cr_optionsConfigurationV c' = client \<and> accepts_no_options (cr_optionNegotiationHandlerV c')"
proof -
  obtain h where h: "cr_dataHandlerV c = Some h"
    using c by (auto simp: client_reads_def)
  let ?t = "agreed_timeout client server"
  let ?opts = "granted_options (Some v) ?t"
  define c0 where "c0 = client_connected sender c"
  define c1 where "c1 = client_waiting TimeoutNormal (sent_ack H (BlockNumber 0)
    ((client_read_agreed (Some v) ?t c0)\<lparr>cr_oackReceived := True\<rparr>))"
  have some: "?opts \<noteq> []"
    using find_granted_options [of "Some v" ?t "TftpOptions_name BlockSize"] by (auto simp: map_find_def)
  have "ClientRead_optionsAcknowledgementPacket H N D (co_receiveEndpointV c0) \<lparr>op_options = ?opts\<rparr> c0 = Inr c1"
    unfolding c1_def
    by (intro ClientRead_oack_ok [OF N, where h = h])
      (use c h agrees some negotiate_granted [OF cfg(1,2) cfg(3) [symmetric] refl] in
        \<open>simp_all add: c0_def client_reads_def client_connected_def\<close>)
  then have "mc_takes (client_read_machine H N D sender) (oack_datagram H ?opts) c =
      (counted OptionsAcknowledgement (length (oack_datagram H ?opts)) c1, emitted (trace c) (trace c1))"
    unfolding oack_datagram_def client_read_machine_def
    by (subst client_machine_takes [OF assms(1) N, where p = "OACK \<lparr>op_options = ?opts\<rparr>" and c' = c1])
      (use c some in \<open>simp_all add: ClientRead_handlers_def c0_def client_reads_def wf_oack_def wf_granted_options\<close>)
  with takes have eq: "c' = counted OptionsAcknowledgement (length (oack_datagram H ?opts)) c1"
      "out = emitted (trace c) (trace c1)" by simp_all
  show ?thesis
    unfolding eq using c agrees
    by (simp add: c1_def c0_def client_reads_def ack_datagram_def client_waiting_def)
      (simp add: client_connected_def client_reachable_by_def)
qed

subsection \<open>The server\<close>

text \<open>A server that has sent its OACK.\<close>

definition server_offers ::
    "helper \<Rightarrow> options \<Rightarrow> transfer_status list \<Rightarrow> ('g \<Rightarrow> bytes) \<Rightarrow> nat \<Rightarrow> bytes \<Rightarrow> 'g server_read \<Rightarrow> bool" where
  "server_offers H opts sc rest n xs s \<longleftrightarrow>
     (\<exists>g. sr_dataHandlerV s = Some g \<and> rest g = xs) \<and>
     sr_lastTransmittedBlockNumber s = BlockNumber 0 \<and>
     sr_lastReceivedBlockNumber s = BlockNumber 0xFFFF \<and> unat (sr_transmitDataSize s) = n \<and>
     \<not> sr_lastDataPacketTransmitted s \<and> so_completionHandlerV s \<and>
     so_transmitPacketV s = oack_datagram H opts \<and> completions (trace s) = sc \<and> \<not> ended (trace s)"

lemma server_offers_next:
  assumes "raw_data H" and N: "never_fails N" and S: "data_source S content rest" and n: "0 < n"
    and s: "server_offers H opts sc rest n xs s"
    and takes: "mc_takes (server_read_machine H N S) (ack_datagram H 0) s = (s', out)"
  shows "out = [data_datagram H n xs (Suc 0)] \<and> server_sends H sc rest n xs 0 s'"
proof -
  obtain g where g: "sr_dataHandlerV s = Some g" "rest g = xs"
    using s by (auto simp: server_offers_def)
  define s1 where "s1 = (server_called s)\<lparr>sr_lastReceivedBlockNumber := BlockNumber 0\<rparr>"
  define s2 where "s2 = server_read_next H S g s1"
  have s2: "server_sends H sc rest n xs 0 s2"
      "trace s2 = trace s1 @ [Called (SocketSend (data_datagram H n xs (Suc 0))) True]"
    using server_sends_block [OF S n, of s1 g 0 xs sc H] s g
    by (simp_all add: s2_def s1_def server_offers_def)
  have "ServerRead_acknowledgementPacket H N S (so_remoteV s) \<lparr>ap_blockNumber = block_at 0\<rparr>
      (server_called s) = Inr (server_waiting TimeoutNormal s2)"
    using s g
    by (subst ServerRead_ack_next [OF N, where h = g])
      (simp_all add: server_offers_def Let_def s1_def s2_def)
  from server_read_takes [OF assms(1) N this] takes
  have "s' = counted Acknowledgement (length (ack_datagram H 0)) (server_waiting TimeoutNormal s2)"
      "out = emitted (trace s) (trace (server_waiting TimeoutNormal s2))"
    by (simp_all add: ack_datagram_def)
  then show ?thesis
    using s2 by (simp add: server_sends_def server_waiting_def s1_def)
qed

lemma server_offers_expires:
  assumes N: "never_fails N" and s: "server_offers H opts sc rest n xs s"
    and expires: "mc_expires (server_read_machine H N S) s = (s', out)"
  shows "out = [oack_datagram H opts] \<and> server_offers H opts sc rest n xs s' \<or>
    out = [] \<and> server_has_sent sc False s'"
proof -
  obtain g where g: "sr_dataHandlerV s = Some g"
    using s by (auto simp: server_offers_def)
  have fin: "ServerRead_finished N S CommunicationError None s =
      Inr (server_finished CommunicationError None (s\<lparr>sr_dataHandlerV := Some (th_finished S g)\<rparr>))"
    by (rule ServerRead_finished_ok [OF N g])
  show ?thesis
  proof (cases "ucast (so_tftpRetriesV s) < so_transmitCounterV s")
    case True
    with expires have "s' = server_finished CommunicationError None (s\<lparr>sr_dataHandlerV := Some (th_finished S g)\<rparr>)"
        "out = emitted (trace s) (trace s')"
      unfolding server_read_machine_def server_machine_expires [OF N] by (auto simp: fin)
    then show ?thesis
      using s by (simp add: server_offers_def server_has_sent_def server_finished_def)
  next
    case False
    with expires have "s' = server_resent H s" "out = [so_transmitPacketV s]"
      unfolding server_read_machine_def server_machine_expires [OF N] by auto
    then show ?thesis
      using s by (simp add: server_offers_def server_resent_def)
  qed
qed

lemma server_read_granted_simps [simp]:
  "sr_dataHandlerV (server_read_granted b t s) = sr_dataHandlerV s"
  "sr_lastTransmittedBlockNumber (server_read_granted b t s) = sr_lastTransmittedBlockNumber s"
  "sr_lastDataPacketTransmitted (server_read_granted b t s) = sr_lastDataPacketTransmitted s"
  "sr_transmitDataSize (server_read_granted (Some v) t s) = v"
  "sr_optionsConfigurationV (server_read_granted b t s) = sr_optionsConfigurationV s"
  "sr_clientOptionsV (server_read_granted b t s) = sr_clientOptionsV s"
  "so_completionHandlerV (server_read_granted b t s) = so_completionHandlerV s"
  "trace (server_read_granted b t s) = trace s"
  by (simp_all add: server_read_granted_def Let_def split: option.split)

text \<open>The start of an operation that answers with an OACK, step by step.\<close>

lemma ServerRead_start_offer:
  assumes "never_fails N" and "sr_dataHandlerV s = Some h0"
    and "ServerOperation_initialise N (ServerRead_finished N S) s = Inr s1"
    and "ServerRead_start_handler S s1 = Inr s2"
    and "TftpOptions_bool (sr_clientOptionsV s2) \<or> sr_additionalNegotiatedOptionsV s2 \<noteq> []"
    and "ServerRead_grant s2 = (opts, s3)" and "opts \<noteq> []" and "to_transferSize (sr_clientOptionsV s3) = None"
  shows "ServerRead_start H N S s = Inr (server_waiting TimeoutNormal
    (server_sent H (OACK \<lparr>op_options = opts\<rparr>) (s3\<lparr>sr_lastReceivedBlockNumber := BlockNumber 0xFFFF\<rparr>)))"
  using assms
  by (cases "oc_handleTransferSizeOption (sr_optionsConfigurationV s3)")
    (auto simp: ServerRead_start_def Let_def block.simps modify_apply try_catch_def server_send_ok server_receive_ok)

lemma ServerRead_start_asked:
  assumes N: "never_fails N" and S: "data_source S content rest" and s: "fresh_server S content xs s"
    and asked: "asked_by c s" "plain_request c" "negotiable (cr_optionsConfigurationV c)"
    and v: "agreed_block (cr_optionsConfigurationV c) (sr_optionsConfigurationV s) = Some v"
    and t: "t = agreed_timeout (cr_optionsConfigurationV c) (sr_optionsConfigurationV s)"
  shows "\<exists>s1. ServerRead_start H N S s = Inr s1 \<and>
    server_offers H (granted_options (Some v) t) (completions (trace s)) rest (unat v) xs s1 \<and>
    emitted (trace s) (trace s1) = [oack_datagram H (granted_options (Some v) t)]"
proof -
  obtain g0 g where g: "sr_dataHandlerV s = Some g0" "content g0 = xs" "th_start S g0 = Inr g"
    using s by (auto simp: fresh_server_def elim: returnedE)
  define s0 where "s0 = (server_opened s)\<lparr>sr_dataHandlerV := Some g\<rparr>"
  define opts where "opts = granted_options (Some v) t"
  have "asked_by c s0" using asked(1) by (simp add: s0_def asked_by_def)
  moreover have "sr_optionsConfigurationV s0 = sr_optionsConfigurationV s" by (simp add: s0_def)
  ultimately have grant: "ServerRead_grant s0 = (opts, server_read_granted (Some v) t s0)"
    using ServerRead_grant_asked [OF _ asked(2,3), of s0] v t by (simp add: opts_def Let_def)
  have some: "opts \<noteq> []"
    using find_granted_options [of "Some v" t "TftpOptions_name BlockSize"]
    by (auto simp: map_find_def opts_def)
  have client: "to_transferSize (sr_clientOptionsV s) = None" "TftpOptions_bool (sr_clientOptionsV s)"
    using asked(1) v
    by (auto simp: asked_by_def ServerImpl_tftpOptions_request [OF asked(2,3)] TftpOptions_bool_def
        agreed_block_def split: option.splits)
  have "ServerRead_start H N S s = Inr (server_waiting TimeoutNormal (server_sent H (OACK \<lparr>op_options = opts\<rparr>)
      ((server_read_granted (Some v) t s0)\<lparr>sr_lastReceivedBlockNumber := BlockNumber 0xFFFF\<rparr>)))"
    by (rule ServerRead_start_offer [OF N g(1) ServerOperation_initialise_ok [OF N] _ _ grant some])
      (use g client in \<open>simp_all add: ServerRead_start_handler_def s0_def\<close>)
  then show ?thesis
    using s g data_source.start_source [OF S g(3)]
    by (simp add: server_offers_def fresh_server_def s0_def server_waiting_def oack_datagram_def opts_def)
qed

subsection \<open>The two sides together\<close>

text \<open>The OACK is number 1, block \<open>k\<close> is number \<open>k + 1\<close>.\<close>

fun offer_data :: "helper \<Rightarrow> options \<Rightarrow> nat \<Rightarrow> bytes \<Rightarrow> nat \<Rightarrow> bytes" where
  "offer_data H opts n xs (Suc (Suc k)) = data_datagram H n xs (Suc k)"
| "offer_data H opts n xs k = oack_datagram H opts"

definition offer_ack :: "helper \<Rightarrow> nat \<Rightarrow> bytes" where
  "offer_ack H k = ack_datagram H (k - 1)"

primrec offer_receiver ::
    "helper \<Rightarrow> endpoint \<Rightarrow> transfer_status list \<Rightarrow> ('h \<Rightarrow> bool) \<Rightarrow> ('h \<Rightarrow> bytes) \<Rightarrow>
     options_configuration \<Rightarrow> nat \<Rightarrow> bytes \<Rightarrow> nat \<Rightarrow> 'h client_read \<Rightarrow> bool" where
  "offer_receiver H sender cc ready contents cfg n xs 0 c \<longleftrightarrow>
     client_reads H sender cc ready contents 512 xs 0 c \<and> co_receiveEndpointV c = no_endpoint \<and>
     cr_optionsConfigurationV c = cfg \<and> accepts_no_options (cr_optionNegotiationHandlerV c)"
| "offer_receiver H sender cc ready contents cfg n xs (Suc i) c \<longleftrightarrow>
     client_reads H sender cc ready contents n xs i c \<and> co_receiveEndpointV c \<noteq> no_endpoint \<and>
     (i = 0 \<longrightarrow> cr_optionsConfigurationV c = cfg \<and> accepts_no_options (cr_optionNegotiationHandlerV c))"

definition offer_received ::
    "transfer_status list \<Rightarrow> ('h \<Rightarrow> bytes) \<Rightarrow> nat \<Rightarrow> bytes \<Rightarrow> bool \<Rightarrow> nat \<Rightarrow> 'h client_read \<Rightarrow> bool" where
  "offer_received cc contents n xs ok i c \<longleftrightarrow> client_has_read cc contents n xs ok (i - 1) c"

primrec offer_sender ::
    "helper \<Rightarrow> options \<Rightarrow> transfer_status list \<Rightarrow> ('g \<Rightarrow> bytes) \<Rightarrow> nat \<Rightarrow> bytes \<Rightarrow> nat \<Rightarrow> 'g server_read \<Rightarrow> bool" where
  "offer_sender H opts sc rest n xs 0 s = server_offers H opts sc rest n xs s"
| "offer_sender H opts sc rest n xs (Suc j) s = server_sends H sc rest n xs j s"

lemma offer_contract:
  assumes "raw_data H" and "never_fails Nc" and "never_fails Ns"
    and "data_sink D sink ready contents" and "data_source S content rest"
    and cfg: "negotiable client" "negotiable server" "agreed_block client server = Some v"
    and opts: "opts = granted_options (Some v) (agreed_timeout client server)"
  shows "stop_and_wait (client_read_machine H Nc D sender) (server_read_machine H Ns S)
    (offer_data H opts (unat v) xs) (offer_ack H) 0 (Suc (last_chunk (unat v) xs))
    (offer_receiver H sender cc ready contents client (unat v) xs) (offer_received cc contents (unat v) xs)
    (offer_sender H opts sc rest (unat v) xs) (server_has_sent sc)"
proof
  fix i j ok c c' s s' out
  let ?n = "unat v"
  let ?R = "offer_receiver H sender cc ready contents client ?n xs"
  have n: "0 < ?n"
    using cfg by (auto simp: agreed_block_def negotiable_def min_def BlockSizeOptionMin_def word_le_nat_alt
        split: option.splits if_splits)
  note simps = client_read_machine_def client_machine_def server_read_machine_def server_machine_def
  show "?R i c \<Longrightarrow> 0 \<le> i \<and> i \<le> Suc (last_chunk ?n xs)"
    and "offer_received cc contents ?n xs ok i c \<Longrightarrow> \<not> mc_running (client_read_machine H Nc D sender) c"
    and "offer_sender H opts sc rest ?n xs j s \<Longrightarrow> j \<le> Suc (last_chunk ?n xs)"
    and "server_has_sent sc ok s \<Longrightarrow> \<not> mc_running (server_read_machine H Ns S) s"
    by (cases i; cases j; simp add: simps client_reads_def offer_received_def client_has_read_def
        server_sends_def server_has_sent_def)+
  show "out = [offer_ack H (Suc i)] \<and>
      (if i < Suc (last_chunk ?n xs) then ?R (Suc i) c' else offer_received cc contents ?n xs True (Suc i) c')"
    if "?R i c" "mc_takes (client_read_machine H Nc D sender) (offer_data H opts ?n xs (Suc i)) c = (c', out)"
  proof (cases i)
    case 0
    with that client_oack_takes [OF assms(1,2) cfg, of sender cc ready contents 512 xs c D c' out] opts
    show ?thesis by (simp add: offer_ack_def)
  next
    case (Suc k)
    with that client_reads_next [OF assms(1,2,4) n, of sender cc xs k c c' out]
    show ?thesis by (auto simp: offer_ack_def offer_received_def split: if_splits)
  qed
  show "out = [offer_ack H i] \<and> ?R i c'"
    if "?R i c" "0 < i" "mc_takes (client_read_machine H Nc D sender) (offer_data H opts ?n xs i) c = (c', out)"
  proof (cases i)
    case 0
    with that show ?thesis by simp
  next
    case (Suc k)
    show ?thesis
    proof (cases k)
      case 0
      with Suc that client_oack_takes [OF assms(1,2) cfg, of sender cc ready contents ?n xs c D c' out] opts
      show ?thesis by (simp add: offer_ack_def)
    next
      case (Suc l)
      with \<open>i = Suc k\<close> that client_reads_again [OF assms(1,2) n, of k sender cc ready contents xs c D c' out]
      show ?thesis by (simp add: offer_ack_def)
    qed
  qed
  show "(out = [offer_ack H i] \<and> 0 < i \<or> out = []) \<and> ?R i c' \<or>
      out = [] \<and> offer_received cc contents ?n xs False i c'"
    if "?R i c" "mc_expires (client_read_machine H Nc D sender) c = (c', out)"
  proof (cases i)
    case 0
    with that client_reads_expires [OF assms(2,4), of H sender cc 512 xs 0 c c' out]
    show ?thesis by (auto simp: offer_received_def client_has_read_def)
  next
    case (Suc k)
    with that client_reads_expires [OF assms(2,4), of H sender cc ?n xs k c c' out]
    show ?thesis by (auto simp: offer_received_def offer_ack_def)
  qed
  show "if j < Suc (last_chunk ?n xs) then out = [offer_data H opts ?n xs (Suc (Suc j))] \<and>
        offer_sender H opts sc rest ?n xs (Suc j) s'
      else out = [] \<and> server_has_sent sc True s'"
    if "offer_sender H opts sc rest ?n xs j s"
      "mc_takes (server_read_machine H Ns S) (offer_ack H (Suc j)) s = (s', out)"
    using that server_offers_next [OF assms(1,3,5) n, of opts sc xs s s' out]
      server_sends_next [OF assms(1,3,5) n, of sc xs "j - 1" s s' out]
    by (cases j) (auto simp: offer_ack_def split: if_splits)
  show "out = [] \<and> offer_sender H opts sc rest ?n xs j s'"
    if "offer_sender H opts sc rest ?n xs j s" "0 < j"
      "mc_takes (server_read_machine H Ns S) (offer_ack H j) s = (s', out)"
    using that server_sends_again [OF assms(1,3), of sc rest ?n xs "j - 1" s S s' out]
    by (cases j) (simp_all add: offer_ack_def)
  show "(out = [offer_data H opts ?n xs (Suc j)] \<and> 0 \<le> j \<or> out = []) \<and>
      offer_sender H opts sc rest ?n xs j s' \<or> out = [] \<and> server_has_sent sc False s'"
    if "offer_sender H opts sc rest ?n xs j s" "mc_expires (server_read_machine H Ns S) s = (s', out)"
    using that server_offers_expires [OF assms(3), of H opts sc rest ?n xs s S s' out]
      server_sends_expires [OF assms(3), of H sc rest ?n xs "j - 1" s S s' out]
    by (cases j) auto
qed

definition example_options :: options_configuration where
  "example_options = \<lparr>oc_handleTransferSizeOption = False, oc_blockSizeOption = Some 1428, oc_timeoutOption = Some 3\<rparr>"

lemma example_options:
  "negotiable example_options" "agreed_block example_options example_options = Some 1428"
  by (simp_all add: example_options_def negotiable_def agreed_block_def BlockSizeOptionMin_def BlockSizeOptionMax_def)

interpretation memory_offer: stop_and_wait
  "client_read_machine big_endian_helper quiet_net memory_receiver sender"
  "server_read_machine big_endian_helper quiet_net memory_transmitter"
  "offer_data big_endian_helper (granted_options (Some 1428) (agreed_timeout example_options example_options))
     (unat (1428 :: u16)) xs"
  "offer_ack big_endian_helper" 0 "Suc (last_chunk (unat (1428 :: u16)) xs)"
  "offer_receiver big_endian_helper sender cc (\<lambda>f. mf_operationV f = Receive) mf_dataV example_options
     (unat (1428 :: u16)) xs"
  "offer_received cc mf_dataV (unat (1428 :: u16)) xs"
  "offer_sender big_endian_helper (granted_options (Some 1428) (agreed_timeout example_options example_options))
     sc memory_rest (unat (1428 :: u16)) xs"
  "server_has_sent sc"
  for sender cc sc xs
  by (rule offer_contract [OF big_endian.raw_data_axioms never_fails_quiet_net never_fails_quiet_net
        memory_sink.data_sink_axioms memory_source.data_source_axioms example_options(1) example_options(1)
        example_options(2) refl])

lemma offer_outcome:
  assumes "synchronous 0 (Suc (last_chunk n xs)) data ack (offer_receiver H sender cc ready contents cfg n xs)
      (offer_received cc contents n xs) (offer_sender H opts sc rest n xs) (server_has_sent sc) (c, tc, s, ts)"
    and "0 < n"
  shows "\<exists>h i rc rs. cr_dataHandlerV c = Some h \<and> contents h = take (i * n) xs \<and>
    completions (trace c) = cc @ rc \<and> completions (trace s) = sc @ rs \<and> rc \<in> outcomes \<and> rs \<in> outcomes \<and>
    (Successful \<in> set rc \<union> set rs \<longrightarrow> contents h = xs)"
proof -
  have sends: "completions (trace s) = sc @ []" if "offer_sender H opts sc rest n xs j s" for j
    using that by (cases j) (simp_all add: server_offers_def server_sends_def)
  have reads: "\<exists>h. cr_dataHandlerV c = Some h \<and> contents h = take ((i - 1) * n) xs \<and>
      completions (trace c) = cc @ []" if "offer_receiver H sender cc ready contents cfg n xs i c" for i
    using that by (cases i) (auto simp: client_reads_def)
  obtain i rc rs where
    c: "\<exists>h. cr_dataHandlerV c = Some h \<and> contents h = take ((i - 1) * n) xs \<and> completions (trace c) = cc @ rc"
    and s: "completions (trace s) = sc @ rs" "rc \<in> outcomes" "rs \<in> outcomes"
    and i: "Successful \<in> set rc \<union> set rs \<Longrightarrow> i = Suc (Suc (last_chunk n xs))"
    by (rule synchronous_outcome [OF assms(1), where PS = "\<lambda>rs s. completions (trace s) = sc @ rs"
          and PR = "\<lambda>i rc c. \<exists>h. cr_dataHandlerV c = Some h \<and> contents h = take ((i - 1) * n) xs \<and>
            completions (trace c) = cc @ rc"])
      (auto simp: offer_received_def client_has_read_def server_has_sent_def dest: sends reads)
  have "Successful \<in> set rc \<union> set rs \<longrightarrow> take ((i - 1) * n) xs = xs"
    using i take_last_chunk [OF assms(2), of xs] by (auto simp del: mult_Suc)
  with c s show ?thesis by metis
qed

text \<open>The two operations after the request and the start.\<close>

lemma offer_start:
  assumes "raw_data H" and N: "never_fails Nc" "never_fails Ns"
    and D: "data_sink D sink ready contents" and S: "data_source S content rest"
    and c: "fresh_client sink D sender c" and s: "fresh_server S content xs s"
    and asked: "asked_by c s" "plain_request c"
    and cfg: "negotiable (cr_optionsConfigurationV c)"
      "agreed_block (cr_optionsConfigurationV c) (sr_optionsConfigurationV s) = Some v"
    and opts: "opts = granted_options (Some v)
      (agreed_timeout (cr_optionsConfigurationV c) (sr_optionsConfigurationV s))"
  obtains c1 s1 where "ClientRead_request H Nc D c = Inr c1" "ServerRead_start H Ns S s = Inr s1"
    "emitted (trace s) (trace s1) = [offer_data H opts (unat v) xs (Suc 0)]"
    "offer_receiver H sender (completions (trace c)) ready contents (cr_optionsConfigurationV c) (unat v) xs 0 c1"
    "offer_sender H opts (completions (trace s)) rest (unat v) xs 0 s1"
proof -
  obtain c1 where "ClientRead_request H Nc D c = Inr c1"
      "client_reads H sender (completions (trace c)) ready contents 512 xs 0 c1"
      "co_receiveEndpointV c1 = no_endpoint"
      "cr_optionsConfigurationV c1 = cr_optionsConfigurationV c" "accepts_no_options (cr_optionNegotiationHandlerV c1)"
    using fresh_client_requested [OF N(1) D c] by blast
  moreover obtain s1 where "ServerRead_start H Ns S s = Inr s1"
      "server_offers H opts (completions (trace s)) rest (unat v) xs s1"
      "emitted (trace s) (trace s1) = [oack_datagram H opts]"
    using ServerRead_start_asked [OF N(2) S s asked cfg refl] opts by blast
  ultimately show ?thesis
    by (intro that) simp_all
qed

lemma download_negotiated:
  assumes "raw_data H" and N: "never_fails Nc" "never_fails Ns"
    and D: "data_sink D sink ready contents" and S: "data_source S content rest"
    and c: "fresh_client sink D sender c" and s: "fresh_server S content xs s"
    and asked: "asked_by c s" "plain_request c"
    and cfg: "negotiable (cr_optionsConfigurationV c)" "negotiable (sr_optionsConfigurationV s)"
      "agreed_block (cr_optionsConfigurationV c) (sr_optionsConfigurationV s) = Some v"
  shows "\<exists>c' s'. download (Suc (Suc (last_chunk (unat v) xs))) H Nc Ns D S sender c s = Some (c', s', []) \<and>
    client_has_read (completions (trace c)) contents (unat v) xs True (Suc (last_chunk (unat v) xs)) c' \<and>
    server_has_sent (completions (trace s)) True s'"
proof -
  define opts where "opts = granted_options (Some v)
      (agreed_timeout (cr_optionsConfigurationV c) (sr_optionsConfigurationV s))"
  obtain c1 s1 where start: "ClientRead_request H Nc D c = Inr c1" "ServerRead_start H Ns S s = Inr s1"
    "emitted (trace s) (trace s1) = [offer_data H opts (unat v) xs (Suc 0)]"
    and R: "offer_receiver H sender (completions (trace c)) ready contents (cr_optionsConfigurationV c) (unat v) xs 0 c1"
    and S': "offer_sender H opts (completions (trace s)) rest (unat v) xs 0 s1"
    using offer_start [OF assms(1) N D S c s asked cfg(1,3) opts_def] by blast
  have "\<exists>c' s'. exchanges (Suc (Suc (last_chunk (unat v) xs))) (client_read_machine H Nc D sender)
        (server_read_machine H Ns S) (c1, s1, [offer_data H opts (unat v) xs (Suc 0)]) = Some (c', s', []) \<and>
      offer_received (completions (trace c)) contents (unat v) xs True (Suc (Suc (last_chunk (unat v) xs))) c' \<and>
      server_has_sent (completions (trace s)) True s'"
    by (rule stop_and_wait.exchanges_complete [OF offer_contract [OF assms(1) N D S cfg opts_def] R S']) simp
  then show ?thesis
    by (simp add: download_def start offer_received_def del: exchanges.simps)
qed

end
