(* ===== verification/Upload.thy ===== *)
theory Upload
  imports ClientWriteSteps ServerWriteSteps Machines Download
begin

text \<open>
  A client's upload and the server operation that takes it, as the two sides of
  \<open>stop_and_wait\<close>. The write request counts as a first packet, which the server operation has
  when it starts and acknowledges as block 0; so the numbers are one higher than those of the
  blocks, and number 1 does not travel between the two operations.
\<close>

subsection \<open>The server as receiver\<close>

definition server_write_machine ::
    "helper \<Rightarrow> net \<Rightarrow> 'h receive_handler \<Rightarrow> ('h server_write, bytes) machine" where
  "server_write_machine H N D =
     server_machine H N (ServerWrite_finished N D) (ServerWrite_handlers H N D)"

text \<open>A running server that holds \<open>i\<close> blocks of size \<open>n\<close> of the file \<open>xs\<close>, and one that has ended.\<close>

definition server_holds ::
    "transfer_status list \<Rightarrow> ('h \<Rightarrow> bool) \<Rightarrow> ('h \<Rightarrow> bytes) \<Rightarrow> nat \<Rightarrow> bytes \<Rightarrow> nat \<Rightarrow> 'h server_write \<Rightarrow> bool" where
  "server_holds sc ready contents n xs i s \<longleftrightarrow>
     i \<le> last_chunk n xs \<and>
     (\<exists>h. sw_dataHandlerV s = Some h \<and> ready h \<and> contents h = take (i * n) xs) \<and>
     sw_lastReceivedBlockNumber s = block_at i \<and> unat (sw_receiveDataSize s) = n \<and>
     \<not> sw_dallyV s \<and> so_completionHandlerV s \<and> completions (trace s) = sc \<and> \<not> ended (trace s)"

definition server_receives ::
    "helper \<Rightarrow> transfer_status list \<Rightarrow> ('h \<Rightarrow> bool) \<Rightarrow> ('h \<Rightarrow> bytes) \<Rightarrow> nat \<Rightarrow> bytes \<Rightarrow>
     nat \<Rightarrow> 'h server_write \<Rightarrow> bool" where
  "server_receives H sc ready contents n xs i s \<longleftrightarrow>
     server_holds sc ready contents n xs i s \<and> so_transmitPacketV s = ack_datagram H i"

lemma server_receives_holds: "server_receives H sc ready contents n xs i s \<Longrightarrow> server_holds sc ready contents n xs i s"
  by (simp add: server_receives_def)

definition server_has_received ::
    "transfer_status list \<Rightarrow> ('h \<Rightarrow> bytes) \<Rightarrow> nat \<Rightarrow> bytes \<Rightarrow> bool \<Rightarrow> nat \<Rightarrow> 'h server_write \<Rightarrow> bool" where
  "server_has_received sc contents n xs ok i s \<longleftrightarrow>
     (\<exists>h. sw_dataHandlerV s = Some h \<and> contents h = take (i * n) xs) \<and>
     completions (trace s) = sc @ [if ok then Successful else CommunicationError] \<and> ended (trace s)"

lemma counted_server_write [simp]:
  "sw_dataHandlerV (counted t n s) = sw_dataHandlerV s"
  "sw_receiveDataSize (counted t n s) = sw_receiveDataSize s"
  "sw_dallyV (counted t n s) = sw_dallyV s"
  "sw_lastReceivedBlockNumber (counted t n s) = sw_lastReceivedBlockNumber s"
  by (simp_all add: counted_def)

lemma server_write_takes:
  assumes "raw_data H" and "never_fails N"
    and "ServerWrite_dataPacket H N D (so_remoteV s) p (server_called s) = Inr s'"
  shows "mc_takes (server_write_machine H N D) (Packet_encode H (DATA p)) s =
    (counted Data (length (Packet_encode H (DATA p))) s', emitted (trace s) (trace s'))"
  using server_machine_takes [OF assms(1,2), where p = "DATA p" and s' = s'] assms(3)
  by (simp add: server_write_machine_def ServerWrite_handlers_def)

lemma server_holds_next:
  assumes "raw_data H" and N: "never_fails N" and D: "data_sink D sink ready contents" and n: "0 < n"
    and s: "server_holds sc ready contents n xs i s"
    and takes: "mc_takes (server_write_machine H N D) (data_datagram H n xs (Suc i)) s = (s', out)"
  shows "out = [ack_datagram H (Suc i)] \<and>
    (if i < last_chunk n xs then server_receives H sc ready contents n xs (Suc i) s'
     else server_has_received sc contents n xs True (Suc i) s')"
proof -
  obtain h where h: "sw_dataHandlerV s = Some h" "ready h" "contents h = take (i * n) xs"
    using s by (auto simp: server_receives_def server_holds_def)
  define h' where "h' = rh_receivedData D (chunk n xs i) h"
  have h': "ready h'" "contents h' = take (Suc i * n) xs"
    using data_sink.receivedData_sink [OF D h(2)] h(3) take_Suc_chunk [of i n xs]
    by (simp_all add: h'_def)
  define s1 where "s1 = server_sent_ack H (block_at (Suc i))
    ((server_called s)\<lparr>sw_dataHandlerV := Some h', sw_lastReceivedBlockNumber := block_at (Suc i)\<rparr>)"
  have s1: "trace s1 = trace s @ [Called RemoteEndpoint True, Called (SocketSend (ack_datagram H (Suc i))) True]"
      "sw_dataHandlerV s1 = Some h'" "sw_lastReceivedBlockNumber s1 = block_at (Suc i)"
      "unat (sw_receiveDataSize s1) = n" "\<not> sw_dallyV s1" "so_completionHandlerV s1"
      "so_transmitPacketV s1 = ack_datagram H (Suc i)"
    using s by (simp_all add: s1_def server_receives_def server_holds_def ack_datagram_def)
  have "ServerWrite_dataPacket H N D (so_remoteV s) (block_packet n xs (Suc i)) (server_called s) =
      Inr (server_write_continued D (length (chunk n xs i)) s1)"
    using s h length_chunk_le [of n xs i] block_at_Suc_neq [of i]
    by (subst ServerWrite_dataPacket_next [OF N, where h = h])
      (auto simp: block_packet_def server_receives_def server_holds_def block_at_Suc h'_def s1_def)
  from server_write_takes [OF assms(1) N this] takes
  have eq: "s' = counted Data (length (data_datagram H n xs (Suc i)))
        (server_write_continued D (length (chunk n xs i)) s1)"
      "out = emitted (trace s) (trace (server_write_continued D (length (chunk n xs i)) s1))"
    by (simp_all add: data_datagram_def)
  show ?thesis
  proof (cases "i < last_chunk n xs")
    case True
    then have "server_write_continued D (length (chunk n xs i)) s1 = server_waiting TimeoutNormal s1"
      using length_chunk [OF n, of xs i] s1(4) by (simp add: server_write_continued_def)
    with True show ?thesis
      unfolding eq using s s1 h'
      by (simp add: server_receives_def server_holds_def server_waiting_def)
  next
    case False
    then have "server_write_continued D (length (chunk n xs i)) s1 =
        server_finished Successful None (s1\<lparr>sw_dataHandlerV := Some (rh_finished D h')\<rparr>)"
      using length_chunk [OF n, of xs i] s1 by (simp add: server_write_continued_def)
    with False show ?thesis
      unfolding eq using s s1 h' data_sink.finished_sink [OF D]
      by (simp add: server_receives_def server_holds_def server_has_received_def server_finished_def)
  qed
qed

lemma server_receives_next:
  assumes "raw_data H" and "never_fails N" and "data_sink D sink ready contents" and "0 < n"
    and "server_receives H sc ready contents n xs i s"
    and "mc_takes (server_write_machine H N D) (data_datagram H n xs (Suc i)) s = (s', out)"
  shows "out = [ack_datagram H (Suc i)] \<and>
    (if i < last_chunk n xs then server_receives H sc ready contents n xs (Suc i) s'
     else server_has_received sc contents n xs True (Suc i) s')"
  by (rule server_holds_next [OF assms(1-4) server_receives_holds [OF assms(5)] assms(6)])

lemma server_receives_again:
  assumes "raw_data H" and N: "never_fails N" and n: "0 < n" and i: "0 < i"
    and s: "server_receives H sc ready contents n xs i s"
    and takes: "mc_takes (server_write_machine H N D) (data_datagram H n xs i) s = (s', out)"
  shows "out = [ack_datagram H i] \<and> server_receives H sc ready contents n xs i s'"
proof -
  obtain h where h: "sw_dataHandlerV s = Some h"
    using s by (auto simp: server_receives_def server_holds_def)
  define s1 where "s1 = server_waiting TimeoutNormal (server_sent_ack H (block_at i) (server_called s))"
  have "\<not> length (chunk n xs (i - 1)) < n"
    using s i length_chunk [OF n, of xs "i - 1"] by (auto simp: server_receives_def server_holds_def)
  then have "ServerWrite_dataPacket H N D (so_remoteV s) (block_packet n xs i) (server_called s) = Inr s1"
    using s h by (subst ServerWrite_dataPacket_again [OF N, where h = h])
      (simp_all add: block_packet_def server_receives_def server_holds_def server_write_continued_def s1_def)
  from server_write_takes [OF assms(1) N this] takes
  have "s' = counted Data (length (data_datagram H n xs i)) s1" "out = emitted (trace s) (trace s1)"
    by (simp_all add: data_datagram_def)
  then show ?thesis
    using s by (simp add: s1_def server_receives_def server_holds_def server_waiting_def ack_datagram_def)
qed

lemma server_holds_expires:
  assumes N: "never_fails N" and D: "data_sink D sink ready contents"
    and s: "server_holds sc ready contents n xs i s"
    and expires: "mc_expires (server_write_machine H N D) s = (s', out)"
  shows "out = [so_transmitPacketV s] \<and> so_transmitPacketV s' = so_transmitPacketV s \<and>
      server_holds sc ready contents n xs i s' \<or>
    out = [] \<and> server_has_received sc contents n xs False i s'"
proof -
  obtain h where h: "sw_dataHandlerV s = Some h" "contents h = take (i * n) xs"
    using s by (auto simp: server_receives_def server_holds_def)
  have fin: "ServerWrite_finished N D CommunicationError None s =
      Inr (server_finished CommunicationError None (s\<lparr>sw_dataHandlerV := Some (rh_finished D h)\<rparr>))"
    by (rule ServerWrite_finished_ok [OF N h(1)])
  show ?thesis
  proof (cases "ucast (so_tftpRetriesV s) < so_transmitCounterV s")
    case True
    with expires have "s' = server_finished CommunicationError None (s\<lparr>sw_dataHandlerV := Some (rh_finished D h)\<rparr>)"
        "out = emitted (trace s) (trace s')"
      unfolding server_write_machine_def server_machine_expires [OF N] by (auto simp: fin)
    then show ?thesis
      using s h data_sink.finished_sink [OF D]
      by (simp add: server_receives_def server_holds_def server_has_received_def server_finished_def)
  next
    case False
    with expires have "s' = server_resent H s" "out = [so_transmitPacketV s]"
      unfolding server_write_machine_def server_machine_expires [OF N] by auto
    then show ?thesis
      using s by (simp add: server_receives_def server_holds_def server_resent_def)
  qed
qed

lemma server_receives_expires:
  assumes "never_fails N" and "data_sink D sink ready contents"
    and "server_receives H sc ready contents n xs i s"
    and "mc_expires (server_write_machine H N D) s = (s', out)"
  shows "out = [ack_datagram H i] \<and> server_receives H sc ready contents n xs i s' \<or>
    out = [] \<and> server_has_received sc contents n xs False i s'"
  using server_holds_expires [OF assms(1,2) server_receives_holds [OF assms(3)] assms(4)] assms(3)
  by (auto simp: server_receives_def)

subsection \<open>The client as sender\<close>

definition client_write_machine ::
    "helper \<Rightarrow> net \<Rightarrow> 'g transmit_handler \<Rightarrow> endpoint \<Rightarrow> ('g client_write, bytes) machine" where
  "client_write_machine H N S =
     client_machine H N (ClientWrite_finished N S) (ClientWrite_handlers H N S)"

text \<open>
  A client whose request is not answered yet, a running client that has sent block \<open>j + 1\<close>, and
  one that has ended.
\<close>

definition client_asks ::
    "endpoint \<Rightarrow> transfer_status list \<Rightarrow> ('g \<Rightarrow> bytes) \<Rightarrow> nat \<Rightarrow> bytes \<Rightarrow> 'g client_write \<Rightarrow> bool" where
  "client_asks sender cc rest n xs c \<longleftrightarrow>
     (\<exists>g. cw_dataHandlerV c = Some g \<and> rest g = xs) \<and>
     cw_lastTransmittedBlockNumber c = BlockNumber 0 \<and>
     cw_lastReceivedBlockNumber c = BlockNumber 0xFFFF \<and> unat (cw_transmitDataSize c) = n \<and>
     \<not> cw_lastDataPacketTransmitted c \<and> client_write_negotiates c \<and> co_completionHandlerV c \<and>
     co_receiveEndpointV c = no_endpoint \<and> client_reachable_by sender c \<and>
     completions (trace c) = cc \<and> \<not> ended (trace c)"

definition client_transmits ::
    "helper \<Rightarrow> endpoint \<Rightarrow> transfer_status list \<Rightarrow> ('g \<Rightarrow> bytes) \<Rightarrow> nat \<Rightarrow> bytes \<Rightarrow>
     nat \<Rightarrow> 'g client_write \<Rightarrow> bool" where
  "client_transmits H sender cc rest n xs j c \<longleftrightarrow>
     j \<le> last_chunk n xs \<and>
     (\<exists>g. cw_dataHandlerV c = Some g \<and> rest g = drop (Suc j * n) xs) \<and>
     cw_lastTransmittedBlockNumber c = block_at (Suc j) \<and> unat (cw_transmitDataSize c) = n \<and>
     (cw_lastDataPacketTransmitted c \<longleftrightarrow> j = last_chunk n xs) \<and> client_write_negotiates c \<and>
     co_completionHandlerV c \<and> co_transmitPacketV c = data_datagram H n xs (Suc j) \<and>
     co_receiveEndpointV c \<noteq> no_endpoint \<and> client_reachable_by sender c \<and>
     completions (trace c) = cc \<and> \<not> ended (trace c)"

definition client_sends ::
    "helper \<Rightarrow> endpoint \<Rightarrow> transfer_status list \<Rightarrow> ('g \<Rightarrow> bytes) \<Rightarrow> nat \<Rightarrow> bytes \<Rightarrow>
     nat \<Rightarrow> 'g client_write \<Rightarrow> bool" where
  "client_sends H sender cc rest n xs j c \<longleftrightarrow>
     client_transmits H sender cc rest n xs j c \<and> cw_lastReceivedBlockNumber c = block_at j"

lemma client_sends_transmits: "client_sends H sender cc rest n xs j c \<Longrightarrow> client_transmits H sender cc rest n xs j c"
  by (simp add: client_sends_def)

definition client_has_sent :: "transfer_status list \<Rightarrow> bool \<Rightarrow> 'g client_write \<Rightarrow> bool" where
  "client_has_sent cc ok c \<longleftrightarrow>
     completions (trace c) = cc @ [if ok then Successful else CommunicationError] \<and> ended (trace c)"

lemma counted_client_write [simp]:
  "cw_dataHandlerV (counted t n c) = cw_dataHandlerV c"
  "cw_transmitDataSize (counted t n c) = cw_transmitDataSize c"
  "cw_lastDataPacketTransmitted (counted t n c) = cw_lastDataPacketTransmitted c"
  "cw_lastTransmittedBlockNumber (counted t n c) = cw_lastTransmittedBlockNumber c"
  "cw_lastReceivedBlockNumber (counted t n c) = cw_lastReceivedBlockNumber c"
  "client_write_negotiates (counted t n c) = client_write_negotiates c"
  "client_write_negotiates (c\<lparr>trace := tr\<rparr>) = client_write_negotiates c"
  "client_write_negotiates (c\<lparr>cw_lastReceivedBlockNumber := b\<rparr>) = client_write_negotiates c"
  by (simp_all add: counted_def client_write_negotiates_def)

lemma client_write_connected [simp]:
  "cw_dataHandlerV (client_connected sender c) = cw_dataHandlerV c"
  "cw_transmitDataSize (client_connected sender c) = cw_transmitDataSize c"
  "cw_lastDataPacketTransmitted (client_connected sender c) = cw_lastDataPacketTransmitted c"
  "cw_lastTransmittedBlockNumber (client_connected sender c) = cw_lastTransmittedBlockNumber c"
  "cw_lastReceivedBlockNumber (client_connected sender c) = cw_lastReceivedBlockNumber c"
  "client_write_negotiates (client_connected sender c) = client_write_negotiates c"
  by (simp_all add: client_connected_def client_write_negotiates_def)

lemma client_write_resent [simp]:
  "cw_dataHandlerV (client_resent H call w c) = cw_dataHandlerV c"
  "cw_transmitDataSize (client_resent H call w c) = cw_transmitDataSize c"
  "cw_lastDataPacketTransmitted (client_resent H call w c) = cw_lastDataPacketTransmitted c"
  "cw_lastTransmittedBlockNumber (client_resent H call w c) = cw_lastTransmittedBlockNumber c"
  "cw_lastReceivedBlockNumber (client_resent H call w c) = cw_lastReceivedBlockNumber c"
  "client_write_negotiates (client_resent H call w c) = client_write_negotiates c"
  by (simp_all add: client_resent_def client_write_negotiates_def)

lemma client_write_takes:
  assumes "raw_data H" and "never_fails N" and "client_reachable_by sender c"
    and "ClientWrite_acknowledgementPacket H N S (co_receiveEndpointV (client_connected sender c)) p
      (client_connected sender c) = Inr c'"
  shows "mc_takes (client_write_machine H N S sender) (Packet_encode H (ACK p)) c =
    (counted Acknowledgement (length (Packet_encode H (ACK p))) c', emitted (trace c) (trace c'))"
  using client_machine_takes [OF assms(1,2) _ assms(3), where p = "ACK p" and c' = c'] assms(4)
  by (simp add: client_write_machine_def ClientWrite_handlers_def)

text \<open>The next block, from a state in which the previous one is acknowledged.\<close>

lemma client_transmits_block:
  assumes S: "data_source S content rest" and n: "0 < n" "unat (cw_transmitDataSize c) = n"
    and g: "rest g = drop (j * n) xs" and c: "cw_lastTransmittedBlockNumber c = block_at j"
    "\<not> cw_lastDataPacketTransmitted c"
    "client_write_negotiates c" "co_completionHandlerV c" "co_receiveEndpointV c \<noteq> no_endpoint"
    "sender \<noteq> no_endpoint" "completions (trace c) = cc" "\<not> ended (trace c)"
    and j: "j \<le> last_chunk n xs"
  shows "client_transmits H sender cc rest n xs j (client_write_next H S g c)"
    and "cw_lastReceivedBlockNumber (client_write_next H S g c) = cw_lastReceivedBlockNumber c"
    and "trace (client_write_next H S g c) = trace c @ [Called (SocketSend (data_datagram H n xs (Suc j))) True]"
proof -
  obtain d g' where d: "th_sendData S n g = (d, g')" by (cases "th_sendData S n g")
  have *: "d = chunk n xs j" "rest g' = drop (Suc j * n) xs"
    using data_source.sendData_source [OF S, of n g] data_source.sendData_rest [OF S, of n g] g d
    by (simp_all add: chunk_def add.commute)
  show tr: "trace (client_write_next H S g c) = trace c @ [Called (SocketSend (data_datagram H n xs (Suc j))) True]"
    using n c d *(1)
    by (simp add: client_write_next_def Let_def block_at_Suc data_datagram_def block_packet_def)
  show "cw_lastReceivedBlockNumber (client_write_next H S g c) = cw_lastReceivedBlockNumber c"
    by (simp add: client_write_next_def Let_def split: prod.split)
  have "client_write_negotiates (client_write_next H S g c)"
    using c by (simp add: client_write_next_def Let_def client_write_negotiates_def split: prod.split)
  moreover have "client_reachable_by sender (client_write_next H S g c)"
    using c by (simp add: client_write_next_def Let_def client_reachable_by_def split: prod.split)
  ultimately show "client_transmits H sender cc rest n xs j (client_write_next H S g c)"
    using n c d * j length_chunk [OF n(1), of xs j] unfolding client_transmits_def tr
    by (auto simp: client_write_next_def Let_def block_at_Suc data_datagram_def block_packet_def)
qed

text \<open>The acknowledgement of the request, and that of a block.\<close>

lemma client_asks_next:
  assumes "raw_data H" and N: "never_fails N" and S: "data_source S content rest" and n: "0 < n"
    and c: "client_asks sender cc rest n xs c"
    and takes: "mc_takes (client_write_machine H N S sender) (ack_datagram H 0) c = (c', out)"
  shows "out = [data_datagram H n xs (Suc 0)] \<and> client_sends H sender cc rest n xs 0 c'"
proof -
  obtain g where g: "cw_dataHandlerV c = Some g" "rest g = xs"
    using c by (auto simp: client_asks_def)
  have "BlockNumber 0 \<noteq> BlockNumber 0xFFFF" by simp
  define c0 where "c0 = client_connected sender c"
  define c1 where "c1 = c0\<lparr>cw_lastReceivedBlockNumber := BlockNumber 0\<rparr>"
  define c2 where "c2 = client_write_next H S g c1"
  have c2: "client_sends H sender cc rest n xs 0 c2"
      "trace c2 = trace c1 @ [Called (SocketSend (data_datagram H n xs (Suc 0))) True]"
    using client_transmits_block [OF S n, of c1 g 0 xs sender cc H] c g
    by (simp_all add: c2_def c1_def c0_def client_asks_def client_reachable_by_def client_sends_def)
  have "ClientWrite_acknowledgementPacket H N S (co_receiveEndpointV c0) \<lparr>ap_blockNumber = block_at 0\<rparr> c0 =
      Inr (client_waiting TimeoutNormal c2)"
    using c g \<open>BlockNumber 0 \<noteq> BlockNumber 0xFFFF\<close>
    by (subst ClientWrite_ack_next [OF N, where h = g])
      (simp_all add: c0_def c1_def c2_def client_asks_def Let_def)
  from client_write_takes [OF assms(1) N _ this [unfolded c0_def]] takes c
  have eq: "c' = counted Acknowledgement (length (ack_datagram H 0)) (client_waiting TimeoutNormal c2)"
      "out = emitted (trace c) (trace (client_waiting TimeoutNormal c2))"
    by (simp_all add: ack_datagram_def client_asks_def)
  show ?thesis
    unfolding eq using c2
    by (simp add: client_sends_def client_transmits_def client_waiting_def c1_def c0_def client_reachable_by_def)
qed

lemma client_transmits_next:
  assumes "raw_data H" and N: "never_fails N" and S: "data_source S content rest" and n: "0 < n"
    and c: "client_transmits H sender cc rest n xs j c" and fresh: "cw_lastReceivedBlockNumber c \<noteq> block_at (Suc j)"
    and takes: "mc_takes (client_write_machine H N S sender) (ack_datagram H (Suc j)) c = (c', out)"
  shows "if j < last_chunk n xs
    then out = [data_datagram H n xs (Suc (Suc j))] \<and> client_sends H sender cc rest n xs (Suc j) c'
    else out = [] \<and> client_has_sent cc True c'"
proof -
  obtain g where g: "cw_dataHandlerV c = Some g" "rest g = drop (Suc j * n) xs"
    using c by (auto simp: client_sends_def client_transmits_def)
  have conn: "client_connected sender c = c"
    using c by (simp add: client_sends_def client_transmits_def client_connected_def)
  define c1 where "c1 = c\<lparr>cw_lastReceivedBlockNumber := block_at (Suc j)\<rparr>"
  define c2 where "c2 = (if cw_lastDataPacketTransmitted c
    then client_finished Successful None (c1\<lparr>cw_dataHandlerV := Some (th_finished S g)\<rparr>)
    else client_waiting TimeoutNormal (client_write_next H S g c1))"
  have "ClientWrite_acknowledgementPacket H N S (co_receiveEndpointV c) \<lparr>ap_blockNumber = block_at (Suc j)\<rparr> c = Inr c2"
    using c g fresh
    by (subst ClientWrite_ack_next [OF N, where h = g])
      (auto simp: client_sends_def client_transmits_def Let_def c1_def c2_def)
  with client_write_takes [OF assms(1) N, where c = c and c' = c2 and S = S and sender = sender
      and p = "\<lparr>ap_blockNumber = block_at (Suc j)\<rparr>"] takes c
  have eq: "c' = counted Acknowledgement (length (ack_datagram H (Suc j))) c2"
      "out = emitted (trace c) (trace c2)"
    by (simp_all add: conn client_sends_def client_transmits_def ack_datagram_def)
  show ?thesis
  proof (cases "j < last_chunk n xs")
    case True
    then have "client_sends H sender cc rest n xs (Suc j) (client_write_next H S g c1)"
        "trace (client_write_next H S g c1) =
          trace c1 @ [Called (SocketSend (data_datagram H n xs (Suc (Suc j)))) True]"
      using c g(2) n client_transmits_block [OF S n, of c1 g "Suc j" xs sender cc H]
      by (simp_all add: client_sends_def client_transmits_def c1_def client_reachable_by_def)
    with True c show ?thesis
      unfolding eq
      by (simp add: c2_def client_sends_def client_transmits_def client_waiting_def c1_def client_reachable_by_def)
  next
    case False
    with c show ?thesis
      unfolding eq by (simp add: c2_def c1_def client_sends_def client_transmits_def client_has_sent_def client_finished_def)
  qed
qed

lemma client_sends_next:
  assumes "raw_data H" and "never_fails N" and "data_source S content rest" and "0 < n"
    and "client_sends H sender cc rest n xs j c"
    and "mc_takes (client_write_machine H N S sender) (ack_datagram H (Suc j)) c = (c', out)"
  shows "if j < last_chunk n xs
    then out = [data_datagram H n xs (Suc (Suc j))] \<and> client_sends H sender cc rest n xs (Suc j) c'
    else out = [] \<and> client_has_sent cc True c'"
  using client_transmits_next [OF assms(1-4) client_sends_transmits [OF assms(5)] _ assms(6)] assms(5)
    block_at_Suc_neq [of j] by (auto simp: client_sends_def)

lemma client_sends_again:
  assumes "raw_data H" and N: "never_fails N" and c: "client_sends H sender cc rest n xs j c"
    and takes: "mc_takes (client_write_machine H N S sender) (ack_datagram H j) c = (c', out)"
  shows "out = [] \<and> client_sends H sender cc rest n xs j c'"
proof -
  have conn: "client_connected sender c = c"
    using c by (simp add: client_sends_def client_transmits_def client_connected_def)
  have "ClientWrite_acknowledgementPacket H N S (co_receiveEndpointV c) \<lparr>ap_blockNumber = block_at j\<rparr> c =
      Inr (client_waiting TimeoutNormal c)"
    using c by (subst ClientWrite_ack_again [OF N]) (simp_all add: client_sends_def client_transmits_def)
  with client_write_takes [OF assms(1) N, where c = c and S = S and sender = sender
      and p = "\<lparr>ap_blockNumber = block_at j\<rparr>"] takes c
  have "c' = counted Acknowledgement (length (ack_datagram H j)) (client_waiting TimeoutNormal c)"
      "out = emitted (trace c) (trace (client_waiting TimeoutNormal c))"
    by (simp_all add: conn client_sends_def client_transmits_def ack_datagram_def)
  then show ?thesis
    using c by (simp add: client_sends_def client_transmits_def client_waiting_def client_reachable_by_def)
qed

text \<open>A client that expires sends its last packet again, a request not over the connection, or ends.\<close>

lemma client_write_expires:
  assumes N: "never_fails N" and c: "cw_dataHandlerV c = Some g" "co_completionHandlerV c"
    "completions (trace c) = cc"
    and expires: "mc_expires (client_write_machine H N S sender) c = (c', out)"
  shows "(\<exists>call w. c' = client_resent H call w c \<and> call (co_transmitPacketV c) c \<noteq> TimerCancel \<and>
      out = (if co_receiveEndpointV c = no_endpoint then [] else [co_transmitPacketV c])) \<or>
    out = [] \<and> client_has_sent cc False c'"
proof -
  have fin: "ClientWrite_finished N S CommunicationError None c =
      Inr (client_finished CommunicationError None (c\<lparr>cw_dataHandlerV := Some (th_finished S g)\<rparr>))"
    by (rule ClientWrite_finished_ok [OF N c(1)])
  show ?thesis
  proof (cases "ucast (co_tftpRetriesV c) < co_transmitCounterV c")
    case True
    with expires have "c' = client_finished CommunicationError None (c\<lparr>cw_dataHandlerV := Some (th_finished S g)\<rparr>)"
        "out = emitted (trace c) (trace c')"
      unfolding client_write_machine_def client_machine_expires [OF N] by (auto simp: fin)
    then show ?thesis
      using c by (simp add: client_has_sent_def client_finished_def)
  next
    case False
    with expires show ?thesis
      unfolding client_write_machine_def client_machine_expires [OF N] by (auto split: if_splits)
  qed
qed

lemma client_asks_expires:
  assumes N: "never_fails N" and c: "client_asks sender cc rest n xs c"
    and expires: "mc_expires (client_write_machine H N S sender) c = (c', out)"
  shows "out = [] \<and> (client_asks sender cc rest n xs c' \<or> client_has_sent cc False c')"
proof -
  obtain g where "cw_dataHandlerV c = Some g"
    using c by (auto simp: client_asks_def)
  from client_write_expires [OF N this _ _ expires, of cc] c show ?thesis
    by (auto simp: client_asks_def client_reachable_by_def)
qed

lemma client_transmits_expires:
  assumes N: "never_fails N" and c: "client_transmits H sender cc rest n xs j c"
    and expires: "mc_expires (client_write_machine H N S sender) c = (c', out)"
  shows "out = [data_datagram H n xs (Suc j)] \<and> client_transmits H sender cc rest n xs j c' \<and>
      cw_lastReceivedBlockNumber c' = cw_lastReceivedBlockNumber c \<or>
    out = [] \<and> client_has_sent cc False c'"
proof -
  obtain g where "cw_dataHandlerV c = Some g"
    using c by (auto simp: client_sends_def client_transmits_def)
  from client_write_expires [OF N this _ _ expires, of cc] c show ?thesis
    by (auto simp: client_sends_def client_transmits_def client_reachable_by_def)
qed

lemma client_sends_expires:
  assumes "never_fails N" and "client_sends H sender cc rest n xs j c"
    and "mc_expires (client_write_machine H N S sender) c = (c', out)"
  shows "out = [data_datagram H n xs (Suc j)] \<and> client_sends H sender cc rest n xs j c' \<or>
    out = [] \<and> client_has_sent cc False c'"
  using client_transmits_expires [OF assms(1) client_sends_transmits [OF assms(2)] assms(3)] assms(2)
  by (auto simp: client_sends_def)

subsection \<open>The two sides together\<close>

text \<open>The request is number 1, block \<open>k\<close> is number \<open>k + 1\<close>.\<close>

definition upload_data :: "helper \<Rightarrow> nat \<Rightarrow> bytes \<Rightarrow> nat \<Rightarrow> bytes" where
  "upload_data H n xs k = data_datagram H n xs (k - 1)"

definition upload_ack :: "helper \<Rightarrow> nat \<Rightarrow> bytes" where
  "upload_ack H k = ack_datagram H (k - 1)"

definition upload_receiver ::
    "helper \<Rightarrow> transfer_status list \<Rightarrow> ('h \<Rightarrow> bool) \<Rightarrow> ('h \<Rightarrow> bytes) \<Rightarrow> nat \<Rightarrow> bytes \<Rightarrow>
     nat \<Rightarrow> 'h server_write \<Rightarrow> bool" where
  "upload_receiver H sc ready contents n xs i s \<longleftrightarrow>
     0 < i \<and> server_receives H sc ready contents n xs (i - 1) s"

definition upload_received ::
    "transfer_status list \<Rightarrow> ('h \<Rightarrow> bytes) \<Rightarrow> nat \<Rightarrow> bytes \<Rightarrow> bool \<Rightarrow> nat \<Rightarrow> 'h server_write \<Rightarrow> bool" where
  "upload_received sc contents n xs ok i s \<longleftrightarrow>
     0 < i \<and> server_has_received sc contents n xs ok (i - 1) s"

primrec upload_sender ::
    "helper \<Rightarrow> endpoint \<Rightarrow> transfer_status list \<Rightarrow> ('g \<Rightarrow> bytes) \<Rightarrow> nat \<Rightarrow> bytes \<Rightarrow>
     nat \<Rightarrow> 'g client_write \<Rightarrow> bool" where
  "upload_sender H sender cc rest n xs 0 c = client_asks sender cc rest n xs c"
| "upload_sender H sender cc rest n xs (Suc j) c = client_sends H sender cc rest n xs j c"

lemma upload_contract:
  assumes "raw_data H" and "never_fails Nc" and "never_fails Ns"
    and "data_sink D sink ready contents" and "data_source S content rest" and "0 < n"
  shows "stop_and_wait (server_write_machine H Ns D) (client_write_machine H Nc S sender)
    (upload_data H n xs) (upload_ack H) 1 (Suc (last_chunk n xs))
    (upload_receiver H sc ready contents n xs) (upload_received sc contents n xs)
    (upload_sender H sender cc rest n xs) (client_has_sent cc)"
proof
  fix i j ok c c' s s' out
  note simps = server_write_machine_def server_machine_def client_write_machine_def client_machine_def
    upload_receiver_def upload_received_def upload_data_def upload_ack_def
  show "upload_receiver H sc ready contents n xs i s \<Longrightarrow> 1 \<le> i \<and> i \<le> Suc (last_chunk n xs)"
    and "upload_received sc contents n xs ok i s \<Longrightarrow> \<not> mc_running (server_write_machine H Ns D) s"
    and "upload_sender H sender cc rest n xs j c \<Longrightarrow> j \<le> Suc (last_chunk n xs)"
    and "client_has_sent cc ok c \<Longrightarrow> \<not> mc_running (client_write_machine H Nc S sender) c"
    by (cases j; auto simp: simps server_receives_def server_holds_def server_has_received_def client_sends_def client_transmits_def
        client_has_sent_def)+
  show "out = [upload_ack H (Suc i)] \<and> (if i < Suc (last_chunk n xs)
      then upload_receiver H sc ready contents n xs (Suc i) s'
      else upload_received sc contents n xs True (Suc i) s')"
    if "upload_receiver H sc ready contents n xs i s"
      "mc_takes (server_write_machine H Ns D) (upload_data H n xs (Suc i)) s = (s', out)"
    using server_receives_next [OF assms(1,3,4,6), of sc xs "i - 1" s s' out] that
    by (cases i) (auto simp: simps(5-8) split: if_splits)
  show "out = [upload_ack H i] \<and> upload_receiver H sc ready contents n xs i s'"
    if "upload_receiver H sc ready contents n xs i s" "1 < i"
      "mc_takes (server_write_machine H Ns D) (upload_data H n xs i) s = (s', out)"
    using server_receives_again [OF assms(1,3,6) _ _, of "i - 1" sc ready contents xs s D s' out] that
    by (simp add: simps(5-8))
  show "(out = [upload_ack H i] \<and> 0 < i \<or> out = []) \<and> upload_receiver H sc ready contents n xs i s' \<or>
      out = [] \<and> upload_received sc contents n xs False i s'"
    if "upload_receiver H sc ready contents n xs i s" "mc_expires (server_write_machine H Ns D) s = (s', out)"
    using server_receives_expires [OF assms(3,4), of H sc n xs "i - 1" s s' out] that
    by (auto simp: simps(5-8))
  show "if j < Suc (last_chunk n xs) then out = [upload_data H n xs (Suc (Suc j))] \<and>
        upload_sender H sender cc rest n xs (Suc j) c'
      else out = [] \<and> client_has_sent cc True c'"
    if "upload_sender H sender cc rest n xs j c"
      "mc_takes (client_write_machine H Nc S sender) (upload_ack H (Suc j)) c = (c', out)"
    using that client_asks_next [OF assms(1,2,5,6), of sender cc xs c c' out]
      client_sends_next [OF assms(1,2,5,6), of sender cc xs "j - 1" c c' out]
    by (cases j) (auto simp: upload_data_def upload_ack_def split: if_splits)
  show "out = [] \<and> upload_sender H sender cc rest n xs j c'"
    if "upload_sender H sender cc rest n xs j c" "0 < j"
      "mc_takes (client_write_machine H Nc S sender) (upload_ack H j) c = (c', out)"
    using that client_sends_again [OF assms(1,2), of sender cc rest n xs "j - 1" c S c' out]
    by (cases j) (simp_all add: upload_ack_def)
  show "(out = [upload_data H n xs (Suc j)] \<and> 1 \<le> j \<or> out = []) \<and> upload_sender H sender cc rest n xs j c' \<or>
      out = [] \<and> client_has_sent cc False c'"
    if "upload_sender H sender cc rest n xs j c" "mc_expires (client_write_machine H Nc S sender) c = (c', out)"
    using that client_asks_expires [OF assms(2), of sender cc rest n xs c H S c' out]
      client_sends_expires [OF assms(2), of H sender cc rest n xs "j - 1" c S c' out]
    by (cases j) (auto simp: upload_data_def)
qed

interpretation memory_upload: stop_and_wait
  "server_write_machine big_endian_helper quiet_net memory_receiver"
  "client_write_machine big_endian_helper quiet_net memory_transmitter sender"
  "upload_data big_endian_helper 512 xs" "upload_ack big_endian_helper" 1 "Suc (last_chunk 512 xs)"
  "upload_receiver big_endian_helper sc (\<lambda>f. mf_operationV f = Receive) mf_dataV 512 xs"
  "upload_received sc mf_dataV 512 xs"
  "upload_sender big_endian_helper sender cc memory_rest 512 xs" "client_has_sent cc"
  for sender cc sc xs
  by (rule upload_contract [OF big_endian.raw_data_axioms never_fails_quiet_net never_fails_quiet_net
        memory_sink.data_sink_axioms memory_source.data_source_axioms]) simp

subsection \<open>Request and start\<close>

definition fresh_uploader ::
    "'g transmit_handler \<Rightarrow> ('g \<Rightarrow> bytes) \<Rightarrow> bytes \<Rightarrow> endpoint \<Rightarrow> 'g client_write \<Rightarrow> bool" where
  "fresh_uploader S content xs sender c \<longleftrightarrow>
     (\<exists>g. cw_dataHandlerV c = Some g \<and> content g = xs \<and> returned (th_start S g)) \<and>
     accepts_no_options (cw_optionNegotiationHandlerV c) \<and> co_completionHandlerV c \<and>
     \<not> ended (trace c) \<and> sender \<noteq> no_endpoint \<and> ep_address (co_remoteV c) = ep_address sender \<and>
     co_receiveEndpointV c = no_endpoint"

definition fresh_store :: "('h \<Rightarrow> bool) \<Rightarrow> 'h receive_handler \<Rightarrow> 'h server_write \<Rightarrow> bool" where
  "fresh_store sink D s \<longleftrightarrow>
     (\<exists>h. sw_dataHandlerV s = Some h \<and> sink h \<and> returned (rh_start D h)) \<and>
     sw_receiveDataSize s = DefaultDataSize \<and> \<not> sw_dallyV s \<and>
     sw_lastReceivedBlockNumber s = BlockNumber 0 \<and> so_completionHandlerV s \<and> \<not> ended (trace s)"

lemma client_write_asked_simps [simp]:
  "cw_transmitDataSize (client_write_asked S c) = cw_transmitDataSize c"
  "cw_lastDataPacketTransmitted (client_write_asked S c) = cw_lastDataPacketTransmitted c"
  "cw_lastTransmittedBlockNumber (client_write_asked S c) = cw_lastTransmittedBlockNumber c"
  "cw_lastReceivedBlockNumber (client_write_asked S c) = cw_lastReceivedBlockNumber c"
  "cw_optionNegotiationHandlerV (client_write_asked S c) = cw_optionNegotiationHandlerV c"
  "co_completionHandlerV (client_write_asked S c) = co_completionHandlerV c"
  "co_receiveEndpointV (client_write_asked S c) = co_receiveEndpointV c"
  "co_remoteV (client_write_asked S c) = co_remoteV c"
  "trace (client_write_asked S c) = trace c"
  by (simp_all add: client_write_asked_def split: option.split prod.split)

lemma client_write_asked_handler:
  assumes "data_source S content rest" and "cw_dataHandlerV c = Some g"
  shows "\<exists>g'. cw_dataHandlerV (client_write_asked S c) = Some g' \<and> rest g' = rest g"
  using data_source.requestedTransferSize_source [OF assms(1), of g] assms(2)
  by (auto simp: client_write_asked_def split: prod.split)

lemma fresh_uploader_requested:
  assumes "never_fails N" and "data_source S content rest" and "fresh_uploader S content xs sender c"
  shows "\<exists>c1. ClientWrite_request H N S c = Inr c1 \<and>
    client_asks sender (completions (trace c)) rest 512 xs c1"
proof -
  obtain g0 g where g: "cw_dataHandlerV c = Some g0" "content g0 = xs" "th_start S g0 = Inr g"
    using assms(3) by (auto simp: fresh_uploader_def elim: returnedE)
  obtain g' where g': "cw_dataHandlerV (client_write_asked S (client_write_reset g c)) = Some g'" "rest g' = xs"
    using client_write_asked_handler [OF assms(2), of "client_write_reset g c" g]
      data_source.start_source [OF assms(2) g(3)] g(2)
    by (auto simp: client_write_reset_def)
  show ?thesis
    unfolding ClientWrite_request_ok [OF assms(1) g(1,3)] Let_def
    using g' assms(3)
    by (cases "cw_optionNegotiationHandlerV c")
      (simp_all add: client_asks_def fresh_uploader_def client_write_reset_def client_write_negotiates_def
        client_reachable_by_def DefaultDataSize_def client_sent_def client_waiting_def Let_def)
qed

lemma fresh_store_started:
  assumes "never_fails N" and "data_sink D sink ready contents" and "fresh_store sink D s"
    and "sw_clientOptionsV s = no_tftp_options" and "sw_additionalNegotiatedOptionsV s = []"
  shows "\<exists>s1. ServerWrite_start H N D s = Inr s1 \<and>
    server_receives H (completions (trace s)) ready contents 512 xs 0 s1 \<and>
    emitted (trace s) (trace s1) = [ack_datagram H 0]"
proof -
  obtain h0 h where h: "sw_dataHandlerV s = Some h0" "sink h0" "rh_start D h0 = Inr h"
    using assms(3) by (auto simp: fresh_store_def elim: returnedE)
  have "ready h \<and> contents h = []"
    by (rule data_sink.start_sink [OF assms(2) h(2,3)])
  then show ?thesis
    unfolding ServerWrite_start_plain [OF assms(1) h(1,3) assms(4,5)]
    using assms(3)
    by (simp add: server_receives_def server_holds_def fresh_store_def DefaultDataSize_def server_waiting_def ack_datagram_def)
qed

text \<open>The request, the start of the server operation, its answer, and \<open>n\<close> exchanges.\<close>

definition upload ::
    "nat \<Rightarrow> helper \<Rightarrow> net \<Rightarrow> net \<Rightarrow> 'h receive_handler \<Rightarrow> 'g transmit_handler \<Rightarrow> endpoint \<Rightarrow>
     'g client_write \<Rightarrow> 'h server_write \<Rightarrow> ('h server_write \<times> 'g client_write \<times> bytes list) option" where
  "upload n H Nc Ns D S sender c0 s0 =
     (case (ClientWrite_request H Nc S c0, ServerWrite_start H Ns D s0) of
        (Inr c1, Inr s1) \<Rightarrow>
          (case emitted (trace s0) (trace s1) of
             [a] \<Rightarrow>
               (case mc_takes (client_write_machine H Nc S sender) a c1 of
                  (c2, out) \<Rightarrow> exchanges n (server_write_machine H Ns D)
                    (client_write_machine H Nc S sender) (s1, c2, out))
           | _ \<Rightarrow> None)
      | _ \<Rightarrow> None)"

lemma upload_plain:
  assumes "raw_data H" and N: "never_fails Nc" "never_fails Ns"
    and D: "data_sink D sink ready contents" and S: "data_source S content rest"
    and c: "fresh_uploader S content xs sender c" and s: "fresh_store sink D s"
    and plain: "sw_clientOptionsV s = no_tftp_options" "sw_additionalNegotiatedOptionsV s = []"
  shows "\<exists>c' s'. upload (Suc (last_chunk 512 xs)) H Nc Ns D S sender c s = Some (s', c', []) \<and>
    server_has_received (completions (trace s)) contents 512 xs True (Suc (last_chunk 512 xs)) s' \<and>
    client_has_sent (completions (trace c)) True c'"
proof -
  obtain c1 where c1: "ClientWrite_request H Nc S c = Inr c1"
      "client_asks sender (completions (trace c)) rest 512 xs c1"
    using fresh_uploader_requested [OF N(1) S c] by blast
  obtain s1 where s1: "ServerWrite_start H Ns D s = Inr s1"
      "server_receives H (completions (trace s)) ready contents 512 xs 0 s1"
      "emitted (trace s) (trace s1) = [ack_datagram H 0]"
    using fresh_store_started [OF N(2) D s plain] by blast
  obtain c2 out where c2: "mc_takes (client_write_machine H Nc S sender) (ack_datagram H 0) c1 = (c2, out)"
    by fastforce
  have out: "out = [data_datagram H 512 xs (Suc 0)]"
    and c2': "client_sends H sender (completions (trace c)) rest 512 xs 0 c2"
    using client_asks_next [OF assms(1) N(1) S _ c1(2) c2] by simp_all
  have "stop_and_wait (server_write_machine H Ns D) (client_write_machine H Nc S sender)
    (upload_data H 512 xs) (upload_ack H) 1 (Suc (last_chunk 512 xs))
    (upload_receiver H (completions (trace s)) ready contents 512 xs)
    (upload_received (completions (trace s)) contents 512 xs)
    (upload_sender H sender (completions (trace c)) rest 512 xs) (client_has_sent (completions (trace c)))"
    by (rule upload_contract [OF assms(1) N D S]) simp
  from stop_and_wait.exchanges_complete [OF this, where i = 1 and k = "last_chunk 512 xs" and r = s1 and s = c2]
  obtain s' c' where "exchanges (Suc (last_chunk 512 xs)) (server_write_machine H Ns D)
      (client_write_machine H Nc S sender) (s1, c2, out) = Some (s', c', [])"
      "upload_received (completions (trace s)) contents 512 xs True (Suc (Suc (last_chunk 512 xs))) s'"
      "client_has_sent (completions (trace c)) True c'"
    using s1(2) c2' out by (auto simp: upload_receiver_def upload_data_def simp del: exchanges.simps)
  then show ?thesis
    by (simp add: upload_def c1(1) s1(1,3) c2 upload_received_def del: exchanges.simps)
qed

text \<open>What the invariant says of the server's handler and of the completions.\<close>

lemma upload_outcome:
  assumes "synchronous 1 (Suc (last_chunk n xs)) data ack (upload_receiver H sc ready contents n xs)
      (upload_received sc contents n xs) (upload_sender H sender cc rest n xs) (client_has_sent cc) (s, ts, c, tc)"
    and "0 < n"
  shows "\<exists>h i rc rs. sw_dataHandlerV s = Some h \<and> contents h = take (i * n) xs \<and>
    completions (trace c) = cc @ rc \<and> completions (trace s) = sc @ rs \<and> rc \<in> outcomes \<and> rs \<in> outcomes \<and>
    (Successful \<in> set rc \<union> set rs \<longrightarrow> contents h = xs)"
proof -
  have sends: "completions (trace c) = cc @ []" if "upload_sender H sender cc rest n xs j c" for j
    using that by (cases j) (simp_all add: client_asks_def client_sends_def client_transmits_def)
  obtain i rs rc where
    s: "\<exists>h. sw_dataHandlerV s = Some h \<and> contents h = take ((i - 1) * n) xs \<and> completions (trace s) = sc @ rs"
    and c: "completions (trace c) = cc @ rc" "rs \<in> outcomes" "rc \<in> outcomes"
    and i: "Successful \<in> set rs \<union> set rc \<Longrightarrow> i = Suc (Suc (last_chunk n xs))"
    by (rule synchronous_outcome [OF assms(1), where PS = "\<lambda>rc c. completions (trace c) = cc @ rc"
          and PR = "\<lambda>i rs s. \<exists>h. sw_dataHandlerV s = Some h \<and> contents h = take ((i - 1) * n) xs \<and>
            completions (trace s) = sc @ rs"])
      (auto simp: upload_receiver_def upload_received_def server_receives_def server_holds_def server_has_received_def
        client_has_sent_def dest: sends)
  have "Successful \<in> set rc \<union> set rs \<longrightarrow> take ((i - 1) * n) xs = xs"
    using i take_last_chunk [OF assms(2), of xs] by (auto simp del: mult_Suc)
  with c s show ?thesis by metis
qed

end
