(* ===== verification/Wire.thy ===== *)
theory Wire
  imports ClientOperation ServerOperation
begin

text \<open>
  What an operation puts on the wire: the datagrams of its calls of \<open>send\<close> and \<open>send_to\<close>, also
  of those that failed. For a set \<open>W\<close> of datagrams a running operation speaks \<open>W\<close> if it has sent
  nothing else and would retransmit nothing else; the functions of the two base classes keep
  this, if what they are given to send is in \<open>W\<close>.
\<close>

fun datagram :: "sys_call \<Rightarrow> bytes set" where
  "datagram (SocketSend b) = {b}"
| "datagram (SocketSendTo b e) = {b}"
| "datagram _ = {}"

fun event_datagram :: "event \<Rightarrow> bytes set" where
  "event_datagram (Called c ok) = datagram c"
| "event_datagram _ = {}"

definition datagrams :: "event list \<Rightarrow> bytes set" where
  "datagrams tr = \<Union> (set (map event_datagram tr))"

definition said :: "bytes set \<Rightarrow> 'a world_scheme \<Rightarrow> bool" where
  "said W s \<longleftrightarrow> datagrams (trace s) \<subseteq> W"

lemma datagrams_simps [simp]:
  "datagrams [] = {}" "datagrams (tr @ tr') = datagrams tr \<union> datagrams tr'"
  "datagrams (e # tr) = event_datagram e \<union> datagrams tr"
  by (auto simp: datagrams_def)

lemma said_call:
  "said W s \<Longrightarrow> datagram c \<subseteq> W \<Longrightarrow> said W (s\<lparr>trace := trace s @ [Called c ok]\<rparr>)"
  by (simp add: said_def)

text \<open>The datagrams that are encodings of certain packets, and what their receiver reads.\<close>

definition encodings :: "helper \<Rightarrow> (packet \<Rightarrow> bool) \<Rightarrow> bytes set" where
  "encodings H says = {Packet_encode H p |p. says p}"

lemma encodingsI: "says p \<Longrightarrow> Packet_encode H p \<in> encodings H says"
  by (auto simp: encodings_def)

definition decodable :: "helper \<Rightarrow> (packet \<Rightarrow> bool) \<Rightarrow> bytes set \<Rightarrow> bool" where
  "decodable H says B \<longleftrightarrow> (\<forall>b\<in>B. \<exists>p. Packet_decode H b = Inr p \<and> says p)"

lemma encodings_decodable:
  assumes "raw_data H" and "\<And>p. says p \<Longrightarrow> wf_packet p" and "B \<subseteq> encodings H says"
  shows "decodable H says B"
  using assms(3) Packet_decode_encode [OF assms(1) assms(2)] by (fastforce simp: encodings_def decodable_def)

lemma wf_options_try_emplace:
  assumes "wf_options opts" and "NUL \<notin> set n" and "NUL \<notin> set v"
  shows "wf_options (try_emplace n v opts)"
proof -
  have "no_NULs (try_emplace n v opts)"
    using assms by (induction opts) (auto simp: wf_options_def is_map_def no_NULs_def)
  with assms(1) show ?thesis by (simp add: wf_options_def is_map_try_emplace)
qed

lemma NUL_to_string: "NUL \<notin> set (to_string n)"
  using to_string_digits [of n] by (auto simp: isdigit_def)

lemma NUL_option_names: "NUL \<notin> set (TftpOptions_name opt)"
  by (cases opt) simp_all

lemmas wf_granted = wf_options_try_emplace NUL_to_string NUL_option_names

subsection \<open>Predicates that calls and statistics do not disturb\<close>

text \<open>\<open>P\<close> is kept by every call that sends nothing outside \<open>W\<close>.\<close>

locale spoken =
  fixes W :: "bytes set" and P :: "'a world_scheme \<Rightarrow> bool"
  assumes P_call: "P s \<Longrightarrow> datagram c \<subseteq> W \<Longrightarrow> P (s\<lparr>trace := trace s @ [Called c ok]\<rparr>)"
    and P_transmit: "P s \<Longrightarrow> P (s\<lparr>globalTransmit := st\<rparr>)"
    and P_receive: "P s \<Longrightarrow> P (s\<lparr>globalReceive := st\<rparr>)"
begin

lemma keeps_call: "datagram c \<subseteq> W \<Longrightarrow> keeps P (system_call N c)"
  by (simp add: keeps_def system_call_def Let_def P_call)

lemma keeps_call_fun: "(\<And>s. P s \<Longrightarrow> datagram (c s) \<subseteq> W) \<Longrightarrow> keeps P (\<lambda>s. system_call N (c s) s)"
  by (simp add: keeps_def system_call_def Let_def P_call)

lemma keeps_counts:
  "keeps P (count_transmit t n)" "keeps P (count_receive t n)" "keeps P (\<lambda>s. count_transmit (t' s) (n' s) s)"
  by (simp_all add: keeps_def count_transmit_apply count_receive_apply P_transmit P_receive)

lemmas keeps_basic = keeps_call keeps_call_fun keeps_counts keeps_throw keeps_try_catch keeps_block

lemma keeps_open_if: "keeps P (\<lambda>s. if net_is_open N (trace s) then system_call N SocketClose s else block [] s)"
  by (rule keeps_fun_if) (auto intro: keeps_call keeps_block)

end

interpretation said: spoken W "said W" for W
  by unfold_locales (simp_all add: said_def)

text \<open>What is known when the \<open>try\<close> blocks of a request and of a server's start return.\<close>

lemma guarded_returns:
  assumes "try_catch p body h s0 = Inr s" and "\<And>s'. h s' \<noteq> Inr s"
  shows "body s0 = Inr s"
  using assms by (auto simp: try_catch_def split: sum.splits if_splits)

lemma block_modify_first: "block (modify f # cs) s = block cs (f s)"
  by (simp add: block.simps modify_apply)

lemma start_returns:
  assumes "try_catch is_exception (try_catch is_tftp_exception (block (c # cs)) (block [])) h s0 = Inr s"
    and "no_tftp c" and "\<And>s'. h s' \<noteq> Inr s"
  shows "\<exists>s1. c s0 = Inr s1 \<and> final (block cs s1) = s"
proof (cases "c s0")
  case (Inl es)
  with assms show ?thesis
    by (cases es) (auto simp: try_catch_def block.simps dest: no_tftpD split: if_splits)
next
  case (Inr s1)
  with assms(1,3) show ?thesis
    by (cases "block cs s1") (auto simp: try_catch_def block.simps split: if_splits sum.splits)
qed

subsection \<open>Client operations\<close>

definition client_speaks :: "bytes set \<Rightarrow> 'a client_op_scheme \<Rightarrow> bool" where
  "client_speaks W s \<longleftrightarrow> said W s \<and> co_transmitPacketV s \<in> W"

interpretation client_speaks: spoken W "client_speaks W" for W
  by unfold_locales (simp_all add: client_speaks_def said_def)

lemma client_speaks_simps [simp]:
  "client_speaks W (s\<lparr>co_transmitCounterV := n\<rparr>) = client_speaks W s"
  "client_speaks W (s\<lparr>co_receiveEndpointV := e\<rparr>) = client_speaks W s"
  "client_speaks W (s\<lparr>co_receiveTimeoutV := t\<rparr>) = client_speaks W s"
  "client_speaks W s \<Longrightarrow> b \<in> W \<Longrightarrow> client_speaks W (s\<lparr>co_transmitPacketV := b\<rparr>)"
  "client_speaks W s \<Longrightarrow> said W s"
  "client_speaks W s \<Longrightarrow> co_transmitPacketV s \<in> W"
  "client_speaks W (s\<lparr>co_errorInformationV := i\<rparr>) = client_speaks W s"
  "client_speaks W (s\<lparr>trace := trace s @ [Completed st]\<rparr>) = client_speaks W s"
  by (simp_all add: client_speaks_def said_def)

text \<open>Nor does the end of an operation disturb a predicate of this kind.\<close>

lemma keeps_ClientOperation_finished:
  assumes "spoken W P" and "\<And>s i. P s \<Longrightarrow> P (s\<lparr>co_errorInformationV := i\<rparr>)"
    and "\<And>s st. P s \<Longrightarrow> P (s\<lparr>trace := trace s @ [Completed st]\<rparr>)"
  shows "keeps P (ClientOperation_finished N status info)"
  unfolding ClientOperation_finished_def
  by (rule keeps_block) (auto intro!: spoken.keeps_basic [OF assms(1)] keeps_modify keeps_fun_if assms(2,3))

text \<open>Before the first packet: the socket is opened, and nothing is sent.\<close>

locale client_opener = spoken W P for W and P :: "'a client_op_scheme \<Rightarrow> bool" +
  fixes F :: "'a client_op_scheme finisher"
  assumes P_F: "keeps P (F status info)"
    and P_endpoint: "P s \<Longrightarrow> P (s\<lparr>co_receiveEndpointV := e\<rparr>)"
begin

lemma keeps_initialise: "keeps P (ClientOperation_initialise N F)"
  unfolding ClientOperation_initialise_def
  by (intro keeps_try_catch keeps_block)
    (auto intro!: keeps_basic keeps_open_if P_F P_endpoint keeps_modify keeps_fun_if)

end

text \<open>The finisher of a derived class, and the error packets, which every operation may send.\<close>

locale client_speaker =
  fixes W :: "bytes set" and H :: helper and F :: "'a client_op_scheme finisher"
  assumes keeps_F: "keeps (client_speaks W) (F status info)"
    and errors: "Packet_encode H (ERR p) \<in> W"
begin

lemma error_sent: "ErrorPacket_encode H p \<in> W"
  using errors by simp

lemmas keeps_intros = client_speaks.keeps_basic client_speaks.keeps_open_if keeps_F keeps_modify keeps_fun_if

lemma keeps_send: "Packet_encode H p \<in> W \<Longrightarrow> keeps (client_speaks W) (ClientOperation_send H N F p)"
  unfolding ClientOperation_send_def
  by (intro keeps_try_catch keeps_F keeps_block)
    (auto intro!: keeps_intros)

text \<open>The first packet brings the operation into this state.\<close>

lemma sendFirst_speaks:
  assumes "said W s" and "Packet_encode H p \<in> W"
  shows "client_speaks W (final (ClientOperation_sendFirst H N F p s))"
proof -
  let ?s = "s\<lparr>co_transmitCounterV := 1, co_transmitPacketV := Packet_encode H p\<rparr>"
  have "ClientOperation_sendFirst H N F p s = try_catch is_system_error (block [
      \<lambda>s. count_transmit (packet_packetType p) (length (co_transmitPacketV s)) s,
      \<lambda>s. system_call N (SocketSendTo (co_transmitPacketV s) (co_remoteV s)) s]) (F CommunicationError None) ?s"
    unfolding ClientOperation_sendFirst_def try_catch_block by (simp add: modify_apply)
  moreover have "client_speaks W ?s" using assms by (simp add: client_speaks_def said_def)
  moreover have "keeps (client_speaks W) (try_catch is_system_error (block [
      \<lambda>s. count_transmit (packet_packetType p) (length (co_transmitPacketV s)) s,
      \<lambda>s. system_call N (SocketSendTo (co_transmitPacketV s) (co_remoteV s)) s]) (F CommunicationError None))"
    by (intro keeps_try_catch keeps_F keeps_block) (auto intro!: keeps_intros)
  ultimately show ?thesis by (auto dest: keepsD)
qed

lemma keeps_receives:
  "keeps (client_speaks W) (ClientOperation_receiveFirst N F)"
  "keeps (client_speaks W) (ClientOperation_receive N F)"
  "keeps (client_speaks W) (ClientOperation_receiveDally N F)"
  unfolding ClientOperation_receiveFirst_def ClientOperation_receive_def ClientOperation_receiveDally_def
  by (intro keeps_try_catch keeps_F keeps_block; auto intro!: keeps_intros)+

lemma keeps_reject: "keeps (client_speaks W) (ClientOperation_reject H N F status code msg)"
  unfolding ClientOperation_reject_def Let_def
  by (intro keeps_block) (auto intro: keeps_send errors keeps_F)

lemma keeps_errorPacket: "keeps (client_speaks W) (ClientOperation_errorPacket H F remote p)"
  unfolding ClientOperation_errorPacket_def by (intro keeps_fun_if keeps_F)

lemma keeps_dispatch:
  assumes "raw_data H" and "\<And>p. keeps (client_speaks W) (call_handler V remote p)"
    and "\<And>raw. keeps (client_speaks W) (ph_invalidPacket V remote raw)"
  shows "keeps (client_speaks W) (PacketHandler_packet H V remote raw)"
  by (intro keeps_PacketHandler_packet assms client_speaks.keeps_counts)

lemma keeps_receiveFirstHandler:
  assumes "raw_data H" and "\<And>remote p. keeps (client_speaks W) (call_handler V remote p)"
    and "\<And>remote raw. keeps (client_speaks W) (ph_invalidPacket V remote raw)"
  shows "keeps (client_speaks W) (ClientOperation_receiveFirstHandler H N F V errorCode sender raw)"
proof -
  have "keeps (client_speaks W) (\<lambda>s. case system_call N (SocketConnect (co_receiveEndpointV s)) s of
      Inl (e, s') \<Rightarrow> if is_system_error e then F CommunicationError None s' else Inl (e, s')
    | Inr s' \<Rightarrow> PacketHandler_packet H V (co_receiveEndpointV s') raw s')"
  proof (rule keepsI)
    fix s :: "'a client_op_scheme" assume "client_speaks W s"
    then have called: "client_speaks W (s\<lparr>trace := trace s @ [Called (SocketConnect e) ok]\<rparr>)" for e ok
      by (rule client_speaks.P_call) simp
    show "client_speaks W (final (case system_call N (SocketConnect (co_receiveEndpointV s)) s of
        Inl (e, s') \<Rightarrow> if is_system_error e then F CommunicationError None s' else Inl (e, s')
      | Inr s' \<Rightarrow> PacketHandler_packet H V (co_receiveEndpointV s') raw s'))"
      using keepsD [OF keeps_dispatch [OF assms] called] keepsD [OF keeps_F called] called
      by (simp add: system_call_def Let_def)
  qed
  then show ?thesis
    unfolding ClientOperation_receiveFirstHandler_def
    by (auto intro!: keeps_intros simp: error_sent Let_def)
qed

lemma keeps_receiveHandler:
  assumes "raw_data H" and "\<And>remote p. keeps (client_speaks W) (call_handler V remote p)"
    and "\<And>remote raw. keeps (client_speaks W) (ph_invalidPacket V remote raw)"
  shows "keeps (client_speaks W) (ClientOperation_receiveHandler H F V errorCode raw)"
  unfolding ClientOperation_receiveHandler_def
  using keeps_dispatch [OF assms] by (auto intro!: keeps_intros intro: keeps_fun)

lemma keeps_timeouts:
  "keeps (client_speaks W) (ClientOperation_timeoutFirstHandler H N F errorCode)"
  "keeps (client_speaks W) (ClientOperation_timeoutHandler H N F errorCode)"
  "keeps (client_speaks W) (ClientOperation_timeoutDallyHandler F errorCode)"
  unfolding ClientOperation_timeoutFirstHandler_def ClientOperation_timeoutHandler_def
    ClientOperation_timeoutDallyHandler_def
  by (auto intro!: keeps_intros)

lemma keeps_on:
  assumes "raw_data H" and "\<And>remote p. keeps (client_speaks W) (call_handler V remote p)"
    and "\<And>remote raw. keeps (client_speaks W) (ph_invalidPacket V remote raw)"
  shows "keeps (client_speaks W) (ClientOperation_on H N F V input)"
  using keeps_receiveFirstHandler [OF assms] keeps_receiveHandler [OF assms] keeps_timeouts
  by (cases input)
    (auto simp: ClientOperation_gracefulAbort_def ClientOperation_abort_def error_sent Let_def
      intro!: keeps_intros keeps_send)

end

subsection \<open>Server operations\<close>

definition server_speaks :: "bytes set \<Rightarrow> 'a server_op_scheme \<Rightarrow> bool" where
  "server_speaks W s \<longleftrightarrow> said W s \<and> so_transmitPacketV s \<in> W"

interpretation server_speaks: spoken W "server_speaks W" for W
  by unfold_locales (simp_all add: server_speaks_def said_def)

lemma server_speaks_simps [simp]:
  "server_speaks W (s\<lparr>so_transmitCounterV := n\<rparr>) = server_speaks W s"
  "server_speaks W (s\<lparr>so_receiveTimeoutV := t\<rparr>) = server_speaks W s"
  "server_speaks W s \<Longrightarrow> b \<in> W \<Longrightarrow> server_speaks W (s\<lparr>so_transmitPacketV := b\<rparr>)"
  "server_speaks W s \<Longrightarrow> said W s"
  "server_speaks W s \<Longrightarrow> so_transmitPacketV s \<in> W"
  "server_speaks W (s\<lparr>so_errorInformationV := i\<rparr>) = server_speaks W s"
  "server_speaks W (s\<lparr>trace := trace s @ [Completed st]\<rparr>) = server_speaks W s"
  by (simp_all add: server_speaks_def said_def)

lemma keeps_ServerOperation_finished:
  assumes "spoken W P" and "\<And>s i. P s \<Longrightarrow> P (s\<lparr>so_errorInformationV := i\<rparr>)"
    and "\<And>s st. P s \<Longrightarrow> P (s\<lparr>trace := trace s @ [Completed st]\<rparr>)"
  shows "keeps P (ServerOperation_finished N status info)"
  unfolding ServerOperation_finished_def
  by (rule keeps_block) (auto intro!: spoken.keeps_basic [OF assms(1)] keeps_modify keeps_fun_if assms(2,3))

locale server_opener = spoken W P for W and P :: "'a server_op_scheme \<Rightarrow> bool" +
  fixes F :: "'a server_op_scheme finisher"
  assumes P_F: "keeps P (F status info)"
begin

lemma keeps_initialise: "keeps P (ServerOperation_initialise N F)"
  unfolding ServerOperation_initialise_def
  by (intro keeps_try_catch keeps_block)
    (auto intro!: keeps_basic keeps_open_if P_F keeps_modify keeps_fun_if)

end

locale server_speaker =
  fixes W :: "bytes set" and H :: helper and F :: "'a server_op_scheme finisher"
  assumes keeps_F: "keeps (server_speaks W) (F status info)"
    and errors: "Packet_encode H (ERR p) \<in> W"
begin

lemmas keeps_intros = server_speaks.keeps_basic server_speaks.keeps_open_if keeps_F keeps_modify keeps_fun_if

text \<open>After the first packet there is something to retransmit.\<close>

lemma send_speaks:
  assumes "said W s" and "Packet_encode H p \<in> W"
  shows "server_speaks W (final (ServerOperation_send H N F p s))"
proof -
  let ?s = "s\<lparr>so_transmitCounterV := 1, so_transmitPacketV := Packet_encode H p\<rparr>"
  let ?c = "try_catch is_system_error (block [
      \<lambda>s. count_transmit (packet_packetType p) (length (so_transmitPacketV s)) s,
      \<lambda>s. system_call N (SocketSend (so_transmitPacketV s)) s]) (F CommunicationError None)"
  have "ServerOperation_send H N F p s = ?c ?s"
    unfolding ServerOperation_send_def try_catch_block by (simp add: modify_apply)
  moreover have "server_speaks W ?s" using assms by (simp add: server_speaks_def said_def)
  moreover have "keeps (server_speaks W) ?c"
    by (intro keeps_try_catch keeps_F keeps_block) (auto intro!: keeps_intros)
  ultimately show ?thesis by (auto dest: keepsD)
qed

lemma keeps_send: "Packet_encode H p \<in> W \<Longrightarrow> keeps (server_speaks W) (ServerOperation_send H N F p)"
  by (intro keepsI send_speaks) simp_all

lemma keeps_receives:
  "keeps (server_speaks W) (ServerOperation_receive N F)"
  "keeps (server_speaks W) (ServerOperation_receiveDally N F)"
  unfolding ServerOperation_receive_def ServerOperation_receiveDally_def
  by (intro keeps_try_catch keeps_F keeps_block; auto intro!: keeps_intros)+

lemma answer_speaks:
  assumes "said W s" and "Packet_encode H p \<in> W"
  shows "server_speaks W (final (block [ServerOperation_send H N F p, ServerOperation_receive N F] s))"
  by (rule final_block_keeps [where P = "server_speaks W"]) (auto intro: send_speaks assms keeps_receives)

lemma reject_speaks:
  assumes "said W s"
  shows "server_speaks W (final (ServerOperation_reject H N F status code msg s))"
  unfolding ServerOperation_reject_def Let_def
  by (rule final_block_keeps [where P = "server_speaks W"]) (auto intro: send_speaks [OF assms errors] keeps_F)

lemma keeps_reject: "keeps (server_speaks W) (ServerOperation_reject H N F status code msg)"
  by (intro keepsI reject_speaks) simp

lemma keeps_errorPacket: "keeps (server_speaks W) (ServerOperation_errorPacket H F remote p)"
  unfolding ServerOperation_errorPacket_def by (intro keeps_fun_if keeps_F)

lemma keeps_timeouts:
  "keeps (server_speaks W) (ServerOperation_timeoutHandler H N F errorCode)"
  "keeps (server_speaks W) (ServerOperation_timeoutDallyHandler F errorCode)"
  unfolding ServerOperation_timeoutHandler_def ServerOperation_timeoutDallyHandler_def
  by (auto intro!: keeps_intros)

lemma keeps_receiveHandler:
  assumes "raw_data H" and "\<And>remote p. keeps (server_speaks W) (call_handler V remote p)"
    and "\<And>remote raw. keeps (server_speaks W) (ph_invalidPacket V remote raw)"
  shows "keeps (server_speaks W) (ServerOperation_receiveHandler H N F V errorCode raw)"
proof -
  have "keeps (server_speaks W) (PacketHandler_packet H V remote raw)" for remote
    by (intro keeps_PacketHandler_packet assms server_speaks.keeps_counts)
  note dispatch = keepsD [OF this]
  have "keeps (server_speaks W) (\<lambda>s. case system_call N RemoteEndpoint s of
      Inl (e, s') \<Rightarrow> Inl (e, s') | Inr s' \<Rightarrow> PacketHandler_packet H V (so_remoteV s') raw s')"
  proof (rule keepsI)
    fix s :: "'a server_op_scheme" assume "server_speaks W s"
    then have called: "server_speaks W (s\<lparr>trace := trace s @ [Called RemoteEndpoint ok]\<rparr>)" for ok
      by (rule server_speaks.P_call) simp
    show "server_speaks W (final (case system_call N RemoteEndpoint s of
        Inl (e, s') \<Rightarrow> Inl (e, s') | Inr s' \<Rightarrow> PacketHandler_packet H V (so_remoteV s') raw s'))"
      using dispatch [OF called] called by (simp add: system_call_def Let_def)
  qed
  then show ?thesis
    unfolding ServerOperation_receiveHandler_def by (auto intro!: keeps_intros)
qed

lemma keeps_on:
  assumes "raw_data H" and "\<And>remote p. keeps (server_speaks W) (call_handler V remote p)"
    and "\<And>remote raw. keeps (server_speaks W) (ph_invalidPacket V remote raw)"
  shows "keeps (server_speaks W) (ServerOperation_on H N F V input)"
  using keeps_receiveHandler [OF assms] keeps_timeouts
  by (cases input)
    (auto simp: ServerOperation_gracefulAbort_def ServerOperation_abort_def Let_def
      intro!: keeps_F keeps_block keeps_send errors simp del: Packet_encode.simps)

end

end
