(* ===== verification/ClientWire.thy ===== *)
theory ClientWire
  imports Wire ClientRead ClientWriteInvariant
begin

text \<open>
  The client operations speak only as a TFTP client does: a download sends its request,
  acknowledgements and errors, an upload its request, data and errors, in every state they can
  reach.
\<close>

subsection \<open>Requests\<close>

definition client_read_request_packet :: "'h client_read \<Rightarrow> request_packet" where
  "client_read_request_packet s =
     \<lparr>rq_filename = cr_filenameV s, rq_mode = cr_modeV s, rq_options = ClientRead_options s\<rparr>"

definition client_write_request_packet :: "'h client_write \<Rightarrow> request_packet" where
  "client_write_request_packet s =
     \<lparr>rq_filename = cw_filenameV s, rq_mode = cw_modeV s, rq_options = ClientWrite_requestOptions s\<rparr>"

lemma wf_client_read_request_packet:
  "NUL \<notin> set (cr_filenameV s) \<Longrightarrow> wf_options (cr_additionalOptionsV s) \<Longrightarrow> wf_request (client_read_request_packet s)"
  by (auto simp: wf_request_def client_read_request_packet_def ClientRead_options_def Let_def
      intro!: wf_granted split: option.split)

lemma wf_client_write_request_packet:
  "NUL \<notin> set (cw_filenameV s) \<Longrightarrow> wf_options (cw_additionalOptionsV s) \<Longrightarrow> wf_request (client_write_request_packet s)"
  by (auto simp: wf_request_def client_write_request_packet_def ClientWrite_requestOptions_def ClientWrite_options_def
      Let_def intro!: wf_granted split: option.split bool.split)

subsection \<open>Downloads\<close>

fun download_client_says :: "request_packet \<Rightarrow> packet \<Rightarrow> bool" where
  "download_client_says r (RRQ q) \<longleftrightarrow> q = r"
| "download_client_says r (ACK a) \<longleftrightarrow> True"
| "download_client_says r (ERR e) \<longleftrightarrow> True"
| "download_client_says r p \<longleftrightarrow> False"

abbreviation download_client_wire :: "helper \<Rightarrow> request_packet \<Rightarrow> bytes set" where
  "download_client_wire H r \<equiv> encodings H (download_client_says r)"

lemma client_speaks_read [simp]:
  fixes s :: "'h client_read"
  shows "client_speaks W (s\<lparr>cr_dataHandlerV := h\<rparr>) = client_speaks W s"
    "client_speaks W (s\<lparr>cr_lastReceivedBlockNumber := n\<rparr>) = client_speaks W s"
    "client_speaks W (s\<lparr>cr_receiveDataSize := sz\<rparr>) = client_speaks W s"
    "client_speaks W (s\<lparr>cr_oackReceived := b\<rparr>) = client_speaks W s"
    "said W (s\<lparr>cr_dataHandlerV := h\<rparr>) = said W s"
  by (simp_all add: client_speaks_def said_def)

lemma keeps_ClientRead_on_handler:
  "(\<And>s h. P s \<Longrightarrow> P (s\<lparr>cr_dataHandlerV := h\<rparr>)) \<Longrightarrow> keeps P (ClientRead_on_handler f)"
  "(\<And>s h. P s \<Longrightarrow> P (s\<lparr>cr_dataHandlerV := h\<rparr>)) \<Longrightarrow> keeps P (ClientRead_start_handler D)"
  by (auto intro!: keepsI simp: ClientRead_on_handler_def ClientRead_start_handler_def
      split: option.split sum.split)

interpretation client_read_speaker:
  client_speaker "download_client_wire H r" H "ClientRead_finished N D" for H r N D
proof unfold_locales
  show "keeps (client_speaks (download_client_wire H r)) (ClientRead_finished N D status info)" for status info
    unfolding ClientRead_finished_def
    by (intro keeps_noexcept keeps_block)
      (auto intro!: keeps_ClientRead_on_handler keeps_ClientOperation_finished client_speaks.spoken_axioms)
qed (rule encodingsI, simp)

text \<open>Until the request is sent, nothing is said and the request stays the same.\<close>

definition client_read_asking :: "bytes set \<Rightarrow> request_packet \<Rightarrow> 'h client_read \<Rightarrow> bool" where
  "client_read_asking W r s \<longleftrightarrow> said W s \<and> client_read_request_packet s = r"

lemma client_read_asking_updates [simp]:
  "client_read_asking W r (s\<lparr>cr_dataHandlerV := h\<rparr>) = client_read_asking W r s"
  "client_read_asking W r (s\<lparr>cr_receiveDataSize := sz\<rparr>) = client_read_asking W r s"
  "client_read_asking W r (s\<lparr>cr_lastReceivedBlockNumber := n\<rparr>) = client_read_asking W r s"
  "client_read_asking W r (s\<lparr>co_receiveEndpointV := e\<rparr>) = client_read_asking W r s"
  "client_read_asking W r (s\<lparr>co_errorInformationV := i\<rparr>) = client_read_asking W r s"
  "client_read_asking W r (s\<lparr>trace := trace s @ [Completed st]\<rparr>) = client_read_asking W r s"
  by (simp_all add: client_read_asking_def said_def client_read_request_packet_def ClientRead_options_def)

interpretation client_read_asking: spoken W "client_read_asking W r" for W r
  by unfold_locales (auto simp: client_read_asking_def said_def client_read_request_packet_def ClientRead_options_def)

interpretation client_read_opener:
  client_opener W "client_read_asking W r" "ClientRead_finished N D" for W r N D
proof unfold_locales
  show "keeps (client_read_asking W r) (ClientRead_finished N D status info)" for status info
    unfolding ClientRead_finished_def
    by (intro keeps_noexcept keeps_block)
      (auto intro!: keeps_ClientRead_on_handler keeps_ClientOperation_finished client_read_asking.spoken_axioms)
qed simp

lemma ClientRead_finished_returns: "ClientRead_finished N D status info s' = Inr s \<Longrightarrow> ended (trace s)"
  using ClientRead_finished_final [of N D status info s']
  by (cases "cr_dataHandlerV s'")
    (auto simp: ClientRead_finished_def noexcept_def ClientRead_on_handler_def block.simps)

lemma client_read_requested_speaks:
  assumes "ClientRead_request H N D s0 = Inr s" and "\<not> ended (trace s)" and "said W s0"
    and W: "W = download_client_wire H (client_read_request_packet s0)"
  shows "client_speaks W s"
proof -
  let ?F = "ClientRead_finished N D" and ?P = "client_read_asking W (client_read_request_packet s0)"
  let ?open = "[ClientOperation_initialise N ?F, ClientRead_start_handler D,
     modify (\<lambda>s. s\<lparr>cr_receiveDataSize := DefaultDataSize\<rparr>),
     modify (\<lambda>s. s\<lparr>cr_lastReceivedBlockNumber := BlockNumber 0\<rparr>)]"
  have "block (?open @ [\<lambda>s. ClientOperation_sendFirst H N ?F (RRQ (client_read_request_packet s)) s,
      ClientOperation_receiveFirst N ?F]) s0 = Inr s"
    unfolding append.simps
    using assms(1) ClientRead_finished_returns [of N D CommunicationError None _ s] assms(2)
    by (intro guarded_returns [where h = "?F CommunicationError None"])
      (auto simp: ClientRead_request_def client_read_request_packet_def throw_apply split: if_splits)
  then obtain s1 s2 where s1: "block ?open s0 = Inr s1"
    and s2: "ClientOperation_sendFirst H N ?F (RRQ (client_read_request_packet s1)) s1 = Inr s2"
    and s: "ClientOperation_receiveFirst N ?F s2 = Inr s"
    by (auto simp: block_append block_single simp del: append.simps split: sum.splits)
      (auto simp: block.simps split: sum.splits)
  have "keeps ?P (block ?open)"
    by (intro keeps_block) (auto intro: client_read_opener.keeps_initialise keeps_modify keeps_ClientRead_on_handler)
  with s1 assms(3) have P: "?P s1" by (auto simp: client_read_asking_def dest: keepsD [of ?P _ s0])
  have "Packet_encode H (RRQ (client_read_request_packet s1)) \<in> W"
    unfolding W using P by (intro encodingsI) (simp add: client_read_asking_def)
  with client_read_speaker.sendFirst_speaks [where s = s1 and H = H and N = N and D = D] P s2
  have "client_speaks W s2" unfolding W client_read_asking_def by (metis final.simps(2))
  then have "client_speaks W (final (ClientOperation_receiveFirst N ?F s2))"
    unfolding W by (rule keepsD [OF client_read_speaker.keeps_receives(1)])
  with s show ?thesis by simp
qed


text \<open>The handlers of the class.\<close>

lemmas client_read_speaks =
  client_read_speaker.keeps_reject client_read_speaker.keeps_send client_read_speaker.keeps_receives
  client_read_speaker.keeps_F

lemma client_read_speaks_continue:
  "keeps (client_speaks (download_client_wire H r)) (ClientRead_continue N D p)"
  unfolding ClientRead_continue_def by (intro keeps_fun_if client_read_speaks)

lemma client_read_speaks_data:
  "keeps (client_speaks (download_client_wire H r)) (ClientRead_dataPacket H N D remote p)"
  (is "keeps ?P _")
proof -
  have "keeps ?P (\<lambda>s. ClientOperation_send H N (ClientRead_finished N D)
      (ACK \<lparr>ap_blockNumber = cr_lastReceivedBlockNumber s\<rparr>) s)"
    by (rule keeps_fun) (intro client_read_speaks encodingsI, simp)
  then show ?thesis
    unfolding ClientRead_dataPacket_def
    by (intro keeps_fun_if client_read_speaks)
      (auto intro!: keeps_block keeps_modify keeps_ClientRead_on_handler client_read_speaks_continue)
qed

lemma client_read_speaks_oack:
  "keeps (client_speaks (download_client_wire H r)) (ClientRead_optionsAcknowledgementPacket H N D remote p)"
  (is "keeps ?P _")
proof (rule keepsI)
  fix s :: "'a client_read" assume s: "?P s"
  note branches = final_branches [where P = ?P]
  have accept: "keeps ?P (block [modify (\<lambda>s. s\<lparr>cr_oackReceived := True\<rparr>),
      ClientOperation_send H N (ClientRead_finished N D) (ACK \<lparr>ap_blockNumber = BlockNumber 0\<rparr>),
      ClientOperation_receive N (ClientRead_finished N D)])"
    by (auto intro!: keeps_block keeps_modify client_read_speaks encodingsI simp del: Packet_encode.simps)
  have s1: "?P (case b of None \<Rightarrow> s | Some v \<Rightarrow> s\<lparr>cr_receiveDataSize := v\<rparr>)" for b
    using s by (simp split: option.split)
  have s2: "?P (case t of None \<Rightarrow> s' | Some v \<Rightarrow> s'\<lparr>co_receiveTimeoutV := uint v\<rparr>)"
    if "?P s'" for t :: "8 word option" and s' :: "'a client_read"
    using that by (simp split: option.split)
  have s3: "?P s3" if "ClientRead_receivedTransferSize D sz s' = Inr (a, s3)" "?P s'" for sz s' a s3
    using that by (auto simp: ClientRead_receivedTransferSize_def split: option.splits prod.splits)
  have e3: "?P s3" if "ClientRead_receivedTransferSize D sz s' = Inl (e, s3)" "?P s'" for sz s' e s3
    using that by (auto simp: ClientRead_receivedTransferSize_def split: option.splits prod.splits)
  show "?P (final (ClientRead_optionsAcknowledgementPacket H N D remote p s))"
    unfolding ClientRead_optionsAcknowledgementPacket_def Let_def
    by (intro branches)
      (auto simp: s intro!: keepsD [OF client_read_speaks(1)] keepsD [OF accept] s1 s2 intro: s3 e3)
qed

lemma client_read_on_speaks:
  assumes "raw_data H"
  shows "keeps (client_speaks (download_client_wire H r)) (ClientRead_on H N D input)"
proof -
  have "keeps (client_speaks (download_client_wire H r)) (call_handler (ClientRead_handlers H N D) remote p)"
    for remote p
    by (cases p)
      (simp_all add: ClientRead_handlers_def ClientOperation_readRequestPacket_def
        ClientOperation_writeRequestPacket_def ClientRead_acknowledgementPacket_def
        client_read_speaks(1) client_read_speaks_data client_read_speaks_oack
        client_read_speaker.keeps_errorPacket)
  then show ?thesis
    unfolding ClientRead_on_def
    by (intro client_read_speaker.keeps_on assms)
      (auto simp: ClientRead_handlers_def ClientOperation_invalidPacket_def client_read_speaks(1))
qed

lemma client_read_reachable_speaks:
  assumes "client_read_reachable H N D s0 s" and "raw_data H" and "datagrams (trace s0) = {}"
  shows "client_speaks (download_client_wire H (client_read_request_packet s0)) s"
  using assms(1)
proof induction
  case (requested s)
  then show ?case
    by (rule client_read_requested_speaks) (simp_all add: said_def assms(3))
next
  case (step s input)
  then show ?case using keepsD [OF client_read_on_speaks [OF assms(2)]] by blast
qed

subsection \<open>Uploads\<close>

text \<open>The transfer size of the request is the one the data handler names.\<close>

fun upload_client_says :: "(u64 option \<Rightarrow> request_packet) \<Rightarrow> packet \<Rightarrow> bool" where
  "upload_client_says r (WRQ q) \<longleftrightarrow> q \<in> range r"
| "upload_client_says r (DATA d) \<longleftrightarrow> True"
| "upload_client_says r (ERR e) \<longleftrightarrow> True"
| "upload_client_says r p \<longleftrightarrow> False"

abbreviation upload_client_wire :: "helper \<Rightarrow> (u64 option \<Rightarrow> request_packet) \<Rightarrow> bytes set" where
  "upload_client_wire H r \<equiv> encodings H (upload_client_says r)"

definition client_write_request_packets :: "'h client_write \<Rightarrow> u64 option \<Rightarrow> request_packet" where
  "client_write_request_packets s sz = client_write_request_packet (s\<lparr>cw_transferSize := sz\<rparr>)"

lemma client_speaks_write [simp]:
  fixes s :: "'h client_write"
  shows "client_speaks W (s\<lparr>cw_dataHandlerV := h\<rparr>) = client_speaks W s"
    "client_speaks W (s\<lparr>cw_lastReceivedBlockNumber := n\<rparr>) = client_speaks W s"
    "client_speaks W (s\<lparr>cw_lastTransmittedBlockNumber := n\<rparr>) = client_speaks W s"
    "client_speaks W (s\<lparr>cw_transmitDataSize := sz\<rparr>) = client_speaks W s"
    "client_speaks W (s\<lparr>cw_lastDataPacketTransmitted := b\<rparr>) = client_speaks W s"
  by (simp_all add: client_speaks_def said_def)

lemma keeps_ClientWrite_on_handler:
  "(\<And>s h. P s \<Longrightarrow> P (s\<lparr>cw_dataHandlerV := h\<rparr>)) \<Longrightarrow> keeps P (ClientWrite_on_handler f)"
  "(\<And>s h. P s \<Longrightarrow> P (s\<lparr>cw_dataHandlerV := h\<rparr>)) \<Longrightarrow> keeps P (ClientWrite_start_handler S)"
  by (auto intro!: keepsI simp: ClientWrite_on_handler_def ClientWrite_start_handler_def
      split: option.split sum.split)

interpretation client_write_speaker:
  client_speaker "upload_client_wire H r" H "ClientWrite_finished N S" for H r N S
proof unfold_locales
  show "keeps (client_speaks (upload_client_wire H r)) (ClientWrite_finished N S status info)" for status info
    unfolding ClientWrite_finished_def
    by (intro keeps_noexcept keeps_block)
      (auto intro!: keeps_ClientWrite_on_handler keeps_ClientOperation_finished client_speaks.spoken_axioms)
qed (rule encodingsI, simp)

definition client_write_asking ::
    "bytes set \<Rightarrow> (u64 option \<Rightarrow> request_packet) \<Rightarrow> 'h client_write \<Rightarrow> bool" where
  "client_write_asking W r s \<longleftrightarrow> said W s \<and> client_write_request_packets s = r"

lemma client_write_asking_cong:
  assumes "said W s' = said W s" "cw_filenameV s' = cw_filenameV s" "cw_modeV s' = cw_modeV s"
    "cw_optionsConfigurationV s' = cw_optionsConfigurationV s"
    "cw_additionalOptionsV s' = cw_additionalOptionsV s"
  shows "client_write_asking W r s' = client_write_asking W r s"
proof -
  have "ClientWrite_options (s'\<lparr>cw_transferSize := sz\<rparr>) = ClientWrite_options (s\<lparr>cw_transferSize := sz\<rparr>)" for sz
    by (simp add: ClientWrite_options_def assms)
  then have "client_write_request_packets s' = client_write_request_packets s"
    by (simp add: fun_eq_iff client_write_request_packets_def client_write_request_packet_def ClientWrite_requestOptions_def assms
        split: option.split bool.split)
  then show ?thesis by (simp add: client_write_asking_def assms(1))
qed

lemma client_write_asking_updates [simp]:
  "client_write_asking W r (s\<lparr>cw_dataHandlerV := h\<rparr>) = client_write_asking W r s"
  "client_write_asking W r (s\<lparr>cw_transferSize := sz\<rparr>) = client_write_asking W r s"
  "client_write_asking W r (s\<lparr>cw_transmitDataSize := n, cw_lastDataPacketTransmitted := b,
     cw_lastTransmittedBlockNumber := t, cw_lastReceivedBlockNumber := l\<rparr>) = client_write_asking W r s"
  "client_write_asking W r (s\<lparr>co_receiveEndpointV := e\<rparr>) = client_write_asking W r s"
  "client_write_asking W r (s\<lparr>co_errorInformationV := i\<rparr>) = client_write_asking W r s"
  "client_write_asking W r (s\<lparr>trace := trace s @ [Completed st]\<rparr>) = client_write_asking W r s"
  by (rule client_write_asking_cong; simp add: said_def)+

interpretation client_write_asking: spoken W "client_write_asking W r" for W r
proof unfold_locales
  fix s :: "'a client_write" and c ok st
  assume s: "client_write_asking W r s"
  show "client_write_asking W r (s\<lparr>trace := trace s @ [Called c ok]\<rparr>)" if "datagram c \<subseteq> W"
  proof -
    have "said W (s\<lparr>trace := trace s @ [Called c ok]\<rparr>) = said W s" using that by (simp add: said_def)
    from client_write_asking_cong [OF this] s show ?thesis by simp
  qed
  show "client_write_asking W r (s\<lparr>globalTransmit := st\<rparr>)"
    "client_write_asking W r (s\<lparr>globalReceive := st\<rparr>)"
    using s by (subst client_write_asking_cong [where s = s]; simp add: said_def)+
qed

interpretation client_write_opener:
  client_opener W "client_write_asking W r" "ClientWrite_finished N S" for W r N S
proof unfold_locales
  show "keeps (client_write_asking W r) (ClientWrite_finished N S status info)" for status info
    unfolding ClientWrite_finished_def
    by (intro keeps_noexcept keeps_block)
      (auto intro!: keeps_ClientWrite_on_handler keeps_ClientOperation_finished client_write_asking.spoken_axioms)
qed simp

lemma ClientWrite_finished_returns: "ClientWrite_finished N S status info s' = Inr s \<Longrightarrow> ended (trace s)"
  using ClientWrite_finished_final [of s' _ N S status info]
  by (cases "cw_dataHandlerV s'")
    (auto simp: ClientWrite_finished_def noexcept_def ClientWrite_on_handler_def block.simps)

lemma client_write_requested_speaks:
  assumes "ClientWrite_request H N S s0 = Inr s" and "\<not> ended (trace s)" and "said W s0"
    and W: "W = upload_client_wire H (client_write_request_packets s0)"
  shows "client_speaks W s"
proof -
  let ?F = "ClientWrite_finished N S" and ?P = "client_write_asking W (client_write_request_packets s0)"
  let ?open = "[ClientOperation_initialise N ?F, ClientWrite_start_handler S,
     modify (\<lambda>s. s\<lparr>cw_transmitDataSize := DefaultDataSize,
                   cw_lastDataPacketTransmitted := False,
                   cw_lastTransmittedBlockNumber := BlockNumber 0,
                   cw_lastReceivedBlockNumber := BlockNumber 0xFFFF\<rparr>),
     ClientWrite_askTransferSize S]"
  have "block (?open @ [\<lambda>s. ClientOperation_sendFirst H N ?F (WRQ (client_write_request_packet s)) s,
      ClientOperation_receiveFirst N ?F]) s0 = Inr s"
    unfolding append.simps
    using assms(1) ClientWrite_finished_returns [of N S CommunicationError None _ s] assms(2)
    by (intro guarded_returns [where h = "?F CommunicationError None"])
      (auto simp: ClientWrite_request_def client_write_request_packet_def throw_apply split: if_splits)
  then obtain s1 s2 where s1: "block ?open s0 = Inr s1"
    and s2: "ClientOperation_sendFirst H N ?F (WRQ (client_write_request_packet s1)) s1 = Inr s2"
    and s: "ClientOperation_receiveFirst N ?F s2 = Inr s"
    by (auto simp: block_append block_single simp del: append.simps split: sum.splits)
      (auto simp: block.simps split: sum.splits)
  have "keeps ?P (ClientWrite_askTransferSize S)"
    by (auto intro!: keepsI simp: ClientWrite_askTransferSize_def split: option.split prod.split)
  then have "keeps ?P (block ?open)"
    by (intro keeps_block) (auto intro: client_write_opener.keeps_initialise keeps_modify keeps_ClientWrite_on_handler)
  with s1 assms(3) have P: "?P s1" by (auto simp: client_write_asking_def dest: keepsD [of ?P _ s0])
  have "client_write_request_packet s1 = client_write_request_packets s1 (cw_transferSize s1)"
    by (simp add: client_write_request_packets_def)
  then have "Packet_encode H (WRQ (client_write_request_packet s1)) \<in> W"
    unfolding W using P by (intro encodingsI) (simp add: client_write_asking_def)
  with client_write_speaker.sendFirst_speaks [where s = s1 and H = H and N = N and S = S] P s2
  have "client_speaks W s2" unfolding W client_write_asking_def by (metis final.simps(2))
  then have "client_speaks W (final (ClientOperation_receiveFirst N ?F s2))"
    unfolding W by (rule keepsD [OF client_write_speaker.keeps_receives(1)])
  with s show ?thesis by simp
qed

lemmas client_write_speaks =
  client_write_speaker.keeps_reject client_write_speaker.keeps_send client_write_speaker.keeps_receives
  client_write_speaker.keeps_F

lemma client_write_speaks_sendData:
  "keeps (client_speaks (upload_client_wire H r)) (ClientWrite_sendData H N S)"
  (is "keeps ?P _")
proof -
  have "keeps ?P (ClientOperation_send H N (ClientWrite_finished N S) (DATA d))" for d
    by (intro client_write_speaks encodingsI) simp
  then have "keeps ?P (block [
      modify (\<lambda>s. s\<lparr>cw_dataHandlerV := Some h'\<rparr>),
      \<lambda>s. if DataPacket_dataSize d < unat (cw_transmitDataSize s)
          then modify (\<lambda>s. s\<lparr>cw_lastDataPacketTransmitted := True\<rparr>) s else block [] s,
      ClientOperation_send H N (ClientWrite_finished N S) (DATA d)])" for h' d
    by (auto intro!: keeps_block keeps_modify keeps_fun_if)
  note inner = keepsD [OF this]
  have "keeps ?P (block [modify (\<lambda>s. s\<lparr>cw_lastTransmittedBlockNumber :=
      BlockNumber_preincrement (cw_lastTransmittedBlockNumber s)\<rparr>), c])" if "keeps ?P c" for c
    using that by (auto intro!: keeps_block keeps_modify)
  then show ?thesis
    unfolding ClientWrite_sendData_def
    by this (intro keepsI, auto intro!: inner simp: Let_def throw_apply split: option.split prod.split)
qed

lemma client_write_speaks_ack:
  "keeps (client_speaks (upload_client_wire H r)) (ClientWrite_acknowledgementPacket H N S remote p)"
  unfolding ClientWrite_acknowledgementPacket_def
  by (intro keeps_fun_if client_write_speaks)
    (auto intro!: keeps_block keeps_modify keeps_fun_if client_write_speaks client_write_speaks_sendData)

lemma client_write_speaks_oack:
  "keeps (client_speaks (upload_client_wire H r)) (ClientWrite_optionsAcknowledgementPacket H N S remote p)"
  (is "keeps ?P _")
proof (rule keepsI)
  fix s :: "'a client_write" assume s: "?P s"
  note branches = final_branches [where P = ?P]
  have accept: "keeps ?P (block [ClientWrite_sendData H N S,
      ClientOperation_receive N (ClientWrite_finished N S)])"
    by (auto intro!: keeps_block client_write_speaks client_write_speaks_sendData)
  have s1: "?P (case b of None \<Rightarrow> s | Some v \<Rightarrow> s\<lparr>cw_transmitDataSize := v\<rparr>)" for b
    using s by (simp split: option.split)
  have s2: "?P (case t of None \<Rightarrow> s' | Some v \<Rightarrow> s'\<lparr>co_receiveTimeoutV := uint v\<rparr>)"
    if "?P s'" for t :: "8 word option" and s' :: "'a client_write"
    using that by (simp split: option.split)
  show "?P (final (ClientWrite_optionsAcknowledgementPacket H N S remote p s))"
    unfolding ClientWrite_optionsAcknowledgementPacket_def Let_def
    by (intro branches)
      (auto simp: s intro!: keepsD [OF client_write_speaks(1)] keepsD [OF accept] s1 s2)
qed

lemma client_write_on_speaks:
  assumes "raw_data H"
  shows "keeps (client_speaks (upload_client_wire H r)) (ClientWrite_on H N S input)"
proof -
  have "keeps (client_speaks (upload_client_wire H r)) (call_handler (ClientWrite_handlers H N S) remote p)"
    for remote p
    by (cases p)
      (simp_all add: ClientWrite_handlers_def ClientOperation_readRequestPacket_def
        ClientOperation_writeRequestPacket_def ClientWrite_dataPacket_def
        client_write_speaks(1) client_write_speaks_ack client_write_speaks_oack
        client_write_speaker.keeps_errorPacket)
  then show ?thesis
    unfolding ClientWrite_on_def
    by (intro client_write_speaker.keeps_on assms)
      (auto simp: ClientWrite_handlers_def ClientOperation_invalidPacket_def client_write_speaks(1))
qed

lemma client_write_reachable_speaks:
  assumes "client_write_reachable H N S s0 s" and "raw_data H" and "datagrams (trace s0) = {}"
  shows "client_speaks (upload_client_wire H (client_write_request_packets s0)) s"
  using assms(1)
proof induction
  case (requested s)
  then show ?case
    by (rule client_write_requested_speaks) (simp_all add: said_def assms(3))
next
  case (step s input)
  then show ?case using keepsD [OF client_write_on_speaks [OF assms(2)]] by blast
qed

end
