(* ===== verification/ServerWire.thy ===== *)
theory ServerWire
  imports Wire ServerReadInvariant ServerWriteInvariant
begin

text \<open>
  The server operations speak only as a TFTP server does: a download sends data, an option
  acknowledgement and errors, an upload acknowledgements, an option acknowledgement and errors,
  in every state they can reach.
\<close>

subsection \<open>Downloads\<close>

fun download_server_says :: "packet \<Rightarrow> bool" where
  "download_server_says (DATA d) \<longleftrightarrow> True"
| "download_server_says (OACK p) \<longleftrightarrow> wf_oack p"
| "download_server_says (ERR e) \<longleftrightarrow> True"
| "download_server_says p \<longleftrightarrow> False"

abbreviation download_server_wire :: "helper \<Rightarrow> bytes set" where
  "download_server_wire H \<equiv> encodings H download_server_says"

lemma server_speaks_read [simp]:
  fixes s :: "'h server_read"
  shows "server_speaks W (s\<lparr>sr_dataHandlerV := h\<rparr>) = server_speaks W s"
    "server_speaks W (s\<lparr>sr_lastReceivedBlockNumber := n\<rparr>) = server_speaks W s"
    "server_speaks W (s\<lparr>sr_lastTransmittedBlockNumber := n\<rparr>) = server_speaks W s"
    "server_speaks W (s\<lparr>sr_transmitDataSize := sz\<rparr>) = server_speaks W s"
    "server_speaks W (s\<lparr>sr_lastDataPacketTransmitted := b\<rparr>) = server_speaks W s"
  by (simp_all add: server_speaks_def said_def)

lemma keeps_ServerRead_on_handler:
  "(\<And>s h. P s \<Longrightarrow> P (s\<lparr>sr_dataHandlerV := h\<rparr>)) \<Longrightarrow> keeps P (ServerRead_on_handler f)"
  by (auto intro!: keepsI simp: ServerRead_on_handler_def split: option.split)

interpretation server_read_speaker:
  server_speaker "download_server_wire H" H "ServerRead_finished N S" for H N S
proof unfold_locales
  show "keeps (server_speaks (download_server_wire H)) (ServerRead_finished N S status info)" for status info
    unfolding ServerRead_finished_def
    by (intro keeps_noexcept keeps_block)
      (auto intro!: keeps_ServerRead_on_handler keeps_ServerOperation_finished server_speaks.spoken_axioms)
qed (rule encodingsI, simp)

text \<open>Before the answer: nothing is said, and the data handler is the one set up or the operation ended.\<close>

definition server_read_opening :: "bytes set \<Rightarrow> 'h \<Rightarrow> 'h server_read \<Rightarrow> bool" where
  "server_read_opening W h s \<longleftrightarrow> said W s \<and> wf_options (sr_additionalNegotiatedOptionsV s) \<and>
     sr_dataHandlerV s \<noteq> None \<and> (ended (trace s) \<or> sr_dataHandlerV s = Some h)"

interpretation server_read_opening: spoken W "server_read_opening W h" for W h
  by unfold_locales (auto simp: server_read_opening_def said_def)

lemma keeps_ServerRead_finished_said: "keeps (said W) (ServerRead_finished N S status info)"
  unfolding ServerRead_finished_def
  by (intro keeps_noexcept keeps_block)
    (auto intro!: keeps_ServerRead_on_handler keeps_ServerOperation_finished said.spoken_axioms simp: said_def)

interpretation server_read_opener:
  server_opener W "server_read_opening W h" "ServerRead_finished N S" for W h N S
proof unfold_locales
  show "keeps (server_read_opening W h) (ServerRead_finished N S status info)" for status info
  proof (rule keepsI)
    fix s :: "'a server_read" assume s: "server_read_opening W h s"
    then obtain h' where "sr_dataHandlerV s = Some h'" by (auto simp: server_read_opening_def)
    from ServerRead_finished_final [OF this, of N S status info] obtain ok tr where
      "final (ServerRead_finished N S status info s) =
        s\<lparr>sr_dataHandlerV := Some (th_finished S h'), so_errorInformationV := info,
          trace := trace s @ Called TimerCancel ok # tr\<rparr>" by blast
    moreover have "said W (final (ServerRead_finished N S status info s))"
      using s by (intro keepsD [OF keeps_ServerRead_finished_said]) (simp add: server_read_opening_def)
    ultimately show "server_read_opening W h (final (ServerRead_finished N S status info s))"
      using s by (simp add: server_read_opening_def)
  qed
qed

lemma ServerRead_finished_returns: "ServerRead_finished N S status info s' = Inr s \<Longrightarrow> ended (trace s)"
  using ServerRead_finished_final [of s' _ N S status info]
  by (cases "sr_dataHandlerV s'")
    (auto simp: ServerRead_finished_def noexcept_def ServerRead_on_handler_def block.simps)

text \<open>The answer.\<close>

lemma server_read_sendData_speaks:
  assumes "said (download_server_wire H) s" and "sr_dataHandlerV s = Some h"
  shows "server_speaks (download_server_wire H) (final (ServerRead_sendData H N S s))"
proof -
  obtain d h' where d: "th_sendData S (unat (sr_transmitDataSize s)) h = (d, h')" by fastforce
  show ?thesis
    unfolding ServerRead_sendData_sends [OF assms(2) d] using assms(1)
    by (intro server_read_speaker.send_speaks encodingsI) (simp_all add: said_def Let_def)
qed

lemma keeps_server_read_sendData:
  "keeps (server_speaks (download_server_wire H)) (ServerRead_sendData H N S)"
proof (rule keepsI)
  fix s :: "'a server_read" assume s: "server_speaks (download_server_wire H) s"
  show "server_speaks (download_server_wire H) (final (ServerRead_sendData H N S s))"
  proof (cases "sr_dataHandlerV s")
    case None
    with s show ?thesis by (simp add: ServerRead_sendData_def block_modify throw_apply)
  qed (rule server_read_sendData_speaks, use s in simp_all)
qed

lemma server_read_grant_wf:
  assumes "wf_options (sr_additionalNegotiatedOptionsV s)" and "ServerRead_grant s = (opts, s1)"
  shows "wf_options opts \<and> trace s1 = trace s \<and> sr_dataHandlerV s1 = sr_dataHandlerV s"
  using assms
  by (auto simp: ServerRead_grant_def Let_def intro!: wf_granted split: option.splits if_splits)

lemma server_read_answer_speaks:
  assumes "said (download_server_wire H) s" and "sr_dataHandlerV s = Some h" and "wf_options opts"
  shows "server_speaks (download_server_wire H) (final (server_read_answer H N S opts s))"
proof (cases "opts = []")
  case True
  have "server_speaks (download_server_wire H)
      (final (block [ServerRead_sendData H N S, ServerOperation_receive N (ServerRead_finished N S)] s))"
    by (rule final_block_keeps [where P = "server_speaks (download_server_wire H)"])
      (auto intro: server_read_sendData_speaks [OF assms(1,2)] server_read_speaker.keeps_receives)
  with True show ?thesis by (simp add: server_read_answer_def)
next
  case False
  have "server_speaks (download_server_wire H) (final (block [
      ServerOperation_send H N (ServerRead_finished N S) (OACK \<lparr>op_options = opts\<rparr>),
      ServerOperation_receive N (ServerRead_finished N S)] (s\<lparr>sr_lastReceivedBlockNumber := BlockNumber 0xFFFF\<rparr>)))"
    using assms False
    by (intro server_read_speaker.answer_speaks encodingsI) (simp_all add: said_def wf_oack_def)
  with False show ?thesis by (simp add: server_read_answer_def block_modify_first)
qed


lemma server_read_respond_speaks:
  assumes s: "said (download_server_wire H) s" "sr_dataHandlerV s = Some h"
    "wf_options (sr_additionalNegotiatedOptionsV s)"
  shows "server_speaks (download_server_wire H) (final (server_read_respond H N S s))"
proof (cases "\<not> TftpOptions_bool (sr_clientOptionsV s) \<and> sr_additionalNegotiatedOptionsV s = []")
  case True
  with server_read_answer_speaks [OF s(1,2), of "[]" N S] s(3) show ?thesis
    by (simp add: server_read_respond_def server_read_answer_def)
next
  case False
  obtain opts s1 where g: "ServerRead_grant s = (opts, s1)" by fastforce
  have s1: "said (download_server_wire H) s1" "sr_dataHandlerV s1 = Some h" "wf_options opts"
    using server_read_grant_wf [OF s(3) g] s by (auto simp: said_def)
  have answer: "server_speaks (download_server_wire H)
      (final (server_read_answer H N S opts' (s1\<lparr>sr_dataHandlerV := Some h'\<rparr>)))" if "wf_options opts'" for h' opts'
    using s1(1) that by (intro server_read_answer_speaks) (simp_all add: said_def)
  show ?thesis
    unfolding server_read_respond_def
    using False g s1 server_read_speaker.reject_speaks [OF s1(1)] server_read_answer_speaks [OF s1]
      answer [OF s1(3)] answer [OF wf_granted(1) [OF s1(3) NUL_option_names NUL_to_string]]
    by (auto simp: Let_def split_beta intro!: wf_granted split: bool.splits option.splits)
qed

lemma server_read_started_speaks:
  assumes "ServerRead_start H N S s0 = Inr s" and "\<not> ended (trace s)" and "said W s0"
    and "sr_dataHandlerV s0 = Some h0" and "returned (th_start S h0)"
    and "wf_options (sr_additionalNegotiatedOptionsV s0)" and W: "W = download_server_wire H"
  shows "server_speaks W s"
proof -
  let ?F = "ServerRead_finished N S"
  have "no_tftp (?F status info)" for status info
    by (simp add: ServerRead_finished_def no_tftp_noexcept)
  then have "no_tftp (ServerOperation_initialise N ?F)" by (rule ServerOperation_no_tftp)
  from start_returns [OF _ this] obtain s1 where s1: "ServerOperation_initialise N ?F s0 = Inr s1"
    "final (block [ServerRead_start_handler S, server_read_respond H N S] s1) = s"
    using assms(1,2,4) ServerRead_start_respond [of s0 h0 H N S] ServerRead_finished_returns by metis
  have "server_read_opening W h0 s0"
    using assms(3,4,6) by (simp add: server_read_opening_def)
  then have "server_read_opening W h0 (final (ServerOperation_initialise N ?F s0))"
    by (rule keepsD [OF server_read_opener.keeps_initialise])
  then have "server_read_opening W h0 s1" by (simp add: s1(1))
  then obtain h1 where h1: "sr_dataHandlerV s1 = Some h1" "said W s1" "ended (trace s1) \<or> h1 = h0"
      "wf_options (sr_additionalNegotiatedOptionsV s1)"
    by (auto simp: server_read_opening_def)
  show ?thesis
  proof (cases "th_start S h1")
    case (Inl eh)
    with h1(1) s1(2) assms(2) have "\<not> ended (trace s1)"
      by (cases eh) (auto simp: ServerRead_start_handler_def block.simps)
    with Inl h1(3) assms(5) show ?thesis by simp
  next
    case (Inr h)
    let ?s2 = "s1\<lparr>sr_dataHandlerV := Some h\<rparr>"
    have "s = final (server_read_respond H N S ?s2)"
      using s1(2) h1(1) Inr by (auto simp: ServerRead_start_handler_def block.simps split: sum.splits)
    moreover have "said W ?s2" using h1(2) by (simp add: said_def)
    ultimately show ?thesis
      using server_read_respond_speaks [of H ?s2 h N S] h1(4) by (simp add: W)
  qed
qed

text \<open>The handlers of the class.\<close>

lemmas server_read_speaks =
  server_read_speaker.keeps_reject server_read_speaker.keeps_receives server_read_speaker.keeps_F

lemma server_read_speaks_ack:
  "keeps (server_speaks (download_server_wire H)) (ServerRead_acknowledgementPacket H N S remote p)"
  unfolding ServerRead_acknowledgementPacket_def
  by (intro keeps_fun_if server_read_speaks)
    (auto intro!: keeps_block keeps_modify keeps_fun_if server_read_speaks keeps_server_read_sendData)

lemma server_read_on_speaks:
  assumes "raw_data H"
  shows "keeps (server_speaks (download_server_wire H)) (ServerRead_on H N S input)"
proof -
  have "keeps (server_speaks (download_server_wire H)) (call_handler (ServerRead_handlers H N S) remote p)"
    for remote p
    by (cases p)
      (simp_all add: ServerRead_handlers_def ServerOperation_readRequestPacket_def
        ServerOperation_writeRequestPacket_def ServerOperation_optionsAcknowledgementPacket_def
        ServerRead_dataPacket_def server_read_speaks(1) server_read_speaks_ack
        server_read_speaker.keeps_errorPacket)
  then show ?thesis
    unfolding ServerRead_on_def
    by (intro server_read_speaker.keeps_on assms)
      (auto simp: ServerRead_handlers_def ServerOperation_invalidPacket_def server_read_speaks(1))
qed

lemma server_read_reachable_speaks:
  assumes "server_read_reachable H N S s0 s" and "raw_data H" and "datagrams (trace s0) = {}"
    and "sr_dataHandlerV s0 = Some h0" and "returned (th_start S h0)"
    and "wf_options (sr_additionalNegotiatedOptionsV s0)"
  shows "server_speaks (download_server_wire H) s"
  using assms(1)
proof induction
  case (started s)
  then show ?case
    by (rule server_read_started_speaks [OF _ _ _ assms(4-6)]) (simp_all add: said_def assms(3))
next
  case (step s input)
  then show ?case using keepsD [OF server_read_on_speaks [OF assms(2)]] by blast
qed

subsection \<open>Uploads\<close>

fun upload_server_says :: "packet \<Rightarrow> bool" where
  "upload_server_says (ACK a) \<longleftrightarrow> True"
| "upload_server_says (OACK p) \<longleftrightarrow> wf_oack p"
| "upload_server_says (ERR e) \<longleftrightarrow> True"
| "upload_server_says p \<longleftrightarrow> False"

abbreviation upload_server_wire :: "helper \<Rightarrow> bytes set" where
  "upload_server_wire H \<equiv> encodings H upload_server_says"

lemma server_speaks_write [simp]:
  fixes s :: "'h server_write"
  shows "server_speaks W (s\<lparr>sw_dataHandlerV := h\<rparr>) = server_speaks W s"
    "server_speaks W (s\<lparr>sw_lastReceivedBlockNumber := n\<rparr>) = server_speaks W s"
    "server_speaks W (s\<lparr>sw_receiveDataSize := sz\<rparr>) = server_speaks W s"
  by (simp_all add: server_speaks_def said_def)

lemma keeps_ServerWrite_on_handler:
  "(\<And>s h. P s \<Longrightarrow> P (s\<lparr>sw_dataHandlerV := h\<rparr>)) \<Longrightarrow> keeps P (ServerWrite_on_handler f)"
  by (auto intro!: keepsI simp: ServerWrite_on_handler_def split: option.split)

interpretation server_write_speaker:
  server_speaker "upload_server_wire H" H "ServerWrite_finished N D" for H N D
proof unfold_locales
  show "keeps (server_speaks (upload_server_wire H)) (ServerWrite_finished N D status info)" for status info
    unfolding ServerWrite_finished_def
    by (intro keeps_noexcept keeps_block)
      (auto intro!: keeps_ServerWrite_on_handler keeps_ServerOperation_finished server_speaks.spoken_axioms)
qed (rule encodingsI, simp)

text \<open>Before the answer: nothing is said, and the data handler is the one set up or the operation ended.\<close>

definition server_write_opening :: "bytes set \<Rightarrow> 'h \<Rightarrow> 'h server_write \<Rightarrow> bool" where
  "server_write_opening W h s \<longleftrightarrow> said W s \<and> wf_options (sw_additionalNegotiatedOptionsV s) \<and>
     sw_dataHandlerV s \<noteq> None \<and> (ended (trace s) \<or> sw_dataHandlerV s = Some h)"

interpretation server_write_opening: spoken W "server_write_opening W h" for W h
  by unfold_locales (auto simp: server_write_opening_def said_def)

lemma keeps_ServerWrite_finished_said: "keeps (said W) (ServerWrite_finished N D status info)"
  unfolding ServerWrite_finished_def
  by (intro keeps_noexcept keeps_block)
    (auto intro!: keeps_ServerWrite_on_handler keeps_ServerOperation_finished said.spoken_axioms simp: said_def)

interpretation server_write_opener:
  server_opener W "server_write_opening W h" "ServerWrite_finished N D" for W h N D
proof unfold_locales
  show "keeps (server_write_opening W h) (ServerWrite_finished N D status info)" for status info
  proof (rule keepsI)
    fix s :: "'a server_write" assume s: "server_write_opening W h s"
    then obtain h' where "sw_dataHandlerV s = Some h'" by (auto simp: server_write_opening_def)
    from ServerWrite_finished_final [OF this, of N D status info] obtain ok tr where
      "final (ServerWrite_finished N D status info s) =
        s\<lparr>sw_dataHandlerV := Some (rh_finished D h'), so_errorInformationV := info,
          trace := trace s @ Called TimerCancel ok # tr\<rparr>" by blast
    moreover have "said W (final (ServerWrite_finished N D status info s))"
      using s by (intro keepsD [OF keeps_ServerWrite_finished_said]) (simp add: server_write_opening_def)
    ultimately show "server_write_opening W h (final (ServerWrite_finished N D status info s))"
      using s by (simp add: server_write_opening_def)
  qed
qed

lemma ServerWrite_finished_returns: "ServerWrite_finished N D status info s' = Inr s \<Longrightarrow> ended (trace s)"
  using ServerWrite_finished_final [of s' _ N D status info]
  by (cases "sw_dataHandlerV s'")
    (auto simp: ServerWrite_finished_def noexcept_def ServerWrite_on_handler_def block.simps)

text \<open>The answer.\<close>

lemma server_write_grant_wf:
  assumes "wf_options (sw_additionalNegotiatedOptionsV s)" and "ServerWrite_grant s = (opts, s1)"
  shows "wf_options opts \<and> trace s1 = trace s \<and> sw_dataHandlerV s1 = sw_dataHandlerV s"
  using assms
  by (auto simp: ServerWrite_grant_def Let_def intro!: wf_granted split: option.splits if_splits)

lemma server_write_answer_speaks:
  assumes "said (upload_server_wire H) s" and "wf_options opts"
  shows "server_speaks (upload_server_wire H) (final (server_write_answer H N D opts s))"
  unfolding server_write_answer_def
  by (intro server_write_speaker.answer_speaks [OF assms(1)] encodingsI)
    (simp add: assms(2) wf_oack_def)

lemma server_write_respond_speaks:
  assumes s: "said (upload_server_wire H) s" "sw_dataHandlerV s = Some h"
    "wf_options (sw_additionalNegotiatedOptionsV s)"
  shows "server_speaks (upload_server_wire H) (final (server_write_respond H N D s))"
proof (cases "\<not> TftpOptions_bool (sw_clientOptionsV s) \<and> sw_additionalNegotiatedOptionsV s = []")
  case True
  with server_write_answer_speaks [OF s(1), of "[]" N D] s(3) show ?thesis
    by (simp add: server_write_respond_def)
next
  case False
  obtain opts s1 where g: "ServerWrite_grant s = (opts, s1)" by fastforce
  have s1: "said (upload_server_wire H) s1" "sw_dataHandlerV s1 = Some h" "wf_options opts"
    using server_write_grant_wf [OF s(3) g] s by (auto simp: said_def)
  have set: "said (upload_server_wire H) (s1\<lparr>sw_dataHandlerV := Some h'\<rparr>)" for h'
    using s1(1) by (simp add: said_def)
  show ?thesis
    unfolding server_write_respond_def
    using False g s1 server_write_speaker.reject_speaks [OF set] server_write_answer_speaks [OF s1(1,3)]
      server_write_answer_speaks [OF set wf_granted(1) [OF s1(3) NUL_option_names NUL_to_string]]
    by (auto simp: Let_def split_beta split: bool.splits option.splits)
qed

lemma server_write_started_speaks:
  assumes "ServerWrite_start H N D s0 = Inr s" and "\<not> ended (trace s)" and "said W s0"
    and "sw_dataHandlerV s0 = Some h0" and "returned (rh_start D h0)"
    and "wf_options (sw_additionalNegotiatedOptionsV s0)" and W: "W = upload_server_wire H"
  shows "server_speaks W s"
proof -
  let ?F = "ServerWrite_finished N D"
  have "no_tftp (?F status info)" for status info
    by (simp add: ServerWrite_finished_def no_tftp_noexcept)
  then have "no_tftp (ServerOperation_initialise N ?F)" by (rule ServerOperation_no_tftp)
  from start_returns [OF _ this] obtain s1 where s1: "ServerOperation_initialise N ?F s0 = Inr s1"
    "final (block [ServerWrite_start_handler D, server_write_respond H N D] s1) = s"
    using assms(1,2,4) ServerWrite_start_respond [of s0 h0 H N D] ServerWrite_finished_returns by metis
  have "server_write_opening W h0 s0"
    using assms(3,4,6) by (simp add: server_write_opening_def)
  then have "server_write_opening W h0 (final (ServerOperation_initialise N ?F s0))"
    by (rule keepsD [OF server_write_opener.keeps_initialise])
  then have "server_write_opening W h0 s1" by (simp add: s1(1))
  then obtain h1 where h1: "sw_dataHandlerV s1 = Some h1" "said W s1" "ended (trace s1) \<or> h1 = h0"
      "wf_options (sw_additionalNegotiatedOptionsV s1)"
    by (auto simp: server_write_opening_def)
  show ?thesis
  proof (cases "rh_start D h1")
    case (Inl eh)
    with h1(1) s1(2) assms(2) have "\<not> ended (trace s1)"
      by (cases eh) (auto simp: ServerWrite_start_handler_def block.simps)
    with Inl h1(3) assms(5) show ?thesis by simp
  next
    case (Inr h)
    let ?s2 = "s1\<lparr>sw_dataHandlerV := Some h\<rparr>"
    have "s = final (server_write_respond H N D ?s2)"
      using s1(2) h1(1) Inr by (auto simp: ServerWrite_start_handler_def block.simps split: sum.splits)
    moreover have "said W ?s2" using h1(2) by (simp add: said_def)
    ultimately show ?thesis
      using server_write_respond_speaks [of H ?s2 h N D] h1(4) by (simp add: W)
  qed
qed

text \<open>The handlers of the class.\<close>

lemmas server_write_speaks =
  server_write_speaker.keeps_reject server_write_speaker.keeps_receives server_write_speaker.keeps_F

lemma server_write_speaks_continue:
  "keeps (server_speaks (upload_server_wire H)) (ServerWrite_continue N D p)"
  unfolding ServerWrite_continue_def by (intro keeps_fun_if server_write_speaks)

lemma server_write_speaks_data:
  "keeps (server_speaks (upload_server_wire H)) (ServerWrite_dataPacket H N D remote p)"
  (is "keeps ?P _")
proof -
  have "keeps ?P (\<lambda>s. ServerOperation_send H N (ServerWrite_finished N D)
      (ACK \<lparr>ap_blockNumber = sw_lastReceivedBlockNumber s\<rparr>) s)"
    by (rule keeps_fun) (intro server_write_speaker.keeps_send encodingsI, simp)
  then show ?thesis
    unfolding ServerWrite_dataPacket_def
    by (intro keeps_fun_if server_write_speaks)
      (auto intro!: keeps_block keeps_modify keeps_ServerWrite_on_handler server_write_speaks_continue)
qed

lemma server_write_on_speaks:
  assumes "raw_data H"
  shows "keeps (server_speaks (upload_server_wire H)) (ServerWrite_on H N D input)"
proof -
  have "keeps (server_speaks (upload_server_wire H)) (call_handler (ServerWrite_handlers H N D) remote p)"
    for remote p
    by (cases p)
      (simp_all add: ServerWrite_handlers_def ServerOperation_readRequestPacket_def
        ServerOperation_writeRequestPacket_def ServerOperation_optionsAcknowledgementPacket_def
        ServerWrite_acknowledgementPacket_def server_write_speaks(1) server_write_speaks_data
        server_write_speaker.keeps_errorPacket)
  then show ?thesis
    unfolding ServerWrite_on_def
    by (intro server_write_speaker.keeps_on assms)
      (auto simp: ServerWrite_handlers_def ServerOperation_invalidPacket_def server_write_speaks(1))
qed

lemma server_write_reachable_speaks:
  assumes "server_write_reachable H N D s0 s" and "raw_data H" and "datagrams (trace s0) = {}"
    and "sw_dataHandlerV s0 = Some h0" and "returned (rh_start D h0)"
    and "wf_options (sw_additionalNegotiatedOptionsV s0)"
  shows "server_speaks (upload_server_wire H) s"
  using assms(1)
proof induction
  case (started s)
  then show ?case
    by (rule server_write_started_speaks [OF _ _ _ assms(4-6)]) (simp_all add: said_def assms(3))
next
  case (step s input)
  then show ?case using keepsD [OF server_write_on_speaks [OF assms(2)]] by blast
qed

end
