(* ===== verification/WireProperties.thy ===== *)
theory WireProperties
  imports ClientWire ServerWire Download
begin

text \<open>
  The type of what goes over the wire: every datagram an operation sends or tries to send, in
  any state it can reach on any network, is a packet its peer can decode, and one of those that
  its role in the protocol allows.
\<close>

text \<open>C15: Whatever happens during a download, every datagram the client sends decodes: it is the
  one request the operation was set up for, an acknowledgement or an error. Every datagram the
  server sends decodes as data, a non-empty and well-formed option acknowledgement, or an error.
  File name and additional options only need to be free of NUL.\<close>

theorem download_speaks:
  assumes "raw_data H"
    and "client_read_reachable H N D c0 c" "datagrams (trace c0) = {}"
    and "NUL \<notin> set (cr_filenameV c0)" "wf_options (cr_additionalOptionsV c0)"
    and "server_read_reachable H M S s0 s" "datagrams (trace s0) = {}"
    and "sr_dataHandlerV s0 = Some h" "returned (th_start S h)"
    and "wf_options (sr_additionalNegotiatedOptionsV s0)"
  shows "decodable H (download_client_says (client_read_request_packet c0)) (datagrams (trace c)) \<and>
    decodable H download_server_says (datagrams (trace s))"
proof -
  have "said (download_client_wire H (client_read_request_packet c0)) c"
    using client_read_reachable_speaks [OF assms(2,1,3)] by simp
  moreover have "said (download_server_wire H) s"
    using server_read_reachable_speaks [OF assms(6,1,7-10)] by simp
  moreover have "download_client_says (client_read_request_packet c0) p \<Longrightarrow> wf_packet p" for p
    using wf_client_read_request_packet [OF assms(4,5)] by (cases p) auto
  moreover have "download_server_says p \<Longrightarrow> wf_packet p" for p
    by (cases p) auto
  ultimately show ?thesis
    unfolding said_def by (blast intro: encodings_decodable [OF assms(1)])
qed

lemma memory_client_read_requested:
  obtains c where "ClientRead_request big_endian_helper quiet_net memory_receiver memory_client_read = Inr c"
    and "client_read_reachable big_endian_helper quiet_net memory_receiver memory_client_read c"
proof -
  obtain c where c: "ClientRead_request big_endian_helper quiet_net memory_receiver memory_client_read = Inr c"
      "\<not> ended (trace c)"
    using ClientRead_request_ok [of quiet_net memory_client_read MemoryFile_receive memory_receiver
        MemoryFile_receive big_endian_helper]
    by (auto simp: new_simps client_read_reset_def client_waiting_def)
  show thesis by (rule that [OF c(1) client_read_reachable.requested [OF c]])
qed

theorem download_speaks_witness:
  "\<exists>c. ClientRead_request big_endian_helper quiet_net memory_receiver memory_client_read = Inr c \<and>
     decodable big_endian_helper (download_client_says (client_read_request_packet memory_client_read))
       (datagrams (trace c)) \<and>
     decodable big_endian_helper download_server_says (datagrams (trace example_server_read))"
proof -
  obtain c where c: "ClientRead_request big_endian_helper quiet_net memory_receiver memory_client_read = Inr c"
      "client_read_reachable big_endian_helper quiet_net memory_receiver memory_client_read c"
    by (rule memory_client_read_requested)
  from download_speaks [OF big_endian.raw_data_axioms c(2) _ _ _
      server_read_reachable.started [OF example_server_read_start example_server_read_state(1)],
      where h = "MemoryFile_transmit [1, 2, 3]"] c(1)
  show ?thesis by (simp add: new_simps wf_options_def is_map_def)
qed

text \<open>C16: Whatever happens during an upload, every datagram the client sends decodes: it is the
  request the operation was set up for, with the transfer size its data handler names, data or
  an error. Every datagram the server sends decodes as an acknowledgement, a non-empty and
  well-formed option acknowledgement, or an error.\<close>

theorem upload_speaks:
  assumes "raw_data H"
    and "client_write_reachable H N S c0 c" "datagrams (trace c0) = {}"
    and "NUL \<notin> set (cw_filenameV c0)" "wf_options (cw_additionalOptionsV c0)"
    and "server_write_reachable H M D s0 s" "datagrams (trace s0) = {}"
    and "sw_dataHandlerV s0 = Some h" "returned (rh_start D h)"
    and "wf_options (sw_additionalNegotiatedOptionsV s0)"
  shows "decodable H (upload_client_says (client_write_request_packets c0)) (datagrams (trace c)) \<and>
    decodable H upload_server_says (datagrams (trace s))"
proof -
  have "said (upload_client_wire H (client_write_request_packets c0)) c"
    using client_write_reachable_speaks [OF assms(2,1,3)] by simp
  moreover have "said (upload_server_wire H) s"
    using server_write_reachable_speaks [OF assms(6,1,7-10)] by simp
  moreover have "upload_client_says (client_write_request_packets c0) p \<Longrightarrow> wf_packet p" for p
    using wf_client_write_request_packet [of "c0\<lparr>cw_transferSize := sz\<rparr>" for sz] assms(4,5)
    by (cases p) (auto simp: client_write_request_packets_def)
  moreover have "upload_server_says p \<Longrightarrow> wf_packet p" for p
    by (cases p) auto
  ultimately show ?thesis
    unfolding said_def by (blast intro: encodings_decodable [OF assms(1)])
qed

theorem upload_speaks_witness:
  "\<exists>c. client_write_reachable big_endian_helper quiet_net memory_transmitter (memory_client_write [1, 2, 3]) c \<and>
     decodable big_endian_helper (upload_client_says (client_write_request_packets (memory_client_write [1, 2, 3])))
       (datagrams (trace c)) \<and>
     decodable big_endian_helper upload_server_says (datagrams (trace example_server_write))"
proof -
  obtain c where c: "client_write_reachable big_endian_helper quiet_net memory_transmitter
      (memory_client_write [1, 2, 3]) c"
    by (rule memory_client_write_requested)
  from upload_speaks [OF big_endian.raw_data_axioms c _ _ _ example_server_write_reachable,
      where h = MemoryFile_receive] c
  show ?thesis by (intro exI [of _ c]) (simp add: new_simps wf_options_def is_map_def)
qed

end
