(* ===== verification/SizedOptions.thy ===== *)
theory SizedOptions
  imports NegotiatedDownload
begin

text \<open>
  Requests and OACKs with all three options the library knows: the values on the wire, what the
  server decodes of them and what the client makes of those it is granted.
\<close>

text \<open>The options of a request or of an OACK, with a block size, a timeout and a transfer size.\<close>

definition sized_options :: "u16 option \<Rightarrow> u8 option \<Rightarrow> u64 option \<Rightarrow> options" where
  "sized_options b t z =
     (case z of None \<Rightarrow> granted_options b t
      | Some v \<Rightarrow> try_emplace (TftpOptions_name TransferSize) (to_string (unat v)) (granted_options b t))"

lemma find_sized_options:
  "map_find (sized_options b t z) name =
     (if name = TftpOptions_name BlockSize then map_option (\<lambda>v. to_string (unat v)) b
      else if name = TftpOptions_name Timeout then map_option (\<lambda>v. to_string (unat v)) t
      else if name = TftpOptions_name TransferSize then map_option (\<lambda>v. to_string (unat v)) z
      else None)"
  using wf_granted_options [of b t]
  by (cases z) (auto simp: sized_options_def find_try_emplace find_granted_options wf_options_def)

lemma wf_sized_options: "wf_options (sized_options b t z)"
proof -
  have "no_NULs (try_emplace (TftpOptions_name TransferSize) (to_string (unat v)) (granted_options b t))" for v :: u64
    using wf_granted_options [of b t] to_string_no_NUL [of "unat v"]
    by (cases b; cases t) (auto simp: granted_options_def wf_options_def is_map_def)
  then show ?thesis
    using wf_granted_options [of b t]
    by (cases z) (simp_all add: sized_options_def wf_options_def is_map_try_emplace)
qed

lemma sized_options_nonempty: "sized_options (Some v) t z \<noteq> []"
  using find_sized_options [of "Some v" t z "TftpOptions_name BlockSize"] by (auto simp: map_find_def)

text \<open>An option that is present within its bounds, or absent.\<close>

lemma Options_getOption_printed:
  assumes "map_find opts name = map_option (\<lambda>v. to_string (unat v)) x"
    and "\<And>v. x = Some v \<Longrightarrow> mn \<le> v \<and> v \<le> mx" and "LENGTH('a::len) \<le> 64"
  shows "Options_getOption opts name mn (mx :: 'a word) = ((True, x), map_erase name opts)"
  using assms Options_getOption_to_string [of opts name _ mn mx]
  by (cases x) (auto simp: Options_getOption_def map_extract_def)

text \<open>What the server decodes, and what the client makes of the options granted.\<close>

definition block_in_range :: "u16 option \<Rightarrow> bool" where
  "block_in_range b \<longleftrightarrow> (case b of None \<Rightarrow> True | Some v \<Rightarrow> BlockSizeOptionMin \<le> v \<and> v \<le> BlockSizeOptionMax)"

definition timeout_in_range :: "u8 option \<Rightarrow> bool" where
  "timeout_in_range t \<longleftrightarrow> (case t of None \<Rightarrow> True | Some v \<Rightarrow> TimeoutOptionMin \<le> v \<and> v \<le> TimeoutOptionMax)"

lemma ServerImpl_tftpOptions_values:
  assumes "block_in_range b" and "timeout_in_range t"
    and find: "\<And>name. map_find opts name = map_find (sized_options b t z) name"
  shows "ServerImpl_tftpOptions opts = (\<lparr>to_blockSize = b, to_timeout = t, to_transferSize = z\<rparr>, [])"
proof -
  define opts1 where "opts1 = map_erase (TftpOptions_name BlockSize) opts"
  define opts2 where "opts2 = map_erase (TftpOptions_name Timeout) opts1"
  define opts3 where "opts3 = map_erase (TftpOptions_name TransferSize) opts2"
  note find1 = find [unfolded find_sized_options]
  have "Options_getOption opts (TftpOptions_name BlockSize) BlockSizeOptionMin BlockSizeOptionMax = ((True, b), opts1)"
    unfolding opts1_def using assms(1) find1
    by (intro Options_getOption_printed) (auto simp: block_in_range_def)
  moreover have "Options_getOption opts1 (TftpOptions_name Timeout) TimeoutOptionMin TimeoutOptionMax = ((True, t), opts2)"
    unfolding opts2_def using assms(2) find1
    by (intro Options_getOption_printed) (auto simp: timeout_in_range_def opts1_def find_map_erase)
  moreover have "Options_getOption opts2 (TftpOptions_name TransferSize) 0 (- 1) = ((True, z), opts3)"
    unfolding opts3_def using find1
    by (intro Options_getOption_printed) (auto simp: opts1_def opts2_def find_map_erase)
  moreover have "opts3 = []"
    by (rule no_options) (simp add: opts1_def opts2_def opts3_def find_map_erase find1)
  moreover have "map_erase (TftpOptions_name BlockSize) opts1 = opts1"
      "map_erase (TftpOptions_name Timeout) opts2 = opts2" "map_erase (TftpOptions_name TransferSize) opts3 = opts3"
    by (simp_all add: opts1_def opts2_def opts3_def map_erase_def)
  ultimately show ?thesis
    unfolding ServerImpl_tftpOptions_def by simp
qed

lemma erase_sized_options:
  "map_erase (TftpOptions_name BlockSize) (sized_options b t z) = sized_options None t z"
  "map_erase (TftpOptions_name Timeout) (sized_options None t z) = sized_options None None z"
  "map_erase (TftpOptions_name TransferSize) (sized_options None None z) = []"
proof -
  have m: "is_map (sized_options b t z)" for b t z
    using wf_sized_options [of b t z] by (simp add: wf_options_def)
  show "map_erase (TftpOptions_name BlockSize) (sized_options b t z) = sized_options None t z"
    "map_erase (TftpOptions_name Timeout) (sized_options None t z) = sized_options None None z"
    by (intro find_extensional is_map_erase m; simp add: fun_eq_iff find_map_erase find_sized_options)+
  show "map_erase (TftpOptions_name TransferSize) (sized_options None None z) = []"
    by (rule no_options) (simp add: find_map_erase find_sized_options)
qed

lemma negotiate_sized:
  assumes "negotiable client" and "negotiable server"
    and b: "b = agreed_block client server" and t: "t = agreed_timeout client server"
  shows "negotiate_blockSize client (sized_options b t z) = Inr (b, sized_options None t z)"
    and "negotiate_timeout client (sized_options None t z) = Inr (t, sized_options None None z)"
    and "(z \<noteq> None \<Longrightarrow> expected) \<Longrightarrow> negotiate_transferSize expected (sized_options None None z) = Inr (z, [])"
proof -
  have bv: "BlockSizeOptionMin \<le> v" "v \<le> BlockSizeOptionMax" if "b = Some v" for v
    using that assms(1,2) unfolding b by (auto simp: agreed_block_def negotiable_def min_def split: option.splits)
  have rb: "Options_getOption (sized_options b t z) (TftpOptions_name BlockSize) BlockSizeOptionMin BlockSizeOptionMax =
      ((True, b), sized_options None t z)"
    unfolding erase_sized_options(1) [of b t z, symmetric]
    by (rule Options_getOption_printed) (simp_all add: find_sized_options bv)
  show "negotiate_blockSize client (sized_options b t z) = Inr (b, sized_options None t z)"
    unfolding negotiate_blockSize_def rb using b
    by (auto simp: agreed_block_def min_def split: option.splits)
  have tv: "oc_timeoutOption client = Some (uint v)" "TimeoutOptionMin \<le> v" "v \<le> TimeoutOptionMax"
    if v: "t = Some v" for v
  proof -
    obtain t1 where "oc_timeoutOption client = Some t1" "v = word_of_int t1" "1 \<le> t1" "t1 \<le> 255"
      using v assms by (auto simp: agreed_timeout_def negotiable_def split: option.splits if_splits)
    with timeout_option_value [of t1] show "oc_timeoutOption client = Some (uint v)"
      "TimeoutOptionMin \<le> v" "v \<le> TimeoutOptionMax" by simp_all
  qed
  have rt: "Options_getOption (sized_options None t z) (TftpOptions_name Timeout) TimeoutOptionMin TimeoutOptionMax =
      ((True, t), sized_options None None z)"
    unfolding erase_sized_options(2) [of t z, symmetric]
    by (rule Options_getOption_printed) (use tv in \<open>simp_all add: find_sized_options\<close>)
  show "negotiate_timeout client (sized_options None t z) = Inr (t, sized_options None None z)"
  proof (cases t)
    case None
    then show ?thesis unfolding negotiate_timeout_def rt by simp
  next
    case (Some v)
    then show ?thesis unfolding negotiate_timeout_def rt by (simp add: tv(1) [OF Some])
  qed
  have "Options_getOption (sized_options None None z) (TftpOptions_name TransferSize) 0 (- 1) = ((True, z), [])"
    unfolding erase_sized_options(3) [of z, symmetric]
    by (rule Options_getOption_printed) (auto simp: find_sized_options)
  then show "negotiate_transferSize expected (sized_options None None z) = Inr (z, [])" if "z \<noteq> None \<Longrightarrow> expected"
    using that by (auto simp: negotiate_transferSize_def)
qed

end
