(* ===== verification/NegotiatedUpload.thy ===== *)
theory NegotiatedUpload
  imports Upload SizedOptions ServerWriteInvariant
begin

text \<open>
  An upload with options, the transfer size among them. The OACK takes the place of the acknowledgement of block 0, and the
  numbers of \<open>stop_and_wait\<close> are those of the blocks. The client has no memory of the OACK: a
  second one makes it send the next block. So the contract holds of a server whose repetitions
  of the OACK are lost; \<open>ClientWriteProperties\<close> shows what happens otherwise.
\<close>

subsection \<open>The request\<close>

text \<open>\<open>c\<close> is the client once it has sent its request.\<close>

definition asked_to_store :: "'g client_write \<Rightarrow> 'h server_write \<Rightarrow> bool" where
  "asked_to_store c s \<longleftrightarrow>
     sw_clientOptionsV s = fst (ServerImpl_tftpOptions (ClientWrite_requestOptions c)) \<and>
     sw_additionalNegotiatedOptionsV s = snd (ServerImpl_tftpOptions (ClientWrite_requestOptions c))"

text \<open>The transfer size is granted as it was announced.\<close>

definition announced_size :: "'g client_write \<Rightarrow> u64 option" where
  "announced_size c =
     (if oc_handleTransferSizeOption (cw_optionsConfigurationV c) then cw_transferSize c else None)"

definition agreed_size :: "'g client_write \<Rightarrow> 'h server_write \<Rightarrow> u64 option" where
  "agreed_size c s =
     (if oc_handleTransferSizeOption (sw_optionsConfigurationV s) then announced_size c else None)"

lemma find_ClientWrite_requestOptions:
  assumes "cw_additionalOptionsV c = []" and "negotiable (cw_optionsConfigurationV c)"
  shows "map_find (ClientWrite_requestOptions c) name =
    map_find (sized_options (oc_blockSizeOption (cw_optionsConfigurationV c))
      (map_option word_of_int (oc_timeoutOption (cw_optionsConfigurationV c))) (announced_size c)) name"
proof -
  have timeout: "map_option (\<lambda>t. to_string (unat (word_of_int t :: u16))) (oc_timeoutOption (cw_optionsConfigurationV c)) =
      map_option (\<lambda>t. to_string (unat (word_of_int t :: u8))) (oc_timeoutOption (cw_optionsConfigurationV c))"
    using assms(2) timeout_option_value(1)
    by (cases "oc_timeoutOption (cw_optionsConfigurationV c)") (simp_all add: negotiable_def)
  have opts: "is_map (ClientWrite_options c)"
    and find: "map_find (ClientWrite_options c) k =
      (if k = TftpOptions_name BlockSize then map_option (\<lambda>b. to_string (unat b)) (oc_blockSizeOption (cw_optionsConfigurationV c))
       else if k = TftpOptions_name Timeout
       then map_option (\<lambda>t. to_string (unat (word_of_int t :: u16))) (oc_timeoutOption (cw_optionsConfigurationV c))
       else None)" for k
    using assms(1) by (simp_all add: ClientWrite_options_def Let_def find_option is_map_option split: option.split)
  show ?thesis
    using opts
    by (auto simp: ClientWrite_requestOptions_def find find_try_emplace find_sized_options announced_size_def
        timeout option.map_comp comp_def split: option.split bool.split)
qed

lemma asked_to_store_options:
  assumes "asked_to_store c s" and "cw_additionalOptionsV c = []" and "negotiable (cw_optionsConfigurationV c)"
  shows "to_blockSize (sw_clientOptionsV s) = oc_blockSizeOption (cw_optionsConfigurationV c)"
    and "to_timeout (sw_clientOptionsV s) = map_option word_of_int (oc_timeoutOption (cw_optionsConfigurationV c))"
    and "to_transferSize (sw_clientOptionsV s) = announced_size c"
    and "sw_additionalNegotiatedOptionsV s = []"
proof -
  have "block_in_range (oc_blockSizeOption (cw_optionsConfigurationV c))"
    "timeout_in_range (map_option word_of_int (oc_timeoutOption (cw_optionsConfigurationV c)))"
    using assms(3) timeout_option_value
    by (auto simp: block_in_range_def timeout_in_range_def negotiable_def split: option.split)
  from ServerImpl_tftpOptions_values [OF this find_ClientWrite_requestOptions [OF assms(2,3)]] assms(1)
  show "to_blockSize (sw_clientOptionsV s) = oc_blockSizeOption (cw_optionsConfigurationV c)"
    "to_timeout (sw_clientOptionsV s) = map_option word_of_int (oc_timeoutOption (cw_optionsConfigurationV c))"
    "to_transferSize (sw_clientOptionsV s) = announced_size c"
    "sw_additionalNegotiatedOptionsV s = []"
    by (simp_all add: asked_to_store_def)
qed

subsection \<open>The server\<close>

definition server_write_granted :: "u16 option \<Rightarrow> u8 option \<Rightarrow> 'g server_write \<Rightarrow> 'g server_write" where
  "server_write_granted b t s =
     (let s = (case b of None \<Rightarrow> s | Some v \<Rightarrow> s\<lparr>sw_receiveDataSize := v\<rparr>)
      in case t of None \<Rightarrow> s | Some v \<Rightarrow> s\<lparr>so_receiveTimeoutV := uint v\<rparr>)"

lemma server_write_granted_simps [simp]:
  "sw_dataHandlerV (server_write_granted b t s) = sw_dataHandlerV s"
  "sw_lastReceivedBlockNumber (server_write_granted b t s) = sw_lastReceivedBlockNumber s"
  "sw_dallyV (server_write_granted b t s) = sw_dallyV s"
  "sw_receiveDataSize (server_write_granted (Some v) t s) = v"
  "sw_optionsConfigurationV (server_write_granted b t s) = sw_optionsConfigurationV s"
  "sw_clientOptionsV (server_write_granted b t s) = sw_clientOptionsV s"
  "so_completionHandlerV (server_write_granted b t s) = so_completionHandlerV s"
  "trace (server_write_granted b t s) = trace s"
  by (simp_all add: server_write_granted_def Let_def split: option.split)

lemma ServerWrite_grant_asked:
  assumes "asked_to_store c s" and "cw_additionalOptionsV c = []" and "negotiable (cw_optionsConfigurationV c)"
  shows "ServerWrite_grant s =
    (let b = agreed_block (cw_optionsConfigurationV c) (sw_optionsConfigurationV s);
         t = agreed_timeout (cw_optionsConfigurationV c) (sw_optionsConfigurationV s)
     in (granted_options b t, server_write_granted b t s))"
proof -
  have t: "uint (word_of_int t :: u8) = t" if "oc_timeoutOption (cw_optionsConfigurationV c) = Some t" for t
    using that assms(3) timeout_option_value(2) [of t] by (simp add: negotiable_def)
  show ?thesis
    by (auto simp: ServerWrite_grant_def asked_to_store_options [OF assms] t agreed_block_def agreed_timeout_def
        granted_options_def server_write_granted_def Let_def split: option.split)
qed

text \<open>The start of an operation that has options to grant, once the data handler was started.\<close>

lemma ServerWrite_start_asked:
  assumes N: "never_fails N" and h: "sw_dataHandlerV s = Some h0" "rh_start D h0 = Inr h"
    and asked: "asked_to_store c s" "cw_additionalOptionsV c = []" "negotiable (cw_optionsConfigurationV c)"
    and v: "agreed_block (cw_optionsConfigurationV c) (sw_optionsConfigurationV s) = Some v"
    and t: "t = agreed_timeout (cw_optionsConfigurationV c) (sw_optionsConfigurationV s)"
    and s2: "s2 = server_write_granted (Some v) t ((server_opened s)\<lparr>sw_dataHandlerV := Some h\<rparr>)"
  shows "ServerWrite_start H N D s =
    (case agreed_size c s of
       None \<Rightarrow> Inr (server_waiting TimeoutNormal
         (server_sent H (OACK \<lparr>op_options = sized_options (Some v) t None\<rparr>) s2))
     | Some z \<Rightarrow>
         let (accepted, h') = rh_receivedTransferSize D z h; s3 = s2\<lparr>sw_dataHandlerV := Some h'\<rparr>
         in if accepted
            then Inr (server_waiting TimeoutNormal
              (server_sent H (OACK \<lparr>op_options = sized_options (Some v) t (Some z)\<rparr>) s3))
            else Inr (server_finished TransferError (Some (DiskFullOrAllocationExceeds, ''File to big''))
              ((server_sent H (ERR \<lparr>ep_errorCode = DiskFullOrAllocationExceeds, ep_errorMessage = ''File to big''\<rparr>) s3)
                 \<lparr>sw_dataHandlerV := Some (rh_finished D h')\<rparr>)))"
proof -
  define s1 where "s1 = (server_opened s)\<lparr>sw_dataHandlerV := Some h\<rparr>"
  have s1: "asked_to_store c s1" "sw_optionsConfigurationV s1 = sw_optionsConfigurationV s"
      "sw_clientOptionsV s1 = sw_clientOptionsV s"
    using asked(1) by (simp_all add: s1_def asked_to_store_def)
  have grant: "ServerWrite_grant s1 = (granted_options (Some v) t, s2)"
    using ServerWrite_grant_asked [OF s1(1) asked(2,3)] v t s1(2) by (simp add: s2 s1_def Let_def)
  have bool: "TftpOptions_bool (sw_clientOptionsV s1)"
    using asked_to_store_options(1) [OF s1(1) asked(2,3)] v
    by (auto simp: TftpOptions_bool_def agreed_block_def split: option.splits)
  have sz: "to_transferSize (sw_clientOptionsV s2) = announced_size c" "sw_optionsConfigurationV s2 = sw_optionsConfigurationV s"
      "sw_dataHandlerV s2 = Some h"
    using asked_to_store_options(3) [OF s1(1) asked(2,3)] s1(2) by (simp_all add: s2 s1_def)
  have some: "granted_options (Some v) t \<noteq> []"
    using sized_options_nonempty [of v t None] by (simp add: sized_options_def)
  have some': "try_emplace (TftpOptions_name TransferSize) (to_string (unat z)) (granted_options (Some v) t) \<noteq> []" for z :: u64
    using sized_options_nonempty [of v t "Some z"] by (simp add: sized_options_def)
  have "ServerWrite_start H N D s = try_catch is_exception (try_catch is_tftp_exception
      (server_write_respond H N D) (block [])) (ServerWrite_finished N D CommunicationError None) s1"
    using h by (simp add: ServerWrite_start_respond ServerWrite_start_handler_def s1_def try_catch_def block.simps
        ServerOperation_initialise_ok [OF N] split: sum.splits)
  then show ?thesis
    using bool grant sz some some' N
    by (auto simp: server_write_respond_def server_write_answer_def agreed_size_def sized_options_def Let_def
        try_catch_def cmd_simps split: option.splits prod.splits bool.splits)
qed

text \<open>A server that has sent its OACK, and one that has blocks.\<close>

definition store_receiver ::
    "helper \<Rightarrow> options \<Rightarrow> transfer_status list \<Rightarrow> ('h \<Rightarrow> bool) \<Rightarrow> ('h \<Rightarrow> bytes) \<Rightarrow> nat \<Rightarrow> bytes \<Rightarrow>
     nat \<Rightarrow> 'h server_write \<Rightarrow> bool" where
  "store_receiver H opts sc ready contents n xs i s \<longleftrightarrow>
     server_holds sc ready contents n xs i s \<and>
     so_transmitPacketV s = (if i = 0 then oack_datagram H opts else ack_datagram H i)"

text \<open>The data handler takes a file of the size that is agreed on.\<close>

definition store_accepts :: "'h receive_handler \<Rightarrow> u64 option \<Rightarrow> 'h server_write \<Rightarrow> bool" where
  "store_accepts D z s \<longleftrightarrow>
     (case (z, sw_dataHandlerV s) of
        (Some v, Some h0) \<Rightarrow> (case rh_start D h0 of Inr h \<Rightarrow> fst (rh_receivedTransferSize D v h) | Inl e \<Rightarrow> True)
      | _ \<Rightarrow> True)"

lemma ServerWrite_start_stores:
  assumes N: "never_fails N" and D: "data_sink D sink ready contents" and s: "fresh_store sink D s"
    and asked: "asked_to_store c s" "cw_additionalOptionsV c = []" "negotiable (cw_optionsConfigurationV c)"
    and v: "agreed_block (cw_optionsConfigurationV c) (sw_optionsConfigurationV s) = Some v"
    and accepts: "store_accepts D (agreed_size c s) s"
    and opts: "opts = sized_options (Some v)
      (agreed_timeout (cw_optionsConfigurationV c) (sw_optionsConfigurationV s)) (agreed_size c s)"
  shows "\<exists>s1. ServerWrite_start H N D s = Inr s1 \<and>
    store_receiver H opts (completions (trace s)) ready contents (unat v) xs 0 s1 \<and>
    emitted (trace s) (trace s1) = [oack_datagram H opts]"
proof -
  obtain h0 h where h: "sw_dataHandlerV s = Some h0" "sink h0" "rh_start D h0 = Inr h"
    using s by (auto simp: fresh_store_def elim: returnedE)
  have ready: "ready h" "contents h = []"
    using data_sink.start_sink [OF D h(2,3)] by simp_all
  define t where "t = agreed_timeout (cw_optionsConfigurationV c) (sw_optionsConfigurationV s)"
  define s2 where "s2 = server_write_granted (Some v) t ((server_opened s)\<lparr>sw_dataHandlerV := Some h\<rparr>)"
  note start = ServerWrite_start_asked [OF N h(1,3) asked v t_def s2_def, of H]
  show ?thesis
  proof (cases "agreed_size c s")
    case None
    with start s h(1) ready show ?thesis
      by (simp add: store_receiver_def server_holds_def fresh_store_def s2_def server_waiting_def
          oack_datagram_def opts t_def)
  next
    case (Some z)
    obtain h' where h': "rh_receivedTransferSize D z h = (True, h')"
      using accepts Some h by (cases "rh_receivedTransferSize D z h") (simp add: store_accepts_def)
    moreover have "ready h'" "contents h' = []"
      using data_sink.receivedTransferSize_sink [OF D ready(1), of z] ready(2) h' by simp_all
    ultimately show ?thesis
      using start s h(1) Some
      by (simp add: store_receiver_def server_holds_def fresh_store_def s2_def server_waiting_def
          oack_datagram_def opts t_def Let_def)
  qed
qed

subsection \<open>The client\<close>

lemma client_write_agreed_simps [simp]:
  "cw_transmitDataSize (client_write_agreed (Some v) t s) = v"
  "cw_optionNegotiationHandlerV (client_write_agreed b t s) = cw_optionNegotiationHandlerV s"
  "co_completionHandlerV (client_write_agreed b t s) = co_completionHandlerV s"
  "co_receiveEndpointV (client_write_agreed b t s) = co_receiveEndpointV s"
  "co_remoteV (client_write_agreed b t s) = co_remoteV s"
  "trace (client_write_agreed b t s) = trace s"
  "client_write_negotiates (client_write_agreed b t s) = client_write_negotiates s"
  by (simp_all add: client_write_agreed_def client_write_negotiates_def Let_def split: option.split)

lemma client_write_connected_settings [simp]:
  "cw_optionNegotiationHandlerV (client_connected sender s) = cw_optionNegotiationHandlerV s"
  "cw_optionsConfigurationV (client_connected sender s) = cw_optionsConfigurationV s"
  by (simp_all add: client_connected_def)

lemma client_write_transferSize_connected [simp]:
  "cw_transferSize (client_connected sender s) = cw_transferSize s"
  by (simp add: client_connected_def)

text \<open>A client whose request is not answered yet, and that accepts the options granted to it.\<close>

definition client_offers ::
    "endpoint \<Rightarrow> transfer_status list \<Rightarrow> ('g \<Rightarrow> bytes) \<Rightarrow> options_configuration \<Rightarrow> bytes \<Rightarrow>
     'g client_write \<Rightarrow> bool" where
  "client_offers sender cc rest cfg xs c \<longleftrightarrow>
     client_asks sender cc rest 512 xs c \<and> cw_optionsConfigurationV c = cfg \<and>
     cw_additionalOptionsV c = [] \<and> accepts_no_options (cw_optionNegotiationHandlerV c)"

lemma fresh_uploader_offers:
  assumes N: "never_fails N" and S: "data_source S content rest" and c: "fresh_uploader S content xs sender c"
    and "cw_additionalOptionsV c = []"
  shows "\<exists>c1. ClientWrite_request H N S c = Inr c1 \<and>
    client_offers sender (completions (trace c)) rest (cw_optionsConfigurationV c) xs c1"
proof -
  obtain c1 where c1: "ClientWrite_request H N S c = Inr c1" "client_asks sender (completions (trace c)) rest 512 xs c1"
    using fresh_uploader_requested [OF N S c] by blast
  obtain g0 g where "cw_dataHandlerV c = Some g0" "th_start S g0 = Inr g"
    using c by (auto simp: fresh_uploader_def elim: returnedE)
  from ClientWrite_request_ok [OF N this, of H] c1(1)
  have "cw_optionsConfigurationV c1 = cw_optionsConfigurationV c"
    "cw_optionNegotiationHandlerV c1 = cw_optionNegotiationHandlerV c"
    "cw_additionalOptionsV c1 = cw_additionalOptionsV c"
    by (auto simp: Let_def client_waiting_def client_sent_def client_write_asked_def client_write_reset_def
        split: option.splits prod.splits if_splits)
  with c1 c assms(4) show ?thesis
    by (auto simp: client_offers_def fresh_uploader_def)
qed

lemma client_oack_sends:
  assumes "raw_data H" and N: "never_fails N" and S: "data_source S content rest"
    and cfg: "negotiable client" "negotiable server" "agreed_block client server = Some v"
    and n: "0 < unat v" and c: "client_offers sender cc rest client xs c"
    and z: "z = None \<or> z = announced_size c"
    and takes: "mc_takes (client_write_machine H N S sender)
      (oack_datagram H (sized_options (Some v) (agreed_timeout client server) z)) c = (c', out)"
  shows "out = [data_datagram H (unat v) xs (Suc 0)] \<and> client_transmits H sender cc rest (unat v) xs 0 c' \<and>
    cw_lastReceivedBlockNumber c' = BlockNumber 0xFFFF"
proof -
  obtain g where g: "cw_dataHandlerV c = Some g" "rest g = xs"
    using c by (auto simp: client_offers_def client_asks_def)
  let ?t = "agreed_timeout client server"
  let ?opts = "sized_options (Some v) ?t z"
  define c0 where "c0 = client_write_agreed (Some v) ?t (client_connected sender c)"
  define c1 where "c1 = client_write_next H S g c0"
  have c1: "client_transmits H sender cc rest (unat v) xs 0 c1"
      "cw_lastReceivedBlockNumber c1 = BlockNumber 0xFFFF"
      "trace c1 = trace c0 @ [Called (SocketSend (data_datagram H (unat v) xs (Suc 0))) True]"
    using client_transmits_block [OF S n, of c0 g 0 xs sender cc H] c g
    by (simp_all add: c1_def c0_def client_offers_def client_asks_def client_reachable_by_def)
  note some = sized_options_nonempty [of v ?t z]
  have sz: "z = None \<or> z = cw_transferSize c"
      "z \<noteq> None \<Longrightarrow> oc_handleTransferSizeOption client \<and> cw_transferSize c \<noteq> None"
    using z c by (auto simp: announced_size_def client_offers_def split: if_splits dest: sym)
  note negotiated = negotiate_sized [OF cfg(1,2) cfg(3) [symmetric] refl, of z]
  have "negotiate_transferSize (oc_handleTransferSizeOption client \<and> cw_transferSize c \<noteq> None)
      (sized_options None None z) = Inr (z, [])"
    using sz(2) by (rule negotiated(3))
  note negotiated = negotiated(1,2) this
  have "ClientWrite_optionsAcknowledgementPacket H N S (co_receiveEndpointV (client_connected sender c))
      \<lparr>op_options = ?opts\<rparr> (client_connected sender c) = Inr (client_waiting TimeoutNormal c1)"
    unfolding c1_def c0_def
    by (intro ClientWrite_oack_ok [OF N, where sz = z])
      (use c g some negotiated sz(1) in
        \<open>simp_all add: client_offers_def client_asks_def client_connected_def\<close>)
  then have "mc_takes (client_write_machine H N S sender) (oack_datagram H ?opts) c =
      (counted OptionsAcknowledgement (length (oack_datagram H ?opts)) (client_waiting TimeoutNormal c1),
       emitted (trace c) (trace (client_waiting TimeoutNormal c1)))"
    unfolding oack_datagram_def client_write_machine_def
    by (subst client_machine_takes [OF assms(1) N, where p = "OACK \<lparr>op_options = ?opts\<rparr>"
          and c' = "client_waiting TimeoutNormal c1"])
      (use c some in \<open>simp_all add: ClientWrite_handlers_def client_offers_def client_asks_def wf_oack_def
        wf_sized_options\<close>)
  with takes have eq: "c' = counted OptionsAcknowledgement (length (oack_datagram H ?opts))
        (client_waiting TimeoutNormal c1)"
      "out = emitted (trace c) (trace (client_waiting TimeoutNormal c1))" by simp_all
  show ?thesis
    unfolding eq using c1
    by (simp add: client_transmits_def client_waiting_def client_reachable_by_def c0_def)
qed

text \<open>A client that was granted options has not seen an acknowledgement when it sends block 1.\<close>

definition store_sender ::
    "helper \<Rightarrow> endpoint \<Rightarrow> transfer_status list \<Rightarrow> ('g \<Rightarrow> bytes) \<Rightarrow> nat \<Rightarrow> bytes \<Rightarrow>
     nat \<Rightarrow> 'g client_write \<Rightarrow> bool" where
  "store_sender H sender cc rest n xs j c \<longleftrightarrow>
     client_transmits H sender cc rest n xs j c \<and>
     cw_lastReceivedBlockNumber c = (if j = 0 then BlockNumber 0xFFFF else block_at j)"

lemma store_sender_next:
  assumes "raw_data H" and "never_fails N" and "data_source S content rest" and "0 < n"
    and "store_sender H sender cc rest n xs j c"
    and "mc_takes (client_write_machine H N S sender) (ack_datagram H (Suc j)) c = (c', out)"
  shows "if j < last_chunk n xs
    then out = [data_datagram H n xs (Suc (Suc j))] \<and> store_sender H sender cc rest n xs (Suc j) c'
    else out = [] \<and> client_has_sent cc True c'"
proof -
  have "cw_lastReceivedBlockNumber c \<noteq> block_at (Suc j)"
    using assms(5) block_at_Suc_neq [of j]
    by (cases "j = 0") (simp_all add: store_sender_def block_at_def BlockNumber_preincrement_def BlockNumber_next_def)
  moreover have "client_transmits H sender cc rest n xs j c" using assms(5) by (simp add: store_sender_def)
  note client_transmits_next [OF assms(1-4) this _ assms(6)]
  ultimately show ?thesis by (auto simp: store_sender_def client_sends_def)
qed

lemma store_sender_again:
  assumes "raw_data H" and "never_fails N" and "store_sender H sender cc rest n xs j c" and "0 < j"
    and "mc_takes (client_write_machine H N S sender) (ack_datagram H j) c = (c', out)"
  shows "out = [] \<and> store_sender H sender cc rest n xs j c'"
proof -
  have "client_sends H sender cc rest n xs j c" using assms(3,4) by (simp add: store_sender_def client_sends_def)
  from client_sends_again [OF assms(1,2) this assms(5)] assms(4) show ?thesis
    by (simp add: store_sender_def client_sends_def)
qed

lemma store_sender_expires:
  assumes "never_fails N" and "store_sender H sender cc rest n xs j c"
    and "mc_expires (client_write_machine H N S sender) c = (c', out)"
  shows "out = [data_datagram H n xs (Suc j)] \<and> store_sender H sender cc rest n xs j c' \<or>
    out = [] \<and> client_has_sent cc False c'"
  using client_transmits_expires [OF assms(1) _ assms(3)] assms(2) by (auto simp: store_sender_def)

subsection \<open>The two sides together\<close>

text \<open>A machine of which some packets never arrive when its timer repeats them.\<close>

definition muted :: "'p \<Rightarrow> ('m, 'p) machine \<Rightarrow> ('m, 'p) machine" where
  "muted q M = M\<lparr>mc_expires := \<lambda>m. (fst (mc_expires M m), filter (\<lambda>p. p \<noteq> q) (snd (mc_expires M m)))\<rparr>"

lemma muted_simps [simp]:
  "mc_running (muted q M) = mc_running M" "mc_takes (muted q M) = mc_takes M"
  "mc_expires (muted q M) m = (fst (mc_expires M m), filter (\<lambda>p. p \<noteq> q) (snd (mc_expires M m)))"
  by (simp_all add: muted_def)

lemma store_contract:
  assumes "raw_data H" and "never_fails Nc" and "never_fails Ns"
    and "data_sink D sink ready contents" and "data_source S content rest" and n: "0 < n"
  shows "stop_and_wait (muted (oack_datagram H opts) (server_write_machine H Ns D))
    (client_write_machine H Nc S sender) (data_datagram H n xs) (ack_datagram H) 0 (last_chunk n xs)
    (store_receiver H opts sc ready contents n xs) (server_has_received sc contents n xs)
    (store_sender H sender cc rest n xs) (client_has_sent cc)"
proof
  fix i j ok c c' s s' out
  let ?MR = "muted (oack_datagram H opts) (server_write_machine H Ns D)"
  note simps = server_write_machine_def server_machine_def client_write_machine_def client_machine_def
  show "store_receiver H opts sc ready contents n xs i s \<Longrightarrow> 0 \<le> i \<and> i \<le> last_chunk n xs"
    and "server_has_received sc contents n xs ok i s \<Longrightarrow> \<not> mc_running ?MR s"
    and "store_sender H sender cc rest n xs j c \<Longrightarrow> j \<le> last_chunk n xs"
    and "client_has_sent cc ok c \<Longrightarrow> \<not> mc_running (client_write_machine H Nc S sender) c"
    by (simp_all add: simps store_receiver_def server_holds_def server_has_received_def store_sender_def
        client_transmits_def client_has_sent_def)
  show "out = [ack_datagram H (Suc i)] \<and> (if i < last_chunk n xs
      then store_receiver H opts sc ready contents n xs (Suc i) s'
      else server_has_received sc contents n xs True (Suc i) s')"
    if "store_receiver H opts sc ready contents n xs i s" "mc_takes ?MR (data_datagram H n xs (Suc i)) s = (s', out)"
    using server_holds_next [OF assms(1,3,4) n, of sc xs i s s' out] that
    by (auto simp: store_receiver_def server_receives_def)
  show "out = [ack_datagram H i] \<and> store_receiver H opts sc ready contents n xs i s'"
    if "store_receiver H opts sc ready contents n xs i s" "0 < i" "mc_takes ?MR (data_datagram H n xs i) s = (s', out)"
    using server_receives_again [OF assms(1,3) n that(2), of sc ready contents xs s D s' out] that
    by (simp add: store_receiver_def server_receives_def)
  show "(out = [ack_datagram H i] \<and> 0 < i \<or> out = []) \<and> store_receiver H opts sc ready contents n xs i s' \<or>
      out = [] \<and> server_has_received sc contents n xs False i s'"
    if "store_receiver H opts sc ready contents n xs i s" "mc_expires ?MR s = (s', out)"
    using server_holds_expires [OF assms(3,4), of sc n xs i s H "fst (mc_expires (server_write_machine H Ns D) s)"
        "snd (mc_expires (server_write_machine H Ns D) s)"] that
    by (auto simp: store_receiver_def)
  show "if j < last_chunk n xs then out = [data_datagram H n xs (Suc (Suc j))] \<and>
        store_sender H sender cc rest n xs (Suc j) c'
      else out = [] \<and> client_has_sent cc True c'"
    if "store_sender H sender cc rest n xs j c"
      "mc_takes (client_write_machine H Nc S sender) (ack_datagram H (Suc j)) c = (c', out)"
    by (rule store_sender_next [OF assms(1,2,5) n that])
  show "out = [] \<and> store_sender H sender cc rest n xs j c'"
    if "store_sender H sender cc rest n xs j c" "0 < j"
      "mc_takes (client_write_machine H Nc S sender) (ack_datagram H j) c = (c', out)"
    by (rule store_sender_again [OF assms(1,2) that])
  show "(out = [data_datagram H n xs (Suc j)] \<and> 0 \<le> j \<or> out = []) \<and> store_sender H sender cc rest n xs j c' \<or>
      out = [] \<and> client_has_sent cc False c'"
    if "store_sender H sender cc rest n xs j c" "mc_expires (client_write_machine H Nc S sender) c = (c', out)"
    using store_sender_expires [OF assms(2) that] by auto
qed

lemma exchanges_muted: "exchanges n (muted q MR) MS x = exchanges n MR MS x"
proof (induction n arbitrary: x)
  case (Suc n)
  have "exchange (muted q MR) MS x = exchange MR MS x"
    by (cases "(MR, MS, x)" rule: exchange.cases) simp_all
  then show ?case by (cases "exchange MR MS x") (simp_all add: Suc.IH)
qed simp

text \<open>The two operations after the request, the start and the OACK.\<close>

lemma store_start:
  assumes "raw_data H" and N: "never_fails Nc" "never_fails Ns"
    and D: "data_sink D sink ready contents" and S: "data_source S content rest"
    and c: "fresh_uploader S content xs sender c" and s: "fresh_store sink D s"
    and c1: "ClientWrite_request H Nc S c = Inr c1" "cw_additionalOptionsV c = []"
    and asked: "asked_to_store c1 s" "store_accepts D (agreed_size c1 s) s"
    and cfg: "negotiable (cw_optionsConfigurationV c)" "negotiable (sw_optionsConfigurationV s)"
      "agreed_block (cw_optionsConfigurationV c) (sw_optionsConfigurationV s) = Some v"
    and opts: "opts = sized_options (Some v)
      (agreed_timeout (cw_optionsConfigurationV c) (sw_optionsConfigurationV s)) (agreed_size c1 s)"
  obtains s1 c2 where "ServerWrite_start H Ns D s = Inr s1"
    "emitted (trace s) (trace s1) = [oack_datagram H opts]"
    "mc_takes (client_write_machine H Nc S sender) (oack_datagram H opts) c1 =
      (c2, [data_datagram H (unat v) xs (Suc 0)])"
    "store_receiver H opts (completions (trace s)) ready contents (unat v) xs 0 s1"
    "store_sender H sender (completions (trace c)) rest (unat v) xs 0 c2"
proof -
  have n: "0 < unat v"
    using cfg by (auto simp: agreed_block_def negotiable_def min_def BlockSizeOptionMin_def word_le_nat_alt
        split: option.splits if_splits)
  have offers: "client_offers sender (completions (trace c)) rest (cw_optionsConfigurationV c) xs c1"
    using fresh_uploader_offers [OF N(1) S c c1(2), of H] c1(1) by auto
  then have "cw_additionalOptionsV c1 = []" "cw_optionsConfigurationV c1 = cw_optionsConfigurationV c"
    by (simp_all add: client_offers_def)
  then obtain s1 where s1: "ServerWrite_start H Ns D s = Inr s1"
      "store_receiver H opts (completions (trace s)) ready contents (unat v) xs 0 s1"
      "emitted (trace s) (trace s1) = [oack_datagram H opts]"
    using ServerWrite_start_stores [OF N(2) D s asked(1) _ _ _ asked(2) refl, of v H xs] cfg opts by auto
  obtain c2 out where c2: "mc_takes (client_write_machine H Nc S sender) (oack_datagram H opts) c1 = (c2, out)"
    by fastforce
  have "agreed_size c1 s = None \<or> agreed_size c1 s = announced_size c1" by (simp add: agreed_size_def)
  from client_oack_sends [OF assms(1) N(1) S cfg n offers this c2 [unfolded opts]] that [OF s1(1,3)] c2 s1(2)
  show thesis by (simp add: store_sender_def)
qed

text \<open>What the invariant says of the server's handler and of the completions.\<close>

lemma store_outcome:
  assumes "synchronous 0 (last_chunk n xs) data ack (store_receiver H opts sc ready contents n xs)
      (server_has_received sc contents n xs) (store_sender H sender cc rest n xs) (client_has_sent cc) (s, ts, c, tc)"
    and "0 < n"
  shows "\<exists>h i rc rs. sw_dataHandlerV s = Some h \<and> contents h = take (i * n) xs \<and>
    completions (trace c) = cc @ rc \<and> completions (trace s) = sc @ rs \<and> rc \<in> outcomes \<and> rs \<in> outcomes \<and>
    (Successful \<in> set rc \<union> set rs \<longrightarrow> contents h = xs)"
proof -
  obtain i rs rc where
    s: "\<exists>h. sw_dataHandlerV s = Some h \<and> contents h = take (i * n) xs \<and> completions (trace s) = sc @ rs"
    and c: "completions (trace c) = cc @ rc" "rs \<in> outcomes" "rc \<in> outcomes"
    and i: "Successful \<in> set rs \<union> set rc \<Longrightarrow> i = Suc (last_chunk n xs)"
    by (rule synchronous_outcome [OF assms(1), where PS = "\<lambda>rc c. completions (trace c) = cc @ rc"
          and PR = "\<lambda>i rs s. \<exists>h. sw_dataHandlerV s = Some h \<and> contents h = take (i * n) xs \<and>
            completions (trace s) = sc @ rs"])
      (auto simp: store_receiver_def server_holds_def server_has_received_def store_sender_def
        client_transmits_def client_has_sent_def)
  have "Successful \<in> set rc \<union> set rs \<longrightarrow> take (i * n) xs = xs"
    using i take_last_chunk [OF assms(2), of xs] by (auto simp del: mult_Suc)
  with c s show ?thesis by metis
qed

text \<open>A client that announces the size of its file, and a server that has decoded its request.\<close>

definition asking_uploader :: "bytes \<Rightarrow> memory_file client_write" where
  "asking_uploader d = (memory_client_write d)
     \<lparr>cw_optionsConfigurationV := example_options\<lparr>oc_handleTransferSizeOption := True\<rparr>\<rparr>"

definition requested_uploader :: "bytes \<Rightarrow> memory_file client_write" where
  "requested_uploader d = final (ClientWrite_request big_endian_helper quiet_net memory_transmitter (asking_uploader d))"

definition asked_store :: "bytes \<Rightarrow> memory_file server_write" where
  "asked_store d = memory_server_write
     \<lparr>sw_optionsConfigurationV := example_options\<lparr>oc_handleTransferSizeOption := True\<rparr>,
      sw_clientOptionsV := fst (ServerImpl_tftpOptions (ClientWrite_requestOptions (requested_uploader d))),
      sw_additionalNegotiatedOptionsV :=
        snd (ServerImpl_tftpOptions (ClientWrite_requestOptions (requested_uploader d)))\<rparr>"

lemma storing_examples:
  "fresh_uploader memory_transmitter memory_content d (host 1 2000) (asking_uploader d)"
  "fresh_store (\<lambda>f. mf_operationV f = Receive) memory_receiver (asked_store d)"
  "ClientWrite_request big_endian_helper quiet_net memory_transmitter (asking_uploader d) = Inr (requested_uploader d)"
  "cw_additionalOptionsV (asking_uploader d) = []"
  "asked_to_store (requested_uploader d) (asked_store d)"
  "store_accepts memory_receiver (agreed_size (requested_uploader d) (asked_store d)) (asked_store d)"
  "negotiable (cw_optionsConfigurationV (asking_uploader d))" "negotiable (sw_optionsConfigurationV (asked_store d))"
  "oc_blockSizeOption (cw_optionsConfigurationV (asking_uploader d)) = Some 1428"
  "oc_blockSizeOption (sw_optionsConfigurationV (asked_store d)) = Some 1428"
proof -
  show "asked_to_store (requested_uploader d) (asked_store d)"
    by (simp add: asked_to_store_def asked_store_def)
  show "ClientWrite_request big_endian_helper quiet_net memory_transmitter (asking_uploader d) = Inr (requested_uploader d)"
    unfolding requested_uploader_def
    by (subst (1 2) ClientWrite_request_ok [where ?h0.0 = "MemoryFile_transmit d" and h = "MemoryFile_transmit d"])
      (simp_all add: asking_uploader_def new_simps Let_def)
  show "store_accepts memory_receiver (agreed_size (requested_uploader d) (asked_store d)) (asked_store d)"
    by (simp add: store_accepts_def asked_store_def new_simps memory_receiver_def MemoryFile_receivedTransferSize_def
        split: option.split sum.split)
qed (use example_options(1) in \<open>simp_all add: asking_uploader_def asked_store_def example_options_def new_simps
    fresh_uploader_def fresh_store_def negotiable_def memory_content_def MemoryFile_transmit_def
    MemoryFile_start_def memory_transmitter_def cmd_simps no_endpoint_def\<close>)

interpretation memory_store: stop_and_wait
  "muted (oack_datagram big_endian_helper opts) (server_write_machine big_endian_helper quiet_net memory_receiver)"
  "client_write_machine big_endian_helper quiet_net memory_transmitter sender"
  "data_datagram big_endian_helper 1428 xs" "ack_datagram big_endian_helper" 0 "last_chunk 1428 xs"
  "store_receiver big_endian_helper opts sc (\<lambda>f. mf_operationV f = Receive) mf_dataV 1428 xs"
  "server_has_received sc mf_dataV 1428 xs"
  "store_sender big_endian_helper sender cc memory_rest 1428 xs" "client_has_sent cc"
  for opts sender cc sc xs
  by (rule store_contract [OF big_endian.raw_data_axioms never_fails_quiet_net never_fails_quiet_net
        memory_sink.data_sink_axioms memory_source.data_source_axioms]) simp

subsection \<open>The properties\<close>





end
