(* ===== verification/TransferSize.thy ===== *)
theory TransferSize
  imports NegotiatedUpload
begin

text \<open>
  What the transfer size option is for: a file that is too large is refused before any of it
  travels, on both sides.
\<close>

subsection \<open>A refused upload\<close>

text \<open>The client that sent a request is still on its request when an error packet comes.\<close>

lemma requested_uploader_transmits:
  assumes "never_fails N" and "fresh_uploader S content xs sender c" and "ClientWrite_request H N S c = Inr c1"
  shows "\<exists>r. co_transmitPacketV c1 = Packet_encode H (WRQ r)"
proof -
  obtain g0 g where "cw_dataHandlerV c = Some g0" "th_start S g0 = Inr g"
    using assms(2) by (auto simp: fresh_uploader_def elim: returnedE)
  from ClientWrite_request_ok [OF assms(1) this, of H] assms(3) show ?thesis
    by (auto simp: Let_def client_waiting_def client_sent_def client_write_wrq_def)
qed

lemma counted_errorInformation [simp]: "co_errorInformationV (counted t n c) = co_errorInformationV c"
  by (simp add: counted_def)

lemma client_write_error:
  assumes "raw_data H" and N: "never_fails N" and c: "client_asks sender cc rest n xs c"
    and "co_transmitPacketV c = Packet_encode H (WRQ r)" and "ep_errorCode e \<noteq> TftpOptionRefused"
    and takes: "mc_takes (client_write_machine H N S sender) (Packet_encode H (ERR e)) c = (c', out)"
  shows "out = [] \<and> completions (trace c') = cc @ [RequestError] \<and>
    co_errorInformationV c' = Some (ep_errorCode e, ep_errorMessage e) \<and> ended (trace c')"
proof -
  obtain g where g: "cw_dataHandlerV c = Some g" using c by (auto simp: client_asks_def)
  define c0 where "c0 = client_connected sender c"
  define c1 where "c1 = client_finished RequestError (Some (ep_errorCode e, ep_errorMessage e))
    (c0\<lparr>cw_dataHandlerV := Some (th_finished S g)\<rparr>)"
  have "Packet_packetType H (co_transmitPacketV c0) = WriteRequest"
    using packetType_encode [OF assms(1), of "WRQ r"] assms(4) by (simp add: c0_def)
  then have "ClientOperation_errorPacket H (ClientWrite_finished N S) (co_receiveEndpointV c0) e c0 = Inr c1"
    using assms(5) g N
    by (simp add: ClientOperation_errorPacket_def ErrorPacket_errorInformation_def c1_def c0_def cmd_simps)
  then have "mc_takes (client_write_machine H N S sender) (Packet_encode H (ERR e)) c =
      (counted Error (length (Packet_encode H (ERR e))) c1, emitted (trace c) (trace c1))"
    unfolding client_write_machine_def
    by (subst client_machine_takes [OF assms(1) N, where p = "ERR e" and c' = c1])
      (use c in \<open>simp_all add: ClientWrite_handlers_def client_asks_def c0_def\<close>)
  with takes have "c' = counted Error (length (Packet_encode H (ERR e))) c1" "out = emitted (trace c) (trace c1)"
    by simp_all
  with c show ?thesis
    by (simp add: c1_def c0_def client_finished_def client_asks_def)
qed


text \<open>A server that stores at most two bytes is asked to take three.\<close>

definition limited_store :: "stream_file server_write" where
  "limited_store = (ServerWrite_new no_world)
     \<lparr>so_remoteV := host 2 1024, so_completionHandlerV := True,
      sw_dataHandlerV := Some (StreamFile_make Receive [''f''] (Some 2) True []),
      sw_optionsConfigurationV := example_options\<lparr>oc_handleTransferSizeOption := True\<rparr>,
      sw_clientOptionsV := fst (ServerImpl_tftpOptions (ClientWrite_requestOptions (requested_uploader [1, 2, 3]))),
      sw_additionalNegotiatedOptionsV :=
        snd (ServerImpl_tftpOptions (ClientWrite_requestOptions (requested_uploader [1, 2, 3])))\<rparr>"

lemma announced_requested_uploader: "announced_size (requested_uploader d) = Some (word_of_nat (length d))"
  unfolding requested_uploader_def
  by (subst ClientWrite_request_ok [where ?h0.0 = "MemoryFile_transmit d" and h = "MemoryFile_transmit d"])
    (simp_all add: asking_uploader_def new_simps Let_def announced_size_def client_waiting_def client_sent_def
      client_write_asked_def client_write_reset_def,
     simp add: memory_transmitter_def MemoryFile_requestedTransferSize_def MemoryFile_transmit_def)


end
