(* ===== verification/Dally.thy ===== *)
theory Dally
  imports Upload Instances
begin

text \<open>
  The final wait. With dally set, the receiver of a file does not end with the last block: it
  waits for two timeouts more and repeats its last acknowledgement for every copy of the last
  block, so that the loss of an acknowledgement does not make the sender fail. Client and server
  operation do this in the same way; the locale states what both promise in the wait.
\<close>

text \<open>\<open>waiting k\<close> and \<open>complete k\<close>: the acknowledgement of the last block has been sent \<open>k\<close> times.\<close>

locale final_wait =
  fixes again expiry :: "'s cmd" and waiting complete :: "nat \<Rightarrow> 's \<Rightarrow> bool"
  assumes again: "waiting k s \<Longrightarrow> \<exists>s'. again s = Inr s' \<and> waiting (Suc k) s'"
    and expiry: "waiting k s \<Longrightarrow> \<exists>s'. expiry s = Inr s' \<and> complete k s'"
begin

lemma completes:
  "waiting k s \<Longrightarrow> \<exists>s'. block (replicate n again @ [expiry]) s = Inr s' \<and> complete (k + n) s'"
proof (induction n arbitrary: k s)
  case 0
  then show ?case using expiry [of k s] by (auto simp: block.simps)
next
  case (Suc n)
  from again [OF Suc.prems] obtain s' where s': "again s = Inr s'" "waiting (Suc k) s'" by blast
  with Suc.IH [OF s'(2)] show ?case by (auto simp: block.simps)
qed

lemma starts_and_completes:
  assumes "again s = Inr s'" and "waiting 1 s'"
  shows "\<exists>s'. block (replicate (Suc n) again @ [expiry]) s = Inr s' \<and> complete (Suc n) s'"
  using completes [OF assms(2), of n] assms(1) by (simp add: block.simps)

end

subsection \<open>Client\<close>

definition client_dallying ::
    "helper \<Rightarrow> net \<Rightarrow> data_packet \<Rightarrow> 'h \<Rightarrow> transfer_status list \<Rightarrow> bytes list \<Rightarrow> nat \<Rightarrow> 'h client_read \<Rightarrow> bool" where
  "client_dallying H N p h cc before k s \<longleftrightarrow>
     raw_data H \<and> never_fails N \<and> cr_dataHandlerV s = Some h \<and> cr_dallyV s \<and>
     cr_lastReceivedBlockNumber s = dp_blockNumber p \<and> length (dp_data p) < unat (cr_receiveDataSize s) \<and>
     co_completionHandlerV s \<and> completions (trace s) = cc \<and>
     sent (trace s) = before @ replicate k (Packet_encode H (ACK \<lparr>ap_blockNumber = dp_blockNumber p\<rparr>))"

definition client_dallied ::
    "helper \<Rightarrow> 'h receive_handler \<Rightarrow> data_packet \<Rightarrow> 'h \<Rightarrow> transfer_status list \<Rightarrow> bytes list \<Rightarrow> nat \<Rightarrow>
     'h client_read \<Rightarrow> bool" where
  "client_dallied H D p h cc before k s \<longleftrightarrow>
     cr_dataHandlerV s = Some (rh_finished D h) \<and> completions (trace s) = cc @ [Successful] \<and>
     sent (trace s) = before @ replicate k (Packet_encode H (ACK \<lparr>ap_blockNumber = dp_blockNumber p\<rparr>))"

lemma ClientRead_on_data:
  assumes "raw_data H" and "ClientRead_dataPacket H N D (co_receiveEndpointV s) p s = Inr s'"
  shows "ClientRead_on H N D (client_input.Received NoError (Packet_encode H (DATA p))) s =
    Inr (counted Data (length (Packet_encode H (DATA p))) s')"
  using PacketHandler_packet_encode [OF assms(1), of "DATA p" "ClientRead_handlers H N D"
      "co_receiveEndpointV s" s s'] assms(2)
  by (simp add: ClientRead_on_def ClientOperation_receiveHandler_def ClientRead_handlers_def)

lemma client_dallying_again:
  assumes "client_dallying H N p h cc before k s"
  shows "\<exists>s'. ClientRead_on H N D (client_input.Received NoError (Packet_encode H (DATA p))) s = Inr s' \<and>
    client_dallying H N p h cc before (Suc k) s'"
proof -
  note s = assms [unfolded client_dallying_def]
  have "ClientRead_dataPacket H N D (co_receiveEndpointV s) p s =
      Inr (client_waiting TimeoutDally (sent_ack H (dp_blockNumber p) s))"
    using s by (subst ClientRead_dataPacket_again [where h = h]) (auto simp: client_read_continued_def)
  from ClientRead_on_data [OF _ this] s show ?thesis
    by (simp add: client_dallying_def client_waiting_def replicate_append_same)
qed

lemma client_dallying_expiry:
  assumes "client_dallying H N p h cc before k s"
  shows "\<exists>s'. ClientRead_on H N D (client_input.DallyTimeout NoError) s = Inr s' \<and>
    client_dallied H D p h cc before k s'"
  using assms
  by (auto simp: client_dallying_def client_dallied_def ClientRead_on_def
      ClientOperation_timeoutDallyHandler_def client_finished_def cmd_simps)

interpretation client: final_wait
    "ClientRead_on H N D (client_input.Received NoError (Packet_encode H (DATA p)))"
    "ClientRead_on H N D (client_input.DallyTimeout NoError)"
    "client_dallying H N p h cc before" "client_dallied H D p h cc before" for H N D p h cc before
  by unfold_locales (fact client_dallying_again client_dallying_expiry)+

text \<open>The last block brings the operation into the wait.\<close>

lemma client_dallies:
  assumes "raw_data H" and "never_fails N" and "cr_dataHandlerV s = Some h"
    and "dp_blockNumber p = BlockNumber_preincrement (cr_lastReceivedBlockNumber s)"
    and "dp_blockNumber p \<noteq> cr_lastReceivedBlockNumber s"
    and "length (dp_data p) < unat (cr_receiveDataSize s)"
    and "dp_blockNumber p = BlockNumber 1 \<longrightarrow> client_read_negotiates s"
    and "cr_dallyV s" and "co_completionHandlerV s"
  shows "\<exists>s'. ClientRead_on H N D (client_input.Received NoError (Packet_encode H (DATA p))) s = Inr s' \<and>
    client_dallying H N p (rh_receivedData D (dp_data p) h) (completions (trace s)) (sent (trace s)) 1 s'"
  using ClientRead_on_data [OF assms(1) ClientRead_dataPacket_next [OF assms(2-5) less_imp_le [OF assms(6)] assms(7)],
      of D] assms
  by (simp add: client_read_continued_def client_dallying_def client_waiting_def)

text \<open>C23: With dally, the client completes a download even if its last acknowledgement gets lost: the
  short last block is handed over and acknowledged, however many copies of it follow are only
  acknowledged again, and when nothing comes any more the operation completes with success,
  once, and its data handler is told that the transfer is over.\<close>

theorem client_dally:
  assumes "raw_data H" and "never_fails N" and "cr_dataHandlerV s = Some h"
    and "dp_blockNumber p = BlockNumber_preincrement (cr_lastReceivedBlockNumber s)"
    and "dp_blockNumber p \<noteq> cr_lastReceivedBlockNumber s"
    and "length (dp_data p) < unat (cr_receiveDataSize s)"
    and "dp_blockNumber p = BlockNumber 1 \<longrightarrow> client_read_negotiates s"
    and "cr_dallyV s" and "co_completionHandlerV s"
  shows "\<exists>s'. block (replicate (Suc n) (ClientRead_on H N D (client_input.Received NoError (Packet_encode H (DATA p)))) @
      [ClientRead_on H N D (client_input.DallyTimeout NoError)]) s = Inr s' \<and>
    cr_dataHandlerV s' = Some (rh_finished D (rh_receivedData D (dp_data p) h)) \<and>
    completions (trace s') = completions (trace s) @ [Successful] \<and>
    sent (trace s') = sent (trace s) @
      replicate (Suc n) (Packet_encode H (ACK \<lparr>ap_blockNumber = dp_blockNumber p\<rparr>))"
proof -
  from client_dallies [OF assms, of D] obtain s1 where
    "ClientRead_on H N D (client_input.Received NoError (Packet_encode H (DATA p))) s = Inr s1"
    "client_dallying H N p (rh_receivedData D (dp_data p) h) (completions (trace s)) (sent (trace s)) 1 s1"
    by blast
  from client.starts_and_completes [OF this, of n] show ?thesis
    unfolding client_dallied_def by blast
qed

theorem client_dally_witness:
  "\<exists>s'. block (replicate (Suc 3) (ClientRead_on big_endian_helper quiet_net memory_receiver
        (client_input.Received NoError (Packet_encode big_endian_helper
          (DATA \<lparr>dp_blockNumber = BlockNumber 1, dp_data = [7, 8]\<rparr>)))) @
      [ClientRead_on big_endian_helper quiet_net memory_receiver (client_input.DallyTimeout NoError)])
      (memory_client_read\<lparr>cr_dallyV := True\<rparr>) = Inr s' \<and>
    completions (trace s') = [Successful]"
proof -
  from client_dally [OF big_endian.raw_data_axioms never_fails_quiet_net,
      of "memory_client_read\<lparr>cr_dallyV := True\<rparr>" MemoryFile_receive
        "\<lparr>dp_blockNumber = BlockNumber 1, dp_data = [7, 8]\<rparr>" 3 memory_receiver]
  show ?thesis
    by (auto simp: new_simps BlockNumber_preincrement_def BlockNumber_next_def DefaultDataSize_def
        client_read_negotiates_def)
qed

text \<open>The wait does not close the file: a block with the next number is still appended to it.\<close>

theorem client_dally_grows:
  assumes "client_dallying H N p h cc before k s"
    and "dp_blockNumber q = BlockNumber_preincrement (dp_blockNumber p)" and "dp_blockNumber q \<noteq> dp_blockNumber p"
    and "length (dp_data q) \<le> unat (cr_receiveDataSize s)"
    and "dp_blockNumber q = BlockNumber 1 \<longrightarrow> client_read_negotiates s"
  shows "\<exists>s'. ClientRead_on H N D (client_input.Received NoError (Packet_encode H (DATA q))) s = Inr s' \<and>
    cr_dataHandlerV s' = Some (rh_receivedData D (dp_data q) h)"
proof -
  note s = assms(1) [unfolded client_dallying_def]
  have "ClientRead_dataPacket H N D (co_receiveEndpointV s) q s =
      Inr (client_read_continued D (length (dp_data q)) (sent_ack H (dp_blockNumber q)
        (s\<lparr>cr_dataHandlerV := Some (rh_receivedData D (dp_data q) h),
           cr_lastReceivedBlockNumber := dp_blockNumber q\<rparr>)))"
    using s assms(2-5) by (intro ClientRead_dataPacket_next) auto
  from ClientRead_on_data [OF _ this] s show ?thesis by (simp add: client_read_continued_def)
qed

subsection \<open>Server\<close>

definition server_dallying ::
    "helper \<Rightarrow> net \<Rightarrow> data_packet \<Rightarrow> 'h \<Rightarrow> transfer_status list \<Rightarrow> bytes list \<Rightarrow> nat \<Rightarrow> 'h server_write \<Rightarrow> bool" where
  "server_dallying H N p h cc before k s \<longleftrightarrow>
     raw_data H \<and> never_fails N \<and> sw_dataHandlerV s = Some h \<and> sw_dallyV s \<and>
     sw_lastReceivedBlockNumber s = dp_blockNumber p \<and> length (dp_data p) < unat (sw_receiveDataSize s) \<and>
     so_completionHandlerV s \<and> completions (trace s) = cc \<and>
     sent (trace s) = before @ replicate k (Packet_encode H (ACK \<lparr>ap_blockNumber = dp_blockNumber p\<rparr>))"

definition server_dallied ::
    "helper \<Rightarrow> 'h receive_handler \<Rightarrow> data_packet \<Rightarrow> 'h \<Rightarrow> transfer_status list \<Rightarrow> bytes list \<Rightarrow> nat \<Rightarrow>
     'h server_write \<Rightarrow> bool" where
  "server_dallied H D p h cc before k s \<longleftrightarrow>
     sw_dataHandlerV s = Some (rh_finished D h) \<and> completions (trace s) = cc @ [Successful] \<and>
     sent (trace s) = before @ replicate k (Packet_encode H (ACK \<lparr>ap_blockNumber = dp_blockNumber p\<rparr>))"

lemma ServerWrite_on_data:
  assumes "raw_data H" and "never_fails N"
    and "ServerWrite_dataPacket H N D (so_remoteV s) p (server_called s) = Inr s'"
  shows "ServerWrite_on H N D (server_input.Received NoError (Packet_encode H (DATA p))) s =
    Inr (counted Data (length (Packet_encode H (DATA p))) s')"
  using PacketHandler_packet_encode [OF assms(1), of "DATA p" "ServerWrite_handlers H N D"
      "so_remoteV s" "server_called s" s'] assms(2,3)
  by (simp add: ServerWrite_on_def ServerOperation_receiveHandler_def ServerWrite_handlers_def cmd_simps)

lemma server_dallying_again:
  assumes "server_dallying H N p h cc before k s"
  shows "\<exists>s'. ServerWrite_on H N D (server_input.Received NoError (Packet_encode H (DATA p))) s = Inr s' \<and>
    server_dallying H N p h cc before (Suc k) s'"
proof -
  note s = assms [unfolded server_dallying_def]
  have "ServerWrite_dataPacket H N D (so_remoteV s) p (server_called s) =
      Inr (server_waiting TimeoutDally (server_sent_ack H (dp_blockNumber p) (server_called s)))"
    using s by (subst ServerWrite_dataPacket_again [where h = h]) (auto simp: server_write_continued_def)
  from ServerWrite_on_data [OF _ _ this] s show ?thesis
    by (simp add: server_dallying_def server_waiting_def replicate_append_same)
qed

lemma server_dallying_expiry:
  assumes "server_dallying H N p h cc before k s"
  shows "\<exists>s'. ServerWrite_on H N D (server_input.DallyTimeout NoError) s = Inr s' \<and>
    server_dallied H D p h cc before k s'"
  using assms
  by (auto simp: server_dallying_def server_dallied_def ServerWrite_on_def
      ServerOperation_timeoutDallyHandler_def server_finished_def cmd_simps)

interpretation server: final_wait
    "ServerWrite_on H N D (server_input.Received NoError (Packet_encode H (DATA p)))"
    "ServerWrite_on H N D (server_input.DallyTimeout NoError)"
    "server_dallying H N p h cc before" "server_dallied H D p h cc before" for H N D p h cc before
  by unfold_locales (fact server_dallying_again server_dallying_expiry)+

lemma server_dallies:
  assumes "raw_data H" and "never_fails N" and "sw_dataHandlerV s = Some h"
    and "dp_blockNumber p = BlockNumber_preincrement (sw_lastReceivedBlockNumber s)"
    and "dp_blockNumber p \<noteq> sw_lastReceivedBlockNumber s"
    and "length (dp_data p) < unat (sw_receiveDataSize s)"
    and "sw_dallyV s" and "so_completionHandlerV s"
  shows "\<exists>s'. ServerWrite_on H N D (server_input.Received NoError (Packet_encode H (DATA p))) s = Inr s' \<and>
    server_dallying H N p (rh_receivedData D (dp_data p) h) (completions (trace s)) (sent (trace s)) 1 s'"
  using ServerWrite_on_data [OF assms(1,2) ServerWrite_dataPacket_next [OF assms(2), where h = h]] assms
  by (simp add: server_write_continued_def server_dallying_def server_waiting_def)

text \<open>The server dallies at the end of an upload in the same way.\<close>

theorem server_dally:
  assumes "raw_data H" and "never_fails N" and "sw_dataHandlerV s = Some h"
    and "dp_blockNumber p = BlockNumber_preincrement (sw_lastReceivedBlockNumber s)"
    and "dp_blockNumber p \<noteq> sw_lastReceivedBlockNumber s"
    and "length (dp_data p) < unat (sw_receiveDataSize s)"
    and "sw_dallyV s" and "so_completionHandlerV s"
  shows "\<exists>s'. block (replicate (Suc n) (ServerWrite_on H N D (server_input.Received NoError (Packet_encode H (DATA p)))) @
      [ServerWrite_on H N D (server_input.DallyTimeout NoError)]) s = Inr s' \<and>
    sw_dataHandlerV s' = Some (rh_finished D (rh_receivedData D (dp_data p) h)) \<and>
    completions (trace s') = completions (trace s) @ [Successful] \<and>
    sent (trace s') = sent (trace s) @
      replicate (Suc n) (Packet_encode H (ACK \<lparr>ap_blockNumber = dp_blockNumber p\<rparr>))"
proof -
  from server_dallies [OF assms, of D] obtain s1 where
    "ServerWrite_on H N D (server_input.Received NoError (Packet_encode H (DATA p))) s = Inr s1"
    "server_dallying H N p (rh_receivedData D (dp_data p) h) (completions (trace s)) (sent (trace s)) 1 s1"
    by blast
  from server.starts_and_completes [OF this, of n] show ?thesis
    unfolding server_dallied_def by blast
qed

end
