(* ===== verification/ServerApplication.thy ===== *)
theory ServerApplication
  imports Server CheckFilename Files
begin

text \<open>
  \<open>app/tftp_server/tftp_server.cpp\<close>: the server application. Its request handler checks the
  request, and creates and starts one operation for it, which it keeps in a global variable.
  The output on the console is left out.
\<close>

text \<open>
  What the application asks of the disk, with the functions \<open>checkFilename\<close> asks for, is a
  parameter \<open>FS\<close>, a function of the files the application has written so far: the content of
  each, under the name with which it was opened.
  \<open>fs_path\<close> makes a path of a name; \<open>fs_readable\<close> is the content an input stream finds, if it
  can be opened, \<open>fs_writable\<close> whether an output stream can; \<open>file_size\<close> throws a
  \<open>filesystem_error\<close> where there is no size.
\<close>

record disk = filesystem +
  fs_path :: "string \<Rightarrow> path"
  fs_readable :: "path \<Rightarrow> bytes option"
  fs_writable :: "path \<Rightarrow> bool"
  fs_file_size :: "path \<Rightarrow> u64 option"

type_synonym files = "path \<Rightarrow> bytes option"

datatype app_operation =
    ReadOperation "stream_file server_read"
  | WriteOperation "stream_file server_write"

text \<open>
  The global variables of the application; the server is what they extend. An operation keeps
  a trace of its own and shares the packet statistics. \<open>ts_files\<close> is what was written.
\<close>

record tftp_server = server +
  ts_baseDir :: path
  ts_tftpConfiguration :: configuration
  ts_tftpOptionsConfiguration :: options_configuration
  ts_serverOperation :: "app_operation option"
  ts_files :: files

definition TftpServer_globals :: "world \<Rightarrow> tftp_server" where
  "TftpServer_globals w =
     server.extend (ServerImpl_new w)
       (tftp_server.fields [] (TftpConfiguration_make DefaultTftpPort) TftpOptionsConfiguration_default None (\<lambda>_. None))"

lemma TftpServer_globals_simps [simp]:
  "ts_baseDir (TftpServer_globals w) = []"
  "ts_tftpConfiguration (TftpServer_globals w) = TftpConfiguration_make DefaultTftpPort"
  "ts_tftpOptionsConfiguration (TftpServer_globals w) = TftpOptionsConfiguration_default"
  "ts_serverOperation (TftpServer_globals w) = None" "ts_files (TftpServer_globals w) = (\<lambda>_. None)" "trace (TftpServer_globals w) = trace w"
  "sv_requestHandlerV (TftpServer_globals w) \<longleftrightarrow> False"
  "sv_receivePacketSize (TftpServer_globals w) = unat DefaultMaxPacketSize"
  by (simp_all add: TftpServer_globals_def server.defs tftp_server.defs ServerImpl_new_def)

text \<open>How \<open>main\<close> configures the server and starts it, and what a termination signal does.\<close>

definition TftpServer_configure :: "net \<Rightarrow> tftp_server cmd" where
  "TftpServer_configure N s =
     block [
       ServerImpl_requestHandler True,
       ServerImpl_serverAddress \<lparr>ep_address = V4 0, ep_port = tc_tftpServerPort (ts_tftpConfiguration s)\<rparr>,
       ServerImpl_start N] s"

definition TftpServer_signal :: "net \<Rightarrow> tftp_server cmd" where
  "TftpServer_signal N = ServerImpl_stop N"

subsection \<open>Operations\<close>

text \<open>
  The global variable is set before \<open>start\<close>; the completion handler clears it, which may happen
  within \<open>start\<close> or any later call of the operation. What a file stream writes is taken to be on
  the disk at once.
\<close>

definition app_world :: "tftp_server \<Rightarrow> world" where
  "app_world s = \<lparr>trace = [], globalTransmit = globalTransmit s, globalReceive = globalReceive s\<rparr>"

definition TftpServer_operationCompleted :: "event list \<Rightarrow> app_operation \<Rightarrow> app_operation option" where
  "TftpServer_operationCompleted tr operation = (if completions tr = [] then Some operation else None)"

fun app_written :: "app_operation \<Rightarrow> files \<Rightarrow> files" where
  "app_written (ReadOperation op) m = m"
| "app_written (WriteOperation op) m =
     (case sw_dataHandlerV op of None \<Rightarrow> m | Some f \<Rightarrow> m(sf_filenameV f \<mapsto> sf_disk f))"

definition adopt :: "('a world_scheme \<Rightarrow> app_operation) \<Rightarrow> 'a world_scheme \<Rightarrow> tftp_server \<Rightarrow> tftp_server" where
  "adopt kind operation s =
     s\<lparr>ts_serverOperation := TftpServer_operationCompleted (trace operation) (kind operation),
       ts_files := app_written (kind operation) (ts_files s),
       globalTransmit := globalTransmit operation, globalReceive := globalReceive operation\<rparr>"

definition app_result :: "('a world_scheme \<Rightarrow> app_operation) \<Rightarrow> 'a world_scheme result \<Rightarrow> tftp_server cmd" where
  "app_result kind r s =
     (case r of Inl (e, op) \<Rightarrow> Inl (e, adopt kind op s) | Inr op \<Rightarrow> Inr (adopt kind op s))"

definition app_start ::
    "('a world_scheme \<Rightarrow> app_operation) \<Rightarrow> 'a world_scheme result \<Rightarrow> 'a world_scheme cmd \<Rightarrow> tftp_server cmd" where
  "app_start kind operation start s =
     (case operation of Inl (e, op) \<Rightarrow> throw e s | Inr op \<Rightarrow> app_result kind (start op) s)"

definition TftpServer_readOperation ::
    "tftp_server \<Rightarrow> endpoint \<Rightarrow> tftp_options \<Rightarrow> stream_file \<Rightarrow> stream_file server_read result" where
  "TftpServer_readOperation s remote clientOptions file =
     (case ServerImpl_readOperation s (app_world s) of
        Inl e \<Rightarrow> Inl e
      | Inr operation \<Rightarrow> block [
       ServerOperation_tftpTimeout (tc_tftpTimeout (ts_tftpConfiguration s)),
       ServerOperation_tftpRetries (tc_tftpRetries (ts_tftpConfiguration s)),
       ServerRead_optionsConfiguration (ts_tftpOptionsConfiguration s),
       ServerOperation_completionHandler True,
       ServerRead_dataHandler (Some file),
       ServerOperation_remote remote,
       ServerRead_clientOptions clientOptions] operation)"

definition TftpServer_writeOperation ::
    "tftp_server \<Rightarrow> endpoint \<Rightarrow> tftp_options \<Rightarrow> stream_file \<Rightarrow> stream_file server_write result" where
  "TftpServer_writeOperation s remote clientOptions file =
     (case ServerImpl_writeOperation s (app_world s) of
        Inl e \<Rightarrow> Inl e
      | Inr operation \<Rightarrow> block [
       ServerOperation_tftpTimeout (tc_tftpTimeout (ts_tftpConfiguration s)),
       ServerOperation_tftpRetries (tc_tftpRetries (ts_tftpConfiguration s)),
       ServerWrite_dally (tc_dally (ts_tftpConfiguration s)),
       ServerWrite_optionsConfiguration (ts_tftpOptionsConfiguration s),
       ServerOperation_completionHandler True,
       ServerWrite_dataHandler (Some file),
       ServerOperation_remote remote,
       ServerWrite_clientOptions clientOptions] operation)"

text \<open>
  The stream opened first shows whether the file can be opened, and empties a file that is to
  be written; the handler opens it again.
\<close>

definition TftpServer_transmitFile ::
    "helper \<Rightarrow> net \<Rightarrow> (files \<Rightarrow> disk) \<Rightarrow> endpoint \<Rightarrow> path \<Rightarrow> tftp_options \<Rightarrow> tftp_server cmd" where
  "TftpServer_transmitFile H N FS remote filename clientOptions s =
     (case fs_readable (FS (ts_files s)) filename of
        None \<Rightarrow> ServerImpl_errorOperation H N remote FileNotFound ''file not found'' s
      | Some content \<Rightarrow>
          (case fs_file_size (FS (ts_files s)) filename of
             None \<Rightarrow> throw StdEx s
           | Some sz \<Rightarrow>
               app_start ReadOperation
                 (TftpServer_readOperation s remote clientOptions (StreamFile_make Transmit filename (Some sz) True content))
                 (ServerRead_start H N stream_transmitter) s))"

definition TftpServer_receiveFile ::
    "helper \<Rightarrow> net \<Rightarrow> (files \<Rightarrow> disk) \<Rightarrow> endpoint \<Rightarrow> path \<Rightarrow> tftp_options \<Rightarrow> tftp_server cmd" where
  "TftpServer_receiveFile H N FS remote filename clientOptions s =
     (if \<not> fs_writable (FS (ts_files s)) filename
      then ServerImpl_errorOperation H N remote AccessViolation '''' s
      else let s = s\<lparr>ts_files := (ts_files s)(filename \<mapsto> [])\<rparr>
        in app_start WriteOperation
          (TftpServer_writeOperation s remote clientOptions (StreamFile_make Receive filename None True []))
          (ServerWrite_start H N stream_receiver) s)"

text \<open>The request handler.\<close>

definition TftpServer_receivedRequest ::
    "helper \<Rightarrow> net \<Rightarrow> (files \<Rightarrow> disk) \<Rightarrow> endpoint \<Rightarrow> request_type \<Rightarrow> string \<Rightarrow> transfer_mode \<Rightarrow> tftp_options \<Rightarrow>
     options \<Rightarrow> tftp_server cmd" where
  "TftpServer_receivedRequest H N FS remote requestType filename mode clientOptions additionalClientOptions s =
     (if mode \<noteq> OCTET
      then ServerImpl_errorOperation H N remote IllegalTftpOperation ''wrong transfer mode'' s
      else
        let FS' = FS (ts_files s) in
        case checkFilename FS' (ts_baseDir s) (fs_path FS' filename) (requestType = Read) of
          Inl e \<Rightarrow> throw e s
        | Inr None \<Rightarrow>
            ServerImpl_errorOperation H N remote AccessViolation ''Illegal filename'' s
        | Inr (Some filePath) \<Rightarrow>
            let file = fs_append FS' (ts_baseDir s) (fs_path FS' filename)
            in case requestType of
                 Read \<Rightarrow> TftpServer_transmitFile H N FS remote file clientOptions s
               | Write \<Rightarrow> TftpServer_receiveFile H N FS remote file clientOptions s)"

subsection \<open>The event loop\<close>

text \<open>
  What \<open>ioContext.run()\<close> calls: the reception of the listening socket, whose request handler is
  \<open>receivedRequest\<close>; the completion tokens of the operation that is kept; and the signals. An
  exception that leaves one of them leaves the loop.
\<close>

datatype app_input =
    Datagram io_error endpoint bytes
  | ForOperation server_input
  | Signalled

fun TftpServer_operation_on :: "helper \<Rightarrow> net \<Rightarrow> server_input \<Rightarrow> app_operation \<Rightarrow> tftp_server cmd" where
  "TftpServer_operation_on H N input (ReadOperation op) s =
     app_result ReadOperation (ServerRead_on H N stream_transmitter input
       (op\<lparr>globalTransmit := globalTransmit s, globalReceive := globalReceive s\<rparr>)) s"
| "TftpServer_operation_on H N input (WriteOperation op) s =
     app_result WriteOperation (ServerWrite_on H N stream_receiver input
       (op\<lparr>globalTransmit := globalTransmit s, globalReceive := globalReceive s\<rparr>)) s"

fun TftpServer_on :: "helper \<Rightarrow> net \<Rightarrow> (files \<Rightarrow> disk) \<Rightarrow> app_input \<Rightarrow> tftp_server cmd" where
  "TftpServer_on H N FS (Datagram errorCode sender raw) s =
     ServerImpl_receiveHandler H N (TftpServer_receivedRequest H N FS) errorCode sender raw s"
| "TftpServer_on H N FS (ForOperation input) s =
     (case ts_serverOperation s of
        None \<Rightarrow> Inr s
      | Some operation \<Rightarrow> TftpServer_operation_on H N input operation s)"
| "TftpServer_on H N FS Signalled s = TftpServer_signal N s"

definition TftpServer_run :: "helper \<Rightarrow> net \<Rightarrow> (files \<Rightarrow> disk) \<Rightarrow> app_input list \<Rightarrow> tftp_server cmd" where
  "TftpServer_run H N FS inputs = block (map (TftpServer_on H N FS) inputs)"

end
