(* ===== verification/ServerApplicationProperties.thy ===== *)
theory ServerApplicationProperties
  imports ServerApplication ServerProperties Download Upload Instances
begin

text \<open>
  The properties of the server application: which requests it serves, how the operation it
  starts is set up, and how a request for a directory ends it.
\<close>

subsection \<open>Listening\<close>

text \<open>The application as it listens: on all addresses of IPv4, and waiting for the first request.\<close>

definition app_listening :: "tftp_server \<Rightarrow> tftp_server" where
  "app_listening s =
     (let address = \<lparr>ep_address = V4 0, ep_port = tc_tftpServerPort (ts_tftpConfiguration s)\<rparr>
      in s\<lparr>sv_requestHandlerV := True, sv_serverAddressV := address,
        trace := trace s @ [Called (SocketOpen UdpV4) True, Called (SocketBind address) True,
          Called (AsyncReceiveFrom (sv_receivePacketSize s)) True]\<rparr>)"

lemma TftpServer_configured:
  assumes "never_fails N"
  shows "TftpServer_configure N s = Inr (app_listening s)"
  using assms
  by (simp add: TftpServer_configure_def ServerImpl_requestHandler_def ServerImpl_serverAddress_def
      ServerImpl_start_def ServerImpl_receive_def app_listening_def try_catch_def never_fails_def Let_def cmd_simps)

lemma app_listening_simps [simp]:
  "ts_baseDir (app_listening s) = ts_baseDir s" "ts_files (app_listening s) = ts_files s"
  "ts_tftpConfiguration (app_listening s) = ts_tftpConfiguration s" "sv_requestHandlerV (app_listening s)"
  "ts_serverOperation (app_listening s) = ts_serverOperation s"
  by (simp_all add: app_listening_def Let_def)

subsection \<open>Set-up of the operations\<close>

text \<open>Whatever the defaults of the server are, the operation the application makes is fresh.\<close>

definition app_read_set_up ::
    "tftp_server \<Rightarrow> endpoint \<Rightarrow> tftp_options \<Rightarrow> stream_file \<Rightarrow> stream_file server_read \<Rightarrow> bool" where
  "app_read_set_up s remote opts file op \<longleftrightarrow>
     so_remoteV op = remote \<and> sr_clientOptionsV op = opts \<and> sr_additionalNegotiatedOptionsV op = [] \<and>
     sr_dataHandlerV op = Some file \<and> sr_optionsConfigurationV op = ts_tftpOptionsConfiguration s \<and>
     so_receiveTimeoutV op = tc_tftpTimeout (ts_tftpConfiguration s) \<and>
     so_tftpRetriesV op = tc_tftpRetries (ts_tftpConfiguration s) \<and> so_completionHandlerV op \<and>
     sr_transmitDataSize op = DefaultDataSize \<and> \<not> sr_lastDataPacketTransmitted op \<and>
     sr_lastTransmittedBlockNumber op = BlockNumber 0 \<and> sr_lastReceivedBlockNumber op = BlockNumber 0 \<and>
     trace op = []"

lemma TftpServer_readOperation_set_up:
  "\<exists>op. TftpServer_readOperation s remote opts file = Inr op \<and> app_read_set_up s remote opts file op"
  by (cases "sv_tftpTimeoutDefaultV s"; cases "sv_tftpRetriesDefaultV s";
      cases "sv_optionsConfigurationDefaultV s"; cases "is_unspecified (sv_localV s)")
    (simp_all add: TftpServer_readOperation_def ServerImpl_readOperation_def set_default_def
      ServerOperation_tftpTimeout_def ServerOperation_tftpRetries_def ServerRead_optionsConfiguration_def
      ServerOperation_completionHandler_def ServerRead_dataHandler_def ServerOperation_remote_def
      ServerRead_clientOptions_def ServerOperation_local_def ServerRead_new_def app_world_def
      app_read_set_up_def cmd_simps)

definition app_write_set_up ::
    "tftp_server \<Rightarrow> endpoint \<Rightarrow> tftp_options \<Rightarrow> stream_file \<Rightarrow> stream_file server_write \<Rightarrow> bool" where
  "app_write_set_up s remote opts file op \<longleftrightarrow>
     so_remoteV op = remote \<and> sw_clientOptionsV op = opts \<and> sw_additionalNegotiatedOptionsV op = [] \<and>
     sw_dataHandlerV op = Some file \<and> sw_optionsConfigurationV op = ts_tftpOptionsConfiguration s \<and>
     so_receiveTimeoutV op = tc_tftpTimeout (ts_tftpConfiguration s) \<and>
     so_tftpRetriesV op = tc_tftpRetries (ts_tftpConfiguration s) \<and> so_completionHandlerV op \<and>
     sw_dallyV op = tc_dally (ts_tftpConfiguration s) \<and> sw_receiveDataSize op = DefaultDataSize \<and>
     sw_lastReceivedBlockNumber op = BlockNumber 0 \<and> trace op = []"

lemma TftpServer_writeOperation_set_up:
  "\<exists>op. TftpServer_writeOperation s remote opts file = Inr op \<and> app_write_set_up s remote opts file op"
  by (cases "sv_tftpTimeoutDefaultV s"; cases "sv_tftpRetriesDefaultV s";
      cases "sv_dallyDefaultV s";
      cases "sv_optionsConfigurationDefaultV s"; cases "is_unspecified (sv_localV s)")
    (simp_all add: TftpServer_writeOperation_def ServerImpl_writeOperation_def set_default_def
      ServerOperation_tftpTimeout_def ServerOperation_tftpRetries_def ServerWrite_dally_def
      ServerWrite_optionsConfiguration_def ServerOperation_maxReceivePacketSize_def
      ServerOperation_completionHandler_def ServerWrite_dataHandler_def ServerOperation_remote_def
      ServerWrite_clientOptions_def ServerOperation_local_def ServerWrite_new_def app_world_def
      app_write_set_up_def cmd_simps)

lemma app_write_set_up_files [simp]:
  "app_write_set_up (s\<lparr>ts_files := m\<rparr>) remote opts file op = app_write_set_up s remote opts file op"
  by (simp add: app_write_set_up_def)

subsection \<open>Requests\<close>

lemma errorOperation_trace:
  assumes "never_fails N"
  shows "\<exists>sv'. ServerImpl_errorOperation H N remote code msg sv = Inr sv' \<and>
    trace sv' = trace sv @ [Called (SocketOpen (endpoint_protocol remote)) True, Called (SocketConnect remote) True,
      Called (SocketSend (Packet_encode H (ERR \<lparr>ep_errorCode = code, ep_errorMessage = msg\<rparr>))) True]"
  using assms by (simp add: ServerImpl_errorOperation_def Let_def try_catch_def cmd_simps)

text \<open>A request that is refused: one error packet to its sender, and nothing else.\<close>

definition app_refuses :: "helper \<Rightarrow> endpoint \<Rightarrow> tftp_server \<Rightarrow> tftp_server \<Rightarrow> bool" where
  "app_refuses H remote s s' \<longleftrightarrow>
     (\<exists>p. trace s' = trace s @ [Called (SocketOpen (endpoint_protocol remote)) True,
        Called (SocketConnect remote) True, Called (SocketSend (Packet_encode H (ERR p))) True]) \<and>
     server.more s' = server.more s"

lemma errorOperation_refuses:
  assumes "never_fails N" and "ServerImpl_errorOperation H N remote code msg s = Inr s'"
  shows "app_refuses H remote s s'"
  using assms
  by (auto simp: ServerImpl_errorOperation_def Let_def try_catch_def cmd_simps app_refuses_def
      intro!: exI [of _ "\<lparr>ep_errorCode = code, ep_errorMessage = msg\<rparr>"])

text \<open>A request for the file \<open>file\<close> that is accepted.\<close>

definition app_serves ::
    "helper \<Rightarrow> net \<Rightarrow> (files \<Rightarrow> disk) \<Rightarrow> endpoint \<Rightarrow> request_type \<Rightarrow> path \<Rightarrow> tftp_options \<Rightarrow>
     tftp_server \<Rightarrow> tftp_server \<Rightarrow> bool" where
  "app_serves H N FS remote t file opts s s' \<longleftrightarrow>
     trace s' = trace s \<and>
     (case t of
        Read \<Rightarrow> \<exists>xs sz op0 op. fs_readable (FS (ts_files s)) file = Some xs \<and>
          app_read_set_up s remote opts (StreamFile_make Transmit file (Some sz) True xs) op0 \<and>
          ServerRead_start H N stream_transmitter op0 = Inr op \<and> ts_files s' = ts_files s \<and>
          ts_serverOperation s' = TftpServer_operationCompleted (trace op) (ReadOperation op)
      | Write \<Rightarrow> \<exists>op0 op. fs_writable (FS (ts_files s)) file \<and>
          app_write_set_up s remote opts (StreamFile_make Receive file None True []) op0 \<and>
          ServerWrite_start H N stream_receiver op0 = Inr op \<and>
          ts_files s' = app_written (WriteOperation op) ((ts_files s)(file \<mapsto> [])) \<and>
          ts_serverOperation s' = TftpServer_operationCompleted (trace op) (WriteOperation op))"

lemma TftpServer_transmitFile_cases:
  assumes "never_fails N" and "TftpServer_transmitFile H N FS remote file opts s = Inr s'"
  shows "app_refuses H remote s s' \<or> app_serves H N FS remote Read file opts s s'"
proof (cases "fs_readable (FS (ts_files s)) file")
  case None
  with assms errorOperation_refuses show ?thesis by (simp add: TftpServer_transmitFile_def)
next
  case (Some xs)
  then obtain sz where sz: "fs_file_size (FS (ts_files s)) file = Some sz"
    using assms(2) by (auto simp: TftpServer_transmitFile_def throw_apply split: option.splits)
  obtain op0 where op0: "TftpServer_readOperation s remote opts (StreamFile_make Transmit file (Some sz) True xs) = Inr op0"
      "app_read_set_up s remote opts (StreamFile_make Transmit file (Some sz) True xs) op0"
    using TftpServer_readOperation_set_up by blast
  then obtain op where op: "ServerRead_start H N stream_transmitter op0 = Inr op" "s' = adopt ReadOperation op s"
    using assms(2) Some sz by (auto simp: TftpServer_transmitFile_def app_start_def app_result_def split: sum.splits)
  have "trace s' = trace s" "ts_files s' = ts_files s"
      "ts_serverOperation s' = TftpServer_operationCompleted (trace op) (ReadOperation op)"
    by (simp_all add: op(2) adopt_def)
  with Some op0(2) op(1) show ?thesis unfolding app_serves_def request_type.case by blast
qed

lemma TftpServer_receiveFile_cases:
  assumes "never_fails N" and "TftpServer_receiveFile H N FS remote file opts s = Inr s'"
  shows "app_refuses H remote s s' \<or> app_serves H N FS remote Write file opts s s'"
proof (cases "fs_writable (FS (ts_files s)) file")
  case False
  with assms errorOperation_refuses show ?thesis by (simp add: TftpServer_receiveFile_def)
next
  case True
  let ?s = "s\<lparr>ts_files := (ts_files s)(file \<mapsto> [])\<rparr>" and ?h = "StreamFile_make Receive file None True []"
  obtain op0 where op0: "TftpServer_writeOperation ?s remote opts ?h = Inr op0"
      "app_write_set_up s remote opts ?h op0"
    using TftpServer_writeOperation_set_up [of ?s remote opts ?h] by auto
  then obtain op where op: "ServerWrite_start H N stream_receiver op0 = Inr op" "s' = adopt WriteOperation op ?s"
    using assms(2) True by (auto simp: TftpServer_receiveFile_def app_start_def app_result_def Let_def split: sum.splits)
  have "trace s' = trace s" "ts_files s' = app_written (WriteOperation op) ((ts_files s)(file \<mapsto> []))"
      "ts_serverOperation s' = TftpServer_operationCompleted (trace op) (WriteOperation op)"
    by (simp_all add: op(2) adopt_def)
  with True op0(2) op(1) show ?thesis unfolding app_serves_def request_type.case by blast
qed

text \<open>The path the application opens for a name, and its check of the name.\<close>

abbreviation app_file :: "(files \<Rightarrow> disk) \<Rightarrow> tftp_server \<Rightarrow> string \<Rightarrow> path" where
  "app_file FS s name \<equiv> fs_append (FS (ts_files s)) (ts_baseDir s) (fs_path (FS (ts_files s)) name)"

abbreviation app_check :: "(files \<Rightarrow> disk) \<Rightarrow> tftp_server \<Rightarrow> string \<Rightarrow> request_type \<Rightarrow> exn + path option" where
  "app_check FS s name t \<equiv> checkFilename (FS (ts_files s)) (ts_baseDir s) (fs_path (FS (ts_files s)) name) (t = Read)"

text \<open>A path in the base directory: what is opened is the directory with something appended that leads
  nowhere else.\<close>

definition app_below :: "disk \<Rightarrow> path \<Rightarrow> path \<Rightarrow> bool" where
  "app_below D dir file \<longleftrightarrow>
     (\<exists>name root rest. file = fs_append D dir name \<and> fs_canonical D dir = Some root \<and>
        fs_weakly_canonical D (fs_append D root name) = Some (root @ rest))"

lemma app_check_below:
  "app_check FS s name t = Inr (Some p) \<Longrightarrow> app_below (FS (ts_files s)) (ts_baseDir s) (app_file FS s name)"
  unfolding app_below_def using checkFilename_within by blast


text \<open>An application that serves \<open>/srv\<close>, where there are the file \<open>f\<close> and the directory \<open>d\<close>.\<close>

definition example_content :: "bytes \<Rightarrow> files \<Rightarrow> path \<Rightarrow> bytes option" where
  "example_content xs m p =
     (case m p of Some ys \<Rightarrow> Some ys | None \<Rightarrow> if p = [''srv'', ''f''] then Some xs else None)"

definition example_srv :: "bytes \<Rightarrow> files \<Rightarrow> disk" where
  "example_srv xs m =
     \<lparr>fs_canonical = Some, fs_weakly_canonical = Some, fs_append = (@),
      fs_is_regular_file = (\<lambda>p. (example_content xs m p \<noteq> None, False)), fs_path = (\<lambda>name. [name]),
      fs_readable = (\<lambda>p. case example_content xs m p of
        Some ys \<Rightarrow> Some ys | None \<Rightarrow> if p = [''srv'', ''d''] then Some [] else None),
      fs_writable = (\<lambda>p. p \<noteq> [''srv'', ''d'']),
      fs_file_size = (\<lambda>p. map_option (\<lambda>ys. word_of_nat (length ys)) (example_content xs m p))\<rparr>"

definition example_app :: tftp_server where
  "example_app = (TftpServer_globals no_world)\<lparr>sv_requestHandlerV := True, ts_baseDir := [''srv'']\<rparr>"


subsection \<open>Accepted requests\<close>

text \<open>The operations the application starts are ready to transfer the file, without options.\<close>

lemma app_read_fresh:
  assumes "app_read_set_up s remote opts (StreamFile_make Transmit file (Some sz) True xs) op"
  shows "fresh_server stream_transmitter stream_content xs op"
  using assms
  by (simp add: app_read_set_up_def fresh_server_def stream_content_def StreamFile_make_def ended_def
      stream_transmitter_def StreamFile_start_def fstream_open_def cmd_simps)

lemma app_write_fresh:
  assumes "app_write_set_up s remote opts (StreamFile_make Receive file None True []) op"
    and "\<not> tc_dally (ts_tftpConfiguration s)"
  shows "fresh_store (\<lambda>f. sf_operationV f = Receive) stream_receiver op"
  using assms
  by (simp add: app_write_set_up_def fresh_store_def StreamFile_make_def ended_def
      stream_receiver_def StreamFile_start_def fstream_open_def cmd_simps)

lemma app_accepts_read:
  assumes "never_fails N" and "app_check FS s name Read = Inr (Some p)"
    and "fs_readable (FS (ts_files s)) (app_file FS s name) = Some xs"
    and "fs_file_size (FS (ts_files s)) (app_file FS s name) = Some sz"
  shows "\<exists>op0 op.
    TftpServer_receivedRequest H N FS remote Read name OCTET no_tftp_options unknown s = Inr (adopt ReadOperation op s) \<and>
    app_read_set_up s remote no_tftp_options (StreamFile_make Transmit (app_file FS s name) (Some sz) True xs) op0 \<and>
    ServerRead_start H N stream_transmitter op0 = Inr op"
proof -
  let ?file = "StreamFile_make Transmit (app_file FS s name) (Some sz) True xs"
  obtain op0 where op0: "TftpServer_readOperation s remote no_tftp_options ?file = Inr op0"
      "app_read_set_up s remote no_tftp_options ?file op0"
    using TftpServer_readOperation_set_up by blast
  have plain: "sr_clientOptionsV op0 = no_tftp_options" "sr_additionalNegotiatedOptionsV op0 = []"
    using op0(2) by (simp_all add: app_read_set_up_def)
  obtain op where op: "ServerRead_start H N stream_transmitter op0 = Inr op"
    using fresh_server_started [OF assms(1) stream_source.data_source_axioms app_read_fresh [OF op0(2)] plain, of H]
    by blast
  then have "TftpServer_receivedRequest H N FS remote Read name OCTET no_tftp_options unknown s =
      Inr (adopt ReadOperation op s)"
    using assms(2-4) op0(1)
    by (simp add: TftpServer_receivedRequest_def TftpServer_transmitFile_def app_start_def app_result_def Let_def)
  with op0(2) op show ?thesis by blast
qed

lemma app_accepts_write:
  assumes "never_fails N" and "\<not> tc_dally (ts_tftpConfiguration s)" and "app_check FS s name Write = Inr (Some p)"
    and "fs_writable (FS (ts_files s)) (app_file FS s name)"
  shows "\<exists>op0 op.
    TftpServer_receivedRequest H N FS remote Write name OCTET no_tftp_options unknown s =
      Inr (adopt WriteOperation op (s\<lparr>ts_files := (ts_files s)(app_file FS s name \<mapsto> [])\<rparr>)) \<and>
    app_write_set_up s remote no_tftp_options (StreamFile_make Receive (app_file FS s name) None True []) op0 \<and>
    ServerWrite_start H N stream_receiver op0 = Inr op"
proof -
  let ?file = "StreamFile_make Receive (app_file FS s name) None True []"
  let ?s = "s\<lparr>ts_files := (ts_files s)(app_file FS s name \<mapsto> [])\<rparr>"
  obtain op0 where op0: "TftpServer_writeOperation ?s remote no_tftp_options ?file = Inr op0"
      "app_write_set_up s remote no_tftp_options ?file op0"
    using TftpServer_writeOperation_set_up [of ?s remote no_tftp_options ?file] by auto
  have plain: "sw_clientOptionsV op0 = no_tftp_options" "sw_additionalNegotiatedOptionsV op0 = []"
    using op0(2) by (simp_all add: app_write_set_up_def)
  obtain op where op: "ServerWrite_start H N stream_receiver op0 = Inr op"
    using fresh_store_started [OF assms(1) stream_sink.data_sink_axioms app_write_fresh [OF op0(2) assms(2)]
        plain, where H = H and xs = "[]"] by blast
  then have "TftpServer_receivedRequest H N FS remote Write name OCTET no_tftp_options unknown s =
      Inr (adopt WriteOperation op ?s)"
    using assms(3,4) op0(1)
    by (simp add: TftpServer_receivedRequest_def TftpServer_receiveFile_def app_start_def app_result_def Let_def)
  with op0(2) op show ?thesis by blast
qed

subsection \<open>Requests that end the application\<close>

text \<open>C39: A read request for something that can be opened but has no file size, as a directory on
  Linux, ends the server application: \<open>checkFilename\<close> accepts it, \<open>file_size\<close> throws, and the
  exception leaves the completion handler of the reception, which catches only a
  \<open>TftpException\<close>. No answer is sent and the server does not listen any more.\<close>

theorem server_app_directory:
  assumes "raw_data H" and "wf_request r" and "rq_mode r = OCTET" and "sv_requestHandlerV s"
    and "app_check FS s (rq_filename r) Read = Inr (Some p)"
    and "fs_readable (FS (ts_files s)) (app_file FS s (rq_filename r)) = Some xs"
    and "fs_file_size (FS (ts_files s)) (app_file FS s (rq_filename r)) = None"
  shows "\<exists>s' opts rest. TftpServer_on H N FS (Datagram NoError sender (Packet_encode H (RRQ r))) s = Inl (StdEx, s') \<and>
    trace s' = trace s @ [Requested sender Read (rq_filename r) OCTET opts rest]"
proof -
  let ?R = "TftpServer_receivedRequest H N FS" and ?s = "s\<lparr>sv_remoteEndpointV := sender\<rparr>"
  obtain opts rest where opts: "ServerImpl_tftpOptions (rq_options r) = (opts, rest)" by fastforce
  define s1 where "s1 = server_requested sender Read r opts rest s"
  have "?R sender Read (rq_filename r) OCTET opts rest s1 = Inl (StdEx, s1)"
    using assms(5-7)
    by (simp add: TftpServer_receivedRequest_def TftpServer_transmitFile_def throw_apply Let_def s1_def server_requested_def)
  then have "call_handler (ServerImpl_handlers H N ?R) sender (RRQ r) ?s = Inl (StdEx, s1)"
    using assms(3,4) opts
    by (simp add: ServerImpl_handlers_def ServerImpl_readRequestPacket_def call_requestHandler_def s1_def
        server_requested_def cmd_simps)
  moreover have "Packet_decode H (Packet_encode H (RRQ r)) = Inr (RRQ r)"
    using assms(2) by (intro Packet_decode_encode [OF assms(1)]) simp
  ultimately have "PacketHandler_packet H (ServerImpl_handlers H N ?R) sender (Packet_encode H (RRQ r)) ?s = Inl (StdEx, s1)"
    by (simp add: PacketHandler_packet_decoded try_catch_def block.simps)
  then have "TftpServer_on H N FS (Datagram NoError sender (Packet_encode H (RRQ r))) s = Inl (StdEx, s1)"
    by (simp add: ServerImpl_receiveHandler_def try_catch_def is_tftp_exception_def block.simps modify_apply)
  then show ?thesis
    using assms(3) by (intro exI [of _ s1] exI [of _ opts] exI [of _ rest]) (simp add: s1_def server_requested_def)
qed

theorem server_app_directory_witness:
  "\<exists>s'. TftpServer_on big_endian_helper quiet_net (example_srv []) (Datagram NoError (host 2 1024)
      (Packet_encode big_endian_helper (RRQ \<lparr>rq_filename = ''d'', rq_mode = OCTET, rq_options = []\<rparr>)))
      example_app = Inl (StdEx, s') \<and> sent (trace s') = []"
proof -
  define r where "r = \<lparr>rq_filename = ''d'', rq_mode = OCTET, rq_options = []\<rparr>"
  have "wf_request r" "rq_mode r = OCTET" "rq_filename r = ''d''" "sv_requestHandlerV example_app" "trace example_app = []"
    by (simp_all add: r_def wf_request_def wf_options_def is_map_def example_app_def no_world_def)
  moreover have "app_check (example_srv []) example_app ''d'' Read = Inr (Some [''srv'', ''d''])"
    by (simp add: checkFilename_def example_srv_def example_app_def)
  moreover have "fs_readable (example_srv [] (ts_files example_app)) (app_file (example_srv []) example_app ''d'') = Some []"
      "fs_file_size (example_srv [] (ts_files example_app)) (app_file (example_srv []) example_app ''d'') = None"
    by (simp_all add: example_srv_def example_content_def example_app_def)
  ultimately obtain s' opts rest where
    "TftpServer_on big_endian_helper quiet_net (example_srv []) (Datagram NoError (host 2 1024)
       (Packet_encode big_endian_helper (RRQ r))) example_app = Inl (StdEx, s')"
    "trace s' = [Requested (host 2 1024) Read ''d'' OCTET opts rest]"
    using server_app_directory [OF big_endian.raw_data_axioms, of r example_app "example_srv []"
        "[''srv'', ''d'']" "[]" quiet_net "host 2 1024"] by auto
  then show ?thesis unfolding r_def [symmetric] by auto
qed

end
