(* ===== verification/HandlerInvariant.thy ===== *)
theory HandlerInvariant
  imports ServerFrames Files ServerReadInvariant ServerWriteInvariant
begin

text \<open>
  What a data handler keeps, the server operation that uses it keeps, whatever arrives and
  whatever calls fail: a file stream keeps its file name and its direction, and one that is
  read keeps its content.
\<close>

subsection \<open>Invariants of a data handler\<close>

locale receive_invariant =
  fixes D :: "'h receive_handler" and Q :: "'h \<Rightarrow> bool"
  assumes start: "keeps Q (rh_start D)"
    and receivedTransferSize: "Q h \<Longrightarrow> Q (snd (rh_receivedTransferSize D sz h))"
    and receivedData: "Q h \<Longrightarrow> Q (rh_receivedData D d h)"
    and finished: "Q h \<Longrightarrow> Q (rh_finished D h)"

locale transmit_invariant =
  fixes S :: "'h transmit_handler" and Q :: "'h \<Rightarrow> bool"
  assumes start: "keeps Q (th_start S)"
    and requestedTransferSize: "Q h \<Longrightarrow> Q (snd (th_requestedTransferSize S h))"
    and sendData: "Q h \<Longrightarrow> Q (snd (th_sendData S n h))"
    and finished: "Q h \<Longrightarrow> Q (th_finished S h)"

definition writes_with :: "('h \<Rightarrow> bool) \<Rightarrow> 'h server_write \<Rightarrow> bool" where
  "writes_with Q s \<longleftrightarrow> (\<exists>h. sw_dataHandlerV s = Some h \<and> Q h)"

definition reads_with :: "('h \<Rightarrow> bool) \<Rightarrow> 'h server_read \<Rightarrow> bool" where
  "reads_with Q s \<longleftrightarrow> (\<exists>h. sr_dataHandlerV s = Some h \<and> Q h)"

lemma with_update [simp]:
  "writes_with Q (s\<lparr>sw_lastReceivedBlockNumber := b\<rparr>) = writes_with Q s"
  "reads_with Q (s'\<lparr>sr_lastReceivedBlockNumber := b\<rparr>) = reads_with Q s'"
  "reads_with Q (s'\<lparr>sr_lastTransmittedBlockNumber := b\<rparr>) = reads_with Q s'"
  "reads_with Q (s'\<lparr>sr_lastDataPacketTransmitted := l\<rparr>) = reads_with Q s'"
  by (simp_all add: writes_with_def reads_with_def)

subsection \<open>An upload\<close>

context receive_invariant
begin

lemma writes_frame: "server_frame (writes_with Q) (ServerWrite_finished N D)"
proof
  fix s s' :: "'h server_write" and status info
  show "server_same_frame s s' \<Longrightarrow> writes_with Q s \<Longrightarrow> writes_with Q s'"
    by (simp add: writes_with_def server_frame_more_write)
  have *: "writes_with Q (final (ServerWrite_finished N D status info s)) \<and>
      ended (trace (final (ServerWrite_finished N D status info s)))" if s: "writes_with Q s" for s
  proof -
    obtain h where "sw_dataHandlerV s = Some h" "Q h" using s by (auto simp: writes_with_def)
    with ServerWrite_finished_final [of s h N D status info] show ?thesis
      by (auto simp: writes_with_def finished)
  qed
  then show "keeps (writes_with Q) (ServerWrite_finished N D status info)"
    by (intro keepsI) simp
  show "writes_with Q s \<Longrightarrow> ended (trace (final (ServerWrite_finished N D status info s)))"
    using * by simp
qed

lemmas writes_keeps =
  server_frame.keeps_reject [OF writes_frame] server_frame.keeps_steps [OF writes_frame]
  server_frame_F [OF writes_frame] server_frame.keeps_errorPacket [OF writes_frame]
  server_frame.keeps_initialise [OF writes_frame]

lemma writes_continue: "keeps (writes_with Q) (ServerWrite_continue N D p)"
  unfolding ServerWrite_continue_def by (intro keeps_fun_if writes_keeps)

lemma writes_received: "keeps (writes_with Q) (ServerWrite_on_handler (rh_receivedData D d))"
  by (intro keepsI) (auto simp: ServerWrite_on_handler_def writes_with_def receivedData)

lemma writes_dataPacket: "keeps (writes_with Q) (ServerWrite_dataPacket H N D remote p)"
  unfolding ServerWrite_dataPacket_def
  by (intro keeps_fun_if keeps_block)
    (auto intro: writes_keeps writes_continue writes_received keeps_fun keeps_modify)

lemma writes_handlers:
  "writes_with Q s \<Longrightarrow> writes_with Q (final (call_handler (ServerWrite_handlers H N D) remote p s))"
  by (cases p) (simp_all add: ServerWrite_handlers_def ServerOperation_readRequestPacket_def
      ServerOperation_writeRequestPacket_def ServerOperation_optionsAcknowledgementPacket_def
      ServerWrite_acknowledgementPacket_def keepsD [OF writes_keeps(1)] keepsD [OF writes_dataPacket]
      keepsD [OF writes_keeps(6)])

lemma writes_on:
  assumes "raw_data H" and "writes_with Q s" and "server_delivers input \<Longrightarrow> \<not> ended (trace s)"
  shows "writes_with Q (final (ServerWrite_on H N D input s))"
  unfolding ServerWrite_on_def
proof (rule server_frame.on_establishes [OF writes_frame assms])
  show "keeps (writes_with Q) (ph_invalidPacket (ServerWrite_handlers H N D) remote raw)" for remote raw
    by (simp add: ServerWrite_handlers_def ServerOperation_invalidPacket_def writes_keeps(1))
qed (auto intro: writes_handlers)

lemma writes_respond: "keeps (writes_with Q) (server_write_respond H N D)"
proof (rule keepsI)
  fix s assume s: "writes_with Q s"
  obtain opts s1 where g: "ServerWrite_grant s = (opts, s1)" by fastforce
  then have h1: "sw_dataHandlerV s1 = sw_dataHandlerV s"
    by (auto simp: ServerWrite_grant_def Let_def split: option.splits if_splits prod.splits)
  then obtain h where h: "sw_dataHandlerV s1 = Some h" "Q h" using s by (auto simp: writes_with_def)
  have answer: "keeps (writes_with Q) (server_write_answer H N D opts)" for opts
    unfolding server_write_answer_def by (rule keeps_block) (auto intro: writes_keeps)
  have s1: "writes_with Q s1" and
    s2: "writes_with Q (s1\<lparr>sw_dataHandlerV := Some (snd (rh_receivedTransferSize D sz h))\<rparr>)" for sz
    using h receivedTransferSize by (auto simp: writes_with_def)
  show "writes_with Q (final (server_write_respond H N D s))"
    unfolding server_write_respond_def
    using g h(1) keepsD [OF answer s] keepsD [OF answer s1] keepsD [OF answer s2] keepsD [OF writes_keeps(1) s2]
    by (auto simp: Let_def split_beta split: bool.splits option.splits)
qed

lemma writes_start:
  assumes "writes_with Q s"
  shows "writes_with Q (final (ServerWrite_start H N D s))"
proof -
  obtain h where h: "sw_dataHandlerV s = Some h" using assms by (auto simp: writes_with_def)
  have "keeps (writes_with Q) (ServerWrite_start_handler D)"
  proof (rule keepsI)
    fix s assume "writes_with Q s"
    then obtain h where "sw_dataHandlerV s = Some h" "Q h" by (auto simp: writes_with_def)
    with keepsD [OF start, of h] show "writes_with Q (final (ServerWrite_start_handler D s))"
      by (auto simp: ServerWrite_start_handler_def writes_with_def split: sum.split)
  qed
  then show ?thesis
    unfolding ServerWrite_start_respond [OF h]
    by (intro keepsD [where P = "writes_with Q", OF _ assms] keeps_try_catch keeps_block) (auto intro: writes_keeps writes_respond)
qed

end

subsection \<open>A download\<close>

context transmit_invariant
begin

lemma reads_frame: "server_frame (reads_with Q) (ServerRead_finished N S)"
proof
  fix s s' :: "'h server_read" and status info
  show "server_same_frame s s' \<Longrightarrow> reads_with Q s \<Longrightarrow> reads_with Q s'"
    by (simp add: reads_with_def server_frame_more)
  have *: "reads_with Q (final (ServerRead_finished N S status info s)) \<and>
      ended (trace (final (ServerRead_finished N S status info s)))" if s: "reads_with Q s" for s
  proof -
    obtain h where "sr_dataHandlerV s = Some h" "Q h" using s by (auto simp: reads_with_def)
    with ServerRead_finished_final [of s h N S status info] show ?thesis
      by (auto simp: reads_with_def finished)
  qed
  then show "keeps (reads_with Q) (ServerRead_finished N S status info)"
    by (intro keepsI) simp
  show "reads_with Q s \<Longrightarrow> ended (trace (final (ServerRead_finished N S status info s)))"
    using * by simp
qed

lemmas reads_keeps =
  server_frame.keeps_reject [OF reads_frame] server_frame.keeps_steps [OF reads_frame]
  server_frame_F [OF reads_frame] server_frame.keeps_errorPacket [OF reads_frame]
  server_frame.keeps_initialise [OF reads_frame]

lemma reads_sendData: "keeps (reads_with Q) (ServerRead_sendData H N S)"
  unfolding ServerRead_sendData_def
proof (intro keeps_block)
  fix c :: "'h server_read cmd"
  let ?send = "\<lambda>s. case sr_dataHandlerV s of
      None \<Rightarrow> throw Undefined s
    | Some h \<Rightarrow>
        let (d, h') = th_sendData S (unat (sr_transmitDataSize s)) h;
            data = \<lparr>dp_blockNumber = sr_lastTransmittedBlockNumber s, dp_data = d\<rparr>
        in block [
             modify (\<lambda>s. s\<lparr>sr_dataHandlerV := Some h'\<rparr>),
             \<lambda>s. if DataPacket_dataSize data < unat (sr_transmitDataSize s)
                 then modify (\<lambda>s. s\<lparr>sr_lastDataPacketTransmitted := True\<rparr>) s else block [] s,
             ServerOperation_send H N (ServerRead_finished N S) (DATA data)] s"
  assume "c \<in> set [modify (\<lambda>s. s\<lparr>sr_lastTransmittedBlockNumber :=
      BlockNumber_preincrement (sr_lastTransmittedBlockNumber s)\<rparr>), ?send]"
  moreover have "keeps (reads_with Q) ?send"
  proof (rule keepsI)
    fix s assume "reads_with Q s"
    then obtain h where h: "sr_dataHandlerV s = Some h" "Q h" by (auto simp: reads_with_def)
    obtain d h' where d: "th_sendData S (unat (sr_transmitDataSize s)) h = (d, h')" by fastforce
    then have *: "reads_with Q (s\<lparr>sr_dataHandlerV := Some h'\<rparr>)"
      using sendData [OF h(2), of "unat (sr_transmitDataSize s)"] by (simp add: reads_with_def)
    have sent: "reads_with Q (final (block [modify (\<lambda>s. s\<lparr>sr_dataHandlerV := Some h'\<rparr>), c1, c2] s))"
      if "keeps (reads_with Q) c1" "keeps (reads_with Q) c2" for c1 c2
    proof (rule final_block_keeps)
      show "reads_with Q (final (modify (\<lambda>s. s\<lparr>sr_dataHandlerV := Some h'\<rparr>) s))"
        by (simp only: modify_apply final.simps *)
    qed (use that in auto)
    have "keeps (reads_with Q) (\<lambda>s. if n < m s then modify (\<lambda>s. s\<lparr>sr_lastDataPacketTransmitted := True\<rparr>) s
        else block [] s)" for n :: nat and m
      by (intro keeps_fun_if keeps_modify keeps_block) auto
    from sent [OF this reads_keeps(2)] show "reads_with Q (final (?send s))"
      using h(1) d by (simp add: Let_def)
  qed
  ultimately show "keeps (reads_with Q) c" by (auto intro: keeps_modify)
qed

lemma reads_acknowledgementPacket: "keeps (reads_with Q) (ServerRead_acknowledgementPacket H N S remote p)"
proof -
  have "keeps (reads_with Q) (\<lambda>s. if sr_lastDataPacketTransmitted s then ServerRead_finished N S Successful None s
      else block [ServerRead_sendData H N S, ServerOperation_receive N (ServerRead_finished N S)] s)"
    by (intro keeps_fun_if keeps_block) (auto intro: reads_keeps reads_sendData)
  then show ?thesis
    unfolding ServerRead_acknowledgementPacket_def
    by (intro keeps_fun_if keeps_block) (auto intro: reads_keeps keeps_modify)
qed

lemma reads_handlers:
  "reads_with Q s \<Longrightarrow> reads_with Q (final (call_handler (ServerRead_handlers H N S) remote p s))"
  by (cases p) (simp_all add: ServerRead_handlers_def ServerOperation_readRequestPacket_def
      ServerOperation_writeRequestPacket_def ServerOperation_optionsAcknowledgementPacket_def
      ServerRead_dataPacket_def keepsD [OF reads_keeps(1)] keepsD [OF reads_acknowledgementPacket]
      keepsD [OF reads_keeps(6)])

lemma reads_on:
  assumes "raw_data H" and "reads_with Q s" and "server_delivers input \<Longrightarrow> \<not> ended (trace s)"
  shows "reads_with Q (final (ServerRead_on H N S input s))"
  unfolding ServerRead_on_def
proof (rule server_frame.on_establishes [OF reads_frame assms])
  show "keeps (reads_with Q) (ph_invalidPacket (ServerRead_handlers H N S) remote raw)" for remote raw
    by (simp add: ServerRead_handlers_def ServerOperation_invalidPacket_def reads_keeps(1))
qed (auto intro: reads_handlers)

lemma reads_answer: "keeps (reads_with Q) (server_read_answer H N S opts)"
  unfolding server_read_answer_def
  by (cases "opts = []"; simp; rule keeps_block) (auto intro: reads_keeps reads_sendData keeps_modify)

lemma reads_respond: "keeps (reads_with Q) (server_read_respond H N S)"
proof (rule keepsI)
  fix s assume s: "reads_with Q s"
  obtain opts s1 where g: "ServerRead_grant s = (opts, s1)" by fastforce
  then have h1: "sr_dataHandlerV s1 = sr_dataHandlerV s"
    by (auto simp: ServerRead_grant_def Let_def split: option.splits if_splits prod.splits)
  then obtain h where h: "sr_dataHandlerV s1 = Some h" "Q h" using s by (auto simp: reads_with_def)
  have s1: "reads_with Q s1" and
    s2: "reads_with Q (s1\<lparr>sr_dataHandlerV := Some (snd (th_requestedTransferSize S h))\<rparr>)"
    using h requestedTransferSize by (auto simp: reads_with_def)
  have first: "keeps (reads_with Q) (block [ServerRead_sendData H N S, ServerOperation_receive N (ServerRead_finished N S)])"
    by (rule keeps_block) (auto intro: reads_keeps reads_sendData)
  show "reads_with Q (final (server_read_respond H N S s))"
    unfolding server_read_respond_def
    using g h(1) keepsD [OF first s] keepsD [OF reads_answer s1] keepsD [OF reads_answer s2] keepsD [OF reads_keeps(1) s1]
    by (auto simp: Let_def split_beta split: bool.splits option.splits)
qed

lemma reads_start:
  assumes "reads_with Q s"
  shows "reads_with Q (final (ServerRead_start H N S s))"
proof -
  obtain h where h: "sr_dataHandlerV s = Some h" using assms by (auto simp: reads_with_def)
  have "keeps (reads_with Q) (ServerRead_start_handler S)"
  proof (rule keepsI)
    fix s assume "reads_with Q s"
    then obtain h where "sr_dataHandlerV s = Some h" "Q h" by (auto simp: reads_with_def)
    with keepsD [OF start, of h] show "reads_with Q (final (ServerRead_start_handler S s))"
      by (auto simp: ServerRead_start_handler_def reads_with_def split: sum.split)
  qed
  then show ?thesis
    unfolding ServerRead_start_respond [OF h]
    by (intro keepsD [where P = "reads_with Q", OF _ assms] keeps_try_catch keeps_block)
      (auto intro: reads_keeps reads_respond)
qed

end

subsection \<open>File streams\<close>

interpretation stream_written: receive_invariant stream_receiver
  "\<lambda>f. sf_operationV f = Receive \<and> sf_filenameV f = p" for p
  by unfold_locales
    (auto simp: keeps_def stream_receiver_def StreamFile_start_def StreamFile_receivedTransferSize_def
      StreamFile_receivedData_def StreamFile_finished_def fstream_open_def cmd_simps split: option.splits)

interpretation stream_read: transmit_invariant stream_transmitter
  "\<lambda>f. sf_operationV f = Transmit \<and> sf_filenameV f = p \<and> sf_disk f = xs" for p xs
  by unfold_locales
    (auto simp: keeps_def stream_transmitter_def StreamFile_start_def StreamFile_requestedTransferSize_def
      StreamFile_sendData_def StreamFile_finished_def fstream_open_def Let_def cmd_simps)

end
