(* ===== verification/ServerApplicationInvariant.thy ===== *)
theory ServerApplicationInvariant
  imports ServerApplicationProperties HandlerInvariant
begin

text \<open>
  The event loop of the server application, with any datagrams from anyone, any failing calls,
  expiries and signals: what stays as it was configured, which files it writes, and what is
  true of the operation it keeps.
\<close>

subsection \<open>Disks\<close>

text \<open>
  What is asked of a disk: writing files does not change where names lead; a file that was
  written can be read, has its size, and is a regular file.
\<close>

locale named_disk =
  fixes FS :: "files \<Rightarrow> disk"
  assumes canonical: "fs_canonical (FS m) = fs_canonical (FS m')"
    and weakly_canonical: "fs_weakly_canonical (FS m) = fs_weakly_canonical (FS m')"
    and append: "fs_append (FS m) = fs_append (FS m')"
    and path: "fs_path (FS m) = fs_path (FS m')"
begin

lemma below: "app_below (FS m) dir file \<longleftrightarrow> app_below (FS m') dir file"
  unfolding app_below_def canonical [of m m'] weakly_canonical [of m m'] append [of m m'] ..

end

locale file_disk = named_disk FS for FS +
  assumes readable: "m p = Some xs \<Longrightarrow> fs_readable (FS m) p = Some xs"
    and file_size: "m p = Some xs \<Longrightarrow> fs_file_size (FS m) p = Some (word_of_nat (length xs))"
    and regular: "m p = Some xs \<Longrightarrow> fs_weakly_canonical (FS m) p = Some q \<Longrightarrow> fst (fs_is_regular_file (FS m) q)"

interpretation example_srv: file_disk "example_srv xs" for xs
  by unfold_locales (auto simp: example_srv_def example_content_def)

subsection \<open>What the listening server leaves alone\<close>

text \<open>The listening server does not touch what its user adds to its state.\<close>

definition of_user :: "('a \<Rightarrow> bool) \<Rightarrow> 'a server_scheme \<Rightarrow> bool" where
  "of_user Q s \<longleftrightarrow> Q (server.more s)"

lemma of_user_update [simp]:
  "of_user Q (s\<lparr>trace := tr\<rparr>) = of_user Q s" "of_user Q (s\<lparr>globalTransmit := st\<rparr>) = of_user Q s"
  "of_user Q (s\<lparr>globalReceive := st\<rparr>) = of_user Q s" "of_user Q (s\<lparr>sv_remoteEndpointV := e\<rparr>) = of_user Q s"
  "of_user Q (s\<lparr>sv_requestHandlerV := b\<rparr>) = of_user Q s" "of_user Q (s\<lparr>sv_serverAddressV := e\<rparr>) = of_user Q s"
  by (simp_all add: of_user_def)

lemma user_calls:
  "keeps (of_user Q) (system_call N c)" "keeps (of_user Q) (\<lambda>s. system_call N (c' s) s)"
  "keeps (of_user Q) (count_transmit t n)" "keeps (of_user Q) (count_receive t n)" "keeps (of_user Q) (throw e)"
  by (simp_all add: keeps_def system_call_def Let_def count_transmit_apply count_receive_apply throw_apply)

lemma user_errorOperation: "keeps (of_user Q) (ServerImpl_errorOperation H N remote code msg)"
  unfolding ServerImpl_errorOperation_def Let_def
  by (intro keeps_try_catch keeps_block) (auto intro: user_calls)

lemma user_receive: "keeps (of_user Q) (ServerImpl_receive N)"
  unfolding ServerImpl_receive_def by (intro keeps_try_catch user_calls)

lemma user_stop: "keeps (of_user Q) (ServerImpl_stop N)"
  unfolding ServerImpl_stop_def by (rule keeps_block) (auto intro: user_calls)

lemma user_start: "keeps (of_user Q) (ServerImpl_start N)"
proof -
  have "keeps (of_user Q) (\<lambda>s. if net_is_open N (trace s) then system_call N SocketClose s else block [] s)"
    by (intro keeps_fun_if user_calls keeps_block) auto
  then show ?thesis
    unfolding ServerImpl_start_def
    by (intro keeps_try_catch keeps_block) (auto intro: user_calls user_receive)
qed

lemma keeps_pair: "keeps P c \<Longrightarrow> keeps P d \<Longrightarrow> keeps P (block [c, d])"
  by (rule keeps_block) auto

lemma keeps_triple: "keeps P c \<Longrightarrow> keeps P d \<Longrightarrow> keeps P e \<Longrightarrow> keeps P (block [c, d, e])"
  by (rule keeps_block) auto

text \<open>So it keeps what its request handler keeps.\<close>

lemma user_receiveHandler:
  assumes "raw_data H"
    and R: "\<And>remote t name mode opts rest. keeps (of_user Q) (R remote t name mode opts rest)"
  shows "keeps (of_user Q) (ServerImpl_receiveHandler H N R errorCode sender raw)"
proof -
  have call: "keeps (of_user Q) (call_requestHandler R remote t name mode opts rest)" for remote t name mode opts rest
    unfolding call_requestHandler_def
    by (intro keeps_fun_if keeps_block) (auto intro: user_calls R keeps_modify)
  have reject: "keeps (of_user Q) (\<lambda>s. if \<not> sv_requestHandlerV s
      then ServerImpl_errorOperation H N remote code msg s else block [] s)" for remote code msg
    by (intro keeps_fun_if user_errorOperation keeps_block) auto
  have "keeps (of_user Q) (call_handler (ServerImpl_handlers H N R) remote p)" for remote p
  proof (cases p)
    case (RRQ r)
    then show ?thesis
      by (simp add: ServerImpl_handlers_def ServerImpl_readRequestPacket_def split_beta keeps_pair reject call)
  next
    case (WRQ r)
    then show ?thesis
      by (simp add: ServerImpl_handlers_def ServerImpl_writeRequestPacket_def split_beta keeps_pair reject call)
  qed (simp_all add: ServerImpl_handlers_def ServerImpl_dataPacket_def ServerImpl_acknowledgementPacket_def
      ServerImpl_errorPacket_def ServerImpl_optionsAcknowledgementPacket_def user_errorOperation)
  moreover have "keeps (of_user Q) (PacketHandler_packet H (ServerImpl_handlers H N R) remote raw)"
    if "\<And>remote p. keeps (of_user Q) (call_handler (ServerImpl_handlers H N R) remote p)" for remote
  proof (rule keepsI)
    fix s :: "'a server_scheme" assume s: "of_user Q s"
    have "keeps (of_user Q) (ph_invalidPacket (ServerImpl_handlers H N R) remote raw)"
      by (simp add: ServerImpl_handlers_def keeps_def block.simps(1))
    from PacketHandler_packet_establishes [where P = "of_user Q", OF assms(1) keepsD [OF that s] this user_calls(4) s]
    show "of_user Q (final (PacketHandler_packet H (ServerImpl_handlers H N R) remote raw s))" .
  qed
  ultimately have "keeps (of_user Q) (PacketHandler_packet H (ServerImpl_handlers H N R) remote raw)" for remote
    by blast
  then have "keeps (of_user Q) (\<lambda>s. PacketHandler_packet H (ServerImpl_handlers H N R) (sv_remoteEndpointV s) raw s)"
    by (rule keeps_fun)
  then have dispatch: "keeps (of_user Q) (try_catch is_tftp_exception
      (\<lambda>s. PacketHandler_packet H (ServerImpl_handlers H N R) (sv_remoteEndpointV s) raw s) (block []))"
    by (intro keeps_try_catch keeps_block) auto
  have "keeps (of_user Q) (modify (\<lambda>s. s\<lparr>sv_remoteEndpointV := sender\<rparr>))"
    by (rule keeps_modify) simp
  then have "keeps (of_user Q) (block [modify (\<lambda>s. s\<lparr>sv_remoteEndpointV := sender\<rparr>),
      try_catch is_tftp_exception
        (\<lambda>s. PacketHandler_packet H (ServerImpl_handlers H N R) (sv_remoteEndpointV s) raw s) (block []),
      ServerImpl_receive N])" (is "keeps _ ?body")
    by (rule keeps_triple [OF _ dispatch user_receive])
  moreover have "keeps (of_user Q) (if errorCode = OperationAborted then block []
      else if errorCode \<noteq> NoError then throw CommunicationEx else ?body)" if "keeps (of_user Q) ?body"
    using that keeps_throw [of "of_user Q"] keeps_block [of "[]" "of_user Q"] by simp
  ultimately show ?thesis
    unfolding ServerImpl_receiveHandler_def by blast
qed

subsection \<open>The event loop\<close>

text \<open>A datagram is delivered to an operation only as long as its socket is open.\<close>

fun app_operation_ended :: "app_operation \<Rightarrow> bool" where
  "app_operation_ended (ReadOperation op) = ended (trace op)"
| "app_operation_ended (WriteOperation op) = ended (trace op)"

fun app_pending :: "app_input \<Rightarrow> tftp_server \<Rightarrow> bool" where
  "app_pending (ForOperation input) s \<longleftrightarrow>
     server_delivers input \<longrightarrow> (case ts_serverOperation s of None \<Rightarrow> True | Some op \<Rightarrow> \<not> app_operation_ended op)"
| "app_pending _ s \<longleftrightarrow> True"

text \<open>The states in which the loop can be, and those in which an exception leaves it.\<close>

inductive app_reachable :: "helper \<Rightarrow> net \<Rightarrow> (files \<Rightarrow> disk) \<Rightarrow> tftp_server \<Rightarrow> tftp_server \<Rightarrow> bool"
  for H N FS s0 where
  configured: "app_reachable H N FS s0 s" if "TftpServer_configure N s0 = Inr s"
| step: "app_reachable H N FS s0 (final (TftpServer_on H N FS input s))"
    if "app_reachable H N FS s0 s" and "app_pending input s"

text \<open>
  The operation that is kept has not completed and works on a file below the base directory; what
  an upload has received is in the file.
\<close>

definition reads_file :: "path \<Rightarrow> bytes \<Rightarrow> stream_file \<Rightarrow> bool" where
  "reads_file file xs f \<longleftrightarrow> sf_operationV f = Transmit \<and> sf_filenameV f = file \<and> sf_disk f = xs"

definition writes_file :: "path \<Rightarrow> stream_file \<Rightarrow> bool" where
  "writes_file file f \<longleftrightarrow> sf_operationV f = Receive \<and> sf_filenameV f = file"

fun app_operation_on :: "(path \<Rightarrow> bool) \<Rightarrow> files \<Rightarrow> app_operation \<Rightarrow> bool" where
  "app_operation_on below m (ReadOperation op) \<longleftrightarrow> completions (trace op) = [] \<and>
     (\<exists>file xs. below file \<and> reads_with (reads_file file xs) op)"
| "app_operation_on below m (WriteOperation op) \<longleftrightarrow> completions (trace op) = [] \<and>
     (\<exists>file. below file \<and> writes_with (writes_file file) op \<and> m file = map_option sf_disk (sw_dataHandlerV op))"

definition app_invariant :: "(files \<Rightarrow> disk) \<Rightarrow> tftp_server \<Rightarrow> tftp_server \<Rightarrow> bool" where
  "app_invariant FS s0 s \<longleftrightarrow>
     (let below = app_below (FS (ts_files s0)) (ts_baseDir s0) in
      ts_baseDir s = ts_baseDir s0 \<and> ts_tftpConfiguration s = ts_tftpConfiguration s0 \<and>
      ts_tftpOptionsConfiguration s = ts_tftpOptionsConfiguration s0 \<and>
      (\<forall>p. ts_files s p = ts_files s0 p \<or> below p) \<and>
      (case ts_serverOperation s of None \<Rightarrow> True | Some op \<Rightarrow> app_operation_on below (ts_files s) op))"

lemma app_invariant_user:
  fixes s s' :: tftp_server
  assumes "server.more s = server.more s'"
  shows "ts_baseDir s = ts_baseDir s'" "ts_tftpConfiguration s = ts_tftpConfiguration s'"
    "ts_tftpOptionsConfiguration s = ts_tftpOptionsConfiguration s'" "ts_files s = ts_files s'"
    "ts_serverOperation s = ts_serverOperation s'"
  using assms by (cases s; cases s'; simp)+

text \<open>It speaks of what the application adds to the state of the server only.\<close>

lemma app_invariant_of_user:
  "app_invariant FS s0 = of_user (\<lambda>x. \<exists>s. server.more s = x \<and> app_invariant FS s0 s)"
proof
  fix s
  have "app_invariant FS s0 s" if "server.more s' = server.more s" "app_invariant FS s0 s'" for s'
    using that(2) unfolding app_invariant_def app_invariant_user [OF that(1)] .
  then show "app_invariant FS s0 s = of_user (\<lambda>x. \<exists>s. server.more s = x \<and> app_invariant FS s0 s) s"
    by (auto simp: of_user_def)
qed

lemma keeps_app_user:
  assumes "\<And>Q :: _ \<Rightarrow> bool. keeps (of_user Q) c"
  shows "keeps (app_invariant FS s0) c"
  by (subst app_invariant_of_user) (rule assms)

text \<open>Taking in the result of an operation.\<close>

lemma final_app_result: "final (app_result kind r s) = adopt kind (final r) s"
  by (cases r) (auto simp: app_result_def)

lemma app_invariant_adopt_read:
  assumes "app_invariant FS s0 s" and "app_below (FS (ts_files s0)) (ts_baseDir s0) file"
    and "reads_with (reads_file file xs) op"
  shows "app_invariant FS s0 (adopt ReadOperation op s)"
  using assms by (auto simp: app_invariant_def Let_def adopt_def TftpServer_operationCompleted_def)

lemma app_invariant_adopt_write:
  assumes "app_invariant FS s0 s" and "app_below (FS (ts_files s0)) (ts_baseDir s0) file"
    and "writes_with (writes_file file) op"
  shows "app_invariant FS s0 (adopt WriteOperation op s)"
  using assms
  by (auto simp: app_invariant_def Let_def adopt_def TftpServer_operationCompleted_def writes_with_def writes_file_def)

lemma app_invariant_files:
  assumes "app_invariant FS s0 s" and "app_below (FS (ts_files s0)) (ts_baseDir s0) file"
  shows "app_invariant FS s0 (s\<lparr>ts_files := (ts_files s)(file \<mapsto> xs), ts_serverOperation := None\<rparr>)"
  using assms by (auto simp: app_invariant_def Let_def)

lemma adopt_forgets: "adopt kind op (s\<lparr>ts_serverOperation := x\<rparr>) = adopt kind op s"
  by (simp add: adopt_def)

subsection \<open>Every event keeps the invariant\<close>

context named_disk
begin

lemma app_transmitFile:
  assumes s: "app_invariant FS s0 s" and below: "app_below (FS (ts_files s0)) (ts_baseDir s0) file"
  shows "app_invariant FS s0 (final (TftpServer_transmitFile H N FS remote file opts s))"
proof (cases "fs_readable (FS (ts_files s)) file")
  case None
  then show ?thesis
    using keepsD [OF keeps_app_user [OF user_errorOperation] s] by (simp add: TftpServer_transmitFile_def)
next
  case (Some xs)
  show ?thesis
  proof (cases "fs_file_size (FS (ts_files s)) file")
    case None
    with Some s show ?thesis by (simp add: TftpServer_transmitFile_def throw_apply)
  next
    case sz: (Some sz)
    let ?h = "StreamFile_make Transmit file (Some sz) True xs"
    obtain op where op: "TftpServer_readOperation s remote opts ?h = Inr op" "app_read_set_up s remote opts ?h op"
      using TftpServer_readOperation_set_up by blast
    then have "reads_with (reads_file file xs) op"
      by (simp add: reads_with_def reads_file_def app_read_set_up_def StreamFile_make_def)
    then have "reads_with (reads_file file xs) (final (ServerRead_start H N stream_transmitter op))"
      unfolding reads_file_def by (rule stream_read.reads_start)
    from app_invariant_adopt_read [OF s below this] show ?thesis
      using Some sz op(1) by (simp add: TftpServer_transmitFile_def app_start_def final_app_result)
  qed
qed

lemma app_receiveFile:
  assumes s: "app_invariant FS s0 s" and below: "app_below (FS (ts_files s0)) (ts_baseDir s0) file"
  shows "app_invariant FS s0 (final (TftpServer_receiveFile H N FS remote file opts s))"
proof (cases "fs_writable (FS (ts_files s)) file")
  case False
  then show ?thesis
    using keepsD [OF keeps_app_user [OF user_errorOperation] s] by (simp add: TftpServer_receiveFile_def)
next
  case True
  let ?h = "StreamFile_make Receive file None True []" and ?s = "s\<lparr>ts_files := (ts_files s)(file \<mapsto> [])\<rparr>"
  obtain op where op: "TftpServer_writeOperation ?s remote opts ?h = Inr op" "app_write_set_up ?s remote opts ?h op"
    using TftpServer_writeOperation_set_up by blast
  then have "writes_with (writes_file file) op"
    by (simp add: writes_with_def writes_file_def app_write_set_up_def StreamFile_make_def)
  then have "writes_with (writes_file file) (final (ServerWrite_start H N stream_receiver op))"
    unfolding writes_file_def by (rule stream_written.writes_start)
  from app_invariant_adopt_write [OF app_invariant_files [OF s below] below this] show ?thesis
    using True op(1) by (simp add: TftpServer_receiveFile_def app_start_def final_app_result Let_def adopt_forgets)
qed

lemma app_receivedRequest:
  "keeps (app_invariant FS s0) (TftpServer_receivedRequest H N FS remote t name mode opts unknown)"
proof (rule keepsI)
  fix s assume s: "app_invariant FS s0 s"
  note refused = keepsD [OF keeps_app_user [OF user_errorOperation] s]
  show "app_invariant FS s0 (final (TftpServer_receivedRequest H N FS remote t name mode opts unknown s))"
  proof (cases "mode = OCTET \<and> (\<exists>p. app_check FS s name t = Inr (Some p))")
    case False
    then show ?thesis
      using s refused
      by (cases "app_check FS s name t") (auto simp: TftpServer_receivedRequest_def throw_apply Let_def split: option.split)
  next
    case True
    then obtain p where p: "app_check FS s name t = Inr (Some p)" by blast
    have "ts_baseDir s = ts_baseDir s0" using s by (simp add: app_invariant_def Let_def)
    with app_check_below [where FS = FS and s = s and name = name and t = t, OF p] below have "app_below (FS (ts_files s0)) (ts_baseDir s0) (app_file FS s name)" by metis
    with True p app_transmitFile [OF s this] app_receiveFile [OF s this] show ?thesis
      by (cases t) (simp_all add: TftpServer_receivedRequest_def Let_def)
  qed
qed

lemma app_on:
  assumes "raw_data H" and s: "app_invariant FS s0 s" and "app_pending input s"
  shows "app_invariant FS s0 (final (TftpServer_on H N FS input s))"
proof (cases input)
  case (Datagram e sender raw)
  have "keeps (of_user (\<lambda>x. \<exists>s. server.more s = x \<and> app_invariant FS s0 s))
      (ServerImpl_receiveHandler H N (TftpServer_receivedRequest H N FS) e sender raw)"
    by (rule user_receiveHandler [OF assms(1)]) (fold app_invariant_of_user, rule app_receivedRequest)
  from this [folded app_invariant_of_user] s Datagram show ?thesis by (simp add: keepsD)
next
  case (ForOperation i)
  show ?thesis
  proof (cases "ts_serverOperation s")
    case None
    with s ForOperation show ?thesis by simp
  next
    case (Some operation)
    let ?below = "app_below (FS (ts_files s0)) (ts_baseDir s0)"
    have on: "app_operation_on ?below (ts_files s) operation"
      using s Some by (simp add: app_invariant_def Let_def)
    have delivered: "server_delivers i \<Longrightarrow> \<not> app_operation_ended operation"
      using assms(3) ForOperation Some by simp
    show ?thesis
    proof (cases operation)
      case (ReadOperation op)
      let ?op = "op\<lparr>globalTransmit := globalTransmit s, globalReceive := globalReceive s\<rparr>"
      obtain p xs where f: "?below p" "reads_with (reads_file p xs) ?op"
        using on ReadOperation by (auto simp: reads_with_def)
      have "reads_with (reads_file p xs) (final (ServerRead_on H N stream_transmitter i ?op))"
        using f(2) delivered ReadOperation unfolding reads_file_def by (intro stream_read.reads_on [OF assms(1)]) simp_all
      from app_invariant_adopt_read [OF s f(1) this] show ?thesis
        using ForOperation Some ReadOperation by (simp add: final_app_result)
    next
      case (WriteOperation op)
      let ?op = "op\<lparr>globalTransmit := globalTransmit s, globalReceive := globalReceive s\<rparr>"
      obtain p where f: "?below p" "writes_with (writes_file p) ?op"
        using on WriteOperation by (auto simp: writes_with_def)
      have "writes_with (writes_file p) (final (ServerWrite_on H N stream_receiver i ?op))"
        using f(2) delivered WriteOperation unfolding writes_file_def by (intro stream_written.writes_on [OF assms(1)]) simp_all
      from app_invariant_adopt_write [OF s f(1) this] show ?thesis
        using ForOperation Some WriteOperation by (simp add: final_app_result)
    qed
  qed
next
  case Signalled
  then show ?thesis
    using keepsD [OF keeps_app_user [OF user_stop] s] by (simp add: TftpServer_signal_def)
qed

lemma app_configured:
  assumes "ts_serverOperation s0 = None" and "TftpServer_configure N s0 = Inr s"
  shows "app_invariant FS s0 s"
proof -
  have "app_invariant FS s0 s0" using assms(1) by (simp add: app_invariant_def Let_def)
  moreover have "keeps (app_invariant FS s0) (TftpServer_configure N)"
    unfolding TftpServer_configure_def
    by (rule keeps_fun, intro keeps_app_user keeps_triple)
      (auto simp: ServerImpl_requestHandler_def ServerImpl_serverAddress_def intro: keeps_modify user_start)
  ultimately show ?thesis using assms(2) keepsD by fastforce
qed

lemma app_reachable_invariant:
  assumes "app_reachable H N FS s0 s" and "raw_data H" and "ts_serverOperation s0 = None"
  shows "app_invariant FS s0 s"
  using assms(1) by induction (auto intro: app_configured [OF assms(3)] app_on [OF assms(2)])

end

subsection \<open>Datagrams the application survives\<close>

text \<open>Where no call fails, the start of an operation on a file returns, whatever was requested.\<close>

lemma server_read_respond_returns:
  assumes "never_fails N" and "sr_dataHandlerV s = Some h"
  shows "returned (server_read_respond H N S s)"
proof -
  obtain opts s1 where g: "ServerRead_grant s = (opts, s1)" by fastforce
  then have "sr_dataHandlerV s1 = Some h"
    using assms(2) by (auto simp: ServerRead_grant_def Let_def split: option.splits if_splits prod.splits)
  with assms g show ?thesis
    by (auto simp: server_read_respond_def server_read_answer_def Let_def cmd_simps split: option.split bool.split prod.split)
qed

lemma server_write_respond_returns:
  assumes "never_fails N" and "sw_dataHandlerV s = Some h"
  shows "returned (server_write_respond H N D s)"
proof -
  obtain opts s1 where g: "ServerWrite_grant s = (opts, s1)" by fastforce
  then have "sw_dataHandlerV s1 = Some h"
    using assms(2) by (auto simp: ServerWrite_grant_def Let_def split: option.splits if_splits prod.splits)
  with assms g show ?thesis
    by (auto simp: server_write_respond_def server_write_answer_def Let_def cmd_simps split: option.split bool.split prod.split)
qed

lemma ServerRead_start_returns:
  assumes "never_fails N" and "sr_dataHandlerV s = Some h"
  shows "returned (ServerRead_start H N stream_transmitter s)"
proof (cases "StreamFile_start h")
  case (Inl e)
  then obtain f' where "StreamFile_start h = Inl (TftpEx, f')"
    by (cases "sf_operationV h") (auto simp: StreamFile_start_def cmd_simps split: if_splits)
  with assms show ?thesis
    unfolding ServerRead_start_respond [OF assms(2)]
    by (simp add: try_catch_def block.simps ServerRead_start_handler_def stream_transmitter_def
        ServerOperation_initialise_ok is_tftp_exception_def)
next
  case (Inr f')
  let ?s = "(server_opened s)\<lparr>sr_dataHandlerV := Some f'\<rparr>"
  have "returned (server_read_respond H N stream_transmitter ?s)"
    by (rule server_read_respond_returns [OF assms(1)]) simp
  with Inr assms show ?thesis
    unfolding ServerRead_start_respond [OF assms(2)]
    by (cases "server_read_respond H N stream_transmitter ?s")
      (auto simp: try_catch_def block.simps ServerRead_start_handler_def stream_transmitter_def
        ServerOperation_initialise_ok)
qed

lemma ServerWrite_start_returns:
  assumes "never_fails N" and "sw_dataHandlerV s = Some h"
  shows "returned (ServerWrite_start H N stream_receiver s)"
proof (cases "StreamFile_start h")
  case (Inl e)
  then obtain f' where "StreamFile_start h = Inl (TftpEx, f')"
    by (cases "sf_operationV h") (auto simp: StreamFile_start_def cmd_simps split: if_splits)
  with assms show ?thesis
    unfolding ServerWrite_start_respond [OF assms(2)]
    by (simp add: try_catch_def block.simps ServerWrite_start_handler_def stream_receiver_def
        ServerOperation_initialise_ok is_tftp_exception_def)
next
  case (Inr f')
  let ?s = "(server_opened s)\<lparr>sw_dataHandlerV := Some f'\<rparr>"
  have "returned (server_write_respond H N stream_receiver ?s)"
    by (rule server_write_respond_returns [OF assms(1)]) simp
  with Inr assms show ?thesis
    unfolding ServerWrite_start_respond [OF assms(2)]
    by (cases "server_write_respond H N stream_receiver ?s")
      (auto simp: try_catch_def block.simps ServerWrite_start_handler_def stream_receiver_def
        ServerOperation_initialise_ok)
qed

text \<open>
  No name leads above the base directory, where the check of a name is undefined, and what can
  be opened for reading has a size.
\<close>

definition app_disk_ok :: "(files \<Rightarrow> disk) \<Rightarrow> tftp_server \<Rightarrow> bool" where
  "app_disk_ok FS s \<longleftrightarrow> (\<forall>name t. \<exists>p. app_check FS s name t = Inr p) \<and>
     (\<forall>p. fs_readable (FS (ts_files s)) p \<noteq> None \<longrightarrow> fs_file_size (FS (ts_files s)) p \<noteq> None)"

lemma listens_on_adopt: "listens_on s (Inr (adopt kind op s))"
  by (simp add: listens_on_def adopt_def)

lemma app_transmitFile_listens:
  assumes "never_fails N" and "app_disk_ok FS s"
  shows "listens_on s (TftpServer_transmitFile H N FS remote p opts s)"
proof (cases "fs_readable (FS (ts_files s)) p")
  case None
  then show ?thesis using errorOperation_listens [OF assms(1)] by (simp add: TftpServer_transmitFile_def)
next
  case (Some xs)
  then obtain sz where sz: "fs_file_size (FS (ts_files s)) p = Some sz"
    using assms(2) by (fastforce simp: app_disk_ok_def)
  obtain op where op: "TftpServer_readOperation s remote opts (StreamFile_make Transmit p (Some sz) True xs) = Inr op"
      "app_read_set_up s remote opts (StreamFile_make Transmit p (Some sz) True xs) op"
    using TftpServer_readOperation_set_up by blast
  then obtain op' where "ServerRead_start H N stream_transmitter op = Inr op'"
    using ServerRead_start_returns [OF assms(1), of op _ H] by (auto simp: app_read_set_up_def elim: returnedE)
  then show ?thesis
    using Some sz op(1) listens_on_adopt by (simp add: TftpServer_transmitFile_def app_start_def app_result_def)
qed

lemma app_receiveFile_listens:
  assumes "never_fails N"
  shows "listens_on s (TftpServer_receiveFile H N FS remote p opts s)"
proof (cases "fs_writable (FS (ts_files s)) p")
  case False
  then show ?thesis using errorOperation_listens [OF assms(1)] by (simp add: TftpServer_receiveFile_def)
next
  case True
  let ?s = "s\<lparr>ts_files := (ts_files s)(p \<mapsto> [])\<rparr>" and ?h = "StreamFile_make Receive p None True []"
  obtain op where op: "TftpServer_writeOperation ?s remote opts ?h = Inr op" "app_write_set_up ?s remote opts ?h op"
    using TftpServer_writeOperation_set_up by blast
  then obtain op' where "ServerWrite_start H N stream_receiver op = Inr op'"
    using ServerWrite_start_returns [OF assms(1), of op _ H] by (auto simp: app_write_set_up_def elim: returnedE)
  then show ?thesis
    using True op(1)
    by (simp add: TftpServer_receiveFile_def app_start_def app_result_def Let_def listens_on_def adopt_def)
qed

lemma app_lets_listen:
  assumes "never_fails N" and "app_disk_ok FS s"
  shows "lets_listen (server.more s) (TftpServer_receivedRequest H N FS)"
  unfolding lets_listen_def
proof (intro allI impI)
  fix remote t name mode opts rest and s1 :: tftp_server
  assume same: "server.more s1 = server.more s"
  then have ok: "app_disk_ok FS s1"
    using assms(2) unfolding app_disk_ok_def app_invariant_user [OF same] by simp
  then obtain x where "app_check FS s1 name t = Inr x" unfolding app_disk_ok_def by blast
  then show "listens_on s1 (TftpServer_receivedRequest H N FS remote t name mode opts rest s1)"
    using errorOperation_listens [OF assms(1), of s1] app_transmitFile_listens [OF assms(1) ok]
      app_receiveFile_listens [OF assms(1), of s1]
    by (cases x; cases t) (simp_all add: TftpServer_receivedRequest_def Let_def)
qed


text \<open>A disk without directories.\<close>

definition example_flat :: "bytes \<Rightarrow> files \<Rightarrow> disk" where
  "example_flat xs m = (example_srv xs m)\<lparr>fs_readable := example_content xs m\<rparr>"


end
