(* ===== verification/ClientApplication.thy ===== *)
theory ClientApplication
  imports Client Files
begin

text \<open>
  \<open>app/tftp_client/tftp_client.cpp\<close>: how the client application sets up the operation it runs.
  The command line and the console are left out; \<open>file_size\<close> of the local file is a parameter
  that is \<open>None\<close> where the function throws.
\<close>

text \<open>The application accepts no option beside the known ones.\<close>

definition TftpClient_optionNegotiation :: "options \<Rightarrow> bool \<times> options" where
  "TftpClient_optionNegotiation serverOptions = (serverOptions = [], serverOptions)"

definition TftpClient_readOperation ::
    "client \<Rightarrow> configuration \<Rightarrow> options_configuration \<Rightarrow> stream_file \<Rightarrow> string \<Rightarrow> ip_address \<Rightarrow> world \<Rightarrow>
     stream_file client_read result" where
  "TftpClient_readOperation tftpClient tftpConfiguration tftpOptionsConfiguration localFile remoteFile address w =
     (case ClientImpl_readOperation tftpClient w of
        Inl e \<Rightarrow> Inl e
      | Inr tftpOperation \<Rightarrow> block [
          ClientOperation_tftpTimeout (tc_tftpTimeout tftpConfiguration),
          ClientOperation_tftpRetries (tc_tftpRetries tftpConfiguration),
          ClientRead_dally (tc_dally tftpConfiguration),
          ClientRead_optionsConfiguration tftpOptionsConfiguration,
          ClientRead_optionNegotiationHandler (Some TftpClient_optionNegotiation),
          ClientOperation_completionHandler True,
          ClientRead_dataHandler (Some localFile),
          ClientRead_filename remoteFile,
          ClientRead_mode OCTET,
          ClientOperation_remote \<lparr>ep_address = address, ep_port = tc_tftpServerPort tftpConfiguration\<rparr>]
          tftpOperation)"

definition TftpClient_writeOperation ::
    "client \<Rightarrow> configuration \<Rightarrow> options_configuration \<Rightarrow> u64 option \<Rightarrow> (u64 option \<Rightarrow> stream_file) \<Rightarrow> string \<Rightarrow>
     ip_address \<Rightarrow> world \<Rightarrow> stream_file client_write result" where
  "TftpClient_writeOperation tftpClient tftpConfiguration tftpOptionsConfiguration file_size localFile remoteFile
     address w =
     (case ClientImpl_writeOperation tftpClient w of
        Inl e \<Rightarrow> Inl e
      | Inr tftpOperation \<Rightarrow> block [
          ClientOperation_tftpTimeout (tc_tftpTimeout tftpConfiguration),
          ClientOperation_tftpRetries (tc_tftpRetries tftpConfiguration),
          ClientWrite_optionsConfiguration tftpOptionsConfiguration,
          ClientWrite_optionNegotiationHandler (Some TftpClient_optionNegotiation),
          ClientOperation_completionHandler True,
          case file_size of
            None \<Rightarrow> throw StdEx
          | Some sz \<Rightarrow> ClientWrite_dataHandler (Some (localFile (Some sz))),
          ClientWrite_filename remoteFile,
          ClientWrite_mode OCTET,
          ClientOperation_remote \<lparr>ep_address = address, ep_port = tc_tftpServerPort tftpConfiguration\<rparr>]
          tftpOperation)"

lemmas client_setters =
  ClientOperation_tftpTimeout_def ClientOperation_tftpRetries_def ClientOperation_completionHandler_def
  ClientOperation_remote_def ClientOperation_local_def ClientOperation_maxReceivePacketSize_def
  ClientRead_dally_def ClientRead_optionsConfiguration_def ClientRead_optionNegotiationHandler_def
  ClientRead_additionalOptions_def ClientRead_dataHandler_def ClientRead_filename_def ClientRead_mode_def
  ClientWrite_optionsConfiguration_def ClientWrite_optionNegotiationHandler_def
  ClientWrite_additionalOptions_def ClientWrite_dataHandler_def ClientWrite_filename_def ClientWrite_mode_def

text \<open>
  Whatever the defaults of the client are, an operation is set up with the configuration of the
  application; the options of the request are the additional ones of the client.
\<close>

definition client_app_read_set_up ::
    "client \<Rightarrow> configuration \<Rightarrow> options_configuration \<Rightarrow> stream_file \<Rightarrow> string \<Rightarrow> ip_address \<Rightarrow> world \<Rightarrow>
     stream_file client_read \<Rightarrow> bool" where
  "client_app_read_set_up cl cfg ocfg localFile name address w op \<longleftrightarrow>
     cr_dataHandlerV op = Some localFile \<and> cr_filenameV op = name \<and> cr_modeV op = OCTET \<and>
     co_remoteV op = \<lparr>ep_address = address, ep_port = tc_tftpServerPort cfg\<rparr> \<and> co_completionHandlerV op \<and>
     cr_optionsConfigurationV op = ocfg \<and> cr_dallyV op = tc_dally cfg \<and>
     cr_additionalOptionsV op = cl_additionalOptionsV cl \<and>
     cr_optionNegotiationHandlerV op = Some TftpClient_optionNegotiation \<and>
     co_receiveTimeoutV op = tc_tftpTimeout cfg \<and> co_tftpRetriesV op = tc_tftpRetries cfg \<and> trace op = trace w"

lemma TftpClient_readOperation_set_up:
  "\<exists>op. TftpClient_readOperation cl cfg ocfg localFile name address w = Inr op \<and>
     client_app_read_set_up cl cfg ocfg localFile name address w op"
  by (cases "cl_tftpTimeoutDefaultV cl"; cases "cl_tftpRetriesDefaultV cl"; cases "cl_dallyDefaultV cl";
      cases "cl_optionsConfigurationDefaultV cl"; cases "cl_additionalOptionsV cl = []";
      cases "is_unspecified (cl_localV cl)")
    (simp_all add: TftpClient_readOperation_def ClientImpl_readOperation_def set_default_def client_setters
      ClientRead_new_def client_app_read_set_up_def cmd_simps)

definition client_app_write_set_up ::
    "client \<Rightarrow> configuration \<Rightarrow> options_configuration \<Rightarrow> stream_file \<Rightarrow> string \<Rightarrow> ip_address \<Rightarrow> world \<Rightarrow>
     stream_file client_write \<Rightarrow> bool" where
  "client_app_write_set_up cl cfg ocfg localFile name address w op \<longleftrightarrow>
     cw_dataHandlerV op = Some localFile \<and> cw_filenameV op = name \<and> cw_modeV op = OCTET \<and>
     co_remoteV op = \<lparr>ep_address = address, ep_port = tc_tftpServerPort cfg\<rparr> \<and> co_completionHandlerV op \<and>
     co_receiveEndpointV op = no_endpoint \<and> cw_optionsConfigurationV op = ocfg \<and>
     cw_additionalOptionsV op = cl_additionalOptionsV cl \<and>
     cw_optionNegotiationHandlerV op = Some TftpClient_optionNegotiation \<and>
     co_receiveTimeoutV op = tc_tftpTimeout cfg \<and> co_tftpRetriesV op = tc_tftpRetries cfg \<and> trace op = trace w"

lemma TftpClient_writeOperation_set_up:
  "\<exists>op. TftpClient_writeOperation cl cfg ocfg (Some sz) localFile name address w = Inr op \<and>
     client_app_write_set_up cl cfg ocfg (localFile (Some sz)) name address w op"
  by (cases "cl_tftpTimeoutDefaultV cl"; cases "cl_tftpRetriesDefaultV cl";
      cases "cl_optionsConfigurationDefaultV cl"; cases "cl_additionalOptionsV cl = []";
      cases "is_unspecified (cl_localV cl)")
    (simp_all add: TftpClient_writeOperation_def ClientImpl_writeOperation_def set_default_def client_setters
      ClientWrite_new_def client_app_write_set_up_def cmd_simps)

text \<open>A local file without a size is not sent: setting up the upload throws.\<close>

lemma TftpClient_writeOperation_no_file:
  "\<exists>op. TftpClient_writeOperation cl cfg ocfg None localFile name address w = Inl (StdEx, op) \<and> trace op = trace w"
  by (cases "cl_tftpTimeoutDefaultV cl"; cases "cl_tftpRetriesDefaultV cl";
      cases "cl_optionsConfigurationDefaultV cl"; cases "cl_additionalOptionsV cl = []";
      cases "is_unspecified (cl_localV cl)")
    (simp_all add: TftpClient_writeOperation_def ClientImpl_writeOperation_def set_default_def client_setters
      ClientWrite_new_def throw_apply cmd_simps)

text \<open>An OACK with an option the request does not know is refused by the application's handler.\<close>

lemma TftpClient_optionNegotiation_refuses:
  "fst (TftpClient_optionNegotiation opts) \<longleftrightarrow> opts = []"
  by (simp add: TftpClient_optionNegotiation_def)

end
