(* ===== verification/Serving.thy ===== *)
theory Serving
  imports ServerApplicationInvariant ClientApplication ClientReadProperties
begin

text \<open>
  The server application as one of the two sides of a transfer: after a request it is a machine
  whose packets go to the operation it keeps. What the operations promise (\<open>stop_and_wait\<close>)
  carries over to it.
\<close>

subsection \<open>A side within something larger\<close>

text \<open>
  \<open>E op t\<close>: the machine \<open>t\<close> works by what \<open>op\<close> does. If its steps are those of \<open>op\<close>, it can take
  the place of \<open>op\<close>.
\<close>

context stop_and_wait
begin

lemma embed_sender:
  assumes takes: "\<And>op t j p t' out. E op t \<Longrightarrow> S j op \<Longrightarrow> mc_takes MT p t = (t', out) \<Longrightarrow>
      \<exists>op1 op'. S j op1 \<and> mc_takes MS p op1 = (op', out) \<and> E op' t'"
    and expires: "\<And>op t j t' out. E op t \<Longrightarrow> S j op \<Longrightarrow> mc_expires MT t = (t', out) \<Longrightarrow>
      \<exists>op1 op'. S j op1 \<and> mc_expires MS op1 = (op', out) \<and> E op' t'"
    and ended: "\<And>op t ok. E op t \<Longrightarrow> S_end ok op \<Longrightarrow> \<not> mc_running MT t"
  shows "stop_and_wait MR MT data ack b L R R_end (\<lambda>j t. \<exists>op. E op t \<and> S j op) (\<lambda>ok t. \<exists>op. E op t \<and> S_end ok op)"
proof
  fix j t t' out ok
  show "\<exists>op. E op t \<and> S j op \<Longrightarrow> j \<le> L" using S_running by blast
  show "\<exists>op. E op t \<and> S_end ok op \<Longrightarrow> \<not> mc_running MT t" using ended by blast
  show "if j < L then out = [data (Suc (Suc j))] \<and> (\<exists>op. E op t' \<and> S (Suc j) op)
      else out = [] \<and> (\<exists>op. E op t' \<and> S_end True op)"
    if t: "\<exists>op. E op t \<and> S j op" "mc_takes MT (ack (Suc j)) t = (t', out)"
  proof -
    obtain op1 op' where "S j op1" "mc_takes MS (ack (Suc j)) op1 = (op', out)" "E op' t'"
      using t takes by blast
    with S_next [of j op1 op' out] show ?thesis by (auto split: if_splits)
  qed
  show "out = [] \<and> (\<exists>op. E op t' \<and> S j op)"
    if t: "\<exists>op. E op t \<and> S j op" "0 < j" "mc_takes MT (ack j) t = (t', out)"
  proof -
    obtain op1 op' where "S j op1" "mc_takes MS (ack j) op1 = (op', out)" "E op' t'"
      using t takes by blast
    with S_again [of j op1 op' out] t(2) show ?thesis by blast
  qed
  show "(out = [data (Suc j)] \<and> b \<le> j \<or> out = []) \<and> (\<exists>op. E op t' \<and> S j op) \<or>
      out = [] \<and> (\<exists>op. E op t' \<and> S_end False op)"
    if t: "\<exists>op. E op t \<and> S j op" "mc_expires MT t = (t', out)"
  proof -
    obtain op1 op' where "S j op1" "mc_expires MS op1 = (op', out)" "E op' t'"
      using t expires by blast
    with S_expires [of j op1 op' out] show ?thesis by blast
  qed
qed (use R_running R_ended R_next R_again R_expires in blast)+

lemma embed_receiver:
  assumes takes: "\<And>op t i p t' out. E op t \<Longrightarrow> R i op \<Longrightarrow> mc_takes MT p t = (t', out) \<Longrightarrow>
      \<exists>op1 op'. R i op1 \<and> mc_takes MR p op1 = (op', out) \<and> E op' t'"
    and expires: "\<And>op t i t' out. E op t \<Longrightarrow> R i op \<Longrightarrow> mc_expires MT t = (t', out) \<Longrightarrow>
      \<exists>op1 op'. R i op1 \<and> mc_expires MR op1 = (op', out) \<and> E op' t'"
    and ended: "\<And>op t ok i. E op t \<Longrightarrow> R_end ok i op \<Longrightarrow> \<not> mc_running MT t"
  shows "stop_and_wait MT MS data ack b L (\<lambda>i t. \<exists>op. E op t \<and> R i op) (\<lambda>ok i t. \<exists>op. E op t \<and> R_end ok i op) S S_end"
proof
  fix i t t' out ok
  show "\<exists>op. E op t \<and> R i op \<Longrightarrow> b \<le> i \<and> i \<le> L" using R_running by blast
  show "\<exists>op. E op t \<and> R_end ok i op \<Longrightarrow> \<not> mc_running MT t" using ended by blast
  show "out = [ack (Suc i)] \<and> (if i < L then \<exists>op. E op t' \<and> R (Suc i) op else \<exists>op. E op t' \<and> R_end True (Suc i) op)"
    if t: "\<exists>op. E op t \<and> R i op" "mc_takes MT (data (Suc i)) t = (t', out)"
  proof -
    obtain op1 op' where "R i op1" "mc_takes MR (data (Suc i)) op1 = (op', out)" "E op' t'"
      using t takes by blast
    with R_next [of i op1 op' out] show ?thesis by (auto split: if_splits)
  qed
  show "out = [ack i] \<and> (\<exists>op. E op t' \<and> R i op)"
    if t: "\<exists>op. E op t \<and> R i op" "b < i" "mc_takes MT (data i) t = (t', out)"
  proof -
    obtain op1 op' where "R i op1" "mc_takes MR (data i) op1 = (op', out)" "E op' t'"
      using t takes by blast
    with R_again [of i op1 op' out] t(2) show ?thesis by blast
  qed
  show "(out = [ack i] \<and> 0 < i \<or> out = []) \<and> (\<exists>op. E op t' \<and> R i op) \<or> out = [] \<and> (\<exists>op. E op t' \<and> R_end False i op)"
    if t: "\<exists>op. E op t \<and> R i op" "mc_expires MT t = (t', out)"
  proof -
    obtain op1 op' where "R i op1" "mc_expires MR op1 = (op', out)" "E op' t'"
      using t expires by blast
    with R_expires [of i op1 op' out] show ?thesis by blast
  qed
qed (use S_running S_ended S_next S_again S_expires in blast)+

end

subsection \<open>The application as a machine\<close>

text \<open>What an operation has sent since it was made, and what an input makes the one that is kept send.\<close>

fun operation_sent :: "app_operation \<Rightarrow> bytes list" where
  "operation_sent (ReadOperation op) = emitted [] (trace op)"
| "operation_sent (WriteOperation op) = emitted [] (trace op)"

fun operation_answers :: "helper \<Rightarrow> net \<Rightarrow> server_input \<Rightarrow> app_operation \<Rightarrow> tftp_server \<Rightarrow> bytes list" where
  "operation_answers H N input (ReadOperation op) s =
     emitted (trace op) (trace (final (ServerRead_on H N stream_transmitter input
       (op\<lparr>globalTransmit := globalTransmit s, globalReceive := globalReceive s\<rparr>))))"
| "operation_answers H N input (WriteOperation op) s =
     emitted (trace op) (trace (final (ServerWrite_on H N stream_receiver input
       (op\<lparr>globalTransmit := globalTransmit s, globalReceive := globalReceive s\<rparr>))))"

definition app_answers :: "helper \<Rightarrow> net \<Rightarrow> server_input \<Rightarrow> tftp_server \<Rightarrow> bytes list" where
  "app_answers H N input s =
     (case ts_serverOperation s of None \<Rightarrow> [] | Some operation \<Rightarrow> operation_answers H N input operation s)"

definition app_sent :: "tftp_server \<Rightarrow> bytes list" where
  "app_sent s = (case ts_serverOperation s of None \<Rightarrow> [] | Some operation \<Rightarrow> operation_sent operation)"

definition app_machine :: "helper \<Rightarrow> net \<Rightarrow> (files \<Rightarrow> disk) \<Rightarrow> (tftp_server, bytes) machine" where
  "app_machine H N FS =
     \<lparr>mc_running = (\<lambda>s. ts_serverOperation s \<noteq> None),
      mc_takes = (\<lambda>p s. (final (TftpServer_on H N FS (ForOperation (server_input.Received NoError p)) s),
        app_answers H N (server_input.Received NoError p) s)),
      mc_expires = (\<lambda>s. (final (TftpServer_on H N FS (ForOperation (server_input.NormalTimeout NoError)) s),
        app_answers H N (server_input.NormalTimeout NoError) s))\<rparr>"

text \<open>Nothing but the operation, the files and the statistics of the packets differs.\<close>

definition app_same :: "tftp_server \<Rightarrow> tftp_server \<Rightarrow> bool" where
  "app_same s t \<longleftrightarrow> t = s\<lparr>ts_serverOperation := ts_serverOperation t, ts_files := ts_files t,
     globalTransmit := globalTransmit t, globalReceive := globalReceive t\<rparr>"

lemma app_same_trans: "app_same s t \<Longrightarrow> app_same t u \<Longrightarrow> app_same s u"
  unfolding app_same_def by (cases s; cases t; cases u) simp

lemma app_same_adopt: "app_same s t \<Longrightarrow> app_same s (adopt kind op t)"
  unfolding app_same_def adopt_def by (cases s; cases t) simp

lemma app_same_fields:
  assumes "app_same s t"
  shows "trace t = trace s" "sv_requestHandlerV t = sv_requestHandlerV s" "ts_baseDir t = ts_baseDir s"
    "ts_tftpConfiguration t = ts_tftpConfiguration s" "ts_tftpOptionsConfiguration t = ts_tftpOptionsConfiguration s"
    "sv_receivePacketSize t = sv_receivePacketSize s"
  using assms unfolding app_same_def by (cases s; cases t; simp)+

text \<open>The application works by what an operation does that it has taken over from \<open>s0\<close> on.\<close>

definition app_reads :: "tftp_server \<Rightarrow> stream_file server_read \<Rightarrow> tftp_server \<Rightarrow> bool" where
  "app_reads s0 op t \<longleftrightarrow> app_same s0 t \<and> ts_files t = ts_files s0 \<and>
     ts_serverOperation t = TftpServer_operationCompleted (trace op) (ReadOperation op)"

definition app_writes :: "tftp_server \<Rightarrow> path \<Rightarrow> stream_file server_write \<Rightarrow> tftp_server \<Rightarrow> bool" where
  "app_writes s0 p op t \<longleftrightarrow> app_same s0 t \<and> writes_with (writes_file p) op \<and>
     ts_files t = (ts_files s0)(p := map_option sf_disk (sw_dataHandlerV op)) \<and>
     ts_serverOperation t = TftpServer_operationCompleted (trace op) (WriteOperation op)"

lemma app_reads_adopt: "app_same s0 t \<Longrightarrow> ts_files t = ts_files s0 \<Longrightarrow> app_reads s0 op (adopt ReadOperation op t)"
  by (simp add: app_reads_def app_same_adopt) (simp add: adopt_def)

lemma app_writes_adopt:
  "app_same s0 t \<Longrightarrow> ts_files t = (ts_files s0)(p := x) \<Longrightarrow> writes_with (writes_file p) op \<Longrightarrow>
   app_writes s0 p op (adopt WriteOperation op t)"
  by (auto simp: app_writes_def app_same_adopt) (auto simp: adopt_def writes_with_def writes_file_def)

text \<open>What is counted elsewhere does not matter to an operation.\<close>

lemma server_sends_statistics [simp]:
  "server_sends H sc rest n xs j (op\<lparr>globalTransmit := st, globalReceive := sr\<rparr>) = server_sends H sc rest n xs j op"
  by (simp add: server_sends_def)

lemma upload_receiver_statistics [simp]:
  "upload_receiver H sc ready contents n xs i (op\<lparr>globalTransmit := st, globalReceive := sr\<rparr>) =
   upload_receiver H sc ready contents n xs i op"
  by (simp add: upload_receiver_def server_receives_def server_holds_def)

text \<open>A step of the application is one of its operation.\<close>

lemma app_reads_steps:
  fixes op :: "stream_file server_read"
  assumes "app_reads s0 op t" and "completions (trace op) = []"
  defines "op1 \<equiv> op\<lparr>globalTransmit := globalTransmit t, globalReceive := globalReceive t\<rparr>"
  shows "mc_takes (app_machine H N FS) p t = (t', out) \<Longrightarrow>
      \<exists>op'. mc_takes (server_read_machine H N stream_transmitter) p op1 = (op', out) \<and> app_reads s0 op' t'"
    and "mc_expires (app_machine H N FS) t = (t', out) \<Longrightarrow>
      \<exists>op'. mc_expires (server_read_machine H N stream_transmitter) op1 = (op', out) \<and> app_reads s0 op' t'"
  using assms(1,2) unfolding op1_def
  by (auto simp: app_machine_def app_reads_def TftpServer_operationCompleted_def app_answers_def final_app_result
      server_read_machine_def server_machine_def ServerRead_on_def app_reads_adopt [unfolded app_reads_def]
      simp del: ServerOperation_on.simps)

lemma app_writes_steps:
  fixes op :: "stream_file server_write"
  assumes H: "raw_data H" and op: "app_writes s0 f op t" "completions (trace op) = []" "\<not> ended (trace op)"
  defines "op1 \<equiv> op\<lparr>globalTransmit := globalTransmit t, globalReceive := globalReceive t\<rparr>"
  shows "mc_takes (app_machine H N FS) p t = (t', out) \<Longrightarrow>
      \<exists>op'. mc_takes (server_write_machine H N stream_receiver) p op1 = (op', out) \<and> app_writes s0 f op' t'"
    and "mc_expires (app_machine H N FS) t = (t', out) \<Longrightarrow>
      \<exists>op'. mc_expires (server_write_machine H N stream_receiver) op1 = (op', out) \<and> app_writes s0 f op' t'"
proof -
  have "writes_with (writes_file f) op1" "\<not> ended (trace op1)"
    using op by (simp_all add: app_writes_def op1_def writes_with_def)
  then have "writes_with (writes_file f) (final (ServerWrite_on H N stream_receiver input op1))" for input
    unfolding writes_file_def by (intro stream_written.writes_on [OF H])
  then have adopted: "app_writes s0 f op' (adopt WriteOperation op' t)"
    if "op' = final (ServerWrite_on H N stream_receiver input op1)" for input op'
    using op(1) that by (intro app_writes_adopt) (auto simp: app_writes_def)
  have kept: "ts_serverOperation t = Some (WriteOperation op)"
    using op(1,2) by (simp add: app_writes_def TftpServer_operationCompleted_def)
  have step: "final (TftpServer_on H N FS (ForOperation input) t) =
      adopt WriteOperation (final (ServerWrite_on H N stream_receiver input op1)) t"
      "app_answers H N input t = emitted (trace op) (trace (final (ServerWrite_on H N stream_receiver input op1)))" for input
    using kept by (simp_all add: final_app_result op1_def app_answers_def)
  have "trace op1 = trace op" by (simp add: op1_def)
  then show "mc_takes (app_machine H N FS) p t = (t', out) \<Longrightarrow>
      \<exists>op'. mc_takes (server_write_machine H N stream_receiver) p op1 = (op', out) \<and> app_writes s0 f op' t'"
    and "mc_expires (app_machine H N FS) t = (t', out) \<Longrightarrow>
      \<exists>op'. mc_expires (server_write_machine H N stream_receiver) op1 = (op', out) \<and> app_writes s0 f op' t'"
    using adopted step
    by (auto simp: app_machine_def server_write_machine_def server_machine_def ServerWrite_on_def
        simp del: ServerOperation_on.simps TftpServer_on.simps)
qed

subsection \<open>The contracts\<close>

lemma app_download_contract:
  assumes "raw_data H" and "never_fails Nc" and "never_fails N" and "data_sink D sink ready contents" and "0 < n"
  shows "stop_and_wait (client_read_machine H Nc D sender) (app_machine H N FS)
    (data_datagram H n xs) (ack_datagram H) 0 (last_chunk n xs)
    (download_receiver H sender cc ready contents n xs) (client_has_read cc contents n xs)
    (\<lambda>j t. \<exists>op. app_reads s0 op t \<and> server_sends H [] stream_rest n xs j op)
    (\<lambda>ok t. \<exists>op. app_reads s0 op t \<and> server_has_sent [] ok op)"
proof (rule stop_and_wait.embed_sender [OF download_contract [OF assms(1-4) stream_source.data_source_axioms assms(5)]])
  fix op :: "stream_file server_read" and t t' :: tftp_server and j p out ok
  let ?op = "op\<lparr>globalTransmit := globalTransmit t, globalReceive := globalReceive t\<rparr>"
  let ?S = "server_sends H [] stream_rest n xs j"
  have running: "?S op \<Longrightarrow> completions (trace op) = []" by (simp add: server_sends_def)
  show "\<exists>op1 op'. ?S op1 \<and> mc_takes (server_read_machine H N stream_transmitter) p op1 = (op', out) \<and> app_reads s0 op' t'"
    if "app_reads s0 op t" "?S op" "mc_takes (app_machine H N FS) p t = (t', out)"
    using app_reads_steps(1) [OF that(1) running [OF that(2)] that(3)] that(2) by - (rule exI [of _ ?op], simp)
  show "\<exists>op1 op'. ?S op1 \<and> mc_expires (server_read_machine H N stream_transmitter) op1 = (op', out) \<and> app_reads s0 op' t'"
    if "app_reads s0 op t" "?S op" "mc_expires (app_machine H N FS) t = (t', out)"
    using app_reads_steps(2) [OF that(1) running [OF that(2)] that(3)] that(2) by - (rule exI [of _ ?op], simp)
  show "app_reads s0 op t \<Longrightarrow> server_has_sent [] ok op \<Longrightarrow> \<not> mc_running (app_machine H N FS) t"
    by (simp add: app_machine_def app_reads_def server_has_sent_def TftpServer_operationCompleted_def)
qed

lemma app_upload_contract:
  assumes "raw_data H" and "never_fails Nc" and "never_fails N" and "data_source S content rest" and "0 < n"
  shows "stop_and_wait (app_machine H N FS) (client_write_machine H Nc S sender)
    (upload_data H n xs) (upload_ack H) 1 (Suc (last_chunk n xs))
    (\<lambda>i t. \<exists>op. app_writes s0 f op t \<and> upload_receiver H [] stream_writing sf_disk n xs i op)
    (\<lambda>ok i t. \<exists>op. app_writes s0 f op t \<and> upload_received [] sf_disk n xs ok i op)
    (upload_sender H sender cc rest n xs) (client_has_sent cc)"
proof (rule stop_and_wait.embed_receiver [OF upload_contract [OF assms(1-3) stream_sink.data_sink_axioms assms(4,5)]])
  fix op :: "stream_file server_write" and t t' :: tftp_server and i p out ok
  let ?op = "op\<lparr>globalTransmit := globalTransmit t, globalReceive := globalReceive t\<rparr>"
  let ?R = "upload_receiver H [] stream_writing sf_disk n xs i"
  have running: "?R op \<Longrightarrow> completions (trace op) = [] \<and> \<not> ended (trace op)"
    by (simp add: upload_receiver_def server_receives_def server_holds_def)
  show "\<exists>op1 op'. ?R op1 \<and> mc_takes (server_write_machine H N stream_receiver) p op1 = (op', out) \<and> app_writes s0 f op' t'"
    if "app_writes s0 f op t" "?R op" "mc_takes (app_machine H N FS) p t = (t', out)"
    using app_writes_steps(1) [OF assms(1) that(1) _ _ that(3)] running [OF that(2)] that(2) by - (rule exI [of _ ?op], simp)
  show "\<exists>op1 op'. ?R op1 \<and> mc_expires (server_write_machine H N stream_receiver) op1 = (op', out) \<and> app_writes s0 f op' t'"
    if "app_writes s0 f op t" "?R op" "mc_expires (app_machine H N FS) t = (t', out)"
    using app_writes_steps(2) [OF assms(1) that(1) _ _ that(3)] running [OF that(2)] that(2) by - (rule exI [of _ ?op], simp)
  show "app_writes s0 f op t \<Longrightarrow> upload_received [] sf_disk n xs ok i op \<Longrightarrow> \<not> mc_running (app_machine H N FS) t"
    by (simp add: app_machine_def app_writes_def upload_received_def server_has_received_def TftpServer_operationCompleted_def)
qed

interpretation file_download: stop_and_wait
  "client_read_machine big_endian_helper quiet_net stream_receiver sender" "app_machine big_endian_helper quiet_net FS"
  "data_datagram big_endian_helper 512 xs" "ack_datagram big_endian_helper" 0 "last_chunk 512 xs"
  "download_receiver big_endian_helper sender cc stream_writing sf_disk 512 xs" "client_has_read cc sf_disk 512 xs"
  "\<lambda>j t. \<exists>op. app_reads s0 op t \<and> server_sends big_endian_helper [] stream_rest 512 xs j op"
  "\<lambda>ok t. \<exists>op. app_reads s0 op t \<and> server_has_sent [] ok op"
  for sender FS cc s0 xs
  by (rule app_download_contract [OF big_endian.raw_data_axioms never_fails_quiet_net never_fails_quiet_net
        stream_sink.data_sink_axioms]) simp

interpretation file_upload: stop_and_wait
  "app_machine big_endian_helper quiet_net FS" "client_write_machine big_endian_helper quiet_net stream_transmitter sender"
  "upload_data big_endian_helper 512 xs" "upload_ack big_endian_helper" 1 "Suc (last_chunk 512 xs)"
  "\<lambda>i t. \<exists>op. app_writes s0 f op t \<and> upload_receiver big_endian_helper [] stream_writing sf_disk 512 xs i op"
  "\<lambda>ok i t. \<exists>op. app_writes s0 f op t \<and> upload_received [] sf_disk 512 xs ok i op"
  "upload_sender big_endian_helper sender cc stream_rest 512 xs" "client_has_sent cc"
  for sender FS cc s0 f xs
  by (rule app_upload_contract [OF big_endian.raw_data_axioms never_fails_quiet_net never_fails_quiet_net
        stream_source.data_source_axioms]) simp

subsection \<open>Requests\<close>

text \<open>The state after a request was heard, but for what its operation does.\<close>

definition app_heard :: "endpoint \<Rightarrow> request_type \<Rightarrow> request_packet \<Rightarrow> tftp_server \<Rightarrow> tftp_server \<Rightarrow> bool" where
  "app_heard remote t r s s' \<longleftrightarrow>
     trace s' = trace s @ [Requested remote t (rq_filename r) (rq_mode r) no_tftp_options [],
       Called (AsyncReceiveFrom (sv_receivePacketSize s)) True] \<and>
     s' = s\<lparr>sv_remoteEndpointV := remote, trace := trace s', ts_serverOperation := ts_serverOperation s',
       ts_files := ts_files s', globalTransmit := globalTransmit s', globalReceive := globalReceive s'\<rparr>"

abbreviation named_request :: "string \<Rightarrow> request_packet" where
  "named_request name \<equiv> \<lparr>rq_filename = name, rq_mode = OCTET, rq_options = []\<rparr>"

lemma named_request:
  "NUL \<notin> set name \<Longrightarrow> wf_request (named_request name)"
  "ServerImpl_tftpOptions (rq_options (named_request name)) = (no_tftp_options, [])"
  using example_request by (simp_all add: wf_request_def)

lemma server_requested_app [simp]:
  "ts_baseDir (server_requested remote t r opts rest s) = ts_baseDir s"
  "ts_tftpConfiguration (server_requested remote t r opts rest s) = ts_tftpConfiguration s"
  "ts_tftpOptionsConfiguration (server_requested remote t r opts rest s) = ts_tftpOptionsConfiguration s"
  "ts_files (server_requested remote t r opts rest s) = ts_files s"
  "ts_serverOperation (server_requested remote t r opts rest s) = ts_serverOperation s"
  by (simp_all add: server_requested_def)

lemma app_set_up_requested [simp]:
  "app_read_set_up (server_requested remote t r opts rest s) = app_read_set_up s"
  "app_write_set_up (server_requested remote t r opts rest s) = app_write_set_up s"
  by (simp_all add: fun_eq_iff app_read_set_up_def app_write_set_up_def)

lemma app_hears:
  assumes "raw_data H" and "never_fails N" and "NUL \<notin> set name" and "sv_requestHandlerV s"
    and "TftpServer_receivedRequest H N FS remote t name OCTET no_tftp_options []
      (server_requested remote t (named_request name) no_tftp_options [] s) =
      Inr (adopt kind op ((server_requested remote t (named_request name) no_tftp_options [] s)\<lparr>ts_files := m\<rparr>))"
  shows "\<exists>s'. TftpServer_on H N FS (Datagram NoError remote (Packet_encode H (request_packet_of t (named_request name)))) s =
      Inr s' \<and> app_heard remote t (named_request name) s s' \<and>
    ts_files s' = app_written (kind op) m \<and> ts_serverOperation s' = TftpServer_operationCompleted (trace op) (kind op)"
proof -
  have "ServerImpl_receiveHandler H N (TftpServer_receivedRequest H N FS) NoError remote
      (Packet_encode H (request_packet_of t (named_request name))) s =
    Inr (server_listens_again (packet_packetType (request_packet_of t (named_request name)))
      (length (Packet_encode H (request_packet_of t (named_request name))))
      (adopt kind op ((server_requested remote t (named_request name) no_tftp_options [] s)\<lparr>ts_files := m\<rparr>)))"
    using assms(5) by (intro receiveHandler_request [OF assms(1,2) named_request(1) [OF assms(3)] assms(4) named_request(2)])
      simp
  then show ?thesis
    by (simp add: app_heard_def adopt_def server_listens_again_def counted_def server_requested_def)
qed

text \<open>A read request, for a file that can be read.\<close>

definition app_can_send :: "(files \<Rightarrow> disk) \<Rightarrow> tftp_server \<Rightarrow> string \<Rightarrow> bytes \<Rightarrow> bool" where
  "app_can_send FS s name xs \<longleftrightarrow> sv_requestHandlerV s \<and> (\<exists>p. app_check FS s name Read = Inr (Some p)) \<and>
     fs_readable (FS (ts_files s)) (app_file FS s name) = Some xs \<and>
     (\<exists>sz. fs_file_size (FS (ts_files s)) (app_file FS s name) = Some sz)"

lemma app_hears_read:
  assumes "raw_data H" and N: "never_fails N" and "NUL \<notin> set name" and "app_can_send FS s name xs"
  shows "\<exists>s' op. TftpServer_on H N FS (Datagram NoError remote (Packet_encode H (RRQ (named_request name)))) s = Inr s' \<and>
    app_heard remote Read (named_request name) s s' \<and> ts_files s' = ts_files s \<and> app_reads s' op s' \<and>
    server_sends H [] stream_rest 512 xs 0 op \<and> app_sent s' = [data_datagram H 512 xs 1]"
proof -
  let ?s = "server_requested remote Read (named_request name) no_tftp_options [] s"
  obtain p sz where s: "sv_requestHandlerV s" "app_check FS s name Read = Inr (Some p)"
      "fs_readable (FS (ts_files s)) (app_file FS s name) = Some xs"
      "fs_file_size (FS (ts_files s)) (app_file FS s name) = Some sz"
    using assms(4) by (auto simp: app_can_send_def)
  obtain op0 op where op:
      "TftpServer_receivedRequest H N FS remote Read name OCTET no_tftp_options [] ?s = Inr (adopt ReadOperation op ?s)"
      "app_read_set_up ?s remote no_tftp_options (StreamFile_make Transmit (app_file FS ?s name) (Some sz) True xs) op0"
      "ServerRead_start H N stream_transmitter op0 = Inr op"
    using app_accepts_read [OF N, of FS ?s name p xs sz H remote "[]"] s(2-4) by auto
  have "sr_clientOptionsV op0 = no_tftp_options" "sr_additionalNegotiatedOptionsV op0 = []" "trace op0 = []"
    using op(2) by (simp_all add: app_read_set_up_def)
  with fresh_server_started [OF N stream_source.data_source_axioms app_read_fresh [OF op(2)], of H] op(3)
  have started: "server_sends H [] stream_rest 512 xs 0 op" "emitted [] (trace op) = [data_datagram H 512 xs 1]"
    by auto
  have same: "?s\<lparr>ts_files := ts_files s\<rparr> = ?s" by (simp add: server_requested_def)
  have "completions (trace op) = []" using started by (simp add: server_sends_def)
  moreover obtain s' where "TftpServer_on H N FS (Datagram NoError remote (Packet_encode H (RRQ (named_request name)))) s = Inr s'"
      "app_heard remote Read (named_request name) s s'" "ts_files s' = ts_files s"
      "ts_serverOperation s' = TftpServer_operationCompleted (trace op) (ReadOperation op)"
    using app_hears [OF assms(1) N assms(3) s(1), of FS remote Read ReadOperation op "ts_files s"] op(1) same by auto
  ultimately show ?thesis
    using started by (intro exI [of _ s'] exI [of _ op])
      (simp add: app_reads_def app_same_def app_sent_def TftpServer_operationCompleted_def)
qed

text \<open>A write request, for a file that can be written.\<close>

definition app_can_receive :: "(files \<Rightarrow> disk) \<Rightarrow> tftp_server \<Rightarrow> string \<Rightarrow> bool" where
  "app_can_receive FS s name \<longleftrightarrow> sv_requestHandlerV s \<and> \<not> tc_dally (ts_tftpConfiguration s) \<and>
     (\<exists>p. app_check FS s name Write = Inr (Some p)) \<and> fs_writable (FS (ts_files s)) (app_file FS s name)"

lemma app_hears_write:
  assumes "raw_data H" and N: "never_fails N" and "NUL \<notin> set name" and "app_can_receive FS s name"
  shows "\<exists>s' op. TftpServer_on H N FS (Datagram NoError remote (Packet_encode H (WRQ (named_request name)))) s = Inr s' \<and>
    app_heard remote Write (named_request name) s s' \<and> ts_files s' = (ts_files s)(app_file FS s name \<mapsto> []) \<and>
    app_writes s' (app_file FS s name) op s' \<and>
    upload_receiver H [] stream_writing sf_disk 512 xs 1 op \<and> app_sent s' = [upload_ack H 1]"
proof -
  let ?s = "server_requested remote Write (named_request name) no_tftp_options [] s" and ?f = "app_file FS s name"
  obtain p where s: "sv_requestHandlerV s" "\<not> tc_dally (ts_tftpConfiguration ?s)"
      "app_check FS ?s name Write = Inr (Some p)" "fs_writable (FS (ts_files ?s)) (app_file FS ?s name)"
    using assms(4) by (auto simp: app_can_receive_def)
  obtain op0 op where op:
      "TftpServer_receivedRequest H N FS remote Write name OCTET no_tftp_options [] ?s =
        Inr (adopt WriteOperation op (?s\<lparr>ts_files := (ts_files s)(?f \<mapsto> [])\<rparr>))"
      "app_write_set_up ?s remote no_tftp_options (StreamFile_make Receive ?f None True []) op0"
      "ServerWrite_start H N stream_receiver op0 = Inr op"
    using app_accepts_write [where FS = FS and s = ?s and name = name and H = H and remote = remote and unknown = "[]",
        OF N s(2-4)] by auto
  have plain: "sw_clientOptionsV op0 = no_tftp_options" "sw_additionalNegotiatedOptionsV op0 = []" "trace op0 = []"
      "writes_with (writes_file ?f) op0"
    using op(2) by (simp_all add: app_write_set_up_def writes_with_def writes_file_def StreamFile_make_def)
  with fresh_store_started [OF N stream_sink.data_sink_axioms app_write_fresh [OF op(2) s(2)], where H = H and xs = xs] op(3)
  have started: "server_receives H [] stream_writing sf_disk 512 xs 0 op" "emitted [] (trace op) = [ack_datagram H 0]"
    by auto
  then have files: "completions (trace op) = []" "\<exists>h. sw_dataHandlerV op = Some h \<and> sf_disk h = []"
    by (auto simp: server_receives_def server_holds_def)
  have "writes_with (writes_file ?f) op"
    using stream_written.writes_start [OF plain(4) [unfolded writes_file_def], of H N] op(3) by (simp add: writes_file_def [abs_def])
  moreover obtain s' where "TftpServer_on H N FS (Datagram NoError remote (Packet_encode H (WRQ (named_request name)))) s = Inr s'"
      "app_heard remote Write (named_request name) s s'"
      "ts_files s' = app_written (WriteOperation op) ((ts_files s)(?f \<mapsto> []))"
      "ts_serverOperation s' = TftpServer_operationCompleted (trace op) (WriteOperation op)"
    using app_hears [OF assms(1) N assms(3) s(1), of FS remote Write WriteOperation op "(ts_files s)(?f \<mapsto> [])"] op(1)
    by auto
  ultimately show ?thesis
    using started files by (intro exI [of _ s'] exI [of _ op])
      (auto simp: app_writes_def app_same_def app_sent_def TftpServer_operationCompleted_def upload_receiver_def
        upload_ack_def writes_with_def writes_file_def fun_upd_idem)
qed

subsection \<open>Whatever happens\<close>


lemma example_app_can_receive: "app_can_receive (example_srv xs) (app_listening example_app) ''f''"
  by (simp add: app_can_receive_def checkFilename_def example_srv_def example_content_def example_app_def
      TftpConfiguration_make_def)


end
