(* ===== verification/Applications.thy ===== *)
theory Applications
  imports Serving
begin

text \<open>
  The two applications together: the datagram with which the client application starts goes
  through the event loop of the server application, which creates the operation that serves it,
  and the file is transferred between the two disks.
\<close>

subsection \<open>The requests of the client application\<close>

text \<open>With the default configuration of the options a request has none.\<close>

lemma client_app_download_request:
  assumes "never_fails N" and "client_app_read_set_up cl cfg TftpOptionsConfiguration_default
      (StreamFile_make Receive local None True old) name address w c" and "cl_additionalOptionsV cl = []"
  shows "\<exists>c'. ClientRead_request H N stream_receiver c = Inr c' \<and>
    sent (trace c') = sent (trace c) @
      [Packet_encode H (RRQ \<lparr>rq_filename = name, rq_mode = OCTET, rq_options = []\<rparr>)]"
proof -
  have "rh_start stream_receiver (StreamFile_make Receive local None True old) =
      Inr (fstream_open True (StreamFile_make Receive local None True old))"
    by (simp add: stream_receiver_def StreamFile_start_def StreamFile_make_def fstream_open_def cmd_simps)
  moreover have "cr_dataHandlerV c = Some (StreamFile_make Receive local None True old)"
      "ClientRead_options c = []" "cr_filenameV c = name" "cr_modeV c = OCTET"
    using assms(2,3)
    by (simp_all add: client_app_read_set_up_def ClientRead_options_def TftpOptionsConfiguration_default_def)
  ultimately show ?thesis
    using ClientRead_request_ok [OF assms(1), of c _ stream_receiver, of _ _ H]
    by (simp add: client_waiting_def client_sent_def client_read_rrq_def client_read_reset_def Let_def)
qed

lemma client_app_upload_request:
  assumes "never_fails N" and "client_app_write_set_up cl cfg TftpOptionsConfiguration_default
      (StreamFile_make Transmit local sz True xs) name address w c" and "cl_additionalOptionsV cl = []"
  shows "\<exists>c'. ClientWrite_request H N stream_transmitter c = Inr c' \<and>
    sent (trace c') = sent (trace c) @
      [Packet_encode H (WRQ \<lparr>rq_filename = name, rq_mode = OCTET, rq_options = []\<rparr>)]"
proof -
  have "th_start stream_transmitter (StreamFile_make Transmit local sz True xs) =
      Inr (fstream_open False (StreamFile_make Transmit local sz True xs))"
    by (simp add: stream_transmitter_def StreamFile_start_def StreamFile_make_def fstream_open_def cmd_simps)
  moreover have "cw_dataHandlerV c = Some (StreamFile_make Transmit local sz True xs)"
      "\<not> oc_handleTransferSizeOption (cw_optionsConfigurationV c)" "ClientWrite_options c = []"
      "cw_filenameV c = name" "cw_modeV c = OCTET"
    using assms(2,3)
    by (simp_all add: client_app_write_set_up_def ClientWrite_options_def TftpOptionsConfiguration_default_def)
  ultimately show ?thesis
    using ClientWrite_request_ok [OF assms(1), of c _ stream_transmitter, of _ _ H]
    by (simp add: client_waiting_def client_sent_def client_write_wrq_def client_write_reset_def
        client_write_asked_def ClientWrite_requestOptions_def ClientWrite_options_def Let_def)
qed

lemma client_app_fresh:
  assumes "client_app_read_set_up cl cfg ocfg (StreamFile_make Receive local None True old) name address w c"
    and "\<not> tc_dally cfg" and "\<not> ended (trace w)" and "sender \<noteq> no_endpoint" and "ep_address sender = address"
  shows "fresh_client (\<lambda>f. sf_operationV f = Receive) stream_receiver sender c"
  using assms
  by (simp add: client_app_read_set_up_def fresh_client_def StreamFile_make_def stream_receiver_def
      StreamFile_start_def fstream_open_def TftpClient_optionNegotiation_def cmd_simps)

lemma client_app_fresh_upload:
  assumes "client_app_write_set_up cl cfg ocfg (StreamFile_make Transmit local sz True xs) name address w c"
    and "\<not> ended (trace w)" and "sender \<noteq> no_endpoint" and "ep_address sender = address"
  shows "fresh_uploader stream_transmitter stream_content xs sender c"
  using assms
  by (simp add: client_app_write_set_up_def fresh_uploader_def StreamFile_make_def stream_transmitter_def
      stream_content_def StreamFile_start_def fstream_open_def TftpClient_optionNegotiation_def cmd_simps)

text \<open>
  The datagram the client sends first goes to the listening server; then \<open>n\<close> exchanges take
  place, in an upload after the acknowledgement of the request. \<open>remote\<close> is the client to the
  server, \<open>tid\<close> the operation of the server to the client.
\<close>

definition application_download ::
    "nat \<Rightarrow> helper \<Rightarrow> net \<Rightarrow> net \<Rightarrow> (files \<Rightarrow> disk) \<Rightarrow> endpoint \<Rightarrow> endpoint \<Rightarrow> stream_file client_read \<Rightarrow>
     tftp_server \<Rightarrow> (stream_file client_read \<times> tftp_server \<times> bytes list) option" where
  "application_download n H Nc N FS remote tid c s =
     (case ClientRead_request H Nc stream_receiver c of
        Inl e \<Rightarrow> None
      | Inr c1 \<Rightarrow>
          (case TftpServer_on H N FS (Datagram NoError remote (last (sent (trace c1)))) s of
             Inl e \<Rightarrow> None
           | Inr s1 \<Rightarrow>
               exchanges n (client_read_machine H Nc stream_receiver tid) (app_machine H N FS) (c1, s1, app_sent s1)))"

definition application_upload ::
    "nat \<Rightarrow> helper \<Rightarrow> net \<Rightarrow> net \<Rightarrow> (files \<Rightarrow> disk) \<Rightarrow> endpoint \<Rightarrow> endpoint \<Rightarrow> stream_file client_write \<Rightarrow>
     tftp_server \<Rightarrow> (tftp_server \<times> stream_file client_write \<times> bytes list) option" where
  "application_upload n H Nc N FS remote tid c s =
     (case ClientWrite_request H Nc stream_transmitter c of
        Inl e \<Rightarrow> None
      | Inr c1 \<Rightarrow>
          (case TftpServer_on H N FS (Datagram NoError remote (last (sent (trace c1)))) s of
             Inl e \<Rightarrow> None
           | Inr s1 \<Rightarrow>
               (case app_sent s1 of
                  [a] \<Rightarrow>
                    (case mc_takes (client_write_machine H Nc stream_transmitter tid) a c1 of
                       (c2, out) \<Rightarrow> exchanges n (app_machine H N FS)
                         (client_write_machine H Nc stream_transmitter tid) (s1, c2, out))
                | _ \<Rightarrow> None)))"

subsection \<open>The client side, started\<close>

definition client_gets :: "client \<Rightarrow> configuration \<Rightarrow> endpoint \<Rightarrow> ip_address \<Rightarrow> string \<Rightarrow> world \<Rightarrow> bool" where
  "client_gets cl cfg tid address name w \<longleftrightarrow> cl_additionalOptionsV cl = [] \<and> \<not> tc_dally cfg \<and>
     \<not> ended (trace w) \<and> tid \<noteq> no_endpoint \<and> ep_address tid = address \<and> NUL \<notin> set name"

lemma client_gets_requested:
  assumes "raw_data H" and "never_fails N" and "client_gets cl cfg tid address name w"
  shows "\<exists>c c1. TftpClient_readOperation cl cfg TftpOptionsConfiguration_default
      (StreamFile_make Receive local None True old) name address w = Inr c \<and>
    ClientRead_request H N stream_receiver c = Inr c1 \<and>
    last (sent (trace c1)) = Packet_encode H (RRQ (named_request name)) \<and>
    download_receiver H tid (completions (trace w)) stream_writing sf_disk 512 xs 0 c1"
proof -
  obtain c where c: "TftpClient_readOperation cl cfg TftpOptionsConfiguration_default
        (StreamFile_make Receive local None True old) name address w = Inr c"
      "client_app_read_set_up cl cfg TftpOptionsConfiguration_default
        (StreamFile_make Receive local None True old) name address w c"
    using TftpClient_readOperation_set_up by blast
  have "fresh_client (\<lambda>f. sf_operationV f = Receive) stream_receiver tid c"
    using assms(3) by (intro client_app_fresh [OF c(2)]) (simp_all add: client_gets_def)
  from fresh_client_requested [OF assms(2) stream_sink.data_sink_axioms this, of H xs]
  obtain c1 where c1: "ClientRead_request H N stream_receiver c = Inr c1"
      "client_reads H tid (completions (trace c)) stream_writing sf_disk 512 xs 0 c1" "co_receiveEndpointV c1 = no_endpoint"
    by blast
  have "sent (trace c1) = sent (trace c) @ [Packet_encode H (RRQ (named_request name))]"
    using client_app_download_request [OF assms(2) c(2), of H] assms(3) c1(1) by (auto simp: client_gets_def)
  moreover have "trace c = trace w" using c(2) by (simp add: client_app_read_set_up_def)
  ultimately show ?thesis using c(1) c1 by (auto simp: download_receiver_def)
qed

definition client_puts :: "client \<Rightarrow> endpoint \<Rightarrow> ip_address \<Rightarrow> string \<Rightarrow> world \<Rightarrow> bool" where
  "client_puts cl tid address name w \<longleftrightarrow> cl_additionalOptionsV cl = [] \<and>
     \<not> ended (trace w) \<and> tid \<noteq> no_endpoint \<and> ep_address tid = address \<and> NUL \<notin> set name"

lemma client_puts_requested:
  assumes "raw_data H" and "never_fails N" and "client_puts cl tid address name w"
  shows "\<exists>c c1. TftpClient_writeOperation cl cfg TftpOptionsConfiguration_default (Some sz)
      (\<lambda>sz. StreamFile_make Transmit local sz True xs) name address w = Inr c \<and>
    ClientWrite_request H N stream_transmitter c = Inr c1 \<and>
    last (sent (trace c1)) = Packet_encode H (WRQ (named_request name)) \<and>
    client_asks tid (completions (trace w)) stream_rest 512 xs c1"
proof -
  obtain c where c: "TftpClient_writeOperation cl cfg TftpOptionsConfiguration_default (Some sz)
        (\<lambda>sz. StreamFile_make Transmit local sz True xs) name address w = Inr c"
      "client_app_write_set_up cl cfg TftpOptionsConfiguration_default
        (StreamFile_make Transmit local (Some sz) True xs) name address w c"
    using TftpClient_writeOperation_set_up by blast
  have "fresh_uploader stream_transmitter stream_content xs tid c"
    using assms(3) by (intro client_app_fresh_upload [OF c(2)]) (simp_all add: client_puts_def)
  from fresh_uploader_requested [OF assms(2) stream_source.data_source_axioms this, of H]
  obtain c1 where c1: "ClientWrite_request H N stream_transmitter c = Inr c1"
      "client_asks tid (completions (trace c)) stream_rest 512 xs c1"
    by blast
  have "sent (trace c1) = sent (trace c) @ [Packet_encode H (WRQ (named_request name))]"
    using client_app_upload_request [OF assms(2) c(2), of H] assms(3) c1(1) by (auto simp: client_puts_def)
  moreover have "trace c = trace w" using c(2) by (simp add: client_app_write_set_up_def)
  ultimately show ?thesis using c(1) c1 by auto
qed

subsection \<open>Without losses\<close>

lemma app_heard_same: "app_heard remote t r s s1 \<Longrightarrow> app_same s1 s2 \<Longrightarrow> app_heard remote t r s s2"
  unfolding app_heard_def app_same_def by (cases s; cases s1; cases s2) simp

text \<open>The request was served: it was recorded, the next reception is started, and the operation is over.\<close>

definition app_served :: "endpoint \<Rightarrow> request_type \<Rightarrow> string \<Rightarrow> tftp_server \<Rightarrow> tftp_server \<Rightarrow> bool" where
  "app_served remote t name s s' \<longleftrightarrow> app_heard remote t (named_request name) s s' \<and> ts_serverOperation s' = None"

text \<open>Request and start of a download.\<close>

lemma application_download_started:
  assumes "raw_data H" and "never_fails Nc" and "never_fails N" and "client_gets cl cfg tid address name w"
    and "app_can_send FS s name xs"
  shows "\<exists>c c1 s1 op.
    TftpClient_readOperation cl cfg TftpOptionsConfiguration_default (StreamFile_make Receive local None True old)
      name address w = Inr c \<and>
    ClientRead_request H Nc stream_receiver c = Inr c1 \<and>
    TftpServer_on H N FS (Datagram NoError remote (last (sent (trace c1)))) s = Inr s1 \<and>
    download_receiver H tid (completions (trace w)) stream_writing sf_disk 512 xs 0 c1 \<and>
    app_heard remote Read (named_request name) s s1 \<and> ts_files s1 = ts_files s \<and> app_reads s1 op s1 \<and>
    server_sends H [] stream_rest 512 xs 0 op \<and> app_sent s1 = [data_datagram H 512 xs 1]"
proof -
  obtain c c1 where c: "TftpClient_readOperation cl cfg TftpOptionsConfiguration_default
        (StreamFile_make Receive local None True old) name address w = Inr c"
      "ClientRead_request H Nc stream_receiver c = Inr c1"
      "last (sent (trace c1)) = Packet_encode H (RRQ (named_request name))"
      "download_receiver H tid (completions (trace w)) stream_writing sf_disk 512 xs 0 c1"
    using client_gets_requested [OF assms(1,2,4), of local old xs] by blast
  have "NUL \<notin> set name" using assms(4) by (simp add: client_gets_def)
  from app_hears_read [OF assms(1,3) this assms(5), of remote] c show ?thesis
    by (metis (no_types, lifting))
qed

lemma application_upload_started:
  assumes "raw_data H" and "never_fails Nc" and "never_fails N" and "client_puts cl tid address name w"
    and "app_can_receive FS s name"
  shows "\<exists>c c1 s1 op.
    TftpClient_writeOperation cl cfg TftpOptionsConfiguration_default (Some sz)
      (\<lambda>sz. StreamFile_make Transmit local sz True xs) name address w = Inr c \<and>
    ClientWrite_request H Nc stream_transmitter c = Inr c1 \<and>
    TftpServer_on H N FS (Datagram NoError remote (last (sent (trace c1)))) s = Inr s1 \<and>
    client_asks tid (completions (trace w)) stream_rest 512 xs c1 \<and>
    app_heard remote Write (named_request name) s s1 \<and> ts_files s1 = (ts_files s)(app_file FS s name \<mapsto> []) \<and>
    app_writes s1 (app_file FS s name) op s1 \<and>
    upload_receiver H [] stream_writing sf_disk 512 xs 1 op \<and> app_sent s1 = [upload_ack H 1]"
proof -
  obtain c c1 where c: "TftpClient_writeOperation cl cfg TftpOptionsConfiguration_default (Some sz)
        (\<lambda>sz. StreamFile_make Transmit local sz True xs) name address w = Inr c"
      "ClientWrite_request H Nc stream_transmitter c = Inr c1"
      "last (sent (trace c1)) = Packet_encode H (WRQ (named_request name))"
      "client_asks tid (completions (trace w)) stream_rest 512 xs c1"
    using client_puts_requested [OF assms(1,2,4), of cfg sz local xs] by blast
  have "NUL \<notin> set name" using assms(4) by (simp add: client_puts_def)
  from app_hears_write [OF assms(1,3) this assms(5), of remote xs] c show ?thesis
    by (metis (no_types, lifting))
qed

lemma application_download_complete:
  assumes "raw_data H" and "never_fails Nc" and "never_fails N" and "client_gets cl cfg tid address name w"
    and "app_can_send FS s name xs"
  shows "\<exists>c c' s' h.
    TftpClient_readOperation cl cfg TftpOptionsConfiguration_default (StreamFile_make Receive local None True old)
      name address w = Inr c \<and>
    application_download (length xs div 512 + 1) H Nc N FS remote tid c s = Some (c', s', []) \<and>
    cr_dataHandlerV c' = Some h \<and> sf_disk h = xs \<and> completions (trace c') = completions (trace w) @ [Successful] \<and>
    app_served remote Read name s s' \<and> ts_files s' = ts_files s"
proof -
  from application_download_started [OF assms, of local old remote]
  obtain c c1 s1 op where c: "TftpClient_readOperation cl cfg TftpOptionsConfiguration_default
        (StreamFile_make Receive local None True old) name address w = Inr c"
      "ClientRead_request H Nc stream_receiver c = Inr c1"
      "TftpServer_on H N FS (Datagram NoError remote (last (sent (trace c1)))) s = Inr s1"
      "download_receiver H tid (completions (trace w)) stream_writing sf_disk 512 xs 0 c1"
    and s1: "app_heard remote Read (named_request name) s s1" "ts_files s1 = ts_files s" "app_reads s1 op s1"
      "server_sends H [] stream_rest 512 xs 0 op" "app_sent s1 = [data_datagram H 512 xs 1]" by blast
  note contract = app_download_contract [where n = 512 and FS = FS, OF assms(1-3) stream_sink.data_sink_axioms, simplified]
  from stop_and_wait.exchanges_complete [OF contract c(4), of s1 s1 "last_chunk 512 xs"] s1(3,4)
  obtain c' s' op' where x: "exchanges (Suc (last_chunk 512 xs)) (client_read_machine H Nc stream_receiver tid)
        (app_machine H N FS) (c1, s1, [data_datagram H 512 xs (Suc 0)]) = Some (c', s', [])"
      "client_has_read (completions (trace w)) sf_disk 512 xs True (Suc (last_chunk 512 xs)) c'"
      "app_reads s1 op' s'" "server_has_sent [] True op'"
    by (auto simp del: exchanges.simps)
  have "application_download (length xs div 512 + 1) H Nc N FS remote tid c s = Some (c', s', [])"
    using x(1) c(2,3) s1(5) by (simp add: application_download_def last_chunk_def del: exchanges.simps TftpServer_on.simps)
  moreover have "app_served remote Read name s s'" "ts_files s' = ts_files s"
    using x(3,4) s1(2) app_heard_same [OF s1(1)]
    by (simp_all add: app_served_def app_reads_def server_has_sent_def TftpServer_operationCompleted_def)
  ultimately show ?thesis
    using c(1) x(2) take_last_chunk [of 512 xs] by (auto simp: client_has_read_def)
qed

lemma application_upload_complete:
  assumes "raw_data H" and "never_fails Nc" and "never_fails N" and "client_puts cl tid address name w"
    and "app_can_receive FS s name"
  shows "\<exists>c c' s'.
    TftpClient_writeOperation cl cfg TftpOptionsConfiguration_default (Some sz)
      (\<lambda>sz. StreamFile_make Transmit local sz True xs) name address w = Inr c \<and>
    application_upload (length xs div 512 + 1) H Nc N FS remote tid c s = Some (s', c', []) \<and>
    completions (trace c') = completions (trace w) @ [Successful] \<and>
    app_served remote Write name s s' \<and> ts_files s' = (ts_files s)(app_file FS s name \<mapsto> xs)"
proof -
  from application_upload_started [OF assms, of cfg sz local xs remote]
  obtain c c1 s1 op where c: "TftpClient_writeOperation cl cfg TftpOptionsConfiguration_default (Some sz)
        (\<lambda>sz. StreamFile_make Transmit local sz True xs) name address w = Inr c"
      "ClientWrite_request H Nc stream_transmitter c = Inr c1"
      "TftpServer_on H N FS (Datagram NoError remote (last (sent (trace c1)))) s = Inr s1"
      "client_asks tid (completions (trace w)) stream_rest 512 xs c1"
    and s1: "app_heard remote Write (named_request name) s s1" "ts_files s1 = (ts_files s)(app_file FS s name \<mapsto> [])"
      "app_writes s1 (app_file FS s name) op s1"
      "upload_receiver H [] stream_writing sf_disk 512 xs 1 op" "app_sent s1 = [upload_ack H 1]" by blast
  obtain c2 out where c2: "mc_takes (client_write_machine H Nc stream_transmitter tid) (ack_datagram H 0) c1 = (c2, out)"
    by fastforce
  have out: "out = [upload_data H 512 xs (Suc 1)]"
      "upload_sender H tid (completions (trace w)) stream_rest 512 xs 1 c2"
    using client_asks_next [OF assms(1,2) stream_source.data_source_axioms _ c(4) c2] by (simp_all add: upload_data_def)
  note contract = app_upload_contract [where n = 512 and FS = FS, OF assms(1-3) stream_source.data_source_axioms, simplified]
  from stop_and_wait.exchanges_complete [OF contract _ out(2), of s1 "app_file FS s name" s1 "last_chunk 512 xs"] s1(3,4)
  obtain c' s' op' where x: "exchanges (Suc (last_chunk 512 xs)) (app_machine H N FS)
        (client_write_machine H Nc stream_transmitter tid) (s1, c2, out) = Some (s', c', [])"
      "app_writes s1 (app_file FS s name) op' s'"
      "upload_received [] sf_disk 512 xs True (Suc (Suc (last_chunk 512 xs))) op'"
      "client_has_sent (completions (trace w)) True c'"
    unfolding out(1) by (auto simp del: exchanges.simps)
  have "application_upload (length xs div 512 + 1) H Nc N FS remote tid c s = Some (s', c', [])"
    using x(1) c(2,3) s1(5) c2
    by (simp add: application_upload_def upload_ack_def last_chunk_def del: exchanges.simps TftpServer_on.simps)
  moreover have "app_served remote Write name s s'" "ts_files s' = (ts_files s)(app_file FS s name \<mapsto> xs)"
    using x(2,3) s1(2) app_heard_same [OF s1(1)] take_last_chunk [of 512 xs]
    by (auto simp: app_served_def app_writes_def upload_received_def server_has_received_def TftpServer_operationCompleted_def)
  ultimately show ?thesis
    using c(1) x(4) by (auto simp: client_has_sent_def)
qed

subsection \<open>With losses\<close>

text \<open>
  The states a transfer can reach after the request, when packets get lost and doubled between
  the client and the operation of the server, and the timers expire at any time.
\<close>

definition application_downloads ::
    "helper \<Rightarrow> net \<Rightarrow> net \<Rightarrow> (files \<Rightarrow> disk) \<Rightarrow> endpoint \<Rightarrow> endpoint \<Rightarrow> stream_file client_read \<Rightarrow> tftp_server \<Rightarrow>
     stream_file client_read \<times> tftp_server \<Rightarrow> bool" where
  "application_downloads H Nc N FS remote tid c s = (\<lambda>(c', s'). \<exists>c1 s1 tc ts.
     ClientRead_request H Nc stream_receiver c = Inr c1 \<and>
     TftpServer_on H N FS (Datagram NoError remote (last (sent (trace c1)))) s = Inr s1 \<and>
     lossy (client_read_machine H Nc stream_receiver tid) (app_machine H N FS) (c1, app_sent s1, s1, []) (c', tc, s', ts))"

definition application_uploads ::
    "helper \<Rightarrow> net \<Rightarrow> net \<Rightarrow> (files \<Rightarrow> disk) \<Rightarrow> endpoint \<Rightarrow> endpoint \<Rightarrow> stream_file client_write \<Rightarrow> tftp_server \<Rightarrow>
     stream_file client_write \<times> tftp_server \<Rightarrow> bool" where
  "application_uploads H Nc N FS remote tid c s = (\<lambda>(c', s'). \<exists>c1 s1 tc ts.
     ClientWrite_request H Nc stream_transmitter c = Inr c1 \<and>
     TftpServer_on H N FS (Datagram NoError remote (last (sent (trace c1)))) s = Inr s1 \<and>
     lossy (app_machine H N FS) (client_write_machine H Nc stream_transmitter tid) (s1, [], c1, app_sent s1) (s', ts, c', tc))"

lemma application_downloads_safe:
  assumes "raw_data H" and "never_fails Nc" and "never_fails N"
    and c: "ClientRead_request H Nc stream_receiver c = Inr c1"
      "download_receiver H tid cc stream_writing sf_disk 512 xs 0 c1"
    and s: "TftpServer_on H N FS (Datagram NoError remote (last (sent (trace c1)))) s = Inr s1"
      "app_reads s1 op s1" "server_sends H [] stream_rest 512 xs 0 op" "app_sent s1 = [data_datagram H 512 xs 1]"
    and run: "application_downloads H Nc N FS remote tid c s (c', s')"
  shows "\<exists>h i rc. cr_dataHandlerV c' = Some h \<and> sf_disk h = take (i * 512) xs \<and> completions (trace c') = cc @ rc \<and>
    rc \<in> outcomes \<and> (Successful \<in> set rc \<longrightarrow> sf_disk h = xs) \<and> app_same s1 s' \<and> ts_files s' = ts_files s1"
proof -
  obtain tc ts where l: "lossy (client_read_machine H Nc stream_receiver tid) (app_machine H N FS)
      (c1, app_sent s1, s1, []) (c', tc, s', ts)"
    using run c(1) s(1) by (auto simp: application_downloads_def simp del: TftpServer_on.simps)
  let ?S = "\<lambda>j t. \<exists>op. app_reads s1 op t \<and> server_sends H [] stream_rest 512 xs j op"
  let ?S_end = "\<lambda>ok t. \<exists>op. app_reads s1 op t \<and> server_has_sent [] ok op"
  let ?sync = "synchronous 0 (last_chunk 512 xs) (data_datagram H 512 xs) (ack_datagram H)
      (download_receiver H tid cc stream_writing sf_disk 512 xs) (client_has_read cc sf_disk 512 xs) ?S ?S_end"
  have "in_step 0 (data_datagram H 512 xs) (ack_datagram H) 0 0 (app_sent s1) []"
    by (simp add: in_step_def s(4))
  then have "?sync (c1, app_sent s1, s1, [])"
    using c(2) s(2,3) by (intro synchronousI [where i = 0 and j = 0]) auto
  with stop_and_wait.lossy_synchronous [OF app_download_contract [where n = 512 and FS = FS,
        OF assms(1-3) stream_sink.data_sink_axioms, simplified] l]
  have "?sync (c', tc, s', ts)" by blast
  then obtain i rc where r: "\<exists>h. cr_dataHandlerV c' = Some h \<and> sf_disk h = take (i * 512) xs \<and> completions (trace c') = cc @ rc"
      "app_same s1 s' \<and> ts_files s' = ts_files s1" "rc \<in> outcomes" "Successful \<in> set rc \<Longrightarrow> i = Suc (last_chunk 512 xs)"
    by (rule synchronous_outcome [where PS = "\<lambda>rs t. app_same s1 t \<and> ts_files t = ts_files s1"
          and PR = "\<lambda>i rc c. \<exists>h. cr_dataHandlerV c = Some h \<and> sf_disk h = take (i * 512) xs \<and>
            completions (trace c) = cc @ rc"])
      (auto simp: download_receiver_def client_reads_def client_has_read_def app_reads_def)
  have "Successful \<in> set rc \<longrightarrow> take (i * 512) xs = xs"
    using r(4) take_last_chunk [of 512 xs] by auto
  with r show ?thesis by metis
qed

lemma application_uploads_safe:
  assumes "raw_data H" and "never_fails Nc" and "never_fails N"
    and c: "ClientWrite_request H Nc stream_transmitter c = Inr c1" "client_asks tid cc stream_rest 512 xs c1"
    and s: "TftpServer_on H N FS (Datagram NoError remote (last (sent (trace c1)))) s = Inr s1"
      "app_writes s1 f op s1" "upload_receiver H [] stream_writing sf_disk 512 xs 1 op" "app_sent s1 = [upload_ack H 1]"
    and run: "application_uploads H Nc N FS remote tid c s (c', s')"
  shows "\<exists>i rc. completions (trace c') = cc @ rc \<and> rc \<in> outcomes \<and> (Successful \<in> set rc \<longrightarrow> take (i * 512) xs = xs) \<and>
    app_same s1 s' \<and> ts_files s' = (ts_files s1)(f \<mapsto> take (i * 512) xs)"
proof -
  obtain tc ts where l: "lossy (app_machine H N FS) (client_write_machine H Nc stream_transmitter tid)
      (s1, [], c1, app_sent s1) (s', ts, c', tc)"
    using run c(1) s(1) by (auto simp: application_uploads_def simp del: TftpServer_on.simps)
  let ?R = "\<lambda>i t. \<exists>op. app_writes s1 f op t \<and> upload_receiver H [] stream_writing sf_disk 512 xs i op"
  let ?R_end = "\<lambda>ok i t. \<exists>op. app_writes s1 f op t \<and> upload_received [] sf_disk 512 xs ok i op"
  let ?sync = "synchronous 1 (Suc (last_chunk 512 xs)) (upload_data H 512 xs) (upload_ack H) ?R ?R_end
      (upload_sender H tid cc stream_rest 512 xs) (client_has_sent cc)"
  have "in_step 1 (upload_data H 512 xs) (upload_ack H) 1 0 [] (app_sent s1)"
    by (simp add: in_step_def s(4))
  then have "?sync (s1, [], c1, app_sent s1)"
    using c(2) s(2,3) by (intro synchronousI [where i = 1 and j = 0]) auto
  with stop_and_wait.lossy_synchronous [OF app_upload_contract [where n = 512 and FS = FS,
        OF assms(1-3) stream_source.data_source_axioms, simplified] l]
  have sync: "?sync (s', ts, c', tc)" by simp
  have sends: "completions (trace c) = cc @ []" if "upload_sender H tid cc stream_rest 512 xs j c" for j c
    using that by (cases j) (simp_all add: client_asks_def client_sends_def client_transmits_def)
  obtain i rs rc where r: "app_same s1 s' \<and> ts_files s' = (ts_files s1)(f \<mapsto> take ((i - 1) * 512) xs)"
      "completions (trace c') = cc @ rc" "rs \<in> outcomes" "rc \<in> outcomes"
      "Successful \<in> set rs \<union> set rc \<Longrightarrow> i = Suc (Suc (last_chunk 512 xs))"
    by (rule synchronous_outcome [OF sync, where PS = "\<lambda>rc c. completions (trace c) = cc @ rc"
          and PR = "\<lambda>i rs t. app_same s1 t \<and> ts_files t = (ts_files s1)(f \<mapsto> take ((i - 1) * 512) xs)"])
      (auto simp: upload_receiver_def upload_received_def server_receives_def server_holds_def server_has_received_def
        client_has_sent_def app_writes_def dest: sends)
  have "Successful \<in> set rc \<longrightarrow> take ((i - 1) * 512) xs = xs"
    using r(5) take_last_chunk [of 512 xs] by auto
  with r show ?thesis by metis
qed

subsection \<open>From disk to disk\<close>


definition example_configuration :: configuration where
  "example_configuration = TftpConfiguration_make DefaultTftpPort"

lemma example_client:
  "client_gets ClientImpl_new example_configuration (host 1 2000) (V4 1) ''f'' no_world"
  "client_puts ClientImpl_new (host 1 2000) (V4 1) ''f'' no_world"
  by (simp_all add: client_gets_def client_puts_def example_configuration_def TftpConfiguration_make_def no_world_def
      ClientImpl_new_def host_def no_endpoint_def)

lemma example_serves:
  "app_can_send (example_srv xs) example_app ''f'' xs" "app_can_receive (example_srv xs) example_app ''f''"
  by (simp_all add: app_can_send_def app_can_receive_def checkFilename_def example_srv_def example_content_def
      example_app_def TftpConfiguration_make_def)




subsection \<open>What was uploaded can be downloaded\<close>

lemma app_served_fields:
  assumes "app_served remote t name s s'"
  shows "ts_baseDir s' = ts_baseDir s" "sv_requestHandlerV s' = sv_requestHandlerV s"
  using assms unfolding app_served_def app_heard_def by (cases s; cases s'; simp)+

context file_disk
begin

text \<open>A file that was written below a canonical base directory passes the check and can be read.\<close>

lemma written_can_be_sent:
  assumes "app_can_receive FS s name" and "fs_canonical (FS (ts_files s)) (ts_baseDir s) = Some (ts_baseDir s)"
    and s': "app_served remote t name s s'" "ts_files s' = (ts_files s)(app_file FS s name \<mapsto> xs)"
  shows "app_can_send FS s' name xs"
proof -
  have same: "app_file FS s' name = app_file FS s name"
    unfolding append [of "ts_files s'" "ts_files s"] path [of "ts_files s'" "ts_files s"] app_served_fields(1) [OF s'(1)] ..
  have written: "ts_files s' (app_file FS s' name) = Some xs"
    unfolding same by (simp add: s'(2))
  obtain p where "app_check FS s name Write = Inr (Some p)" using assms(1) by (auto simp: app_can_receive_def)
  then have "std_equal (ts_baseDir s) p = Inr True" "fs_weakly_canonical (FS (ts_files s)) (app_file FS s name) = Some p"
    using assms(2) by (auto simp: checkFilename_def Let_def split: option.splits sum.splits if_splits)
  moreover from this have "fst (fs_is_regular_file (FS (ts_files s')) p)"
    unfolding weakly_canonical [of "ts_files s" "ts_files s'"] same [symmetric] by (intro regular [where m = "ts_files s'" and p = "app_file FS s' name", OF written])
  ultimately have "app_check FS s' name Read = Inr (Some p)"
    using assms(2) unfolding checkFilename_def canonical [of "ts_files s'" "ts_files s"]
      weakly_canonical [of "ts_files s'" "ts_files s"] append [of "ts_files s'" "ts_files s"]
      path [of "ts_files s'" "ts_files s"] app_served_fields(1) [OF s'(1)]
    by (simp add: Let_def split_beta)
  then show ?thesis
    using readable [where m = "ts_files s'" and p = "app_file FS s' name", OF written]
      file_size [where m = "ts_files s'" and p = "app_file FS s' name", OF written]
      assms(1) app_served_fields(2) [OF s'(1)]
    by (simp add: app_can_send_def app_can_receive_def)
qed

end



end
