(* ===== verification/ConfigurationProperties.thy ===== *)
theory ConfigurationProperties
  imports Configuration
begin

text \<open>
  \<open>TftpConfiguration.cpp\<close> and \<open>TftpOptionsConfiguration.cpp\<close>: the conversion of the
  configurations from and to property trees. \<open>boost::property_tree\<close> is a parameter: its typed
  \<open>get_optional\<close> and \<open>add\<close>, with what the code relies on as the locale \<open>property_tree\<close>.
\<close>

text \<open>
  \<open>add\<close> of an optional stores a text that is no number for an empty one, so that \<open>get_optional\<close>
  gives the optional back.
\<close>

record 't ptree =
  pt_empty :: 't
  pt_has :: "'t \<Rightarrow> string \<Rightarrow> bool"
  pt_get_int :: "'t \<Rightarrow> string \<Rightarrow> int option"
  pt_get_u16 :: "'t \<Rightarrow> string \<Rightarrow> u16 option"
  pt_get_bool :: "'t \<Rightarrow> string \<Rightarrow> bool option"
  pt_add_int :: "string \<Rightarrow> int option \<Rightarrow> 't \<Rightarrow> 't"
  pt_add_u16 :: "string \<Rightarrow> u16 option \<Rightarrow> 't \<Rightarrow> 't"
  pt_add_bool :: "string \<Rightarrow> bool \<Rightarrow> 't \<Rightarrow> 't"

locale property_tree =
  fixes T :: "'t ptree"
  assumes has_empty: "\<not> pt_has T (pt_empty T) k"
    and absent: "\<not> pt_has T t k \<Longrightarrow>
          pt_get_int T t k = None \<and> pt_get_u16 T t k = None \<and> pt_get_bool T t k = None"
    and has_add: "pt_has T (pt_add_int T k i t) k' \<longleftrightarrow> k' = k \<or> pt_has T t k'"
          "pt_has T (pt_add_u16 T k n t) k' \<longleftrightarrow> k' = k \<or> pt_has T t k'"
          "pt_has T (pt_add_bool T k b t) k' \<longleftrightarrow> k' = k \<or> pt_has T t k'"
    and get_add: "\<not> pt_has T t k \<Longrightarrow> pt_get_int T (pt_add_int T k i t) k = i"
          "\<not> pt_has T t k \<Longrightarrow> pt_get_u16 T (pt_add_u16 T k n t) k = n"
          "\<not> pt_has T t k \<Longrightarrow> pt_get_bool T (pt_add_bool T k b t) k = Some b"
    and get_other: "k' \<noteq> k \<Longrightarrow> pt_get_int T (pt_add_int T k i t) k' = pt_get_int T t k'"
          "k' \<noteq> k \<Longrightarrow> pt_get_int T (pt_add_u16 T k n t) k' = pt_get_int T t k'"
          "k' \<noteq> k \<Longrightarrow> pt_get_int T (pt_add_bool T k b t) k' = pt_get_int T t k'"
          "k' \<noteq> k \<Longrightarrow> pt_get_u16 T (pt_add_int T k i t) k' = pt_get_u16 T t k'"
          "k' \<noteq> k \<Longrightarrow> pt_get_u16 T (pt_add_u16 T k n t) k' = pt_get_u16 T t k'"
          "k' \<noteq> k \<Longrightarrow> pt_get_u16 T (pt_add_bool T k b t) k' = pt_get_u16 T t k'"
          "k' \<noteq> k \<Longrightarrow> pt_get_bool T (pt_add_int T k i t) k' = pt_get_bool T t k'"
          "k' \<noteq> k \<Longrightarrow> pt_get_bool T (pt_add_u16 T k n t) k' = pt_get_bool T t k'"
          "k' \<noteq> k \<Longrightarrow> pt_get_bool T (pt_add_bool T k b t) k' = pt_get_bool T t k'"
begin

lemmas tree_simps = has_empty has_add get_add get_other absent [OF has_empty]

end

subsection \<open>\<open>TftpConfiguration\<close>\<close>

definition get_value_or :: "'a option \<Rightarrow> 'a \<Rightarrow> 'a" where
  "get_value_or x d = (case x of None \<Rightarrow> d | Some v \<Rightarrow> v)"

definition TftpConfiguration_fromProperties :: "'t ptree \<Rightarrow> 't \<Rightarrow> configuration \<Rightarrow> configuration" where
  "TftpConfiguration_fromProperties T properties c =
     c\<lparr>tc_tftpTimeout := get_value_or (pt_get_int T properties ''timeout'') (tc_tftpTimeout c),
       tc_tftpRetries := get_value_or (pt_get_u16 T properties ''retries'') (tc_tftpRetries c),
       tc_tftpServerPort := get_value_or (pt_get_u16 T properties ''port'') (tc_defaultTftpPort c),
       tc_dally := get_value_or (pt_get_bool T properties ''dally'') (tc_dally c)\<rparr>"

definition TftpConfiguration_make_from :: "'t ptree \<Rightarrow> 't \<Rightarrow> u16 \<Rightarrow> configuration" where
  "TftpConfiguration_make_from T properties defaultTftpPort =
     TftpConfiguration_fromProperties T properties (TftpConfiguration_make defaultTftpPort)"

definition TftpConfiguration_toProperties :: "'t ptree \<Rightarrow> bool \<Rightarrow> configuration \<Rightarrow> 't" where
  "TftpConfiguration_toProperties T full c =
     (let properties = pt_empty T;
          properties = (if full \<or> tc_tftpTimeout c \<noteq> DefaultTftpReceiveTimeout
            then pt_add_int T ''timeout'' (Some (tc_tftpTimeout c)) properties else properties);
          properties = (if full \<or> tc_tftpRetries c \<noteq> DefaultTftpRetries
            then pt_add_u16 T ''retries'' (Some (tc_tftpRetries c)) properties else properties);
          properties = (if full \<or> tc_tftpServerPort c \<noteq> tc_defaultTftpPort c
            then pt_add_u16 T ''port'' (Some (tc_tftpServerPort c)) properties else properties)
      in if full \<or> tc_dally c then pt_add_bool T ''dally'' (tc_dally c) properties else properties)"

text \<open>Stored and loaded into a configuration of the same default port, nothing is lost.\<close>

lemma TftpConfiguration_roundtrip:
  assumes "property_tree T"
  shows "TftpConfiguration_make_from T (TftpConfiguration_toProperties T full c) (tc_defaultTftpPort c) = c"
  using property_tree.tree_simps [OF assms]
  by (simp add: TftpConfiguration_make_from_def TftpConfiguration_fromProperties_def TftpConfiguration_make_def
      TftpConfiguration_toProperties_def get_value_or_def Let_def)

text \<open>With all values stored, it does not matter what they are loaded into.\<close>

lemma TftpConfiguration_roundtrip_full:
  assumes "property_tree T"
  shows "TftpConfiguration_fromProperties T (TftpConfiguration_toProperties T True c) d = TftpConfiguration_assign c d"
  using property_tree.tree_simps [OF assms]
  by (simp add: TftpConfiguration_fromProperties_def TftpConfiguration_assign_def
      TftpConfiguration_toProperties_def get_value_or_def Let_def)

subsection \<open>\<open>TftpOptionsConfiguration\<close>\<close>

definition TftpOptionsConfiguration_fromProperties ::
    "'t ptree \<Rightarrow> 't \<Rightarrow> options_configuration \<Rightarrow> options_configuration" where
  "TftpOptionsConfiguration_fromProperties T properties c =
     \<lparr>oc_handleTransferSizeOption =
        get_value_or (pt_get_bool T properties ''transfer_size'') (oc_handleTransferSizeOption c),
      oc_blockSizeOption = pt_get_u16 T properties ''block_size'',
      oc_timeoutOption = pt_get_int T properties ''timeout''\<rparr>"

definition TftpOptionsConfiguration_toProperties :: "'t ptree \<Rightarrow> bool \<Rightarrow> options_configuration \<Rightarrow> 't" where
  "TftpOptionsConfiguration_toProperties T full c =
     (let properties = pt_empty T;
          properties = (if full \<or> oc_handleTransferSizeOption c
            then pt_add_bool T ''transfer_size'' (oc_handleTransferSizeOption c) properties else properties);
          properties = (if full \<or> oc_blockSizeOption c \<noteq> None
            then pt_add_u16 T ''block_size'' (oc_blockSizeOption c) properties else properties)
      in if full \<or> oc_timeoutOption c \<noteq> None
         then pt_add_int T ''timeout'' (oc_timeoutOption c) properties else properties)"

lemma TftpOptionsConfiguration_roundtrip:
  assumes "property_tree T"
  shows "TftpOptionsConfiguration_fromProperties T (TftpOptionsConfiguration_toProperties T full c)
    TftpOptionsConfiguration_default = c"
  using property_tree.tree_simps [OF assms]
  by (cases c)
    (auto simp: TftpOptionsConfiguration_fromProperties_def TftpOptionsConfiguration_default_def
      TftpOptionsConfiguration_toProperties_def get_value_or_def Let_def)

subsection \<open>A property tree\<close>

text \<open>The children in order, each with the text of its value, read and written by a stream.\<close>

datatype property_value = IntValue "int option" | U16Value "u16 option" | BoolValue bool

definition list_tree :: "(string \<times> property_value) list ptree" where
  "list_tree =
     \<lparr>pt_empty = [],
      pt_has = (\<lambda>t k. map_of t k \<noteq> None),
      pt_get_int = (\<lambda>t k. case map_of t k of Some (IntValue i) \<Rightarrow> i | _ \<Rightarrow> None),
      pt_get_u16 = (\<lambda>t k. case map_of t k of Some (U16Value n) \<Rightarrow> n | _ \<Rightarrow> None),
      pt_get_bool = (\<lambda>t k. case map_of t k of Some (BoolValue b) \<Rightarrow> Some b | _ \<Rightarrow> None),
      pt_add_int = (\<lambda>k i t. t @ [(k, IntValue i)]),
      pt_add_u16 = (\<lambda>k n t. t @ [(k, U16Value n)]),
      pt_add_bool = (\<lambda>k b t. t @ [(k, BoolValue b)])\<rparr>"

interpretation list_tree: property_tree list_tree
  by unfold_locales (auto simp: list_tree_def map_add_def split: option.splits)

end
