(* ===== verification/Descriptions.thy ===== *)
theory Descriptions
  imports Environment
begin

text \<open>
  The tables of names of the enumerations (\<open>RequestTypeDescription.cpp\<close>,
  \<open>TransferStatusDescription.cpp\<close>, \<open>packets/PacketTypeDescription.cpp\<close>,
  \<open>packets/ErrorCodeDescription.cpp\<close>) and what is printed and read with them. Their base class
  \<open>Helper::Description\<close> is part of the Helper library: its functions \<open>name\<close> and \<open>enumeration\<close>
  are parameters, with what the code relies on as the locale \<open>description\<close>. The version of the
  library is at the end.
\<close>

type_synonym 'e table = "(string \<times> 'e) list"

definition unambiguous :: "'e table \<Rightarrow> bool" where
  "unambiguous t \<longleftrightarrow> distinct (map fst t) \<and> distinct (map snd t)"

locale description =
  fixes name :: "'e table \<Rightarrow> 'e \<Rightarrow> string" and enumeration :: "'e table \<Rightarrow> string \<Rightarrow> 'e option"
  assumes name: "unambiguous t \<Longrightarrow> (n, e) \<in> set t \<Longrightarrow> name t e = n"
    and enumeration: "unambiguous t \<Longrightarrow> enumeration t n = Some e \<longleftrightarrow> (n, e) \<in> set t"
begin

lemma enumeration_name: "unambiguous t \<Longrightarrow> e \<in> snd ` set t \<Longrightarrow> enumeration t (name t e) = Some e"
  by (auto simp: name enumeration)

lemma enumeration_unknown: "unambiguous t \<Longrightarrow> enumeration t n = None \<longleftrightarrow> n \<notin> fst ` set t"
  using enumeration [of t n] by (cases "enumeration t n") force+

end

subsection \<open>Tables\<close>

definition RequestTypeDescription :: "request_type table" where
  "RequestTypeDescription = [(''Read'', Read), (''Write'', Write)]"

definition TransferStatusDescription :: "transfer_status table" where
  "TransferStatusDescription =
     [(''Successful'', Successful),
      (''Communication Error'', CommunicationError),
      (''Request Error'', RequestError),
      (''Option Negotiation Error'', OptionNegotiationError),
      (''Transfer Error'', TransferError),
      (''Aborted'', Aborted)]"

definition PacketTypeDescription :: "packet_type table" where
  "PacketTypeDescription =
     [(''ReadRequest'', ReadRequest),
      (''WriteRequest'', WriteRequest),
      (''Data'', Data),
      (''Acknowledgement'', Acknowledgement),
      (''Error'', Error),
      (''OptionsAcknowledgement'', OptionsAcknowledgement)]"

definition ErrorCodeDescription :: "error_code table" where
  "ErrorCodeDescription =
     [(''Not defined'', NotDefined),
      (''File not found'', FileNotFound),
      (''Access violation'', AccessViolation),
      (''Disk full or allocation exceeds'', DiskFullOrAllocationExceeds),
      (''Illegal TFTP operation'', IllegalTftpOperation),
      (''Unknown transfer ID'', UnknownTransferId),
      (''File already exists'', 6),
      (''No such user'', 7),
      (''TFTP option refused'', TftpOptionRefused)]"

lemma unambiguous_tables [simp]:
  "unambiguous RequestTypeDescription" "unambiguous TransferStatusDescription"
  "unambiguous PacketTypeDescription" "unambiguous ErrorCodeDescription"
  by (simp_all add: unambiguous_def RequestTypeDescription_def TransferStatusDescription_def
      PacketTypeDescription_def ErrorCodeDescription_def)

text \<open>Every value has a name but the invalid packet type.\<close>

lemma complete_tables [simp]:
  "t \<in> snd ` set RequestTypeDescription" "status \<in> snd ` set TransferStatusDescription"
  "p \<in> snd ` set PacketTypeDescription \<longleftrightarrow> p \<noteq> Invalid"
  by (cases t, simp_all add: RequestTypeDescription_def)
    (cases status, simp_all add: TransferStatusDescription_def, cases p, simp_all add: PacketTypeDescription_def)

subsection \<open>Printing and reading\<close>

definition TransferStatus_output :: "(transfer_status table \<Rightarrow> transfer_status \<Rightarrow> string) \<Rightarrow> transfer_status \<Rightarrow> string \<Rightarrow> string" where
  "TransferStatus_output name transferStatus stream = stream @ name TransferStatusDescription transferStatus"

definition PacketType_output :: "(packet_type table \<Rightarrow> packet_type \<Rightarrow> string) \<Rightarrow> packet_type \<Rightarrow> string \<Rightarrow> string" where
  "PacketType_output name packetType stream = stream @ name PacketTypeDescription packetType"

definition ErrorCode_output :: "(error_code table \<Rightarrow> error_code \<Rightarrow> string) \<Rightarrow> error_code \<Rightarrow> string \<Rightarrow> string" where
  "ErrorCode_output name errorCode stream = stream @ name ErrorCodeDescription errorCode"

text \<open>
  A request type is the next word of the stream; another word is an
  \<open>invalid_option_value\<close>, an exception that carries the word.
\<close>

definition RequestType_input ::
    "(request_type table \<Rightarrow> string \<Rightarrow> request_type option) \<Rightarrow> string \<Rightarrow> string + request_type \<times> string" where
  "RequestType_input enumeration stream =
     (let stream = dropWhile isspace stream;
          requestTypeStr = takeWhile (\<lambda>c. \<not> isspace c) stream;
          stream = dropWhile (\<lambda>c. \<not> isspace c) stream
      in case enumeration RequestTypeDescription requestTypeStr of
           None \<Rightarrow> Inl requestTypeStr
         | Some t \<Rightarrow> Inr (t, stream))"

definition ErrorPacket_toString :: "(error_code table \<Rightarrow> error_code \<Rightarrow> string) \<Rightarrow> error_packet \<Rightarrow> string" where
  "ErrorPacket_toString name p =
     (let q = [CHR 0x22]
      in ''ERR: EC: '' @ name ErrorCodeDescription (ep_errorCode p) @ '' ('' @ to_string (unat (ep_errorCode p)) @
         '') - DESC: '' @ q @ ep_errorMessage p @ q)"

text \<open>The words of the command line are the names of the table, and no others are accepted.\<close>

lemma enumeration_request_type:
  assumes "description name enumeration"
  shows "enumeration RequestTypeDescription w =
    (if w = ''Read'' then Some Read else if w = ''Write'' then Some Write else None)"
  using description.enumeration [OF assms unambiguous_tables(1), of w]
    description.enumeration_unknown [OF assms unambiguous_tables(1), of w]
  by (auto simp: RequestTypeDescription_def)

lemma RequestType_input_eq:
  assumes "description name enumeration"
  shows "RequestType_input enumeration stream =
    (let w = takeWhile (\<lambda>c. \<not> isspace c) (dropWhile isspace stream);
         rest = dropWhile (\<lambda>c. \<not> isspace c) (dropWhile isspace stream)
     in if w = ''Read'' then Inr (Read, rest) else if w = ''Write'' then Inr (Write, rest) else Inl w)"
  by (simp add: RequestType_input_def enumeration_request_type [OF assms] Let_def)

lemma RequestType_input_name:
  assumes "description name enumeration"
  shows "RequestType_input enumeration (name RequestTypeDescription t) = Inr (t, [])"
proof -
  have "(name RequestTypeDescription t, t) \<in> set RequestTypeDescription"
    using description.enumeration_name [OF assms unambiguous_tables(1), of t]
      description.enumeration [OF assms unambiguous_tables(1)] by simp
  then have "name RequestTypeDescription t = (case t of Read \<Rightarrow> ''Read'' | Write \<Rightarrow> ''Write'')"
    by (auto simp: RequestTypeDescription_def)
  then show ?thesis
    by (cases t) (simp_all add: RequestType_input_eq [OF assms] isspace_def)
qed

subsection \<open>A description\<close>

text \<open>Both functions as searches in the table.\<close>

definition table_name :: "'e table \<Rightarrow> 'e \<Rightarrow> string" where
  "table_name t e = (case List.find (\<lambda>p. snd p = e) t of None \<Rightarrow> [] | Some p \<Rightarrow> fst p)"

definition table_enumeration :: "'e table \<Rightarrow> string \<Rightarrow> 'e option" where
  "table_enumeration t n = map_of t n"

lemma find_unambiguous:
  assumes "distinct (map snd t)" and "(n, e) \<in> set t"
  shows "List.find (\<lambda>p. snd p = e) t = Some (n, e)"
  using assms
proof (induction t)
  case (Cons p t)
  then show ?case by (cases p) (force simp: image_iff)
qed simp

interpretation searched: description table_name table_enumeration
  by unfold_locales (simp_all add: table_name_def table_enumeration_def unambiguous_def find_unambiguous)

subsection \<open>The version\<close>

text \<open>
  \<open>tftpVersion\<close> (\<open>Tftp.cpp\<close>): the entry of the library in a list of versions, its key and what is
  known of it. The licence is written in \<open>Version.hpp.in\<close>; the other constants are filled in when
  the library is built, from the description of the project, and are a parameter.
\<close>

record project_description =
  PROJECT_NAME :: string
  PROJECT_DESCRIPTION :: string
  PROJECT_HOMEPAGE_URL :: string
  PROJECT_VERSION_FULL :: string

record version_information =
  vi_name :: string
  vi_version :: string
  vi_license :: string
  vi_url :: string

definition Version_License :: string where
  "Version_License = ''MPL-2.0''"

definition tftpVersion :: "project_description \<Rightarrow> string \<times> version_information" where
  "tftpVersion project =
     (PROJECT_NAME project,
      \<lparr>vi_name = PROJECT_DESCRIPTION project, vi_version = PROJECT_VERSION_FULL project,
       vi_license = Version_License, vi_url = PROJECT_HOMEPAGE_URL project\<rparr>)"

end
