(* ===== verification/ProgramOptions.thy ===== *)
theory ProgramOptions
  imports ConfigurationProperties Descriptions CheckFilename "HOL-Library.Multiset"
begin

text \<open>
  The command line options of both applications: what the two functions \<open>options\<close> of
  \<open>TftpConfiguration.cpp\<close> and \<open>TftpOptionsConfiguration.cpp\<close> register.
  \<open>boost::program_options\<close> is a parameter: \<open>store\<close> and \<open>parse_command_line\<close> as one function,
  and \<open>notify\<close>, with what the code relies on as the locale \<open>command_line\<close>.
\<close>

subsection \<open>Descriptions of options\<close>

text \<open>The values that are stored, by the type of the variable they are for.\<close>

datatype option_value =
    NoValue
  | PortValue u16
  | SecondsValue int
  | FlagValue bool
  | BlockSizeValue "u16 option"
  | RequestTypeValue request_type
  | PathValue path
  | TextValue string
  | AddressValue ip_address

datatype value_type =
  Untyped | PortType | SecondsType | FlagType | BlockSizeType | RequestTypeType | PathType | TextType | AddressType

text \<open>
  An option: its long and its short name and its value semantic. The notifier is called with
  the value that was stored; for \<open>value( &variable )\<close> it is the assignment of the variable.
\<close>

record 's option_description =
  od_name :: string
  od_short :: char
  od_type :: value_type
  od_required :: bool
  od_implicit :: "option_value option"
  od_default :: "option_value option"
  od_notifier :: "option_value \<Rightarrow> 's \<Rightarrow> 's"

type_synonym variables_map = "string \<Rightarrow> option_value option"

definition od_notify :: "variables_map \<Rightarrow> 's option_description \<Rightarrow> 's \<Rightarrow> 's" where
  "od_notify vm opt s = (case vm (od_name opt) of None \<Rightarrow> s | Some v \<Rightarrow> od_notifier opt v s)"

definition missing :: "'s option_description list \<Rightarrow> variables_map \<Rightarrow> bool" where
  "missing d vm \<longleftrightarrow> list_ex (\<lambda>opt. od_required opt \<and> vm (od_name opt) = None) d"

text \<open>
  The library: the options stored for a command line, or an error, and the variables after
  \<open>notify\<close>. A short name that two options have is ambiguous; without arguments there are the
  default values; \<open>notify\<close> fails exactly if a required option is missing, and calls the
  notifiers in an order of its own.
\<close>

record 's program_options =
  po_store :: "'s option_description list \<Rightarrow> string list \<Rightarrow> string + variables_map"
  po_notify :: "'s option_description list \<Rightarrow> variables_map \<Rightarrow> 's \<Rightarrow> string + 's"

definition ambiguous :: "'s option_description list \<Rightarrow> char \<Rightarrow> bool" where
  "ambiguous d c \<longleftrightarrow> 1 < length (filter (\<lambda>opt. od_short opt = c) d)"

definition default_values :: "'s option_description list \<Rightarrow> variables_map" where
  "default_values d = map_of (concat (map (\<lambda>opt. case od_default opt of
     None \<Rightarrow> [] | Some v \<Rightarrow> [(od_name opt, v)]) d))"

locale command_line =
  fixes P :: "'s program_options"
  assumes store_ambiguous: "ambiguous d c \<Longrightarrow> c \<noteq> CHR ''-'' \<Longrightarrow> \<exists>e. po_store P d ([CHR ''-'', c] # args) = Inl e"
    and store_nothing: "distinct (map od_name d) \<Longrightarrow> po_store P d [] = Inr (default_values d)"
    and notify_missing: "missing d vm \<Longrightarrow> \<exists>e. po_notify P d vm s = Inl e"
    and notify_order: "\<not> missing d vm \<Longrightarrow>
      \<exists>d'. mset d' = mset d \<and> po_notify P d vm s = Inr (fold (od_notify vm) d' s)"
begin

text \<open>The order is no matter if the notifiers of different options do not interfere.\<close>

lemma notify_independent:
  assumes "\<not> missing d vm"
    and "\<And>x y. x \<in> set d \<Longrightarrow> y \<in> set d \<Longrightarrow> od_notify vm x \<circ> od_notify vm y = od_notify vm y \<circ> od_notify vm x"
  shows "po_notify P d vm s = Inr (fold (od_notify vm) d s)"
proof -
  obtain d' where d': "mset d' = mset d" "po_notify P d vm s = Inr (fold (od_notify vm) d' s)"
    using notify_order [OF assms(1)] by blast
  have "fold (od_notify vm) d = fold (od_notify vm) d'"
    using assms(2) d'(1) by (intro fold_multiset_equiv) (auto simp flip: set_mset_mset)
  with d'(2) show ?thesis by simp
qed

end

subsection \<open>The options of the configurations\<close>

text \<open>The options of a part of the variables.\<close>

definition lift_option :: "(('a \<Rightarrow> 'a) \<Rightarrow> 's \<Rightarrow> 's) \<Rightarrow> 'a option_description \<Rightarrow> 's option_description" where
  "lift_option upd opt =
     \<lparr>od_name = od_name opt, od_short = od_short opt, od_type = od_type opt, od_required = od_required opt,
      od_implicit = od_implicit opt, od_default = od_default opt,
      od_notifier = (\<lambda>v. upd (od_notifier opt v))\<rparr>"

definition TftpConfiguration_options :: "configuration option_description list" where
  "TftpConfiguration_options =
     [\<lparr>od_name = ''server-port'', od_short = CHR ''p'', od_type = PortType, od_required = False,
       od_implicit = None, od_default = None,
       od_notifier = (\<lambda>v c. case v of PortValue p \<Rightarrow> c\<lparr>tc_tftpServerPort := p\<rparr> | _ \<Rightarrow> c)\<rparr>,
      \<lparr>od_name = ''tftp-timeout'', od_short = CHR ''t'', od_type = SecondsType, od_required = False,
       od_implicit = None, od_default = None,
       od_notifier = (\<lambda>v c. case v of SecondsValue t \<Rightarrow> c\<lparr>tc_tftpTimeout := t\<rparr> | _ \<Rightarrow> c)\<rparr>,
      \<lparr>od_name = ''dally'', od_short = CHR ''d'', od_type = FlagType, od_required = False,
       od_implicit = Some (FlagValue True), od_default = None,
       od_notifier = (\<lambda>v c. case v of FlagValue b \<Rightarrow> c\<lparr>tc_dally := b\<rparr> | _ \<Rightarrow> c)\<rparr>]"

definition BlockSizeOptionDefault :: u16 where "BlockSizeOptionDefault = 1468"

definition TftpOptionsConfiguration_options :: "options_configuration option_description list" where
  "TftpOptionsConfiguration_options =
     [\<lparr>od_name = ''block-size-option'', od_short = CHR ''b'', od_type = BlockSizeType, od_required = False,
       od_implicit = Some (BlockSizeValue (Some BlockSizeOptionDefault)), od_default = None,
       od_notifier = (\<lambda>v c. case v of BlockSizeValue b \<Rightarrow> c\<lparr>oc_blockSizeOption := b\<rparr> | _ \<Rightarrow> c)\<rparr>,
      \<lparr>od_name = ''timeout-option'', od_short = CHR ''i'', od_type = SecondsType, od_required = False,
       od_implicit = Some (SecondsValue DefaultTftpReceiveTimeout), od_default = None,
       od_notifier = (\<lambda>v c. case v of SecondsValue t \<Rightarrow> c\<lparr>oc_timeoutOption := Some t\<rparr> | _ \<Rightarrow> c)\<rparr>,
      \<lparr>od_name = ''handle-transfer-size-option'', od_short = CHR ''s'', od_type = FlagType, od_required = False,
       od_implicit = Some (FlagValue True), od_default = None,
       od_notifier = (\<lambda>v c. case v of FlagValue b \<Rightarrow> c\<lparr>oc_handleTransferSizeOption := b\<rparr> | _ \<Rightarrow> c)\<rparr>]"

text \<open>A variable has the value that is stored for its option, or keeps its own.\<close>

definition port_of :: "option_value option \<Rightarrow> u16 \<Rightarrow> u16" where
  "port_of x d = (case x of Some (PortValue p) \<Rightarrow> p | _ \<Rightarrow> d)"

definition seconds_of :: "option_value option \<Rightarrow> int \<Rightarrow> int" where
  "seconds_of x d = (case x of Some (SecondsValue t) \<Rightarrow> t | _ \<Rightarrow> d)"

definition flag_of :: "option_value option \<Rightarrow> bool \<Rightarrow> bool" where
  "flag_of x d = (case x of Some (FlagValue b) \<Rightarrow> b | _ \<Rightarrow> d)"

definition block_size_of :: "option_value option \<Rightarrow> u16 option \<Rightarrow> u16 option" where
  "block_size_of x d = (case x of Some (BlockSizeValue b) \<Rightarrow> b | _ \<Rightarrow> d)"

definition timeout_of :: "option_value option \<Rightarrow> int option \<Rightarrow> int option" where
  "timeout_of x d = (case x of Some (SecondsValue t) \<Rightarrow> Some t | _ \<Rightarrow> d)"

definition path_of :: "option_value option \<Rightarrow> path \<Rightarrow> path" where
  "path_of x d = (case x of Some (PathValue p) \<Rightarrow> p | _ \<Rightarrow> d)"

definition text_of :: "option_value option \<Rightarrow> string \<Rightarrow> string" where
  "text_of x d = (case x of Some (TextValue t) \<Rightarrow> t | _ \<Rightarrow> d)"

definition address_of :: "option_value option \<Rightarrow> ip_address \<Rightarrow> ip_address" where
  "address_of x d = (case x of Some (AddressValue a) \<Rightarrow> a | _ \<Rightarrow> d)"

definition request_type_of :: "option_value option \<Rightarrow> request_type \<Rightarrow> request_type" where
  "request_type_of x d = (case x of Some (RequestTypeValue t) \<Rightarrow> t | _ \<Rightarrow> d)"

definition configuration_given :: "variables_map \<Rightarrow> configuration" where
  "configuration_given vm =
     \<lparr>tc_tftpTimeout = seconds_of (vm ''tftp-timeout'') 2, tc_tftpRetries = 1,
      tc_tftpServerPort = port_of (vm ''server-port'') 69, tc_dally = flag_of (vm ''dally'') False,
      tc_defaultTftpPort = 69\<rparr>"

definition options_configuration_given :: "variables_map \<Rightarrow> options_configuration" where
  "options_configuration_given vm =
     \<lparr>oc_handleTransferSizeOption = flag_of (vm ''handle-transfer-size-option'') False,
      oc_blockSizeOption = block_size_of (vm ''block-size-option'') None,
      oc_timeoutOption = timeout_of (vm ''timeout-option'') None\<rparr>"

definition assigns :: "variables_map \<Rightarrow> 's option_description list \<Rightarrow> ('s \<Rightarrow> 's) list \<Rightarrow> bool" where
  "assigns vm d fs \<longleftrightarrow> map (od_notify vm) d = fs"

lemma assigns_lift:
  assumes "assigns vm d fs" and "\<And>s. upd (\<lambda>x. x) s = s"
  shows "assigns vm (map (lift_option upd) d) (map upd fs)"
proof -
  have "od_notify vm (lift_option upd opt) = upd (od_notify vm opt)" for opt
    using assms(2) by (cases "vm (od_name opt)") (auto simp: od_notify_def [abs_def] lift_option_def)
  then show ?thesis using assms(1) by (auto simp: assigns_def)
qed

lemma assigns_append: "assigns vm d fs \<Longrightarrow> assigns vm d' fs' \<Longrightarrow> assigns vm (d @ d') (fs @ fs')"
  by (auto simp: assigns_def)

text \<open>The assignments as updates: the reader of a value keeps a variable that is given none.\<close>

lemma assigned:
  "(case x of None \<Rightarrow> s | Some v \<Rightarrow> s) = s"
  "upd1 (\<lambda>d. d) s = s \<Longrightarrow> (case x of None \<Rightarrow> s | Some v \<Rightarrow>
     (case v of PortValue p \<Rightarrow> upd1 (\<lambda>_. p) s | _ \<Rightarrow> s)) = upd1 (port_of x) s"
  "upd2 (\<lambda>d. d) s = s \<Longrightarrow> (case x of None \<Rightarrow> s | Some v \<Rightarrow>
     (case v of SecondsValue p \<Rightarrow> upd2 (\<lambda>_. p) s | _ \<Rightarrow> s)) = upd2 (seconds_of x) s"
  "upd3 (\<lambda>d. d) s = s \<Longrightarrow> (case x of None \<Rightarrow> s | Some v \<Rightarrow>
     (case v of FlagValue p \<Rightarrow> upd3 (\<lambda>_. p) s | _ \<Rightarrow> s)) = upd3 (flag_of x) s"
  "upd4 (\<lambda>d. d) s = s \<Longrightarrow> (case x of None \<Rightarrow> s | Some v \<Rightarrow>
     (case v of BlockSizeValue p \<Rightarrow> upd4 (\<lambda>_. p) s | _ \<Rightarrow> s)) = upd4 (block_size_of x) s"
  "upd5 (\<lambda>d. d) s = s \<Longrightarrow> (case x of None \<Rightarrow> s | Some v \<Rightarrow>
     (case v of PathValue p \<Rightarrow> upd5 (\<lambda>_. p) s | _ \<Rightarrow> s)) = upd5 (path_of x) s"
  "upd6 (\<lambda>d. d) s = s \<Longrightarrow> (case x of None \<Rightarrow> s | Some v \<Rightarrow>
     (case v of TextValue p \<Rightarrow> upd6 (\<lambda>_. p) s | _ \<Rightarrow> s)) = upd6 (text_of x) s"
  "upd7 (\<lambda>d. d) s = s \<Longrightarrow> (case x of None \<Rightarrow> s | Some v \<Rightarrow>
     (case v of AddressValue p \<Rightarrow> upd7 (\<lambda>_. p) s | _ \<Rightarrow> s)) = upd7 (address_of x) s"
  "upd8 (\<lambda>d. d) s = s \<Longrightarrow> (case x of None \<Rightarrow> s | Some v \<Rightarrow>
     (case v of RequestTypeValue p \<Rightarrow> upd8 (\<lambda>_. p) s | _ \<Rightarrow> s)) = upd8 (request_type_of x) s"
  "upd9 (\<lambda>d. d) s = s \<Longrightarrow> (case x of None \<Rightarrow> s | Some v \<Rightarrow>
     (case v of SecondsValue p \<Rightarrow> upd9 (\<lambda>_. Some p) s | _ \<Rightarrow> s)) = upd9 (timeout_of x) s"
  by (simp_all add: port_of_def [abs_def] seconds_of_def [abs_def] flag_of_def [abs_def] block_size_of_def [abs_def]
      path_of_def [abs_def] text_of_def [abs_def] address_of_def [abs_def] request_type_of_def [abs_def] timeout_of_def [abs_def]
      split: option.split option_value.split)

lemma assigns_TftpConfiguration:
  "assigns vm TftpConfiguration_options
     [tc_tftpServerPort_update (port_of (vm ''server-port'')),
      tc_tftpTimeout_update (seconds_of (vm ''tftp-timeout'')),
      tc_dally_update (flag_of (vm ''dally''))]"
  by (simp add: assigns_def TftpConfiguration_options_def od_notify_def [abs_def] assigned cong: option.case_cong)

lemma assigns_TftpOptionsConfiguration:
  "assigns vm TftpOptionsConfiguration_options
     [oc_blockSizeOption_update (block_size_of (vm ''block-size-option'')),
      oc_timeoutOption_update (timeout_of (vm ''timeout-option'')),
      oc_handleTransferSizeOption_update (flag_of (vm ''handle-transfer-size-option''))]"
  by (simp add: assigns_def TftpOptionsConfiguration_options_def od_notify_def [abs_def] assigned cong: option.case_cong)

context command_line
begin

lemma notify_assigns:
  assumes "\<not> missing d vm" and "assigns vm d fs"
    and "\<forall>f\<in>set fs. \<forall>g\<in>set fs. \<forall>s. f (g s) = g (f s)"
  shows "po_notify P d vm s = Inr (fold (\<lambda>f. f) fs s)"
proof -
  have fs: "fs = map (od_notify vm) d" using assms(2) by (simp add: assigns_def)
  have "po_notify P d vm s = Inr (fold (od_notify vm) d s)"
    using assms(1,3) by (intro notify_independent) (auto simp: fs fun_eq_iff)
  then show ?thesis by (simp add: fs fold_map comp_def)
qed

end

subsection \<open>Exit status\<close>

text \<open>
  The result of \<open>main\<close>: the exit status, or what ended the program before it had one. All
  exceptions are caught, with the same exit status.
\<close>

definition EXIT_SUCCESS :: int where "EXIT_SUCCESS = 0"
definition EXIT_FAILURE :: int where "EXIT_FAILURE = 1"

definition caught :: "exn \<Rightarrow> exn + int" where
  "caught e = (if is_exception e then Inr EXIT_FAILURE else Inl e)"

subsection \<open>A command line\<close>

text \<open>
  An implementation of the interface: every option as \<open>--name\<close> or \<open>-c\<close>, followed by its
  value. A path is a single name and an address a number.
\<close>

definition read_number :: "string \<Rightarrow> nat option" where
  "read_number w = (if w \<noteq> [] \<and> list_all isdigit w then Some (number_of_digits w) else None)"

definition read_u16 :: "string \<Rightarrow> u16 option" where
  "read_u16 w = (case read_number w of
     None \<Rightarrow> None | Some n \<Rightarrow> if n < 2 ^ 16 then Some (word_of_nat n) else None)"

fun read_value :: "value_type \<Rightarrow> string \<Rightarrow> option_value option" where
  "read_value Untyped w = None"
| "read_value PortType w = map_option PortValue (read_u16 w)"
| "read_value SecondsType w = map_option (\<lambda>n. SecondsValue (int n)) (read_number w)"
| "read_value FlagType w =
     (if w = ''true'' then Some (FlagValue True) else if w = ''false'' then Some (FlagValue False) else None)"
| "read_value BlockSizeType w = map_option (\<lambda>n. BlockSizeValue (Some n)) (read_u16 w)"
| "read_value RequestTypeType w =
     (case RequestType_input table_enumeration w of Inl e \<Rightarrow> None | Inr (t, rest) \<Rightarrow> Some (RequestTypeValue t))"
| "read_value PathType w = Some (PathValue [w])"
| "read_value TextType w = Some (TextValue w)"
| "read_value AddressType w = map_option (\<lambda>n. AddressValue (V4 (word_of_nat n))) (read_number w)"

fun named :: "string \<Rightarrow> 's option_description \<Rightarrow> bool" where
  "named (a # b # w) opt \<longleftrightarrow>
     a = CHR ''-'' \<and> (if b = CHR ''-'' then od_name opt = w else od_short opt = b \<and> w = [])"
| "named _ opt \<longleftrightarrow> False"

fun is_option :: "string \<Rightarrow> bool" where
  "is_option (c # w) \<longleftrightarrow> c = CHR ''-''"
| "is_option [] \<longleftrightarrow> False"

definition find_option :: "'s option_description list \<Rightarrow> string \<Rightarrow> string + 's option_description" where
  "find_option d tok =
     (case filter (named tok) d of
        [] \<Rightarrow> Inl ''unknown option''
      | opt # opts \<Rightarrow> if opts = [] then Inr opt else Inl ''ambiguous option'')"

definition implicit_value :: "'s option_description \<Rightarrow> string + option_value" where
  "implicit_value opt =
     (if od_type opt = Untyped then Inr NoValue
      else case od_implicit opt of None \<Rightarrow> Inl ''missing value'' | Some v \<Rightarrow> Inr v)"

definition given_value :: "'s option_description \<Rightarrow> string \<Rightarrow> string + option_value" where
  "given_value opt w =
     (case read_value (od_type opt) w of None \<Rightarrow> Inl ''invalid value'' | Some v \<Rightarrow> Inr v)"

fun store_arguments ::
    "'s option_description list \<Rightarrow> string list \<Rightarrow> variables_map \<Rightarrow> string + variables_map" where
  "store_arguments d [] vm = Inr vm"
| "store_arguments d [tok] vm =
     (case find_option d tok of
        Inl e \<Rightarrow> Inl e
      | Inr opt \<Rightarrow>
          (case implicit_value opt of Inl e \<Rightarrow> Inl e | Inr v \<Rightarrow> Inr (vm(od_name opt \<mapsto> v))))"
| "store_arguments d (tok # w # args) vm =
     (case find_option d tok of
        Inl e \<Rightarrow> Inl e
      | Inr opt \<Rightarrow>
          if is_option w \<or> od_type opt = Untyped
          then (case implicit_value opt of
                  Inl e \<Rightarrow> Inl e | Inr v \<Rightarrow> store_arguments d (w # args) (vm(od_name opt \<mapsto> v)))
          else (case given_value opt w of
                  Inl e \<Rightarrow> Inl e | Inr v \<Rightarrow> store_arguments d args (vm(od_name opt \<mapsto> v))))"

definition simple_options :: "'s program_options" where
  "simple_options =
     \<lparr>po_store = (\<lambda>d args. store_arguments d args (default_values d)),
      po_notify = (\<lambda>d vm s. if missing d vm then Inl ''missing option'' else Inr (fold (od_notify vm) d s))\<rparr>"

lemma store_arguments_ambiguous:
  assumes "ambiguous d c" and "c \<noteq> CHR ''-''"
  shows "\<exists>e. store_arguments d ([CHR ''-'', c] # args) vm = Inl e"
proof -
  from assms(2) have "filter (named [CHR ''-'', c]) d = filter (\<lambda>opt. od_short opt = c) d"
    by (intro filter_cong) auto
  with assms(1) have "find_option d [CHR ''-'', c] = Inl ''ambiguous option''"
    unfolding find_option_def ambiguous_def by (auto split: list.split)
  then show ?thesis by (cases args) simp_all
qed

interpretation simple: command_line simple_options
  by unfold_locales (use store_arguments_ambiguous in \<open>auto simp: simple_options_def\<close>)

end
