(* ===== verification/ClientCommandLine.thy ===== *)
theory ClientCommandLine
  imports ClientApplication ProgramOptions
begin

text \<open>
  \<open>main\<close> of \<open>app/tftp_client/tftp_client.cpp\<close>: the command line, the operation it asks for and the
  exit status. What the program prints is left out, and \<open>ioContext.run()\<close>, which calls the
  handlers of the operation until it has completed, is the parameter \<open>run\<close>.
\<close>

text \<open>The variables of \<open>main\<close> the options are for.\<close>

record client_variables =
  mv_requestType :: request_type
  mv_localFile :: path
  mv_remoteFile :: string
  mv_address :: ip_address
  mv_tftpConfiguration :: configuration
  mv_tftpOptionsConfiguration :: options_configuration

definition TftpClient_variables :: client_variables where
  "TftpClient_variables =
     \<lparr>mv_requestType = Read, mv_localFile = [], mv_remoteFile = [], mv_address = V4 0,
      mv_tftpConfiguration = TftpConfiguration_make DefaultTftpPort,
      mv_tftpOptionsConfiguration = TftpOptionsConfiguration_default\<rparr>"

definition TftpClient_options :: "client_variables option_description list" where
  "TftpClient_options =
     [\<lparr>od_name = ''help'', od_short = CHR ''h'', od_type = Untyped, od_required = False,
       od_implicit = None, od_default = None, od_notifier = (\<lambda>v s. s)\<rparr>,
      \<lparr>od_name = ''request-type'', od_short = CHR ''r'', od_type = RequestTypeType, od_required = True,
       od_implicit = None, od_default = None,
       od_notifier = (\<lambda>v s. case v of RequestTypeValue t \<Rightarrow> s\<lparr>mv_requestType := t\<rparr> | _ \<Rightarrow> s)\<rparr>,
      \<lparr>od_name = ''local-file'', od_short = CHR ''l'', od_type = PathType, od_required = False,
       od_implicit = None, od_default = None,
       od_notifier = (\<lambda>v s. case v of PathValue p \<Rightarrow> s\<lparr>mv_localFile := p\<rparr> | _ \<Rightarrow> s)\<rparr>,
      \<lparr>od_name = ''remote-file'', od_short = CHR ''r'', od_type = TextType, od_required = True,
       od_implicit = None, od_default = None,
       od_notifier = (\<lambda>v s. case v of TextValue t \<Rightarrow> s\<lparr>mv_remoteFile := t\<rparr> | _ \<Rightarrow> s)\<rparr>,
      \<lparr>od_name = ''address'', od_short = CHR ''a'', od_type = AddressType, od_required = True,
       od_implicit = None, od_default = None,
       od_notifier = (\<lambda>v s. case v of AddressValue a \<Rightarrow> s\<lparr>mv_address := a\<rparr> | _ \<Rightarrow> s)\<rparr>] @
     map (lift_option mv_tftpConfiguration_update) TftpConfiguration_options @
     map (lift_option mv_tftpOptionsConfiguration_update) TftpOptionsConfiguration_options"

subsection \<open>The operation\<close>

datatype client_operation =
    ClientReadOperation "stream_file client_read"
  | ClientWriteOperation "stream_file client_write"

text \<open>
  The disk of the client: a path of a text, the last element of a path, the size of a file,
  which is \<open>None\<close> where \<open>file_size\<close> throws, whether a file can be opened, and its content.
\<close>

record client_disk =
  cd_path :: "string \<Rightarrow> path"
  cd_filename :: "path \<Rightarrow> path"
  cd_file_size :: "path \<Rightarrow> u64 option"
  cd_openable :: "path \<Rightarrow> bool"
  cd_content :: "path \<Rightarrow> bytes"

definition map_result :: "('a \<Rightarrow> 'b) \<Rightarrow> 'a result \<Rightarrow> 'b result" where
  "map_result f = map_sum (map_prod id f) f"

definition TftpClient_localFile :: "client_disk \<Rightarrow> client_variables \<Rightarrow> path" where
  "TftpClient_localFile FS v =
     (if mv_localFile v = [] then cd_filename FS (cd_path FS (mv_remoteFile v)) else mv_localFile v)"

definition TftpClient_operation :: "client_disk \<Rightarrow> client_variables \<Rightarrow> world \<Rightarrow> client_operation result" where
  "TftpClient_operation FS v w =
     (let localFile = TftpClient_localFile FS v
      in case mv_requestType v of
           Read \<Rightarrow> map_result ClientReadOperation
             (TftpClient_readOperation ClientImpl_new (mv_tftpConfiguration v) (mv_tftpOptionsConfiguration v)
               (StreamFile_make Receive localFile None (cd_openable FS localFile) (cd_content FS localFile))
               (mv_remoteFile v) (mv_address v) w)
         | Write \<Rightarrow> map_result ClientWriteOperation
             (TftpClient_writeOperation ClientImpl_new (mv_tftpConfiguration v) (mv_tftpOptionsConfiguration v)
               (cd_file_size FS localFile)
               (\<lambda>sz. StreamFile_make Transmit localFile sz (cd_openable FS localFile) (cd_content FS localFile))
               (mv_remoteFile v) (mv_address v) w))"

fun TftpClient_request :: "helper \<Rightarrow> net \<Rightarrow> client_operation \<Rightarrow> client_operation result" where
  "TftpClient_request H N (ClientReadOperation op) =
     map_result ClientReadOperation (ClientRead_request H N stream_receiver op)"
| "TftpClient_request H N (ClientWriteOperation op) =
     map_result ClientWriteOperation (ClientWrite_request H N stream_transmitter op)"

subsection \<open>\<open>main\<close>\<close>

definition TftpClient_transfer ::
    "helper \<Rightarrow> net \<Rightarrow> client_disk \<Rightarrow> client_operation cmd \<Rightarrow> world \<Rightarrow> client_variables \<Rightarrow>
     (exn + int) \<times> client_operation option" where
  "TftpClient_transfer H N FS run w v =
     (case TftpClient_operation FS v w of
        Inl (e, tftpOperation) \<Rightarrow> (caught e, None)
      | Inr tftpOperation \<Rightarrow>
          (case block [TftpClient_request H N, run] tftpOperation of
             Inl (e, op) \<Rightarrow> (caught e, Some op)
           | Inr op \<Rightarrow> (Inr EXIT_SUCCESS, Some op)))"

definition TftpClient_main ::
    "client_variables program_options \<Rightarrow> helper \<Rightarrow> net \<Rightarrow> client_disk \<Rightarrow> client_operation cmd \<Rightarrow> world \<Rightarrow>
     string list \<Rightarrow> (exn + int) \<times> client_operation option" where
  "TftpClient_main P H N FS run w argv =
     (case po_store P TftpClient_options argv of
        Inl e \<Rightarrow> (Inr EXIT_FAILURE, None)
      | Inr variablesMap \<Rightarrow>
          if variablesMap ''help'' \<noteq> None then (Inr EXIT_FAILURE, None)
          else case po_notify P TftpClient_options variablesMap TftpClient_variables of
              Inl e \<Rightarrow> (Inr EXIT_FAILURE, None)
            | Inr v \<Rightarrow> TftpClient_transfer H N FS run w v)"

subsection \<open>What the command line means\<close>

definition client_variables_given :: "variables_map \<Rightarrow> client_variables" where
  "client_variables_given vm =
     \<lparr>mv_requestType = request_type_of (vm ''request-type'') Read, mv_localFile = path_of (vm ''local-file'') [],
      mv_remoteFile = text_of (vm ''remote-file'') [], mv_address = address_of (vm ''address'') (V4 0),
      mv_tftpConfiguration = configuration_given vm,
      mv_tftpOptionsConfiguration = options_configuration_given vm\<rparr>"

lemma assigns_TftpClient:
  "assigns vm TftpClient_options
     ([(\<lambda>s. s), mv_requestType_update (request_type_of (vm ''request-type'')),
       mv_localFile_update (path_of (vm ''local-file'')), mv_remoteFile_update (text_of (vm ''remote-file'')),
       mv_address_update (address_of (vm ''address''))] @
      map mv_tftpConfiguration_update
        [tc_tftpServerPort_update (port_of (vm ''server-port'')),
         tc_tftpTimeout_update (seconds_of (vm ''tftp-timeout'')), tc_dally_update (flag_of (vm ''dally''))] @
      map mv_tftpOptionsConfiguration_update
        [oc_blockSizeOption_update (block_size_of (vm ''block-size-option'')),
         oc_timeoutOption_update (timeout_of (vm ''timeout-option'')),
         oc_handleTransferSizeOption_update (flag_of (vm ''handle-transfer-size-option''))])"
  unfolding TftpClient_options_def
  by (intro assigns_append assigns_lift assigns_TftpConfiguration assigns_TftpOptionsConfiguration)
    (simp_all add: assigns_def od_notify_def [abs_def] assigned cong: option.case_cong)

lemma missing_TftpClient:
  "missing TftpClient_options vm \<longleftrightarrow>
     vm ''request-type'' = None \<or> vm ''remote-file'' = None \<or> vm ''address'' = None"
  by (simp add: missing_def TftpClient_options_def TftpConfiguration_options_def
      TftpOptionsConfiguration_options_def lift_option_def)

lemma notified_TftpClient:
  assumes "command_line P" and "\<not> missing TftpClient_options vm"
  shows "po_notify P TftpClient_options vm TftpClient_variables = Inr (client_variables_given vm)"
  by (subst command_line.notify_assigns [OF assms assigns_TftpClient])
    (auto simp: client_variables_given_def TftpClient_variables_def configuration_given_def
      options_configuration_given_def TftpConfiguration_make_def TftpOptionsConfiguration_default_def
      DefaultTftpPort_def DefaultTftpReceiveTimeout_def DefaultTftpRetries_def)

end
