(* ===== verification/ServerCommandLine.thy ===== *)
theory ServerCommandLine
  imports ServerApplication ProgramOptions
begin

text \<open>
  \<open>main\<close> of \<open>app/tftp_server/tftp_server.cpp\<close>: the command line and the start of the server. What
  the program prints is left out; \<open>ioContext.run()\<close>, which calls the handlers of the server and of
  its operations until there is nothing left to wait for, is the parameter \<open>run\<close>; with a sequence
  of inputs it is \<open>TftpServer_run\<close>.
\<close>

definition TftpServer_options :: "path \<Rightarrow> tftp_server option_description list" where
  "TftpServer_options current_path =
     [\<lparr>od_name = ''help'', od_short = CHR ''h'', od_type = Untyped, od_required = False,
       od_implicit = None, od_default = None, od_notifier = (\<lambda>v s. s)\<rparr>,
      \<lparr>od_name = ''server-root'', od_short = CHR ''r'', od_type = PathType, od_required = False,
       od_implicit = None, od_default = Some (PathValue current_path),
       od_notifier = (\<lambda>v s. case v of PathValue p \<Rightarrow> s\<lparr>ts_baseDir := p\<rparr> | _ \<Rightarrow> s)\<rparr>] @
     map (lift_option ts_tftpConfiguration_update) TftpConfiguration_options @
     map (lift_option ts_tftpOptionsConfiguration_update) TftpOptionsConfiguration_options"

text \<open>\<open>std::filesystem::canonical\<close> throws where there is no canonical path.\<close>

definition TftpServer_canonical :: "(files \<Rightarrow> disk) \<Rightarrow> tftp_server cmd" where
  "TftpServer_canonical FS s =
     (case fs_canonical (FS (ts_files s)) (ts_baseDir s) of
        None \<Rightarrow> throw StdEx s
      | Some p \<Rightarrow> Inr (s\<lparr>ts_baseDir := p\<rparr>))"

definition TftpServer_main ::
    "tftp_server program_options \<Rightarrow> net \<Rightarrow> (files \<Rightarrow> disk) \<Rightarrow> path \<Rightarrow> tftp_server cmd \<Rightarrow> world \<Rightarrow>
     string list \<Rightarrow> (exn + int) \<times> tftp_server" where
  "TftpServer_main P N FS current_path run w argv =
     (case po_store P (TftpServer_options current_path) argv of
        Inl e \<Rightarrow> (Inr EXIT_FAILURE, TftpServer_globals w)
      | Inr variablesMap \<Rightarrow>
          if variablesMap ''help'' \<noteq> None then (Inr EXIT_FAILURE, TftpServer_globals w)
          else case po_notify P (TftpServer_options current_path) variablesMap (TftpServer_globals w) of
              Inl e \<Rightarrow> (Inr EXIT_FAILURE, TftpServer_globals w)
            | Inr s \<Rightarrow>
                (case block [TftpServer_canonical FS, TftpServer_configure N, run] s of
                   Inl (e, s') \<Rightarrow> (caught e, s')
                 | Inr s' \<Rightarrow> (Inr EXIT_SUCCESS, s')))"

lemma assigns_TftpServer:
  "assigns vm (TftpServer_options current_path)
     ([(\<lambda>s. s), ts_baseDir_update (path_of (vm ''server-root''))] @
      map ts_tftpConfiguration_update
        [tc_tftpServerPort_update (port_of (vm ''server-port'')),
         tc_tftpTimeout_update (seconds_of (vm ''tftp-timeout'')), tc_dally_update (flag_of (vm ''dally''))] @
      map ts_tftpOptionsConfiguration_update
        [oc_blockSizeOption_update (block_size_of (vm ''block-size-option'')),
         oc_timeoutOption_update (timeout_of (vm ''timeout-option'')),
         oc_handleTransferSizeOption_update (flag_of (vm ''handle-transfer-size-option''))])"
  unfolding TftpServer_options_def
  by (intro assigns_append assigns_lift assigns_TftpConfiguration assigns_TftpOptionsConfiguration)
    (simp_all add: assigns_def od_notify_def [abs_def] assigned cong: option.case_cong)

text \<open>The global variables after the command line has been read: nothing is required.\<close>

definition server_given :: "world \<Rightarrow> variables_map \<Rightarrow> tftp_server" where
  "server_given w vm = (TftpServer_globals w)\<lparr>ts_baseDir := path_of (vm ''server-root'') [],
     ts_tftpConfiguration := configuration_given vm,
     ts_tftpOptionsConfiguration := options_configuration_given vm\<rparr>"

lemma server_given_simps [simp]:
  "ts_baseDir (server_given w vm) = path_of (vm ''server-root'') []" "ts_files (server_given w vm) = (\<lambda>_. None)"
  "ts_tftpConfiguration (server_given w vm) = configuration_given vm"
  "tc_tftpServerPort (configuration_given vm) = port_of (vm ''server-port'') 69"
  by (simp_all add: server_given_def configuration_given_def)

lemma notified_TftpServer:
  assumes "command_line P"
  shows "po_notify P (TftpServer_options current_path) vm (TftpServer_globals w) = Inr (server_given w vm)"
proof -
  have "\<not> missing (TftpServer_options current_path) vm"
    by (simp add: missing_def TftpServer_options_def TftpConfiguration_options_def
        TftpOptionsConfiguration_options_def lift_option_def)
  then show ?thesis
    by (subst command_line.notify_assigns [OF assms _ assigns_TftpServer])
      (auto simp: server_given_def TftpServer_globals_def server.defs tftp_server.defs configuration_given_def options_configuration_given_def
        TftpConfiguration_make_def TftpOptionsConfiguration_default_def DefaultTftpPort_def
        DefaultTftpReceiveTimeout_def DefaultTftpRetries_def)
qed

end
