(* ===== verification/CommandLines.thy ===== *)
theory CommandLines
  imports ClientCommandLine ServerCommandLine Applications
begin

text \<open>
  What both programs do with their command lines.
\<close>

subsection \<open>The client\<close>

text \<open>C38: What the client program does with a command line it can read. Without one of the three
  required options, or to show its help, it exits with a failure and starts nothing. Otherwise
  it sets up one operation with the values given, and the defaults for the rest, in whatever
  order the library notifies the variables; and if no exception ends it, it reports success,
  however the transfer has completed.\<close>

theorem client_command_line:
  assumes "command_line P" and "po_store P TftpClient_options argv = Inr vm"
  shows "TftpClient_main P H N FS run w argv =
    (if vm ''help'' \<noteq> None \<or> vm ''request-type'' = None \<or> vm ''remote-file'' = None \<or> vm ''address'' = None
     then (Inr EXIT_FAILURE, None)
     else case TftpClient_operation FS (client_variables_given vm) w of
         Inl (e, op) \<Rightarrow> (caught e, None)
       | Inr op \<Rightarrow>
           (case TftpClient_request H N op of
              Inl (e, op1) \<Rightarrow> (caught e, Some op1)
            | Inr op1 \<Rightarrow>
                (case run op1 of
                   Inl (e, op2) \<Rightarrow> (caught e, Some op2)
                 | Inr op2 \<Rightarrow> (Inr EXIT_SUCCESS, Some op2))))"
proof (cases "missing TftpClient_options vm")
  case True
  then show ?thesis
    using assms(2) command_line.notify_missing [OF assms(1) True, of TftpClient_variables]
    by (auto simp: TftpClient_main_def missing_TftpClient)
next
  case False
  then show ?thesis
    using assms(2) notified_TftpClient [OF assms(1) False]
    by (auto simp: TftpClient_main_def TftpClient_transfer_def missing_TftpClient block.simps
        split: sum.split)
qed

text \<open>A client on whose disk any file can be opened, and a transfer the server breaks off.\<close>

definition example_client_disk :: client_disk where
  "example_client_disk =
     \<lparr>cd_path = (\<lambda>name. [name]), cd_filename = (\<lambda>p. p), cd_file_size = (\<lambda>p. None), cd_openable = (\<lambda>p. True),
      cd_content = (\<lambda>p. [])\<rparr>"

fun fails_transfer :: "client_operation cmd" where
  "fails_transfer (ClientReadOperation op) =
     Inr (ClientReadOperation (op\<lparr>trace := trace op @ [Completed TransferError]\<rparr>))"
| "fails_transfer op = Inr op"

fun operation_completions :: "client_operation \<Rightarrow> transfer_status list" where
  "operation_completions (ClientReadOperation op) = completions (trace op)"
| "operation_completions (ClientWriteOperation op) = completions (trace op)"

definition example_arguments :: "string list" where
  "example_arguments = [''--request-type'', ''Read'', ''--remote-file'', ''f'', ''-a'', ''7'', ''-d'']"

definition example_variables :: variables_map where
  "example_variables = [''request-type'' \<mapsto> RequestTypeValue Read, ''remote-file'' \<mapsto> TextValue ''f'',
     ''address'' \<mapsto> AddressValue (V4 7), ''dally'' \<mapsto> FlagValue True]"

lemma example_stored: "po_store simple_options TftpClient_options example_arguments = Inr example_variables"
  by (simp add: simple_options_def example_arguments_def example_variables_def TftpClient_options_def
      TftpConfiguration_options_def TftpOptionsConfiguration_options_def lift_option_def default_values_def
      find_option_def given_value_def implicit_value_def RequestType_input_def table_enumeration_def
      RequestTypeDescription_def read_number_def isdigit_def isspace_def number_of_digits_def digit_value_def)

theorem client_command_line_witness:
  "\<exists>op. TftpClient_main simple_options big_endian_helper quiet_net example_client_disk fails_transfer no_world
      example_arguments = (Inr EXIT_SUCCESS, Some op) \<and> last (operation_completions op) = TransferError"
proof -
  let ?v = "client_variables_given example_variables"
  have v: "mv_requestType ?v = Read" "mv_tftpOptionsConfiguration ?v = TftpOptionsConfiguration_default"
      "example_variables ''help'' = None" "example_variables ''request-type'' \<noteq> None"
      "example_variables ''remote-file'' \<noteq> None" "example_variables ''address'' \<noteq> None"
    by (simp_all add: client_variables_given_def example_variables_def request_type_of_def
        options_configuration_given_def TftpOptionsConfiguration_default_def flag_of_def block_size_of_def timeout_of_def)
  obtain op where op: "TftpClient_operation example_client_disk ?v no_world = Inr (ClientReadOperation op)"
      "client_app_read_set_up ClientImpl_new (mv_tftpConfiguration ?v) TftpOptionsConfiguration_default
        (StreamFile_make Receive (TftpClient_localFile example_client_disk ?v) None True []) (mv_remoteFile ?v) (mv_address ?v) no_world op"
    using TftpClient_readOperation_set_up [of ClientImpl_new "mv_tftpConfiguration ?v"
        TftpOptionsConfiguration_default "StreamFile_make Receive (TftpClient_localFile example_client_disk ?v) None True []" "mv_remoteFile ?v" "mv_address ?v" no_world]
    by (auto simp: TftpClient_operation_def v map_result_def example_client_disk_def)
  have "cl_additionalOptionsV ClientImpl_new = []" by (simp add: ClientImpl_new_def)
  then obtain op1 where op1: "ClientRead_request big_endian_helper quiet_net stream_receiver op = Inr op1"
    using client_app_download_request [OF never_fails_quiet_net op(2)] by blast
  show ?thesis
    using client_command_line [OF simple.command_line_axioms example_stored,
        of big_endian_helper quiet_net example_client_disk fails_transfer no_world]
    by (simp add: v op op1 map_result_def)
qed

text \<open>The option \<open>-r\<close> is of no use: both the request type and the remote file have this short
  name, so that a command line that starts with it is refused, and nothing is transferred.\<close>

theorem client_option_r:
  assumes "command_line P"
  shows "TftpClient_main P H N FS run w (''-r'' # args) = (Inr EXIT_FAILURE, None)"
proof -
  have "ambiguous TftpClient_options (CHR ''r'')"
    by (simp add: ambiguous_def TftpClient_options_def)
  from command_line.store_ambiguous [OF assms this, of args] obtain e where
      "po_store P TftpClient_options (''-r'' # args) = Inl e" by auto
  then show ?thesis by (simp add: TftpClient_main_def)
qed

theorem client_option_r_witness:
  "TftpClient_main simple_options big_endian_helper quiet_net FS run w [''-r'', ''Read''] = (Inr EXIT_FAILURE, None)"
  by (rule client_option_r [OF simple.command_line_axioms])

subsection \<open>The server\<close>

text \<open>What the server program does with a command line it can read. It shows its help, or it serves the
  canonical form of the directory given, by default the current one, with the configuration
  given: it listens on the port given, of every address, and enters its event loop. If there is
  no such directory, it fails before a socket is opened.\<close>

theorem server_command_line:
  assumes "command_line P" and "never_fails N" and "po_store P (TftpServer_options current_path) argv = Inr vm"
  shows "TftpServer_main P N FS current_path run w argv =
    (if vm ''help'' \<noteq> None then (Inr EXIT_FAILURE, TftpServer_globals w)
     else case fs_canonical (FS (\<lambda>_. None)) (path_of (vm ''server-root'') []) of
         None \<Rightarrow> (Inr EXIT_FAILURE, server_given w vm)
       | Some root \<Rightarrow>
           (case run (app_listening ((server_given w vm)\<lparr>ts_baseDir := root\<rparr>)) of
              Inl (e, s) \<Rightarrow> (caught e, s)
            | Inr s \<Rightarrow> (Inr EXIT_SUCCESS, s)))"
  using assms(3) notified_TftpServer [OF assms(1), of current_path vm w] TftpServer_configured [OF assms(2)]
  by (simp add: TftpServer_main_def block.simps TftpServer_canonical_def throw_apply caught_def is_exception_def
      split: option.split sum.split)

text \<open>Without arguments, the current directory is served on port 69.\<close>

theorem server_command_line_witness:
  "\<exists>s. TftpServer_main simple_options quiet_net (example_srv []) [''srv''] Inr no_world [] = (Inr EXIT_SUCCESS, s) \<and>
     ts_baseDir s = [''srv''] \<and> trace s = [Called (SocketOpen UdpV4) True,
       Called (SocketBind \<lparr>ep_address = V4 0, ep_port = 69\<rparr>) True, Called (AsyncReceiveFrom 516) True]"
proof -
  let ?vm = "[''server-root'' \<mapsto> PathValue [''srv'']]"
  have "po_store simple_options (TftpServer_options [''srv'']) [] = Inr ?vm"
    by (simp add: simple_options_def TftpServer_options_def TftpConfiguration_options_def
        TftpOptionsConfiguration_options_def lift_option_def default_values_def)
  from server_command_line [OF simple.command_line_axioms never_fails_quiet_net this, of "example_srv []" Inr no_world]
  have "TftpServer_main simple_options quiet_net (example_srv []) [''srv''] Inr no_world [] =
      (Inr EXIT_SUCCESS, app_listening ((server_given no_world ?vm)\<lparr>ts_baseDir := [''srv'']\<rparr>))"
    by (simp add: path_of_def example_srv_def)
  then show ?thesis
    by (simp add: app_listening_def Let_def port_of_def server_given_def no_world_def DefaultMaxPacketSize_def
        DefaultDataSize_def DefaultTftpDataPacketHeaderSize_def configuration_given_def)
qed

end
