(* ===== verification/StatisticReport.thy ===== *)
theory StatisticReport
  imports Descriptions
begin

text \<open>
  How the packet statistics are shown: the text of \<open>packets/PacketStatistic.cpp\<close>, printed by both
  applications, and the table model of \<open>tftp_qt/PacketStatisticModel.cpp\<close>. The strings of Qt
  and the translation of the headings are parameters.
\<close>

subsection \<open>As a text\<close>

text \<open>A value formatted with \<open>{:22}\<close>.\<close>

definition pad22 :: "string \<Rightarrow> string" where
  "pad22 s = s @ replicate (22 - length s) (CHR 0x20)"

definition report_line :: "string \<Rightarrow> u64 \<Rightarrow> u64 \<Rightarrow> string" where
  "report_line title count sz =
     pad22 title @ '': Count: '' @ to_string (unat count) @ '' Total Size: '' @ to_string (unat sz) @ [CHR 0x0A]"

definition PacketStatistic_toString :: "(packet_type table \<Rightarrow> packet_type \<Rightarrow> string) \<Rightarrow> statistic \<Rightarrow> string" where
  "PacketStatistic_toString name st =
     (let (str, count, sz) =
            fold (\<lambda>(packetType, statistic) (str, count, sz).
              (str @ report_line (name PacketTypeDescription packetType) (fst statistic) (snd statistic),
               count + fst statistic, sz + snd statistic)) st ([], 0, 0)
      in str @ report_line ''Total'' count sz)"

text \<open>One line for each packet type, in order, and the totals in the last one.\<close>

lemma PacketStatistic_toString_eq:
  "PacketStatistic_toString name st =
     concat (map (\<lambda>(t, n, sz). report_line (name PacketTypeDescription t) n sz) st) @
     report_line ''Total'' (fst (PacketStatistic_total st)) (snd (PacketStatistic_total st))"
proof -
  have "fold (\<lambda>(packetType, statistic) (str, count, sz).
        (str @ report_line (name PacketTypeDescription packetType) (fst statistic) (snd statistic),
         count + fst statistic, sz + snd statistic)) st (str, a, b) =
      (str @ concat (map (\<lambda>(t, n, sz). report_line (name PacketTypeDescription t) n sz) st),
       a + sum_list (map (fst \<circ> snd) st), b + sum_list (map (snd \<circ> snd) st))" for str a b
    by (induction st arbitrary: str a b) (auto simp: algebra_simps)
  then show ?thesis
    by (simp add: PacketStatistic_toString_def PacketStatistic_total_eq)
qed

text \<open>The columns are aligned: no name of a packet type is wider than its column.\<close>

lemma report_aligned:
  assumes "description name enumeration" and "t \<noteq> Invalid"
  shows "length (pad22 (name PacketTypeDescription t)) = 22"
proof -
  have "(name PacketTypeDescription t, t) \<in> set PacketTypeDescription"
    using description.enumeration_name [OF assms(1), of PacketTypeDescription t] assms(2)
      description.enumeration [OF assms(1), of PacketTypeDescription "name PacketTypeDescription t" t]
    by simp
  then have "length (name PacketTypeDescription t) \<le> 22"
    by (auto simp: PacketTypeDescription_def)
  then show ?thesis by (simp add: pad22_def)
qed

subsection \<open>As a table\<close>

record 'q qt =
  qt_toQString :: "string \<Rightarrow> 'q"
  qt_number :: "u64 \<Rightarrow> 'q"
  qt_tr :: "string \<Rightarrow> 'q"

datatype 'q qvariant = NoVariant | IntVariant int | StringVariant 'q

record model_index =
  mi_valid :: bool
  mi_row :: int
  mi_column :: int

datatype item_role = DisplayRole | OtherRole
datatype orientation = Horizontal | Vertical

text \<open>\<open>Columns::ColumnsCount\<close>; the columns are the numbers below it.\<close>

definition ColumnsCount :: int where "ColumnsCount = 3"

record statistic_model =
  psm_statisticV :: statistic

text \<open>The notifications of the views around the assignment are left out.\<close>

definition PacketStatisticModel_statistic :: "statistic \<Rightarrow> statistic_model \<Rightarrow> statistic_model" where
  "PacketStatisticModel_statistic statistic m = m\<lparr>psm_statisticV := statistic\<rparr>"

definition PacketStatisticModel_rowCount :: "statistic_model \<Rightarrow> model_index \<Rightarrow> int" where
  "PacketStatisticModel_rowCount m parent =
     (if mi_valid parent then 0 else sint (word_of_nat (length (psm_statisticV m)) :: 32 word))"

definition PacketStatisticModel_columnCount :: "model_index \<Rightarrow> int" where
  "PacketStatisticModel_columnCount parent = (if mi_valid parent then 0 else ColumnsCount)"

definition PacketStatisticModel_data ::
    "(packet_type table \<Rightarrow> packet_type \<Rightarrow> string) \<Rightarrow> 'q qt \<Rightarrow> statistic_model \<Rightarrow> model_index \<Rightarrow> item_role \<Rightarrow>
     'q qvariant" where
  "PacketStatisticModel_data name Q m index role =
     (if \<not> mi_valid index then NoVariant
      else if mi_row index \<ge> int (length (psm_statisticV m)) then NoVariant
      else let packet = psm_statisticV m ! nat (mi_row index)
        in case role of
             OtherRole \<Rightarrow> NoVariant
           | DisplayRole \<Rightarrow>
               if mi_column index = 0
               then StringVariant (qt_toQString Q (name PacketTypeDescription (fst packet)))
               else if mi_column index = 1 then StringVariant (qt_number Q (fst (snd packet)))
               else if mi_column index = 2 then StringVariant (qt_number Q (snd (snd packet)))
               else NoVariant)"

definition PacketStatisticModel_headerData :: "'q qt \<Rightarrow> int \<Rightarrow> orientation \<Rightarrow> item_role \<Rightarrow> 'q qvariant" where
  "PacketStatisticModel_headerData Q section orientation role =
     (if role \<noteq> DisplayRole then NoVariant
      else if orientation = Vertical then IntVariant section
      else if section = 0 then StringVariant (qt_tr Q ''Packet Type'')
      else if section = 1 then StringVariant (qt_tr Q ''Packet Count'')
      else if section = 2 then StringVariant (qt_tr Q ''Packet Size'')
      else NoVariant)"

text \<open>A statistic has at most one entry for each packet type, so that its size is an \<open>int\<close>.\<close>

lemma statistic_small:
  assumes "is_map (st :: statistic)"
  shows "length st \<le> 7"
proof -
  have "distinct (map fst st)"
    using assms by (simp add: is_map_def strict_sorted_iff)
  then have "length st = card (fst ` set st)"
    by (metis distinct_card length_map set_map)
  also have "\<dots> \<le> card (set [ReadRequest, WriteRequest, Data, Acknowledgement, Error, OptionsAcknowledgement, Invalid])"
  proof (rule card_mono)
    have "t \<in> set [ReadRequest, WriteRequest, Data, Acknowledgement, Error, OptionsAcknowledgement, Invalid]" for t
      by (cases t) simp_all
    then show "fst ` set st \<subseteq> set [ReadRequest, WriteRequest, Data, Acknowledgement, Error, OptionsAcknowledgement, Invalid]"
      by blast
  qed simp
  finally show ?thesis by simp
qed

lemma rowCount_statistic:
  assumes "is_map (psm_statisticV m)" and "\<not> mi_valid parent"
  shows "PacketStatisticModel_rowCount m parent = int (length (psm_statisticV m))"
proof -
  have "length (psm_statisticV m) < 2 ^ 31" using statistic_small [OF assms(1)] by simp
  then show ?thesis
    using assms(2) sint_sbintrunc' [of "int (length (psm_statisticV m))", where ?'a = 32]
    by (simp add: PacketStatisticModel_rowCount_def signed_take_bit_int_eq_self)
qed

text \<open>The cells that show something are those of the rows and columns the model counts.\<close>

lemma data_shown:
  assumes "is_map (psm_statisticV m)" and "\<not> mi_valid parent"
    and "mi_valid index" and "0 \<le> mi_row index" and "0 \<le> mi_column index"
  shows "PacketStatisticModel_data name Q m index DisplayRole \<noteq> NoVariant \<longleftrightarrow>
    mi_row index < PacketStatisticModel_rowCount m parent \<and>
    mi_column index < PacketStatisticModel_columnCount parent"
  unfolding rowCount_statistic [OF assms(1,2)] using assms(2-5)
  by (auto simp: PacketStatisticModel_data_def PacketStatisticModel_columnCount_def ColumnsCount_def Let_def)

text \<open>After an update a packet type of the statistic is shown with its name, count and size.\<close>

lemma data_of_type:
  assumes "is_map st" and "map_find st t = Some (n, sz)"
  shows "\<exists>row. (\<lambda>column. PacketStatisticModel_data name Q (PacketStatisticModel_statistic st m)
      \<lparr>mi_valid = True, mi_row = row, mi_column = column\<rparr> DisplayRole) =
    (\<lambda>column. if column = 0 then StringVariant (qt_toQString Q (name PacketTypeDescription t))
      else if column = 1 then StringVariant (qt_number Q n)
      else if column = 2 then StringVariant (qt_number Q sz) else NoVariant)"
proof -
  have "(t, n, sz) \<in> set st"
    using assms(2) by (auto simp: map_find_def dest: map_of_SomeD)
  then obtain i where "i < length st" "st ! i = (t, n, sz)"
    by (auto simp: in_set_conv_nth)
  then show ?thesis
    by (intro exI [of _ "int i"] ext)
      (simp add: PacketStatisticModel_data_def PacketStatisticModel_statistic_def)
qed

end
