(* ===== verification/Spec2Isabelle.thy ===== *)
theory Spec2Isabelle
  imports PacketProperties ClientReadProperties ClientOperationProperties ClientWriteProperties
    ClientWriteInvariant ServerReadInvariant ServerWriteInvariant ServerOperationProperties
    ServerProperties Client NegotiatedDownload Upload WireProperties TransferSize Dally Applications CommandLines
    ConfigurationProperties StatisticReport
begin

text \<open>
  A model of the TFTP library of this repository (\<open>src/lib/tftp\<close>) and of the two programs that
  use it: packets, the client and server operations, the listening server and its application,
  translated function by function, with the theorems that make them correct.

  \<^bold>\<open>The program.\<close> A client operation (\<open>clients/implementation\<close>) sends a request, exchanges
  DATA and ACK packets with a server operation (\<open>servers/implementation\<close>) and reports a
  status to its completion handler. Both derive from an \<open>OperationImpl\<close> that owns the socket,
  the timer and the last packet, and from \<open>PacketHandler\<close>, which decodes a datagram and calls
  the virtual function of its type. Data is taken from and handed to a data handler
  (\<open>files/\<close>). \<open>ServerImpl\<close> listens for requests and hands them to its user, who creates the
  server operation.

  \<^bold>\<open>State and effects.\<close> A class is a record, a derived class an extension of the record of its
  base. A member function is a command, a function from the state to the next state or to an
  exception with the state left behind; \<open>try\<close>, \<open>noexcept\<close> and early returns are combinators of
  theory \<open>Prelude\<close>. A call on a socket or timer is recorded in the \<open>trace\<close> of the state and
  succeeds or throws as the parameter \<open>N\<close> decides; \<open>never_fails N\<close> is the network on which no
  call throws. Packets may still be lost: what an operation receives is an argument of its
  handlers. The Helper library (a submodule) is the parameter \<open>H\<close> with the contract
  \<open>raw_data\<close>, satisfied by \<open>big_endian_helper\<close>; user callbacks are parameters as well.

  \<^bold>\<open>Theories.\<close>
  \<^item> \<open>Prelude\<close>, \<open>StdMap\<close>, \<open>StdNumbers\<close>, \<open>RawData\<close>: bytes, commands and the predicates they keep,
    \<open>std::map\<close>, \<open>std::to_string\<close> and \<open>std::stoull\<close>, the Helper library.
  \<^item> \<open>Options\<close>, \<open>BlockNumber\<close>, \<open>Packets\<close>, \<open>PacketCodec\<close>, \<open>PacketHandler\<close>,
    \<open>PacketProperties\<close>: \<open>packets/\<close>; the codec contract, dispatch, wire format and round trips.
  \<^item> \<open>Environment\<close>, \<open>OperationFrame\<close>: \<open>Tftp.hpp\<close>, statistics, sockets and timers; the contract
    between the operation base classes and the classes derived from them.
  \<^item> \<open>DataHandler\<close>, \<open>Files\<close>: the callback interfaces as locales, interpreted by the memory and
    stream files.
  \<^item> \<open>Configuration\<close>, \<open>ConfigurationProperties\<close>: the configuration classes, the checks of an OACK
    against them, and their conversion from and to property trees, which loses nothing.
  \<^item> \<open>ClientOperation\<close>, \<open>ClientRead\<close>, \<open>ClientWrite\<close>, \<open>Client\<close>: \<open>clients/implementation\<close>, one
    theory for each class. \<open>ClientReadSteps\<close> and \<open>ClientWriteSteps\<close> say what an operation does
    on each packet when no call fails; \<open>ClientReadInvariant\<close> and \<open>ClientWriteInvariant\<close> prove
    what holds in every reachable state, on any network; \<open>ClientOperationProperties\<close>,
    \<open>ClientReadProperties\<close> and \<open>ClientWriteProperties\<close> hold the properties of these classes.
  \<^item> \<open>ServerOperation\<close>, \<open>ServerRead\<close>, \<open>ServerWrite\<close>, \<open>Server\<close>, \<open>CheckFilename\<close>: the server, in
    the same way, with \<open>ServerReadSteps\<close>, \<open>ServerWriteSteps\<close>, \<open>ServerFrames\<close>,
    \<open>ServerReadInvariant\<close>, \<open>ServerWriteInvariant\<close>, \<open>ServerOperationProperties\<close> and
    \<open>ServerProperties\<close>.
  \<^item> \<open>StopAndWait\<close>: the abstract protocol. A receiver and a sender of numbered blocks and two
    channels between them; the locale \<open>stop_and_wait\<close> states what each side promises, and from
    it follow the exchange without losses and the safety of the lossy one.
  \<^item> \<open>Machines\<close>, \<open>Download\<close>, \<open>Upload\<close>: the operations as the two sides of that protocol, in both
    directions; \<open>Negotiation\<close>, \<open>NegotiatedDownload\<close>: what the server grants and the client
    accepts, and a download that starts with an OACK; \<open>SizedOptions\<close>, \<open>NegotiatedUpload\<close>,
    \<open>TransferSize\<close>: an upload that starts with an OACK, and one whose announced size the server
    declines. \<open>Instances\<close> sets operations up for the concrete instances of the theorems. This
    theory holds the end-to-end properties.
  \<^item> \<open>Wire\<close>, \<open>ClientWire\<close>, \<open>ServerWire\<close>, \<open>WireProperties\<close>: the packet types of the two sides.
    The locale \<open>spoken\<close> carries a property of every datagram through the commands of the
    operation base classes; its interpretations say what each kind of operation may send.
  \<^item> \<open>Dally\<close>: the final wait of a receiver, as a locale for client and server.
  \<^item> \<open>ServerApplication\<close>, \<open>ServerApplicationProperties\<close>, \<open>ClientApplication\<close>: the two programs of
    \<open>src/app\<close>. The request handler of the server application is the user of \<open>ServerImpl\<close> that
    creates the operations and keeps the last; its global variables, with what it has written
    (\<open>ts_files\<close>), extend the state of the server. The disk is the parameter \<open>FS\<close>, a function of
    the files written so far. Its event loop is \<open>TftpServer_run\<close>: any sequence of datagrams, of
    completions for the operation it keeps, and of signals.
  \<^item> \<open>HandlerInvariant\<close>, \<open>ServerApplicationInvariant\<close>: what a data handler keeps, the operation
    that uses it keeps (locales \<open>receive_invariant\<close>, \<open>transmit_invariant\<close>), and what holds in
    every state the event loop can reach; the locales \<open>named_disk\<close> and \<open>file_disk\<close> say what is
    asked of the disk.
  \<^item> \<open>Serving\<close>, \<open>Applications\<close>: after a request the server application is a machine of the abstract
    protocol (\<open>app_machine\<close>), with the contract of the operation it keeps (\<open>embed_sender\<close>,
    \<open>embed_receiver\<close>); the transfers between the disks of the two programs follow, and that what
    one client uploads, another downloads.
  \<^item> \<open>ProgramOptions\<close>, \<open>ClientCommandLine\<close>, \<open>ServerCommandLine\<close>, \<open>CommandLines\<close>: the options both
    programs register and their \<open>main\<close>; \<open>boost::program_options\<close> is the parameter \<open>P\<close> of contract
    \<open>command_line\<close>, the call of the event loop the parameter \<open>run\<close>.
  \<^item> \<open>Descriptions\<close>, \<open>StatisticReport\<close>: the tables of names, and how the statistics are printed and
    shown in a table (\<open>tftp_qt\<close>); the version of the library.

  \<^bold>\<open>The network.\<close> In the end-to-end theorems the two operations are connected by channels that
  keep the order of packets. Without losses, each packet is delivered in turn, in the number of
  rounds the theorems give as a function of the size of the file. The lossy channels lose and
  double any packet, and the timers expire at any time; what the theorems then show is that the
  data is never wrong and that success is never reported wrongly. The repetitions of the first
  request are addressed to the port the server listens on and so are no part of the exchange
  between the two operations. In the lossy upload with options the server's repetitions of its
  OACK are muted: a second copy of it breaks the transfer (\<open>upload_duplicate_oack\<close>).

  \<^bold>\<open>Bounds.\<close> No fuel is used in the model of the code. Block numbers are the 16-bit numbers of the
  code, and the theorems hold for files of any size, across the wrap-around. The retransmission
  counter is 32 bits wide, which is enough for every 16-bit number of retries.

  \<^bold>\<open>Not modelled.\<close> Logging and console output; the event loop of Boost.Asio itself, whose calls
  of the handlers are the inputs of the model, in any order. Callbacks of the user that call back into the operation that calls them are not
  modelled, and the life time of objects is not: the server application shows the operation it
  keeps, and not the end of the one it drops. Accessors that only return or set a member are the
  fields of the records.
\<close>

subsection \<open>End to end\<close>

text \<open>C5: A download over a network that loses nothing is lossless, for files of any size, with the
  wrap-around of block numbers: after the request, the server's start and one exchange for
  each block, the client's data handler holds exactly the content of the server's, both
  operations have completed with success, once, and no packet is left.\<close>

theorem lossless_download:
  assumes "raw_data H" and "never_fails Nc" and "never_fails Ns"
    and "data_sink D sink ready contents" and "data_source S content rest"
    and "fresh_client sink D sender c" and "fresh_server S content xs s"
    and "sr_clientOptionsV s = no_tftp_options" and "sr_additionalNegotiatedOptionsV s = []"
  shows "\<exists>c' s' h. download (length xs div 512 + 1) H Nc Ns D S sender c s = Some (c', s', []) \<and>
    cr_dataHandlerV c' = Some h \<and> contents h = xs \<and>
    completions (trace c') = completions (trace c) @ [Successful] \<and>
    completions (trace s') = completions (trace s) @ [Successful]"
  using download_plain [OF assms] take_last_chunk [of 512 xs]
  by (auto simp: client_has_read_def server_has_sent_def last_chunk_def)

lemma fresh_examples:
  "fresh_client (\<lambda>f. mf_operationV f = Receive) memory_receiver (host 1 2000) memory_client_read"
  "fresh_server memory_transmitter memory_content d (memory_server_read d)"
  "sr_clientOptionsV (memory_server_read d) = no_tftp_options"
  "sr_additionalNegotiatedOptionsV (memory_server_read d) = []"
  by (simp_all add: new_simps fresh_client_def fresh_server_def memory_content_def MemoryFile_transmit_def
      MemoryFile_start_def memory_transmitter_def cmd_simps no_endpoint_def)

theorem lossless_download_witness:
  "\<exists>c' s' h. download (length (replicate 1000 (7::byte)) div 512 + 1) big_endian_helper quiet_net quiet_net
       memory_receiver memory_transmitter (host 1 2000) memory_client_read
       (memory_server_read (replicate 1000 7)) = Some (c', s', []) \<and>
     cr_dataHandlerV c' = Some h \<and> mf_dataV h = replicate 1000 7 \<and>
     completions (trace c') = completions (trace memory_client_read) @ [Successful] \<and>
     completions (trace s') = completions (trace (memory_server_read (replicate 1000 7))) @ [Successful]"
  by (rule lossless_download [OF big_endian.raw_data_axioms never_fails_quiet_net never_fails_quiet_net
        memory_sink.data_sink_axioms memory_source.data_source_axioms fresh_examples])

text \<open>C6: Losses do no harm to the data of a download. Whatever packets are lost or doubled between the
  client and the server operation, and whenever their timers expire: the client's data handler
  holds a beginning of the server's file in whole blocks; each operation completes at most
  once, with success or a communication error; and if either of them has completed with
  success, the client holds the whole file.\<close>

theorem lossy_download_safe:
  assumes "raw_data H" and "never_fails Nc" and "never_fails Ns"
    and "data_sink D sink ready contents" and "data_source S content rest"
    and "fresh_client sink D sender c" and "fresh_server S content xs s"
    and "sr_clientOptionsV s = no_tftp_options" and "sr_additionalNegotiatedOptionsV s = []"
    and "ClientRead_request H Nc D c = Inr c1" and "ServerRead_start H Ns S s = Inr s1"
    and "lossy (client_read_machine H Nc D sender) (server_read_machine H Ns S)
      (c1, emitted (trace s) (trace s1), s1, []) (c', tc, s', ts)"
  shows "\<exists>h i rc rs. cr_dataHandlerV c' = Some h \<and> contents h = take (i * 512) xs \<and>
    completions (trace c') = completions (trace c) @ rc \<and>
    completions (trace s') = completions (trace s) @ rs \<and>
    rc \<in> {[], [Successful], [CommunicationError]} \<and> rs \<in> {[], [Successful], [CommunicationError]} \<and>
    (Successful \<in> set rc \<union> set rs \<longrightarrow> contents h = xs)"
proof -
  note contract = download_contract [OF assms(1-5), where n = 512 and sender = sender and xs = xs
      and cc = "completions (trace c)" and sc = "completions (trace s)"]
  have "download_receiver H sender (completions (trace c)) ready contents 512 xs 0 c1"
    using fresh_client_requested [OF assms(2,4,6), of H xs] assms(10) by (auto simp: download_receiver_def)
  moreover have "server_sends H (completions (trace s)) rest 512 xs 0 s1"
      "emitted (trace s) (trace s1) = [data_datagram H 512 xs 1]"
    using fresh_server_started [OF assms(3,5,7-9), of H] assms(11) by auto
  ultimately have "synchronous 0 (last_chunk 512 xs) (data_datagram H 512 xs) (ack_datagram H)
      (download_receiver H sender (completions (trace c)) ready contents 512 xs)
      (client_has_read (completions (trace c)) contents 512 xs)
      (server_sends H (completions (trace s)) rest 512 xs) (server_has_sent (completions (trace s)))
      (c1, emitted (trace s) (trace s1), s1, [])"
    by (intro synchronousI [where i = 0 and j = 0]) (auto simp: in_step_def)
  then show ?thesis
    unfolding outcomes_def [symmetric]
    by (intro download_outcome [OF stop_and_wait.lossy_synchronous [OF contract assms(12)]]) simp_all
qed

theorem lossy_download_safe_witness:
  "\<exists>c1 s1. ClientRead_request big_endian_helper quiet_net memory_receiver memory_client_read = Inr c1 \<and>
    ServerRead_start big_endian_helper quiet_net memory_transmitter (memory_server_read [1, 2]) = Inr s1 \<and>
    (\<exists>h i rc rs. cr_dataHandlerV c1 = Some h \<and> mf_dataV h = take (i * 512) [1, 2] \<and>
      completions (trace c1) = completions (trace memory_client_read) @ rc \<and>
      completions (trace s1) = completions (trace (memory_server_read [1, 2])) @ rs \<and>
      rc \<in> {[], [Successful], [CommunicationError]} \<and> rs \<in> {[], [Successful], [CommunicationError]} \<and>
      (Successful \<in> set rc \<union> set rs \<longrightarrow> mf_dataV h = [1, 2]))"
proof -
  obtain c1 s1 where *: "ClientRead_request big_endian_helper quiet_net memory_receiver memory_client_read = Inr c1"
    "ServerRead_start big_endian_helper quiet_net memory_transmitter (memory_server_read [1, 2]) = Inr s1"
    using fresh_client_requested [OF never_fails_quiet_net memory_sink.data_sink_axioms fresh_examples(1)]
      fresh_server_started [OF never_fails_quiet_net memory_source.data_source_axioms fresh_examples(2-4)]
    by blast
  show ?thesis
    using * lossy_download_safe [OF big_endian.raw_data_axioms never_fails_quiet_net never_fails_quiet_net
        memory_sink.data_sink_axioms memory_source.data_source_axioms fresh_examples * lossy.start]
    by blast
qed

text \<open>C7: An upload over a network that loses nothing is lossless, for files of any size: after the
  request, the server's acknowledgement of it and one exchange for each block, the server's
  data handler holds exactly the content of the client's, both operations have completed with
  success, once, and no packet is left.\<close>

theorem lossless_upload:
  assumes "raw_data H" and "never_fails Nc" and "never_fails Ns"
    and "data_sink D sink ready contents" and "data_source S content rest"
    and "fresh_uploader S content xs sender c" and "fresh_store sink D s"
    and "sw_clientOptionsV s = no_tftp_options" and "sw_additionalNegotiatedOptionsV s = []"
  shows "\<exists>s' c' h. upload (length xs div 512 + 1) H Nc Ns D S sender c s = Some (s', c', []) \<and>
    sw_dataHandlerV s' = Some h \<and> contents h = xs \<and>
    completions (trace c') = completions (trace c) @ [Successful] \<and>
    completions (trace s') = completions (trace s) @ [Successful]"
  using upload_plain [OF assms] take_last_chunk [of 512 xs]
  by (auto simp: server_has_received_def client_has_sent_def last_chunk_def)

lemma fresh_upload_examples:
  "fresh_uploader memory_transmitter memory_content d (host 1 2000) (memory_client_write d)"
  "fresh_store (\<lambda>f. mf_operationV f = Receive) memory_receiver memory_server_write"
  "sw_clientOptionsV memory_server_write = no_tftp_options"
  "sw_additionalNegotiatedOptionsV memory_server_write = []"
  by (simp_all add: new_simps fresh_uploader_def fresh_store_def memory_content_def MemoryFile_transmit_def
      MemoryFile_start_def memory_transmitter_def cmd_simps no_endpoint_def)

theorem lossless_upload_witness:
  "\<exists>s' c' h. upload (length (replicate 1000 (7::byte)) div 512 + 1) big_endian_helper quiet_net quiet_net
       memory_receiver memory_transmitter (host 1 2000) (memory_client_write (replicate 1000 7))
       memory_server_write = Some (s', c', []) \<and>
     sw_dataHandlerV s' = Some h \<and> mf_dataV h = replicate 1000 7 \<and>
     completions (trace c') = completions (trace (memory_client_write (replicate 1000 7))) @ [Successful] \<and>
     completions (trace s') = completions (trace memory_server_write) @ [Successful]"
  by (rule lossless_upload [OF big_endian.raw_data_axioms never_fails_quiet_net never_fails_quiet_net
        memory_sink.data_sink_axioms memory_source.data_source_axioms fresh_upload_examples])

text \<open>C8: Losses do no harm to the data of an upload. Whatever packets are lost or doubled between the
  client and the server operation, and whenever their timers expire: the server's data handler
  holds a beginning of the client's file in whole blocks; each operation completes at most
  once, with success or a communication error; and if either of them has completed with
  success, the server holds the whole file.\<close>

theorem lossy_upload_safe:
  assumes "raw_data H" and "never_fails Nc" and "never_fails Ns"
    and "data_sink D sink ready contents" and "data_source S content rest"
    and "fresh_uploader S content xs sender c" and "fresh_store sink D s"
    and "sw_clientOptionsV s = no_tftp_options" and "sw_additionalNegotiatedOptionsV s = []"
    and "ClientWrite_request H Nc S c = Inr c1" and "ServerWrite_start H Ns D s = Inr s1"
    and "lossy (server_write_machine H Ns D) (client_write_machine H Nc S sender)
      (s1, [], c1, emitted (trace s) (trace s1)) (s', ts, c', tc)"
  shows "\<exists>h i rc rs. sw_dataHandlerV s' = Some h \<and> contents h = take (i * 512) xs \<and>
    completions (trace c') = completions (trace c) @ rc \<and>
    completions (trace s') = completions (trace s) @ rs \<and>
    rc \<in> {[], [Successful], [CommunicationError]} \<and> rs \<in> {[], [Successful], [CommunicationError]} \<and>
    (Successful \<in> set rc \<union> set rs \<longrightarrow> contents h = xs)"
proof -
  note contract = upload_contract [OF assms(1-5), where n = 512 and sender = sender and xs = xs
      and cc = "completions (trace c)" and sc = "completions (trace s)"]
  have "client_asks sender (completions (trace c)) rest 512 xs c1"
    using fresh_uploader_requested [OF assms(2,5,6), of H] assms(10) by auto
  moreover have "server_receives H (completions (trace s)) ready contents 512 xs 0 s1"
      "emitted (trace s) (trace s1) = [ack_datagram H 0]"
    using fresh_store_started [OF assms(3,4,7-9), of H xs] assms(11) by auto
  ultimately have "synchronous 1 (Suc (last_chunk 512 xs)) (upload_data H 512 xs) (upload_ack H)
      (upload_receiver H (completions (trace s)) ready contents 512 xs)
      (upload_received (completions (trace s)) contents 512 xs)
      (upload_sender H sender (completions (trace c)) rest 512 xs) (client_has_sent (completions (trace c)))
      (s1, [], c1, emitted (trace s) (trace s1))"
    by (intro synchronousI [where i = 1 and j = 0]) (auto simp: in_step_def upload_receiver_def upload_ack_def)
  then show ?thesis
    unfolding outcomes_def [symmetric]
    by (intro upload_outcome [OF stop_and_wait.lossy_synchronous [OF contract assms(12)]]) simp_all
qed

theorem lossy_upload_safe_witness:
  "\<exists>c1 s1. ClientWrite_request big_endian_helper quiet_net memory_transmitter (memory_client_write [1, 2]) = Inr c1 \<and>
    ServerWrite_start big_endian_helper quiet_net memory_receiver memory_server_write = Inr s1 \<and>
    (\<exists>h i rc rs. sw_dataHandlerV s1 = Some h \<and> mf_dataV h = take (i * 512) [1, 2] \<and>
      completions (trace c1) = completions (trace (memory_client_write [1, 2])) @ rc \<and>
      completions (trace s1) = completions (trace memory_server_write) @ rs \<and>
      rc \<in> {[], [Successful], [CommunicationError]} \<and> rs \<in> {[], [Successful], [CommunicationError]} \<and>
      (Successful \<in> set rc \<union> set rs \<longrightarrow> mf_dataV h = [1, 2]))"
proof -
  obtain c1 s1 where *: "ClientWrite_request big_endian_helper quiet_net memory_transmitter (memory_client_write [1, 2]) = Inr c1"
    "ServerWrite_start big_endian_helper quiet_net memory_receiver memory_server_write = Inr s1"
    using fresh_uploader_requested [OF never_fails_quiet_net memory_source.data_source_axioms fresh_upload_examples(1)]
      fresh_store_started [OF never_fails_quiet_net memory_sink.data_sink_axioms fresh_upload_examples(2-4)]
    by blast
  show ?thesis
    using * lossy_upload_safe [OF big_endian.raw_data_axioms never_fails_quiet_net never_fails_quiet_net
        memory_sink.data_sink_axioms memory_source.data_source_axioms fresh_upload_examples * lossy.start]
    by blast
qed


definition asking_client :: "memory_file client_read" where
  "asking_client = memory_client_read\<lparr>cr_optionsConfigurationV := example_options\<rparr>"

definition asked_server :: "bytes \<Rightarrow> memory_file server_read" where
  "asked_server d = (memory_server_read d)\<lparr>sr_optionsConfigurationV := example_options,
     sr_clientOptionsV := fst (ServerImpl_tftpOptions (ClientRead_options asking_client)),
     sr_additionalNegotiatedOptionsV := snd (ServerImpl_tftpOptions (ClientRead_options asking_client))\<rparr>"

lemma asking_examples:
  "fresh_client (\<lambda>f. mf_operationV f = Receive) memory_receiver (host 1 2000) asking_client"
  "fresh_server memory_transmitter memory_content d (asked_server d)"
  "asked_by asking_client (asked_server d)" "plain_request asking_client"
  "negotiable (cr_optionsConfigurationV asking_client)"
  "negotiable (sr_optionsConfigurationV (asked_server d))"
  "oc_blockSizeOption (cr_optionsConfigurationV asking_client) = Some 1428"
  "oc_blockSizeOption (sr_optionsConfigurationV (asked_server d)) = Some 1428"
  using fresh_examples(1) fresh_examples(2) [of d] example_options(1)
  by (simp_all add: asking_client_def asked_server_def fresh_client_def fresh_server_def asked_by_def
      plain_request_def ClientRead_new_def example_options_def)






end
